(* ===== verification/Prelude.thy ===== *)
theory Prelude
  imports Main "HOL-Library.Word"
begin

text \<open>
  The vocabulary every component shares: machine integers, the C++ exceptions the program
  throws, the state-and-exception monad in which every member function is written, Hoare
  triples over it, and decimal printing (\<^verbatim>\<open>std::to_string\<close>).

  A member function of the program runs against a world \<open>'w\<close> (everything outside the
  function that it can observe or change: a database connection, a bus, the user) and either
  returns a value or throws; both ways the world may have changed. That is the type
  \<open>('w, 'a) act\<close>. A throw in the middle of a function leaves the changes made so far in place,
  as it does in C++.
\<close>

named_theorems act_simps \<open>unfolding of the monad's combinators applied to a world\<close>
named_theorems triple_intro \<open>Hoare rules, one per combinator or operation\<close>

type_synonym int32 = "32 word"
type_synonym int64 = "64 word"
type_synonym uint32 = "32 word"
type_synonym uint64 = "64 word"
type_synonym byte = "8 word"

section \<open>Exceptions\<close>

text \<open>
  The exception classes the program throws or lets pass. The constructors of the program's own
  classes keep their names; \<open>bad_any_cast\<close> is Boost's; \<open>other_exception\<close> is a value that is not a
  \<^verbatim>\<open>std::exception\<close> (what \<^verbatim>\<open>catch (...)\<close> still catches).
\<close>

datatype exn =
    logic_error string
  | runtime_error string
  | system_error int
  | out_of_range
  | ErrorResettingStore string
  | QueryIsInErrorState
  | NoCurrentResult
  | ServiceNameMustNotBeEmpty
  | PrivilegeEscalation
  | InvalidMirConnection string
  | bad_any_cast
  | other_exception

text \<open>The class hierarchy, as a handler \<^verbatim>\<open>catch (const std::runtime_error&)\<close> sees it.\<close>

fun is_runtime_error :: "exn \<Rightarrow> bool" where
  "is_runtime_error (logic_error _) = False"
| "is_runtime_error out_of_range = False"
| "is_runtime_error bad_any_cast = False"
| "is_runtime_error other_exception = False"
| "is_runtime_error _ = True"

fun is_std_exception :: "exn \<Rightarrow> bool" where
  "is_std_exception other_exception = False"
| "is_std_exception _ = True"

text \<open>\<^verbatim>\<open>std::exception::what\<close>, where the program's own classes fix the message.\<close>

fun what :: "exn \<Rightarrow> string" where
  "what (logic_error s) = s"
| "what (runtime_error s) = s"
| "what (ErrorResettingStore s) = s"
| "what (InvalidMirConnection s) = s"
| "what QueryIsInErrorState = ''Query is in error state, cannot extract result.''"
| "what NoCurrentResult = ''Query does not have a current result.''"
| "what ServiceNameMustNotBeEmpty = ''Service name must not be empty''"
| "what PrivilegeEscalation = ''Potential privilege escalation attack detected.''"
| "what _ = ''''"

section \<open>Computations\<close>

type_synonym ('w, 'a) act = "'w \<Rightarrow> (exn + 'a) \<times> 'w"

definition returnE :: "'a \<Rightarrow> ('w, 'a) act" where
  "returnE x = (\<lambda>w. (Inr x, w))"

definition throwE :: "exn \<Rightarrow> ('w, 'a) act" where
  "throwE e = (\<lambda>w. (Inl e, w))"

definition bindE :: "('w, 'a) act \<Rightarrow> ('a \<Rightarrow> ('w, 'b) act) \<Rightarrow> ('w, 'b) act" where
  "bindE m f = (\<lambda>w. case m w of (Inl e, w') \<Rightarrow> (Inl e, w') | (Inr x, w') \<Rightarrow> f x w')"

text \<open>A block of statements, run in order until one throws.\<close>

fun block :: "('w, unit) act list \<Rightarrow> ('w, unit) act" where
  "block [] = returnE ()"
| "block (m # ms) = bindE m (\<lambda>_. block ms)"

definition readE :: "('w \<Rightarrow> 'a) \<Rightarrow> ('w, 'a) act" where
  "readE f = (\<lambda>w. (Inr (f w), w))"

definition modifyE :: "('w \<Rightarrow> 'w) \<Rightarrow> ('w, unit) act" where
  "modifyE f = (\<lambda>w. (Inr (), f w))"

text \<open>\<^verbatim>\<open>if (c) throw e;\<close>\<close>

definition throw_if :: "bool \<Rightarrow> exn \<Rightarrow> ('w, unit) act" where
  "throw_if c e = (if c then throwE e else returnE ())"

text \<open>
  \<^verbatim>\<open>try { m } catch (const E& e) { h(e) }\<close>, where \<open>p\<close> says which exceptions are of class
  \<^verbatim>\<open>E\<close>: the others pass through.
\<close>

definition catchE :: "(exn \<Rightarrow> bool) \<Rightarrow> ('w, 'a) act \<Rightarrow> (exn \<Rightarrow> ('w, 'a) act) \<Rightarrow> ('w, 'a) act" where
  "catchE p m h = (\<lambda>w. case m w of
       (Inl e, w') \<Rightarrow> if p e then h e w' else (Inl e, w')
     | (Inr x, w') \<Rightarrow> (Inr x, w'))"

text \<open>
  The destructor \<open>d\<close> of a local object runs when \<open>m\<close> returns and when it throws; a destructor
  itself throws nothing, so its outcome is not looked at.
\<close>

definition finallyE :: "('w, 'a) act \<Rightarrow> ('w, unit) act \<Rightarrow> ('w, 'a) act" where
  "finallyE m d = (\<lambda>w. case m w of (r, w') \<Rightarrow> (r, snd (d w')))"

text \<open>
  In a constructor, the members built so far are destroyed when the rest throws, and only then.
\<close>

definition on_throwE :: "('w, 'a) act \<Rightarrow> ('w, unit) act \<Rightarrow> ('w, 'a) act" where
  "on_throwE m d = (\<lambda>w. case m w of
       (Inl e, w') \<Rightarrow> (Inl e, snd (d w'))
     | (Inr x, w') \<Rightarrow> (Inr x, w'))"

text \<open>
  A member function of an object \<open>'o\<close> runs on the pair of the object and the world. The first
  combinator runs a computation of the world alone from inside such a function; the second
  calls a member function on an object held in a local variable and hands back the object
  it leaves.
\<close>

definition in_world :: "('w, 'a) act \<Rightarrow> ('o \<times> 'w, 'a) act" where
  "in_world m = (\<lambda>(q, w). case m w of (r, w') \<Rightarrow> (r, (q, w')))"

definition with_object :: "'o \<Rightarrow> ('o \<times> 'w, 'a) act \<Rightarrow> ('w, 'a) act" where
  "with_object q m = (\<lambda>w. case m (q, w) of (r, (_, w')) \<Rightarrow> (r, w'))"

lemma returnE_apply [simp, act_simps]: "returnE x w = (Inr x, w)"
  by (simp add: returnE_def)

lemma throwE_apply [simp, act_simps]: "throwE e w = (Inl e, w)"
  by (simp add: throwE_def)

lemma readE_apply [simp, act_simps]: "readE f w = (Inr (f w), w)"
  by (simp add: readE_def)

lemma modifyE_apply [simp, act_simps]: "modifyE f w = (Inr (), f w)"
  by (simp add: modifyE_def)

lemma throw_if_apply [simp, act_simps]:
  "throw_if c e w = (if c then (Inl e, w) else (Inr (), w))"
  by (simp add: throw_if_def)

lemma bindE_return [simp, act_simps]: "bindE (returnE x) f = f x"
  by (rule ext) (simp add: bindE_def)

lemma bindE_throw [simp, act_simps]: "bindE (throwE e) f = throwE e"
  by (rule ext) (simp add: bindE_def)

lemma bindE_return_right: "bindE m returnE = m"
  by (rule ext) (auto simp: bindE_def split: prod.splits sum.splits)

lemma bindE_assoc: "bindE (bindE m f) g = bindE m (\<lambda>x. bindE (f x) g)"
  by (rule ext) (auto simp: bindE_def split: prod.splits sum.splits)

lemma bindE_apply [act_simps]:
  "bindE m f w = (case m w of (Inl e, w') \<Rightarrow> (Inl e, w') | (Inr x, w') \<Rightarrow> f x w')"
  by (simp add: bindE_def)

lemma bindE_Inr: "m w = (Inr x, w') \<Longrightarrow> bindE m f w = f x w'"
  by (simp add: bindE_def)

lemma bindE_Inl: "m w = (Inl e, w') \<Longrightarrow> bindE m f w = (Inl e, w')"
  by (simp add: bindE_def)

lemma bindE_returns_iff:
  "bindE m f w = (Inr y, w'') \<longleftrightarrow> (\<exists>x w'. m w = (Inr x, w') \<and> f x w' = (Inr y, w''))"
  by (auto simp: bindE_def split: prod.splits sum.splits)

lemma bindE_throws_iff:
  "bindE m f w = (Inl e, w'') \<longleftrightarrow>
     m w = (Inl e, w'') \<or> (\<exists>x w'. m w = (Inr x, w') \<and> f x w' = (Inl e, w''))"
  by (auto simp: bindE_def split: prod.splits sum.splits)

lemma catchE_apply [act_simps]:
  "catchE p m h w = (case m w of
       (Inl e, w') \<Rightarrow> if p e then h e w' else (Inl e, w')
     | (Inr x, w') \<Rightarrow> (Inr x, w'))"
  by (simp add: catchE_def)

lemma finallyE_apply [act_simps]: "finallyE m d w = (case m w of (r, w') \<Rightarrow> (r, snd (d w')))"
  by (simp add: finallyE_def)

lemma on_throwE_apply [act_simps]:
  "on_throwE m d w = (case m w of
       (Inl e, w') \<Rightarrow> (Inl e, snd (d w'))
     | (Inr x, w') \<Rightarrow> (Inr x, w'))"
  by (simp add: on_throwE_def)

lemma in_world_apply [simp, act_simps]:
  "in_world m (q, w) = (case m w of (r, w') \<Rightarrow> (r, (q, w')))"
  by (simp add: in_world_def)

lemma with_object_apply [act_simps]:
  "with_object q m w = (case m (q, w) of (r, (_, w')) \<Rightarrow> (r, w'))"
  by (simp add: with_object_def)

section \<open>Hoare triples\<close>

text \<open>
  \<open>triple P m Q E\<close>: started in a world with \<open>P\<close>, the computation either returns a value and
  a world with \<open>Q\<close> or throws an exception with \<open>E\<close>. With \<open>E\<close> false it says that the
  computation returns (total correctness); the error post-condition is otherwise what an
  exception leaves behind.
\<close>

definition triple ::
  "('w \<Rightarrow> bool) \<Rightarrow> ('w, 'a) act \<Rightarrow> ('a \<Rightarrow> 'w \<Rightarrow> bool) \<Rightarrow> (exn \<Rightarrow> 'w \<Rightarrow> bool) \<Rightarrow> bool"
where
  "triple P m Q E \<longleftrightarrow>
     (\<forall>w. P w \<longrightarrow> (case m w of (Inr x, w') \<Rightarrow> Q x w' | (Inl e, w') \<Rightarrow> E e w'))"

abbreviation no_throw :: "exn \<Rightarrow> 'w \<Rightarrow> bool" where
  "no_throw \<equiv> \<lambda>_ _. False"

lemma tripleI:
  assumes "\<And>w x w'. P w \<Longrightarrow> m w = (Inr x, w') \<Longrightarrow> Q x w'"
    and "\<And>w e w'. P w \<Longrightarrow> m w = (Inl e, w') \<Longrightarrow> E e w'"
  shows "triple P m Q E"
  using assms by (auto simp: triple_def split: prod.splits sum.splits)

lemma triple_returnD: "triple P m Q E \<Longrightarrow> P w \<Longrightarrow> m w = (Inr x, w') \<Longrightarrow> Q x w'"
  by (auto simp: triple_def split: prod.splits sum.splits)

lemma triple_throwD: "triple P m Q E \<Longrightarrow> P w \<Longrightarrow> m w = (Inl e, w') \<Longrightarrow> E e w'"
  by (auto simp: triple_def split: prod.splits sum.splits)

lemma triple_totalE:
  assumes "triple P m Q no_throw" and "P w"
  obtains x w' where "m w = (Inr x, w')" and "Q x w'"
  using assms by (cases "m w"; cases "fst (m w)") (auto simp: triple_def)

lemma triple_outcome:
  assumes "triple P m Q E" and "P w" and "\<And>x w'. Q x w' \<Longrightarrow> Q' x w'" and "\<And>e w'. E e w' \<Longrightarrow> E' e w'"
  shows "case m w of (Inl e, w') \<Rightarrow> E' e w' | (Inr x, w') \<Rightarrow> Q' x w'"
proof -
  obtain r w' where m: "m w = (r, w')" by force
  show ?thesis
    using triple_returnD [OF assms(1,2)] triple_throwD [OF assms(1,2)] m assms(3,4)
    by (cases r) simp_all
qed

lemma triple_weaken:
  assumes "triple P m Q E"
    and "\<And>w. P' w \<Longrightarrow> P w"
    and "\<And>x w. Q x w \<Longrightarrow> Q' x w"
    and "\<And>e w. E e w \<Longrightarrow> E' e w"
  shows "triple P' m Q' E'"
proof (rule tripleI)
  fix w x w' assume "P' w" and "m w = (Inr x, w')"
  then show "Q' x w'" using triple_returnD [OF assms(1)] assms(2,3) by blast
next
  fix w e w' assume "P' w" and "m w = (Inl e, w')"
  then show "E' e w'" using triple_throwD [OF assms(1)] assms(2,4) by blast
qed

lemma triple_return: "(\<And>w. P w \<Longrightarrow> Q x w) \<Longrightarrow> triple P (returnE x) Q E"
  by (simp add: triple_def)

lemma triple_throw: "(\<And>w. P w \<Longrightarrow> E e w) \<Longrightarrow> triple P (throwE e) Q E"
  by (simp add: triple_def)

lemma triple_bind [triple_intro]:
  assumes "triple P m R E" and "\<And>x. triple (R x) (f x) Q E"
  shows "triple P (bindE m f) Q E"
  using assms by (fastforce simp: triple_def bindE_def split: prod.splits sum.splits)

lemma triple_block_Nil: "(\<And>w. P w \<Longrightarrow> Q () w) \<Longrightarrow> triple P (block []) Q E"
  by (simp add: triple_def)

lemma triple_block_Cons:
  "triple P m (\<lambda>_. R) E \<Longrightarrow> triple R (block ms) Q E \<Longrightarrow> triple P (block (m # ms)) Q E"
  by (auto intro: triple_bind)

lemma triple_readE: "(\<And>w. P w \<Longrightarrow> Q (f w) w) \<Longrightarrow> triple P (readE f) Q E"
  by (simp add: triple_def)

lemma triple_on_throw_total [triple_intro]:
  "triple P m Q no_throw \<Longrightarrow> triple P (on_throwE m d) Q no_throw"
  by (fastforce simp: triple_def on_throwE_def split: prod.splits sum.splits)

lemma triple_catch_total [triple_intro]:
  "triple P m Q no_throw \<Longrightarrow> triple P (catchE p m h) Q no_throw"
  by (fastforce simp: triple_def catchE_def split: prod.splits sum.splits)

lemma triple_catch:
  assumes "triple P m Q R" and "\<And>e. p e \<Longrightarrow> triple (R e) (h e) Q E"
    and "\<And>e w. \<not> p e \<Longrightarrow> R e w \<Longrightarrow> E e w"
  shows "triple P (catchE p m h) Q E"
proof (rule tripleI)
  fix w x w' assume w: "P w" and r: "catchE p m h w = (Inr x, w')"
  obtain y w1 where m: "m w = (y, w1)" by force
  show "Q x w'"
  proof (cases y)
    case (Inl e)
    with r m have "p e" "h e w1 = (Inr x, w')" by (auto simp: catchE_def split: if_splits)
    then show ?thesis using triple_returnD assms(2) triple_throwD [OF assms(1) w] m Inl by metis
  next
    case (Inr z)
    with r m show ?thesis using triple_returnD [OF assms(1) w] by (auto simp: catchE_def)
  qed
next
  fix w e w' assume w: "P w" and r: "catchE p m h w = (Inl e, w')"
  obtain y w1 where m: "m w = (y, w1)" by force
  with r obtain e1 where y: "y = Inl e1" by (cases y) (auto simp: catchE_def)
  then have R: "R e1 w1" using triple_throwD [OF assms(1) w] m by simp
  show "E e w'"
  proof (cases "p e1")
    case True
    with r m y have "h e1 w1 = (Inl e, w')" by (simp add: catchE_def)
    then show ?thesis using triple_throwD [OF assms(2) [OF True] R] by simp
  next
    case False
    with r m y assms(3) R show ?thesis by (simp add: catchE_def)
  qed
qed

section \<open>Integer conversions\<close>

lemma ucast_scast_int32 [simp]: "ucast (scast (i :: int32) :: int64) = i"
  by (rule bit_word_eqI) (auto simp: bit_simps)

lemma scast_int32_inject [simp]: "(scast (i :: int32) :: int64) = scast j \<longleftrightarrow> i = j"
  by (metis ucast_scast_int32)

lemma scast_ucast_small:
  assumes "unat (x :: uint64) < 2 ^ 31"
  shows "scast (ucast x :: int32) = x"
proof -
  have u: "uint x < 2 ^ 31"
    using assms by (metis of_nat_less_iff of_nat_numeral of_nat_power uint_nat)
  have "uint (ucast x :: int32) = take_bit 32 (uint x)"
    by (simp add: unsigned_ucast_eq)
  also have "\<dots> = uint x" using u by (intro take_bit_int_eq_self) auto
  finally have "sint (ucast x :: int32) = signed_take_bit 31 (uint x)"
    by (simp add: sint_uint)
  also have "\<dots> = uint x"
    using u by (intro signed_take_bit_int_eq_self) (auto intro: order_trans [OF _ uint_ge_0])
  finally have "(scast (ucast x :: int32) :: uint64) = word_of_int (uint x)"
    by (metis scast_eq)
  then show ?thesis by simp
qed

lemma sint_word_of_int_small: "0 \<le> i \<Longrightarrow> i < 2 ^ 63 \<Longrightarrow> sint (word_of_int i :: int64) = i"
  by (simp add: sint_sbintrunc' signed_take_bit_int_eq_self)

lemma uint_eq_sint: "0 \<le> sint (x :: int64) \<Longrightarrow> uint x = sint x"
  using sint_lt [of x] by (subst uint_sint) (rule take_bit_int_eq_self, auto)

lemma scast_ucast_sint_small:
  assumes "0 \<le> sint (x :: int64)" and "sint x < 2 ^ 31"
  shows "scast (ucast x :: int32) = x"
proof (rule scast_ucast_small)
  have "int (unat x) = sint x" using uint_eq_sint [OF assms(1)] by simp
  then show "unat x < 2 ^ 31"
    using assms(2) by (metis of_nat_less_iff of_nat_numeral of_nat_power)
qed

lemma word_less_plus_1:
  fixes x :: "'a :: len word"
  assumes "x \<noteq> - 1"
  shows "x < x + 1"
proof -
  have "1 + x \<noteq> 0" using assms by (metis add.commute eq_neg_iff_add_eq_0)
  then have "unat (x + 1) = Suc (unat x)" by (metis unatSuc add.commute)
  then show ?thesis by (simp add: word_less_nat_alt)
qed

section \<open>Frames\<close>

text \<open>A computation keeps an observation of the world, whether it returns or throws.\<close>

definition keeps :: "('w \<Rightarrow> 'b) \<Rightarrow> ('w, 'a) act \<Rightarrow> bool" where
  "keeps f m \<longleftrightarrow> (\<forall>w. f (snd (m w)) = f w)"

lemma keepsD: "keeps f m \<Longrightarrow> m w = (x, w') \<Longrightarrow> f w' = f w"
  by (metis keeps_def snd_conv)

lemma keeps_return [simp]: "keeps f (returnE x)" and keeps_throw [simp]: "keeps f (throwE e)"
  by (simp_all add: keeps_def)

lemma keeps_bind: "keeps f m \<Longrightarrow> (\<And>x. keeps f (g x)) \<Longrightarrow> keeps f (bindE m g)"
  unfolding keeps_def bindE_def by (auto split: prod.split sum.split) (metis snd_conv)+

section \<open>Decimal printing\<close>

text \<open>\<^verbatim>\<open>std::to_string\<close> on unsigned and signed integers.\<close>

definition digit :: "nat \<Rightarrow> char" where
  "digit d = char_of (48 + d)"

fun to_string_nat :: "nat \<Rightarrow> string" where
  "to_string_nat n = (if n < 10 then [digit n] else to_string_nat (n div 10) @ [digit (n mod 10)])"

declare to_string_nat.simps [simp del]

definition to_string_int :: "int \<Rightarrow> string" where
  "to_string_int i = (if i < 0 then CHR ''-'' # to_string_nat (nat (- i)) else to_string_nat (nat i))"

lemma of_char_digit: "d < 10 \<Longrightarrow> of_char (digit d) = 48 + d"
  by (simp add: digit_def)

text \<open>Reading the digits back: printing is injective.\<close>

definition digits_value :: "string \<Rightarrow> nat" where
  "digits_value s = foldl (\<lambda>v c. 10 * v + (of_char c - 48)) 0 s"

lemma digits_value_snoc: "digits_value (s @ [c]) = 10 * digits_value s + (of_char c - 48)"
  by (simp add: digits_value_def)

lemma digits_value_to_string_nat: "digits_value (to_string_nat n) = n"
proof (induction n rule: to_string_nat.induct)
  case (1 n)
  show ?case
  proof (cases "n < 10")
    case True
    then show ?thesis
      by (subst to_string_nat.simps) (simp add: digits_value_def of_char_digit)
  next
    case False
    with "1" have "digits_value (to_string_nat (n div 10)) = n div 10" by simp
    moreover have "to_string_nat n = to_string_nat (n div 10) @ [digit (n mod 10)]"
      using False by (subst to_string_nat.simps) simp
    ultimately show ?thesis by (simp add: digits_value_snoc of_char_digit)
  qed
qed

lemma to_string_nat_inject [simp]: "to_string_nat m = to_string_nat n \<longleftrightarrow> m = n"
  by (metis digits_value_to_string_nat)

end
