(* ===== verification/Trust_Types.thy ===== *)
theory Trust_Types
  imports Prelude
begin

text \<open>
  The data the public headers declare: tagged integers (\<^verbatim>\<open>tagged_integer.h\<close>), requests and
  their answers (\<^verbatim>\<open>request.h\<close>, \<^verbatim>\<open>request.cpp\<close>), the parameters of a trust request
  (\<^verbatim>\<open>agent.h\<close>, \<^verbatim>\<open>agent.cpp\<close>) and the states of a query (\<^verbatim>\<open>store.h\<close>).

  \<^verbatim>\<open>Answer\<close> and \<^verbatim>\<open>Status\<close> are enumerations with a fixed underlying type. The code casts
  integers it reads from the database and from the bus to them, and such a cast keeps every value
  of the underlying type, named or not. The model therefore keeps the underlying word and names
  the enumerators.
\<close>

section \<open>Tagged integers\<close>

datatype uid = Uid (uid_value: uint32)
datatype gid = Gid (gid_value: uint32)
datatype pid = Pid (pid_value: int32)
datatype feature = Feature (feature_value: uint64)

text \<open>
  \<^verbatim>\<open>operator<\<close> makes user ids the keys of \<^verbatim>\<open>std::map\<close>. It compares the values at their own
  signedness: user ids are unsigned, process ids (\<^verbatim>\<open>pid_t\<close>) are signed.
\<close>

definition uid_less :: "uid \<Rightarrow> uid \<Rightarrow> bool" where
  "uid_less lhs rhs \<longleftrightarrow> uid_value lhs < uid_value rhs"

definition pid_less :: "pid \<Rightarrow> pid \<Rightarrow> bool" where
  "pid_less lhs rhs \<longleftrightarrow> sint (pid_value lhs) < sint (pid_value rhs)"

instantiation uid :: linorder
begin

definition less_eq_uid :: "uid \<Rightarrow> uid \<Rightarrow> bool" where
  "less_eq_uid a b \<longleftrightarrow> uid_less a b \<or> a = b"

definition less_uid :: "uid \<Rightarrow> uid \<Rightarrow> bool" where
  "less_uid = uid_less"

instance
  by standard (auto simp: less_eq_uid_def less_uid_def uid_less_def not_less_iff_gr_or_eq intro: uid.expand)

end

lemma pid_eqI: "sint (pid_value x) = sint (pid_value y) \<Longrightarrow> x = y"
  using signed_word_eqI pid.expand by blast

instantiation pid :: linorder
begin

definition less_eq_pid :: "pid \<Rightarrow> pid \<Rightarrow> bool" where
  "less_eq_pid a b \<longleftrightarrow> pid_less a b \<or> a = b"

definition less_pid :: "pid \<Rightarrow> pid \<Rightarrow> bool" where
  "less_pid = pid_less"

instance
  by standard (auto simp: less_eq_pid_def less_pid_def pid_less_def not_less_iff_gr_or_eq intro: pid_eqI)

end

section \<open>Requests\<close>

type_synonym answer = int32

definition denied :: answer where "denied = 0"
definition granted :: answer where "granted = 1"

text \<open>A time point is a signed count of clock ticks since the epoch.\<close>

type_synonym timestamp = int64

record request =
  req_from :: string
  req_feature :: feature
  req_when :: timestamp
  req_answer :: answer

definition request_eq :: "request \<Rightarrow> request \<Rightarrow> bool" where
  "request_eq lhs rhs \<longleftrightarrow>
     req_from lhs = req_from rhs \<and>
     req_feature lhs = req_feature rhs \<and>
     req_when lhs = req_when rhs \<and>
     req_answer lhs = req_answer rhs"

definition print_answer :: "answer \<Rightarrow> string" where
  "print_answer a =
     (if a = granted then ''granted'' else if a = denied then ''denied'' else '''')"

definition print_feature :: "feature \<Rightarrow> string" where
  "print_feature f = to_string_nat (unat (feature_value f))"

definition print_request :: "request \<Rightarrow> string" where
  "print_request r =
     ''Request('' @
     ''from: '' @ req_from r @ '', '' @
     ''feature: '' @ print_feature (req_feature r) @ '', '' @
     ''when: '' @ to_string_int (sint (req_when r)) @ '', '' @
     ''answer: '' @ print_answer (req_answer r) @ '')''"

section \<open>Parameters of a trust request\<close>

record agent_params =
  app_uid :: uid
  app_pid :: pid
  app_id :: string
  app_feature :: feature
  app_description :: string

definition agent_params_eq :: "agent_params \<Rightarrow> agent_params \<Rightarrow> bool" where
  "agent_params_eq lhs rhs \<longleftrightarrow>
     app_id lhs = app_id rhs \<and>
     app_pid lhs = app_pid rhs \<and>
     app_uid lhs = app_uid rhs \<and>
     app_description lhs = app_description rhs \<and>
     app_feature lhs = app_feature rhs"

text \<open>An agent turns the parameters of a request into the user's answer, or throws.\<close>

type_synonym 'w agent = "agent_params \<Rightarrow> ('w, answer) act"

section \<open>States of a query\<close>

type_synonym status = int32

definition armed :: status where "armed = 0"
definition has_more_results :: status where "has_more_results = 1"
definition eor :: status where "eor = 2"
definition query_error :: status where "query_error = 3"

lemmas answer_defs = denied_def granted_def
lemmas status_defs = armed_def has_more_results_def eor_def query_error_def

lemma status_distinct [simp]:
  "armed \<noteq> has_more_results" "has_more_results \<noteq> armed"
  "armed \<noteq> eor" "eor \<noteq> armed"
  "armed \<noteq> query_error" "query_error \<noteq> armed"
  "has_more_results \<noteq> eor" "eor \<noteq> has_more_results"
  "has_more_results \<noteq> query_error" "query_error \<noteq> has_more_results"
  "eor \<noteq> query_error" "query_error \<noteq> eor"
  by (simp_all add: status_defs)

lemma answer_distinct [simp]: "denied \<noteq> granted" "granted \<noteq> denied"
  by (simp_all add: answer_defs)

text \<open>The hand-written comparison operators are equality: no field is forgotten.\<close>

lemma request_eq_iff: "request_eq lhs rhs \<longleftrightarrow> lhs = rhs"
  by (cases lhs; cases rhs) (auto simp: request_eq_def)

lemma agent_params_eq_iff: "agent_params_eq lhs rhs \<longleftrightarrow> lhs = rhs"
  by (cases lhs; cases rhs) (auto simp: agent_params_eq_def)

end
