(* ===== verification/Sqlite_Statements.thy ===== *)
theory Sqlite_Statements
  imports Trust_Types
begin

text \<open>
  The schema and the SQL texts of the store (\<^verbatim>\<open>impl/sqlite3/store.cpp\<close>, the structs
  \<^verbatim>\<open>RequestsTable\<close>, \<^verbatim>\<open>Statements\<close> and \<^verbatim>\<open>Query::Statements\<close>), assembled from the
  same pieces the code assembles them from.
\<close>

definition quoted :: "string \<Rightarrow> string" where
  "quoted s = CHR 0x27 # s @ [CHR 0x27]"

definition RequestsTable_name :: string where "RequestsTable_name = ''requests''"

definition Column_Id_name :: string where "Column_Id_name = quoted ''Id''"
definition Column_ApplicationId_name :: string where
  "Column_ApplicationId_name = quoted ''ApplicationId''"
definition Column_Feature_name :: string where "Column_Feature_name = quoted ''Feature''"
definition Column_Timestamp_name :: string where "Column_Timestamp_name = quoted ''Timestamp''"
definition Column_Answer_name :: string where "Column_Answer_name = quoted ''Answer''"

definition Column_Id_index :: nat where "Column_Id_index = 0"
definition Column_ApplicationId_index :: nat where "Column_ApplicationId_index = 1"
definition Column_Feature_index :: nat where "Column_Feature_index = 2"
definition Column_Timestamp_index :: nat where "Column_Timestamp_index = 3"
definition Column_Answer_index :: nat where "Column_Answer_index = 4"

definition CreateDataTableIfNotExists_statement :: string where
  "CreateDataTableIfNotExists_statement =
     ''CREATE TABLE IF NOT EXISTS '' @
     RequestsTable_name @ '' ('' @
     Column_Id_name @ '' INTEGER PRIMARY KEY ASC, '' @
     Column_ApplicationId_name @ '' TEXT NOT NULL, '' @
     Column_Feature_name @ '' BIGINT, '' @
     Column_Timestamp_name @ '' BIGINT, '' @
     Column_Answer_name @ '' INTEGER);''"

definition Delete_statement :: string where
  "Delete_statement = ''DELETE FROM '' @ RequestsTable_name"

definition Insert_statement :: string where
  "Insert_statement =
     ''INSERT INTO '' @ RequestsTable_name @
     '' ('ApplicationId','Feature','Timestamp','Answer') VALUES (?,?,?,?);''"

definition RemoveApplication_statement :: string where
  "RemoveApplication_statement =
     ''DELETE FROM '' @ RequestsTable_name @ '' WHERE ApplicationId=?;''"

definition RemoveApplication_Parameter_ApplicationId :: nat where
  "RemoveApplication_Parameter_ApplicationId = 1"

definition Query_Delete_statement :: string where
  "Query_Delete_statement = ''DELETE FROM '' @ RequestsTable_name @ '' WHERE Id=?;''"

definition Query_Delete_Parameter_Id :: nat where "Query_Delete_Parameter_Id = 1"

definition Query_Select_statement :: string where
  "Query_Select_statement =
     ''SELECT * FROM '' @
     RequestsTable_name @
     '' WHERE ApplicationId=IFNULL(?,ApplicationId) AND'' @
     '' Feature=IFNULL(?,Feature) AND'' @
     '' (Timestamp BETWEEN IFNULL(?, Timestamp) AND IFNULL(?,Timestamp)) AND'' @
     '' Answer=IFNULL(?,Answer)'' @
     '' ORDER BY Timestamp DESC;''"

definition Select_Parameter_ApplicationId :: nat where "Select_Parameter_ApplicationId = 1"
definition Select_Parameter_Feature :: nat where
  "Select_Parameter_Feature = Select_Parameter_ApplicationId + 1"
definition Select_Parameter_LowerBound :: nat where
  "Select_Parameter_LowerBound = Select_Parameter_Feature + 1"
definition Select_Parameter_UpperBound :: nat where
  "Select_Parameter_UpperBound = Select_Parameter_LowerBound + 1"
definition Select_Parameter_Answer :: nat where
  "Select_Parameter_Answer = Select_Parameter_UpperBound + 1"

text \<open>The schema version the store writes, and the two pragmas of \<^verbatim>\<open>Database\<close>.\<close>

definition Store_version :: int32 where "Store_version = 1"

definition get_version_pragma :: string where "get_version_pragma = ''PRAGMA user_version;''"

definition set_version_pragma :: "int32 \<Rightarrow> string" where
  "set_version_pragma version = ''PRAGMA user_version='' @ to_string_int (sint version) @ '';''"

lemmas column_indices =
  Column_Id_index_def Column_ApplicationId_index_def Column_Feature_index_def
  Column_Timestamp_index_def Column_Answer_index_def

lemmas parameter_indices =
  RemoveApplication_Parameter_ApplicationId_def Query_Delete_Parameter_Id_def
  Select_Parameter_ApplicationId_def Select_Parameter_Feature_def
  Select_Parameter_LowerBound_def Select_Parameter_UpperBound_def Select_Parameter_Answer_def

lemmas statement_texts =
  CreateDataTableIfNotExists_statement_def Delete_statement_def Insert_statement_def
  RemoveApplication_statement_def Query_Delete_statement_def Query_Select_statement_def
  get_version_pragma_def set_version_pragma_def RequestsTable_name_def

end
