(* ===== verification/Sqlite_Engine.thy ===== *)
theory Sqlite_Engine
  imports Sqlite_Statements "HOL-Library.Multiset"
begin

text \<open>
  The database library the store calls. SQLite is not part of the program, so its C functions
  are a parameter: a record of functions on a world \<open>'w\<close> the program knows nothing about. What
  the program relies on is stated here once, as the locales \<open>sqlite3\<close> (what a call does when
  it reports success, and what a reported failure leaves alone) and \<open>sqlite3_reliable\<close> (a call
  whose preconditions hold reports success).

  The laws are the documented behaviour of the C interface (\<^verbatim>\<open>sqlite3_bind_*\<close>,
  \<^verbatim>\<open>sqlite3_step\<close>, \<^verbatim>\<open>sqlite3_reset\<close>, \<^verbatim>\<open>sqlite3_column_*\<close>) and of the SQL statements
  whose text the store passes (\<open>sql_effect\<close>). They speak about a view of the connection: the
  table of requests, the schema version, and for each prepared statement its text, its bindings
  and where it stands in its result set. One connection is modelled: no other process changes
  the database between two calls.
\<close>

section \<open>Values, rows, statements\<close>

text \<open>The storage classes the program uses; \<open>Integer\<close> is a signed 64-bit integer.\<close>

datatype sqlval = Null | Integer int64 | Text string

record row =
  r_Id :: int64
  r_ApplicationId :: sqlval
  r_Feature :: sqlval
  r_Timestamp :: sqlval
  r_Answer :: sqlval

text \<open>The columns of \<^verbatim>\<open>SELECT *\<close>, in the order of the table's schema.\<close>

definition columns :: "row \<Rightarrow> sqlval list" where
  "columns r = [Integer (r_Id r), r_ApplicationId r, r_Feature r, r_Timestamp r, r_Answer r]"

text \<open>
  Where a prepared statement stands: not stepped since it was prepared or reset; on a row, with
  the rows still to come; run to completion; or failed with a result code that the next
  \<^verbatim>\<open>sqlite3_reset\<close> reports again.
\<close>

datatype cursor = Ready | On_row "sqlval list" "sqlval list list" | Done | Failed int

record stmt =
  st_sql :: string
  st_binds :: "nat \<Rightarrow> sqlval"
  st_cursor :: cursor

record db =
  db_table :: "row list option"
  db_version :: int32

record view =
  v_db :: db
  v_stmts :: "nat \<Rightarrow> stmt option"

definition no_binds :: "nat \<Rightarrow> sqlval" where
  "no_binds = (\<lambda>_. Null)"

definition fresh_stmt :: "string \<Rightarrow> stmt" where
  "fresh_stmt sql = \<lparr>st_sql = sql, st_binds = no_binds, st_cursor = Ready\<rparr>"

section \<open>The C interface\<close>

text \<open>
  Handles are addresses; \<open>0\<close> is the null pointer. The last argument and result of every
  function is the world.
\<close>

record 'w sqlite3_api =
  api_open :: "string \<Rightarrow> 'w \<Rightarrow> (int \<times> nat) \<times> 'w"
  api_extended_result_codes :: "nat \<Rightarrow> 'w \<Rightarrow> 'w"
  api_close :: "nat \<Rightarrow> 'w \<Rightarrow> 'w"
  api_prepare :: "nat \<Rightarrow> string \<Rightarrow> 'w \<Rightarrow> (int \<times> nat) \<times> 'w"
  api_finalize :: "nat \<Rightarrow> 'w \<Rightarrow> 'w"
  api_bind_null :: "nat \<Rightarrow> nat \<Rightarrow> 'w \<Rightarrow> int \<times> 'w"
  api_bind_text :: "nat \<Rightarrow> nat \<Rightarrow> string \<Rightarrow> 'w \<Rightarrow> int \<times> 'w"
  api_bind_int :: "nat \<Rightarrow> nat \<Rightarrow> int32 \<Rightarrow> 'w \<Rightarrow> int \<times> 'w"
  api_bind_int64 :: "nat \<Rightarrow> nat \<Rightarrow> int64 \<Rightarrow> 'w \<Rightarrow> int \<times> 'w"
  api_step :: "nat \<Rightarrow> 'w \<Rightarrow> int \<times> 'w"
  api_reset :: "nat \<Rightarrow> 'w \<Rightarrow> int \<times> 'w"
  api_clear_bindings :: "nat \<Rightarrow> 'w \<Rightarrow> int \<times> 'w"
  api_column_int :: "nat \<Rightarrow> nat \<Rightarrow> 'w \<Rightarrow> int32"
  api_column_int64 :: "nat \<Rightarrow> nat \<Rightarrow> 'w \<Rightarrow> int64"
  api_column_text :: "nat \<Rightarrow> nat \<Rightarrow> 'w \<Rightarrow> string option"
  api_errmsg :: "nat \<Rightarrow> 'w \<Rightarrow> string option"
  api_errstr :: "int \<Rightarrow> string"

text \<open>Result codes, by their documented values.\<close>

definition SQLITE_OK :: int where "SQLITE_OK = 0"
definition SQLITE_ERROR :: int where "SQLITE_ERROR = 1"
definition SQLITE_FULL :: int where "SQLITE_FULL = 13"
definition SQLITE_CONSTRAINT :: int where "SQLITE_CONSTRAINT = 19"
definition SQLITE_MISUSE :: int where "SQLITE_MISUSE = 21"
definition SQLITE_ROW :: int where "SQLITE_ROW = 100"
definition SQLITE_DONE :: int where "SQLITE_DONE = 101"

lemmas sqlite_codes =
  SQLITE_OK_def SQLITE_ERROR_def SQLITE_FULL_def SQLITE_CONSTRAINT_def SQLITE_MISUSE_def
  SQLITE_ROW_def SQLITE_DONE_def

section \<open>What the statements mean\<close>

text \<open>The kinds of statement the store issues, and which text is which.\<close>

datatype sql_kind =
    Create_table
  | Delete_all
  | Insert_request
  | Delete_application
  | Delete_id
  | Select_requests
  | Get_user_version
  | Set_user_version int32

definition sql_kind_of :: "string \<Rightarrow> sql_kind option" where
  "sql_kind_of sql =
     (if sql = CreateDataTableIfNotExists_statement then Some Create_table
      else if sql = Delete_statement then Some Delete_all
      else if sql = Insert_statement then Some Insert_request
      else if sql = RemoveApplication_statement then Some Delete_application
      else if sql = Query_Delete_statement then Some Delete_id
      else if sql = Query_Select_statement then Some Select_requests
      else if sql = get_version_pragma then Some Get_user_version
      else if sql = set_version_pragma Store_version then Some (Set_user_version Store_version)
      else None)"

lemma sql_kind_of_statement [simp]:
  "sql_kind_of CreateDataTableIfNotExists_statement = Some Create_table"
  "sql_kind_of Delete_statement = Some Delete_all"
  "sql_kind_of Insert_statement = Some Insert_request"
  "sql_kind_of RemoveApplication_statement = Some Delete_application"
  "sql_kind_of Query_Delete_statement = Some Delete_id"
  "sql_kind_of Query_Select_statement = Some Select_requests"
  "sql_kind_of get_version_pragma = Some Get_user_version"
  "sql_kind_of (set_version_pragma Store_version) = Some (Set_user_version Store_version)"
  by (simp_all add: sql_kind_of_def statement_texts)

text \<open>How many parameters each text has.\<close>

fun parameter_count :: "sql_kind \<Rightarrow> nat" where
  "parameter_count Insert_request = 4"
| "parameter_count Delete_application = 1"
| "parameter_count Delete_id = 1"
| "parameter_count Select_requests = 5"
| "parameter_count _ = 0"

text \<open>
  \<^verbatim>\<open>column = IFNULL(?, column)\<close> under SQL's three-valued logic: a null column is never
  selected, an unbound parameter selects every other value.
\<close>

definition ifnull_eq :: "sqlval \<Rightarrow> sqlval \<Rightarrow> bool" where
  "ifnull_eq p v \<longleftrightarrow> v \<noteq> Null \<and> (p = Null \<or> p = v)"

fun int_le :: "sqlval \<Rightarrow> sqlval \<Rightarrow> bool" where
  "int_le (Integer a) (Integer b) = (sint a \<le> sint b)"
| "int_le _ _ = False"

text \<open>\<^verbatim>\<open>column BETWEEN IFNULL(?, column) AND IFNULL(?, column)\<close>\<close>

definition ifnull_between :: "sqlval \<Rightarrow> sqlval \<Rightarrow> sqlval \<Rightarrow> bool" where
  "ifnull_between lo hi v \<longleftrightarrow>
     v \<noteq> Null \<and> int_le (if lo = Null then v else lo) v \<and> int_le v (if hi = Null then v else hi)"

definition selects :: "(nat \<Rightarrow> sqlval) \<Rightarrow> row \<Rightarrow> bool" where
  "selects b r \<longleftrightarrow>
     ifnull_eq (b 1) (r_ApplicationId r) \<and>
     ifnull_eq (b 2) (r_Feature r) \<and>
     ifnull_between (b 3) (b 4) (r_Timestamp r) \<and>
     ifnull_eq (b 5) (r_Answer r)"

fun int_value :: "sqlval \<Rightarrow> int" where
  "int_value (Integer v) = sint v"
| "int_value _ = 0"

definition row_time :: "row \<Rightarrow> int" where
  "row_time r = int_value (r_Timestamp r)"

text \<open>
  \<^verbatim>\<open>ORDER BY Timestamp DESC\<close>: the selected rows, newest first; rows with equal timestamps come
  in any order.
\<close>

definition select_result :: "(nat \<Rightarrow> sqlval) \<Rightarrow> row list \<Rightarrow> row list \<Rightarrow> bool" where
  "select_result b rows rs \<longleftrightarrow>
     mset rs = mset (filter (selects b) rows) \<and> sorted_wrt (\<lambda>x y. row_time y \<le> row_time x) rs"

text \<open>
  The row id SQLite gives a new row of a table with an integer primary key: one more than the
  largest id, \<open>1\<close> in an empty table. (Above the largest 64-bit id it picks unused ids at random or
  reports \<^verbatim>\<open>SQLITE_FULL\<close>; the store never gets there and no law says what happens then.)
\<close>

definition rowid_bound :: int where "rowid_bound = 2 ^ 63 - 1"

fun max_rowid :: "row list \<Rightarrow> int" where
  "max_rowid [] = 0"
| "max_rowid [r] = sint (r_Id r)"
| "max_rowid (r # rs) = max (sint (r_Id r)) (max_rowid rs)"

definition new_row :: "row list \<Rightarrow> (nat \<Rightarrow> sqlval) \<Rightarrow> row" where
  "new_row rows b =
     \<lparr>r_Id = word_of_int (max_rowid rows + 1), r_ApplicationId = b 1, r_Feature = b 2,
      r_Timestamp = b 3, r_Answer = b 4\<rparr>"

text \<open>
  The effect of running a statement to its first result: the database it leaves and the rows
  it yields. \<^verbatim>\<open>WHERE x = ?\<close> with a null parameter selects nothing.
\<close>

inductive sql_effect :: "sql_kind \<Rightarrow> (nat \<Rightarrow> sqlval) \<Rightarrow> db \<Rightarrow> db \<Rightarrow> sqlval list list \<Rightarrow> bool" where
  create_table:
    "sql_effect Create_table b d
       (d\<lparr>db_table := (case db_table d of None \<Rightarrow> Some [] | Some rows \<Rightarrow> Some rows)\<rparr>) []"
| delete_all:
    "db_table d = Some rows \<Longrightarrow> sql_effect Delete_all b d (d\<lparr>db_table := Some []\<rparr>) []"
| insert_request:
    "db_table d = Some rows \<Longrightarrow> b 1 \<noteq> Null \<Longrightarrow> max_rowid rows < rowid_bound \<Longrightarrow>
     sql_effect Insert_request b d (d\<lparr>db_table := Some (rows @ [new_row rows b])\<rparr>) []"
| delete_application:
    "db_table d = Some rows \<Longrightarrow>
     sql_effect Delete_application b d
       (d\<lparr>db_table := Some (filter (\<lambda>r. \<not> (b 1 \<noteq> Null \<and> r_ApplicationId r = b 1)) rows)\<rparr>) []"
| delete_id:
    "db_table d = Some rows \<Longrightarrow>
     sql_effect Delete_id b d (d\<lparr>db_table := Some (filter (\<lambda>r. Integer (r_Id r) \<noteq> b 1) rows)\<rparr>) []"
| select_requests:
    "db_table d = Some rows \<Longrightarrow> select_result b rows rs \<Longrightarrow>
     sql_effect Select_requests b d d (map columns rs)"
| get_user_version:
    "sql_effect Get_user_version b d d [[Integer (scast (db_version d))]]"
| set_user_version:
    "sql_effect (Set_user_version v) b d (d\<lparr>db_version := v\<rparr>) []"

inductive_cases sql_effectE: "sql_effect k b d d' rs"

inductive_simps sql_effect_simps:
  "sql_effect Create_table b d d' rs"
  "sql_effect Delete_all b d d' rs"
  "sql_effect Insert_request b d d' rs"
  "sql_effect Delete_application b d d' rs"
  "sql_effect Delete_id b d d' rs"
  "sql_effect Select_requests b d d' rs"
  "sql_effect Get_user_version b d d' rs"
  "sql_effect (Set_user_version v) b d d' rs"

text \<open>Statements that name the table of requests can only be prepared once it exists.\<close>

fun needs_table :: "sql_kind \<Rightarrow> bool" where
  "needs_table Create_table = False"
| "needs_table Get_user_version = False"
| "needs_table (Set_user_version _) = False"
| "needs_table _ = True"

text \<open>
  A statement that is on a row keeps its remaining rows while another statement changes the
  table, provided the change only deletes rows and deletes none of those still to come (SQLite
  leaves everything else undefined).
\<close>

definition table_rows :: "db \<Rightarrow> row list" where
  "table_rows d = (case db_table d of None \<Rightarrow> [] | Some rows \<Rightarrow> rows)"

lemma table_rows_Some [simp]: "db_table d = Some rows \<Longrightarrow> table_rows d = rows"
  by (simp add: table_rows_def)

fun undisturbed :: "cursor \<Rightarrow> db \<Rightarrow> db \<Rightarrow> bool" where
  "undisturbed (On_row r rs) d d' =
     (d' = d \<or>
      (set (table_rows d') \<subseteq> set (table_rows d) \<and> set rs \<subseteq> columns ` set (table_rows d')))"
| "undisturbed _ d d' = True"

section \<open>The laws\<close>

definition is_error_code :: "int \<Rightarrow> bool" where
  "is_error_code rc \<longleftrightarrow> rc \<noteq> SQLITE_OK \<and> rc \<noteq> SQLITE_DONE \<and> rc \<noteq> SQLITE_ROW"

text \<open>A string SQLite stores and compares as it is: no zero byte.\<close>

definition nul_free :: "string \<Rightarrow> bool" where
  "nul_free s \<longleftrightarrow> CHR 0x00 \<notin> set s"

text \<open>What a successful binding does to a statement.\<close>

definition bound :: "nat \<Rightarrow> nat \<Rightarrow> sqlval \<Rightarrow> stmt \<Rightarrow> view \<Rightarrow> view" where
  "bound h i x s v = v\<lparr>v_stmts := (v_stmts v)(h \<mapsto> s\<lparr>st_binds := (st_binds s)(i := x)\<rparr>)\<rparr>"

definition at_cursor :: "nat \<Rightarrow> cursor \<Rightarrow> stmt \<Rightarrow> view \<Rightarrow> view" where
  "at_cursor h c s v = v\<lparr>v_stmts := (v_stmts v)(h \<mapsto> s\<lparr>st_cursor := c\<rparr>)\<rparr>"

text \<open>The contract of one \<^verbatim>\<open>sqlite3_bind_*\<close> function.\<close>

definition binds_as ::
  "('w \<Rightarrow> view) \<Rightarrow> (nat \<Rightarrow> nat \<Rightarrow> 'a \<Rightarrow> 'w \<Rightarrow> int \<times> 'w) \<Rightarrow> ('a \<Rightarrow> bool) \<Rightarrow> ('a \<Rightarrow> sqlval) \<Rightarrow> bool"
where
  "binds_as view f ok enc \<longleftrightarrow>
     (\<forall>h i x w rc w' s. f h i x w = (rc, w') \<longrightarrow> v_stmts (view w) h = Some s \<longrightarrow> ok x \<longrightarrow>
        (if st_cursor s \<noteq> Ready then rc = SQLITE_MISUSE \<and> view w' = view w
         else if is_error_code rc then view w' = view w
         else rc = SQLITE_OK \<and> view w' = bound h i (enc x) s (view w)))"

text \<open>Where a statement stands after a run that yields the rows \<open>rs\<close>, and what the call returns.\<close>

fun cursor_of :: "sqlval list list \<Rightarrow> cursor" where
  "cursor_of [] = Done"
| "cursor_of (r # rs) = On_row r rs"

fun code_of :: "sqlval list list \<Rightarrow> int" where
  "code_of [] = SQLITE_DONE"
| "code_of (r # rs) = SQLITE_ROW"

locale sqlite3 =
  fixes sq :: "'w sqlite3_api"
    and view :: "'w \<Rightarrow> view"
  assumes open_view: "view (snd (api_open sq fn w)) = view w"
    and open_code: "fst (fst (api_open sq fn w)) = SQLITE_OK \<or> is_error_code (fst (fst (api_open sq fn w)))"
    and extended_view: "view (api_extended_result_codes sq c w) = view w"
    and close_view: "view (api_close sq c w) = view w"
    and prepare: "api_prepare sq c sql w = ((rc, h), w') \<Longrightarrow> sql_kind_of sql = Some k \<Longrightarrow>
      (if is_error_code rc then h = 0 \<and> view w' = view w
       else rc = SQLITE_OK \<and> h \<noteq> 0 \<and> v_stmts (view w) h = None \<and>
            (needs_table k \<longrightarrow> db_table (v_db (view w)) \<noteq> None) \<and>
            view w' = (view w)\<lparr>v_stmts := (v_stmts (view w))(h \<mapsto> fresh_stmt sql)\<rparr>)"
    and finalize: "view (api_finalize sq h w) = (if h = 0 then view w
      else (view w)\<lparr>v_stmts := (v_stmts (view w))(h := None)\<rparr>)"
    and bind_null: "binds_as view (\<lambda>h i (_ :: unit). api_bind_null sq h i) (\<lambda>_. True) (\<lambda>_. Null)"
    and bind_text: "binds_as view (api_bind_text sq) nul_free Text"
    and bind_int: "binds_as view (api_bind_int sq) (\<lambda>_. True) (\<lambda>x. Integer (scast x))"
    and bind_int64: "binds_as view (api_bind_int64 sq) (\<lambda>_. True) Integer"
    and clear_bindings: "api_clear_bindings sq h w = (rc, w') \<Longrightarrow> v_stmts (view w) h = Some s \<Longrightarrow>
      (if is_error_code rc then view w' = view w
       else rc = SQLITE_OK \<and>
            view w' = (view w)\<lparr>v_stmts := (v_stmts (view w))(h \<mapsto> s\<lparr>st_binds := no_binds\<rparr>)\<rparr>)"
    and reset: "api_reset sq h w = (rc, w') \<Longrightarrow> v_stmts (view w) h = Some s \<Longrightarrow>
      (rc = SQLITE_OK \<or> is_error_code rc) \<and>
      ((\<exists>e. st_cursor s = Failed e) \<longrightarrow> is_error_code rc) \<and>
      view w' = at_cursor h Ready s (view w)"
    and step_run: "api_step sq h w = (rc, w') \<Longrightarrow> v_stmts (view w) h = Some s \<Longrightarrow>
      sql_kind_of (st_sql s) = Some k \<Longrightarrow> st_cursor s = Ready \<or> st_cursor s = Done \<Longrightarrow>
      \<not> is_error_code rc \<Longrightarrow>
      \<exists>rs. sql_effect k (st_binds s) (v_db (view w)) (v_db (view w')) rs \<and> rc = code_of rs \<and>
           v_stmts (view w') h = Some (s\<lparr>st_cursor := cursor_of rs\<rparr>)"
    and step_next: "api_step sq h w = (rc, w') \<Longrightarrow> v_stmts (view w) h = Some s \<Longrightarrow>
      st_cursor s = On_row r rs \<Longrightarrow> \<not> is_error_code rc \<Longrightarrow>
      v_db (view w') = v_db (view w) \<and> rc = code_of rs \<and>
      v_stmts (view w') h = Some (s\<lparr>st_cursor := cursor_of rs\<rparr>)"
    and step_error: "api_step sq h w = (rc, w') \<Longrightarrow> v_stmts (view w) h = Some s \<Longrightarrow>
      is_error_code rc \<Longrightarrow>
      v_db (view w') = v_db (view w) \<and> v_stmts (view w') h = Some (s\<lparr>st_cursor := Failed rc\<rparr>)"
    and step_others: "api_step sq h w = (rc, w') \<Longrightarrow> h' \<noteq> h \<Longrightarrow> v_stmts (view w) h' = Some s' \<Longrightarrow>
      (undisturbed (st_cursor s') (v_db (view w)) (v_db (view w')) \<longrightarrow>
         v_stmts (view w') h' = Some s') \<and>
      (\<exists>c. v_stmts (view w') h' = Some (s'\<lparr>st_cursor := c\<rparr>))"
    and column_int: "v_stmts (view w) h = Some s \<Longrightarrow> st_cursor s = On_row r rs \<Longrightarrow> i < length r \<Longrightarrow>
      r ! i = Integer x \<Longrightarrow> api_column_int sq h i w = ucast x"
    and column_int64: "v_stmts (view w) h = Some s \<Longrightarrow> st_cursor s = On_row r rs \<Longrightarrow> i < length r \<Longrightarrow>
      r ! i = Integer x \<Longrightarrow> api_column_int64 sq h i w = x"
    and column_text: "v_stmts (view w) h = Some s \<Longrightarrow> st_cursor s = On_row r rs \<Longrightarrow> i < length r \<Longrightarrow>
      r ! i = Text t \<Longrightarrow> nul_free t \<Longrightarrow> api_column_text sq h i w = Some t"

text \<open>
  An engine that reports an error only where the documentation gives a reason: no failing disk,
  no lock held by another process, no memory exhaustion.
\<close>

definition binds_reliably ::
  "('w \<Rightarrow> view) \<Rightarrow> (nat \<Rightarrow> nat \<Rightarrow> 'a \<Rightarrow> 'w \<Rightarrow> int \<times> 'w) \<Rightarrow> ('a \<Rightarrow> bool) \<Rightarrow> bool"
where
  "binds_reliably view f ok \<longleftrightarrow>
     (\<forall>h i x w s k. v_stmts (view w) h = Some s \<longrightarrow> st_cursor s = Ready \<longrightarrow> ok x \<longrightarrow>
        sql_kind_of (st_sql s) = Some k \<longrightarrow> 1 \<le> i \<longrightarrow> i \<le> parameter_count k \<longrightarrow>
        \<not> is_error_code (fst (f h i x w)))"

locale sqlite3_reliable = sqlite3 sq view
  for sq :: "'w sqlite3_api" and view :: "'w \<Rightarrow> view" +
  assumes open_ok: "fst (fst (api_open sq fn w)) = SQLITE_OK"
    and prepare_ok: "sql_kind_of sql = Some k \<Longrightarrow>
      (needs_table k \<Longrightarrow> db_table (v_db (view w)) \<noteq> None) \<Longrightarrow>
      \<not> is_error_code (fst (fst (api_prepare sq c sql w)))"
    and bind_null_ok: "binds_reliably view (\<lambda>h i (_ :: unit). api_bind_null sq h i) (\<lambda>_. True)"
    and bind_text_ok: "binds_reliably view (api_bind_text sq) nul_free"
    and bind_int_ok: "binds_reliably view (api_bind_int sq) (\<lambda>_. True)"
    and bind_int64_ok: "binds_reliably view (api_bind_int64 sq) (\<lambda>_. True)"
    and clear_bindings_ok: "v_stmts (view w) h = Some s \<Longrightarrow>
      \<not> is_error_code (fst (api_clear_bindings sq h w))"
    and reset_ok: "v_stmts (view w) h = Some s \<Longrightarrow> \<nexists>e. st_cursor s = Failed e \<Longrightarrow>
      fst (api_reset sq h w) = SQLITE_OK"
    and step_run_ok: "v_stmts (view w) h = Some s \<Longrightarrow> sql_kind_of (st_sql s) = Some k \<Longrightarrow>
      st_cursor s = Ready \<or> st_cursor s = Done \<Longrightarrow>
      sql_effect k (st_binds s) (v_db (view w)) d' rs \<Longrightarrow>
      \<not> is_error_code (fst (api_step sq h w))"
    and step_next_ok: "v_stmts (view w) h = Some s \<Longrightarrow> st_cursor s = On_row r rs \<Longrightarrow>
      \<not> is_error_code (fst (api_step sq h w))"

end
