(* ===== verification/Sqlite_Store.thy ===== *)
theory Sqlite_Store
  imports Sqlite_Engine
begin

text \<open>
  The store that persists requests in an SQLite database (\<^verbatim>\<open>impl/sqlite3/store.cpp\<close>): the
  wrappers \<^verbatim>\<open>PreparedStatement\<close> and \<^verbatim>\<open>Database\<close>, the class \<^verbatim>\<open>Store\<close> and its
  \<^verbatim>\<open>Query\<close>. Every member function is a computation over the world of the database library,
  which is the parameter \<open>sq\<close>.

  \<^verbatim>\<open>Store::reset\<close>, \<^verbatim>\<open>add\<close> and \<^verbatim>\<open>remove_application\<close> hold the store's mutex for their
  whole body, so each of them is one atomic computation here; a query is used by the thread that
  created it.
\<close>

section \<open>Helpers\<close>

definition is_error :: "int \<Rightarrow> int \<times> bool" where
  "is_error result =
     (if result = SQLITE_OK \<or> result = SQLITE_DONE \<or> result = SQLITE_ROW
      then (result, False) else (result, True))"

text \<open>
  Directory creation and path concatenation belong to the operating system and to Boost:
  \<open>fs_mkdir\<close> gives the error number of \<^verbatim>\<open>mkdir\<close>, or nothing on success.
\<close>

record 'w filesystem =
  fs_mkdir :: "string \<Rightarrow> nat \<Rightarrow> 'w \<Rightarrow> int option \<times> 'w"
  fs_join :: "string \<Rightarrow> string \<Rightarrow> string"

definition S_IRWXU :: nat where "S_IRWXU = 448"
definition EEXIST :: int where "EEXIST = 17"

definition ensure_dir_or_throw :: "'w filesystem \<Rightarrow> string \<Rightarrow> ('w, string) act" where
  "ensure_dir_or_throw fsys p = (\<lambda>w. case fs_mkdir fsys p S_IRWXU w of
       (None, w') \<Rightarrow> (Inr p, w')
     | (Some errno, w') \<Rightarrow> if errno \<noteq> EEXIST then (Inl (system_error errno), w') else (Inr p, w'))"

section \<open>PreparedStatement\<close>

record prepared_statement =
  ps_db :: nat
  ps_statement :: nat

definition PS_null :: prepared_statement where
  "PS_null = \<lparr>ps_db = 0, ps_statement = 0\<rparr>"

definition PS_new :: "nat \<Rightarrow> nat \<Rightarrow> ('w, prepared_statement) act" where
  "PS_new db statement =
     (if statement = 0
      then throwE (runtime_error ''Cannot construct prepared statement for null statement.'')
      else returnE \<lparr>ps_db = db, ps_statement = statement\<rparr>)"

definition PS_destroy :: "'w sqlite3_api \<Rightarrow> prepared_statement \<Rightarrow> ('w, unit) act" where
  "PS_destroy sq ps = modifyE (api_finalize sq (ps_statement ps))"

text \<open>The move constructor: the new object, and the source, which is left empty.\<close>

definition PS_move_new :: "prepared_statement \<Rightarrow> prepared_statement \<times> prepared_statement" where
  "PS_move_new rhs = (rhs, PS_null)"

text \<open>Move assignment: the statement held so far is finalized, the source is left empty.\<close>

definition PS_move_assign ::
  "'w sqlite3_api \<Rightarrow> prepared_statement \<Rightarrow> prepared_statement \<Rightarrow>
     ('w, prepared_statement \<times> prepared_statement) act"
where
  "PS_move_assign sq lhs rhs =
     bindE (if ps_statement lhs \<noteq> 0 then modifyE (api_finalize sq (ps_statement lhs)) else returnE ())
       (\<lambda>_. returnE (rhs, PS_null))"

text \<open>
  Moving and then destroying both objects finalizes what destroying the two would have finalized, no statement twice and none
  never; finalizing a null statement does nothing.
\<close>

lemma PS_moves_own_once:
  assumes "\<And>w. api_finalize sq 0 w = w"
  shows "bindE (PS_move_assign sq lhs rhs) (\<lambda>(l, r). block [PS_destroy sq l, PS_destroy sq r]) w =
      block [PS_destroy sq lhs, PS_destroy sq rhs] w"
    and "(case PS_move_new rhs of (l, r) \<Rightarrow> block [PS_destroy sq l, PS_destroy sq r]) w = PS_destroy sq rhs w"
  using assms by (simp_all add: PS_move_assign_def PS_move_new_def PS_null_def PS_destroy_def act_simps)

definition Database_error :: "'w sqlite3_api \<Rightarrow> nat \<Rightarrow> 'w \<Rightarrow> string" where
  "Database_error sq db w = (case api_errmsg sq db w of None \<Rightarrow> '''' | Some msg \<Rightarrow> msg)"

definition PS_error_from_db :: "'w sqlite3_api \<Rightarrow> prepared_statement \<Rightarrow> 'w \<Rightarrow> string" where
  "PS_error_from_db sq ps w = Database_error sq (ps_db ps) w"

text \<open>The pattern shared by the calls below: run, look at the code, throw with both messages.\<close>

definition PS_call ::
  "'w sqlite3_api \<Rightarrow> prepared_statement \<Rightarrow> ('w \<Rightarrow> int \<times> 'w) \<Rightarrow> ('w, int) act"
where
  "PS_call sq ps f = (\<lambda>w. case f w of (rc, w') \<Rightarrow> (case is_error rc of (result, error) \<Rightarrow>
       if error
       then (Inl (runtime_error (api_errstr sq result @ '': '' @ PS_error_from_db sq ps w')), w')
       else (Inr result, w')))"

definition PS_bind_null :: "'w sqlite3_api \<Rightarrow> prepared_statement \<Rightarrow> nat \<Rightarrow> ('w, unit) act" where
  "PS_bind_null sq ps i =
     bindE (PS_call sq ps (api_bind_null sq (ps_statement ps) i)) (\<lambda>_. returnE ())"

text \<open>The program binds no floating-point number; the function of the library is an argument here.\<close>

definition PS_bind_double ::
  "'w sqlite3_api \<Rightarrow> (nat \<Rightarrow> nat \<Rightarrow> 'd \<Rightarrow> 'w \<Rightarrow> int \<times> 'w) \<Rightarrow> prepared_statement \<Rightarrow> nat \<Rightarrow> 'd \<Rightarrow> ('w, unit) act"
where
  "PS_bind_double sq bind_double ps i d =
     bindE (PS_call sq ps (bind_double (ps_statement ps) i d)) (\<lambda>_. returnE ())"

definition PS_bind_text ::
  "'w sqlite3_api \<Rightarrow> prepared_statement \<Rightarrow> nat \<Rightarrow> string \<Rightarrow> ('w, unit) act"
where
  "PS_bind_text sq ps i s =
     (if s = [] then returnE ()
      else bindE (PS_call sq ps (api_bind_text sq (ps_statement ps) i s)) (\<lambda>_. returnE ()))"

definition PS_bind_int ::
  "'w sqlite3_api \<Rightarrow> prepared_statement \<Rightarrow> nat \<Rightarrow> int32 \<Rightarrow> ('w, unit) act"
where
  "PS_bind_int sq ps i x =
     bindE (PS_call sq ps (api_bind_int sq (ps_statement ps) i x)) (\<lambda>_. returnE ())"

definition PS_bind_int64 ::
  "'w sqlite3_api \<Rightarrow> prepared_statement \<Rightarrow> nat \<Rightarrow> int64 \<Rightarrow> ('w, unit) act"
where
  "PS_bind_int64 sq ps i x =
     bindE (PS_call sq ps (api_bind_int64 sq (ps_statement ps) i x)) (\<lambda>_. returnE ())"

definition PS_column_int :: "'w sqlite3_api \<Rightarrow> prepared_statement \<Rightarrow> nat \<Rightarrow> ('w, int32) act" where
  "PS_column_int sq ps i = readE (api_column_int sq (ps_statement ps) i)"

definition PS_column_int64 :: "'w sqlite3_api \<Rightarrow> prepared_statement \<Rightarrow> nat \<Rightarrow> ('w, int64) act" where
  "PS_column_int64 sq ps i = readE (api_column_int64 sq (ps_statement ps) i)"

definition PS_column_text :: "'w sqlite3_api \<Rightarrow> prepared_statement \<Rightarrow> nat \<Rightarrow> ('w, string) act" where
  "PS_column_text sq ps i =
     readE (\<lambda>w. case api_column_text sq (ps_statement ps) i w of None \<Rightarrow> '''' | Some t \<Rightarrow> t)"

definition PS_reset :: "'w sqlite3_api \<Rightarrow> prepared_statement \<Rightarrow> ('w, unit) act" where
  "PS_reset sq ps = bindE (PS_call sq ps (api_reset sq (ps_statement ps))) (\<lambda>_. returnE ())"

definition PS_clear_bindings :: "'w sqlite3_api \<Rightarrow> prepared_statement \<Rightarrow> ('w, unit) act" where
  "PS_clear_bindings sq ps =
     bindE (PS_call sq ps (api_clear_bindings sq (ps_statement ps))) (\<lambda>_. returnE ())"

text \<open>\<^verbatim>\<open>State\<close> is the result code itself, cast to an enumeration with two names.\<close>

definition PS_step :: "'w sqlite3_api \<Rightarrow> prepared_statement \<Rightarrow> ('w, int) act" where
  "PS_step sq ps = PS_call sq ps (api_step sq (ps_statement ps))"

section \<open>Database\<close>

definition Database_new :: "'w sqlite3_api \<Rightarrow> string \<Rightarrow> ('w, nat) act" where
  "Database_new sq fn = (\<lambda>w. case api_open sq fn w of ((result, db), w') \<Rightarrow>
       if result \<noteq> SQLITE_OK
       then (Inl (runtime_error
              (''Problem opening database file '' @ fn @ '': '' @ api_errstr sq result)), w')
       else (Inr db, api_extended_result_codes sq db w'))"

definition Database_destroy :: "'w sqlite3_api \<Rightarrow> nat \<Rightarrow> ('w, unit) act" where
  "Database_destroy sq db = modifyE (api_close sq db)"

definition Database_prepare_statement ::
  "'w sqlite3_api \<Rightarrow> nat \<Rightarrow> string \<Rightarrow> ('w, prepared_statement) act"
where
  "Database_prepare_statement sq db statement =
     (\<lambda>w. case api_prepare sq db statement w of ((rc, stmt), w') \<Rightarrow>
       (case is_error rc of (result, e) \<Rightarrow>
          if e
          then (Inl (runtime_error (api_errstr sq result @ '': '' @ Database_error sq db w')), w')
          else PS_new db stmt w'))"

text \<open>The tagged variant is the same body with the text taken from the tag's type.\<close>

definition Database_prepare_tagged_statement ::
  "'w sqlite3_api \<Rightarrow> nat \<Rightarrow> string \<Rightarrow> ('w, prepared_statement) act"
where
  "Database_prepare_tagged_statement sq db statement =
     (\<lambda>w. case api_prepare sq db statement w of ((rc, stmt), w') \<Rightarrow>
       (case is_error rc of (result, e) \<Rightarrow>
          if e
          then (Inl (runtime_error (api_errstr sq result @ '': '' @ Database_error sq db w')), w')
          else PS_new db stmt w'))"

definition Database_set_version :: "'w sqlite3_api \<Rightarrow> nat \<Rightarrow> int32 \<Rightarrow> ('w, unit) act" where
  "Database_set_version sq db version =
     bindE (Database_prepare_statement sq db (set_version_pragma version)) (\<lambda>stmt.
       finallyE (bindE (PS_step sq stmt) (\<lambda>_. returnE ())) (PS_destroy sq stmt))"

definition Database_get_version :: "'w sqlite3_api \<Rightarrow> nat \<Rightarrow> ('w, int32) act" where
  "Database_get_version sq db =
     bindE (Database_prepare_statement sq db get_version_pragma) (\<lambda>stmt.
       finallyE (bindE (PS_step sq stmt) (\<lambda>_. PS_column_int sq stmt 0)) (PS_destroy sq stmt))"

section \<open>Store\<close>

record sqlite_store =
  store_db :: nat
  create_data_table_statement :: prepared_statement
  delete_statement :: prepared_statement
  insert_statement :: prepared_statement
  remove_application_statement :: prepared_statement

definition Store_create_data_table_if_not_exists ::
  "'w sqlite3_api \<Rightarrow> prepared_statement \<Rightarrow> ('w, unit) act"
where
  "Store_create_data_table_if_not_exists sq create =
     bindE (PS_step sq create) (\<lambda>_. returnE ())"

definition Store_upgrade ::
  "'w sqlite3_api \<Rightarrow> nat \<Rightarrow> prepared_statement \<Rightarrow> int32 \<Rightarrow> ('w, unit) act"
where
  "Store_upgrade sq db create from_version =
     (if from_version = 0
      then block
        [Store_create_data_table_if_not_exists sq create,
         Database_set_version sq db Store_version]
      else returnE ())"

text \<open>
  The constructor's body, given the open database and the first statement: members assigned so
  far are finalized when a later step throws.
\<close>

definition Store_body ::
  "'w sqlite3_api \<Rightarrow> nat \<Rightarrow> prepared_statement \<Rightarrow> ('w, sqlite_store) act"
where
  "Store_body sq db create =
     bindE (Database_get_version sq db) (\<lambda>v.
     bindE (Store_upgrade sq db create v) (\<lambda>_.
     bindE (Database_prepare_tagged_statement sq db Delete_statement) (\<lambda>del. on_throwE (
     bindE (Database_prepare_tagged_statement sq db Insert_statement) (\<lambda>ins. on_throwE (
     bindE (Database_prepare_tagged_statement sq db RemoveApplication_statement) (\<lambda>rem.
     returnE \<lparr>store_db = db, create_data_table_statement = create, delete_statement = del,
              insert_statement = ins, remove_application_statement = rem\<rparr>))
     (PS_destroy sq ins)))
     (PS_destroy sq del))))"

definition Store_new ::
  "'w sqlite3_api \<Rightarrow> 'w filesystem \<Rightarrow> ('w, string) act \<Rightarrow> string \<Rightarrow> ('w, sqlite_store) act"
where
  "Store_new sq fsys data_home service_name =
     bindE data_home (\<lambda>home.
     bindE (ensure_dir_or_throw fsys (fs_join fsys home service_name)) (\<lambda>dir.
     bindE (Database_new sq (fs_join fsys dir ''trust.db'')) (\<lambda>db. on_throwE (
     bindE (Database_prepare_tagged_statement sq db CreateDataTableIfNotExists_statement)
       (\<lambda>create. on_throwE (Store_body sq db create) (PS_destroy sq create)))
     (Database_destroy sq db))))"

definition Store_reset :: "'w sqlite3_api \<Rightarrow> sqlite_store \<Rightarrow> ('w, unit) act" where
  "Store_reset sq st =
     catchE is_runtime_error
       (block
         [PS_reset sq (delete_statement st),
          bindE (PS_step sq (delete_statement st)) (\<lambda>_. returnE ())])
       (\<lambda>e. throwE (ErrorResettingStore (what e)))"

text \<open>
  The feature, an unsigned 64-bit number, is passed to \<^verbatim>\<open>bind_int\<close>, whose parameter is a
  signed 32-bit number: the conversion keeps the low 32 bits.
\<close>

definition Store_add :: "'w sqlite3_api \<Rightarrow> sqlite_store \<Rightarrow> request \<Rightarrow> ('w, unit) act" where
  "Store_add sq st r =
     block
       [PS_reset sq (insert_statement st),
        PS_bind_text sq (insert_statement st) Column_ApplicationId_index (req_from r),
        PS_bind_int sq (insert_statement st) Column_Feature_index
          (ucast (feature_value (req_feature r))),
        PS_bind_int64 sq (insert_statement st) Column_Timestamp_index (req_when r),
        PS_bind_int sq (insert_statement st) Column_Answer_index (req_answer r),
        bindE (PS_step sq (insert_statement st)) (\<lambda>_. returnE ())]"

definition Store_remove_application ::
  "'w sqlite3_api \<Rightarrow> sqlite_store \<Rightarrow> string \<Rightarrow> ('w, unit) act"
where
  "Store_remove_application sq st i =
     block
       [PS_reset sq (remove_application_statement st),
        PS_bind_text sq (remove_application_statement st)
          RemoveApplication_Parameter_ApplicationId i,
        bindE (PS_step sq (remove_application_statement st)) (\<lambda>_. returnE ())]"

section \<open>Query\<close>

record query =
  q_delete_statement :: prepared_statement
  q_select_statement :: prepared_statement
  q_status :: status

text \<open>A member function of a query: \<open>f\<close> gets the query's fields and runs in the world.\<close>

definition query_act :: "(query \<Rightarrow> ('w, 'a) act) \<Rightarrow> (query \<times> 'w, 'a) act" where
  "query_act f = (\<lambda>(q, w). in_world (f q) (q, w))"

definition set_status :: "status \<Rightarrow> (query \<times> 'w, unit) act" where
  "set_status s = modifyE (\<lambda>(q, w). (q\<lparr>q_status := s\<rparr>, w))"

definition Query_status :: "(query \<times> 'w, status) act" where
  "Query_status = readE (\<lambda>(q, w). q_status q)"

definition Query_for_application_id ::
  "'w sqlite3_api \<Rightarrow> string \<Rightarrow> (query \<times> 'w, unit) act"
where
  "Query_for_application_id sq i =
     query_act (\<lambda>q. PS_bind_text sq (q_select_statement q) Select_Parameter_ApplicationId i)"

definition Query_for_feature :: "'w sqlite3_api \<Rightarrow> feature \<Rightarrow> (query \<times> 'w, unit) act" where
  "Query_for_feature sq f =
     query_act (\<lambda>q. PS_bind_int64 sq (q_select_statement q) Select_Parameter_Feature (feature_value f))"

definition Query_for_interval ::
  "'w sqlite3_api \<Rightarrow> timestamp \<Rightarrow> timestamp \<Rightarrow> (query \<times> 'w, unit) act"
where
  "Query_for_interval sq b e = query_act (\<lambda>q. block
     [PS_bind_int64 sq (q_select_statement q) Select_Parameter_LowerBound b,
      PS_bind_int64 sq (q_select_statement q) Select_Parameter_UpperBound e])"

definition Query_for_answer :: "'w sqlite3_api \<Rightarrow> answer \<Rightarrow> (query \<times> 'w, unit) act" where
  "Query_for_answer sq a =
     query_act (\<lambda>q. PS_bind_int sq (q_select_statement q) Select_Parameter_Answer a)"

definition Query_all :: "'w sqlite3_api \<Rightarrow> (query \<times> 'w, unit) act" where
  "Query_all sq = query_act (\<lambda>q. block
     [PS_reset sq (q_select_statement q), PS_clear_bindings sq (q_select_statement q)])"

text \<open>The switch over the state a step returned; a code with no name changes nothing.\<close>

definition Query_step :: "'w sqlite3_api \<Rightarrow> (query \<times> 'w, unit) act" where
  "Query_step sq =
     bindE (query_act (\<lambda>q. PS_step sq (q_select_statement q))) (\<lambda>result.
       if result = SQLITE_DONE then set_status eor
       else if result = SQLITE_ROW then set_status has_more_results
       else returnE ())"

definition Query_execute :: "'w sqlite3_api \<Rightarrow> (query \<times> 'w, unit) act" where
  "Query_execute sq = block [query_act (\<lambda>q. PS_reset sq (q_select_statement q)), Query_step sq]"

definition Query_next :: "'w sqlite3_api \<Rightarrow> (query \<times> 'w, unit) act" where
  "Query_next sq = Query_step sq"

definition Query_erase :: "'w sqlite3_api \<Rightarrow> (query \<times> 'w, unit) act" where
  "Query_erase sq =
     bindE Query_status (\<lambda>s.
     bindE (throw_if (s = eor)
       (runtime_error ''Cannot delete request as query points beyond the result set.'')) (\<lambda>_.
     bindE (query_act (\<lambda>q. PS_column_int sq (q_select_statement q) Column_Id_index)) (\<lambda>i.
     block
       [query_act (\<lambda>q. PS_reset sq (q_delete_statement q)),
        query_act (\<lambda>q. PS_bind_int sq (q_delete_statement q) Query_Delete_Parameter_Id i),
        query_act (\<lambda>q. bindE (PS_step sq (q_delete_statement q)) (\<lambda>_. returnE ())),
        Query_next sq])))"

definition Query_current :: "'w sqlite3_api \<Rightarrow> (query \<times> 'w, request) act" where
  "Query_current sq =
     bindE Query_status (\<lambda>s.
       if s = query_error then throwE QueryIsInErrorState
       else if s = eor then throwE NoCurrentResult
       else if s = armed then throwE NoCurrentResult
       else query_act (\<lambda>q.
         bindE (PS_column_text sq (q_select_statement q) Column_ApplicationId_index) (\<lambda>from_id.
         bindE (PS_column_int sq (q_select_statement q) Column_Feature_index) (\<lambda>f.
         bindE (PS_column_int64 sq (q_select_statement q) Column_Timestamp_index) (\<lambda>t.
         bindE (PS_column_int sq (q_select_statement q) Column_Answer_index) (\<lambda>a.
         returnE \<lparr>req_from = from_id, req_feature = Feature (scast f), req_when = t,
                  req_answer = a\<rparr>))))))"

text \<open>Destruction finalizes both statements, in reverse order of declaration.\<close>

definition Query_destroy :: "'w sqlite3_api \<Rightarrow> query \<Rightarrow> ('w, unit) act" where
  "Query_destroy sq q =
     block [PS_destroy sq (q_select_statement q), PS_destroy sq (q_delete_statement q)]"

definition Query_Private_new :: "'w sqlite3_api \<Rightarrow> nat \<Rightarrow> ('w, query) act" where
  "Query_Private_new sq db =
     bindE (Database_prepare_tagged_statement sq db Query_Delete_statement) (\<lambda>del. on_throwE
       (bindE (Database_prepare_tagged_statement sq db Query_Select_statement) (\<lambda>sel.
        returnE \<lparr>q_delete_statement = del, q_select_statement = sel, q_status = armed\<rparr>))
       (PS_destroy sq del))"

definition Query_new :: "'w sqlite3_api \<Rightarrow> nat \<Rightarrow> ('w, query) act" where
  "Query_new sq db =
     bindE (Query_Private_new sq db) (\<lambda>q. on_throwE
       (bindE (with_object q (Query_all sq)) (\<lambda>_. returnE q))
       (Query_destroy sq q))"

definition Store_query :: "'w sqlite3_api \<Rightarrow> sqlite_store \<Rightarrow> ('w, query) act" where
  "Store_query sq st = Query_new sq (store_db st)"

text \<open>Destroying the store finalizes its statements, then closes the database.\<close>

definition Store_destroy :: "'w sqlite3_api \<Rightarrow> sqlite_store \<Rightarrow> ('w, unit) act" where
  "Store_destroy sq st = block
     [PS_destroy sq (remove_application_statement st), PS_destroy sq (insert_statement st),
      PS_destroy sq (delete_statement st), PS_destroy sq (create_data_table_statement st),
      Database_destroy sq (store_db st)]"

definition create_for_service ::
  "'w sqlite3_api \<Rightarrow> 'w filesystem \<Rightarrow> ('w, string) act \<Rightarrow> string \<Rightarrow> ('w, sqlite_store) act"
where
  "create_for_service sq fsys data_home name =
     (if name = [] then throwE ServiceNameMustNotBeEmpty
      else Store_new sq fsys data_home name)"

end
