(* ===== verification/Sqlite_Reference.thy ===== *)
theory Sqlite_Reference
  imports Sqlite_Engine
begin

text \<open>
  An executable engine that satisfies the laws of \<open>sqlite3_reliable\<close>: the laws are consistent,
  and every theorem that assumes them can be evaluated on it. It keeps the table as a list and
  the prepared statements in a list indexed by their handle.
\<close>

record ref_engine =
  re_db :: db
  re_stmts :: "stmt option list"

definition ref_view :: "ref_engine \<Rightarrow> view" where
  "ref_view e = \<lparr>v_db = re_db e,
     v_stmts = (\<lambda>h. if 0 < h \<and> h \<le> length (re_stmts e) then re_stmts e ! (h - 1) else None)\<rparr>"

definition ref_stmt :: "nat \<Rightarrow> ref_engine \<Rightarrow> stmt option" where
  "ref_stmt h e = (if 0 < h \<and> h \<le> length (re_stmts e) then re_stmts e ! (h - 1) else None)"

definition ref_update :: "nat \<Rightarrow> stmt option \<Rightarrow> ref_engine \<Rightarrow> ref_engine" where
  "ref_update h s e = e\<lparr>re_stmts := (re_stmts e)[h - 1 := s]\<rparr>"

text \<open>An empty database file.\<close>

definition ref_empty :: ref_engine where
  "ref_empty = \<lparr>re_db = \<lparr>db_table = None, db_version = 0\<rparr>, re_stmts = []\<rparr>"

fun ref_run :: "sql_kind \<Rightarrow> (nat \<Rightarrow> sqlval) \<Rightarrow> db \<Rightarrow> int + (db \<times> sqlval list list)" where
  "ref_run Create_table b d =
     Inr (d\<lparr>db_table := (case db_table d of None \<Rightarrow> Some [] | Some rows \<Rightarrow> Some rows)\<rparr>, [])"
| "ref_run Get_user_version b d = Inr (d, [[Integer (scast (db_version d))]])"
| "ref_run (Set_user_version v) b d = Inr (d\<lparr>db_version := v\<rparr>, [])"
| "ref_run k b d = (case db_table d of
       None \<Rightarrow> Inl SQLITE_ERROR
     | Some rows \<Rightarrow> (case k of
         Delete_all \<Rightarrow> Inr (d\<lparr>db_table := Some []\<rparr>, [])
       | Insert_request \<Rightarrow>
           if b 1 = Null then Inl SQLITE_CONSTRAINT
           else if max_rowid rows < rowid_bound
             then Inr (d\<lparr>db_table := Some (rows @ [new_row rows b])\<rparr>, [])
           else Inl SQLITE_FULL
       | Delete_application \<Rightarrow>
           Inr (d\<lparr>db_table := Some (filter (\<lambda>r. \<not> (b 1 \<noteq> Null \<and> r_ApplicationId r = b 1)) rows)\<rparr>, [])
       | Delete_id \<Rightarrow> Inr (d\<lparr>db_table := Some (filter (\<lambda>r. Integer (r_Id r) \<noteq> b 1) rows)\<rparr>, [])
       | _ \<Rightarrow> Inr (d, map columns (sort_key (\<lambda>r. - row_time r) (filter (selects b) rows)))))"

definition ref_step :: "nat \<Rightarrow> ref_engine \<Rightarrow> int \<times> ref_engine" where
  "ref_step h e = (case ref_stmt h e of
       None \<Rightarrow> (SQLITE_MISUSE, e)
     | Some s \<Rightarrow> (case st_cursor s of
         On_row r rs \<Rightarrow> (code_of rs, ref_update h (Some (s\<lparr>st_cursor := cursor_of rs\<rparr>)) e)
       | Failed rc \<Rightarrow> (SQLITE_MISUSE, ref_update h (Some (s\<lparr>st_cursor := Failed SQLITE_MISUSE\<rparr>)) e)
       | _ \<Rightarrow> (case sql_kind_of (st_sql s) of
           None \<Rightarrow> (SQLITE_ERROR, ref_update h (Some (s\<lparr>st_cursor := Failed SQLITE_ERROR\<rparr>)) e)
         | Some k \<Rightarrow> (case ref_run k (st_binds s) (re_db e) of
             Inl rc \<Rightarrow> (rc, ref_update h (Some (s\<lparr>st_cursor := Failed rc\<rparr>)) e)
           | Inr (d, rs) \<Rightarrow>
               (code_of rs, ref_update h (Some (s\<lparr>st_cursor := cursor_of rs\<rparr>)) (e\<lparr>re_db := d\<rparr>))))))"

definition ref_bind :: "nat \<Rightarrow> nat \<Rightarrow> sqlval \<Rightarrow> ref_engine \<Rightarrow> int \<times> ref_engine" where
  "ref_bind h i x e = (case ref_stmt h e of
       None \<Rightarrow> (SQLITE_MISUSE, e)
     | Some s \<Rightarrow> if st_cursor s \<noteq> Ready then (SQLITE_MISUSE, e)
         else (SQLITE_OK, ref_update h (Some (s\<lparr>st_binds := (st_binds s)(i := x)\<rparr>)) e))"

definition ref_column :: "nat \<Rightarrow> nat \<Rightarrow> ref_engine \<Rightarrow> sqlval" where
  "ref_column h i e = (case ref_stmt h e of
       Some s \<Rightarrow> (case st_cursor s of On_row r rs \<Rightarrow> if i < length r then r ! i else Null | _ \<Rightarrow> Null)
     | None \<Rightarrow> Null)"

definition ref_prepare :: "nat \<Rightarrow> string \<Rightarrow> ref_engine \<Rightarrow> (int \<times> nat) \<times> ref_engine" where
  "ref_prepare c sql e =
     (if (case sql_kind_of sql of None \<Rightarrow> True | Some k \<Rightarrow> needs_table k \<and> db_table (re_db e) = None)
      then ((SQLITE_ERROR, 0), e)
      else ((SQLITE_OK, Suc (length (re_stmts e))),
            e\<lparr>re_stmts := re_stmts e @ [Some (fresh_stmt sql)]\<rparr>))"

definition ref_reset :: "nat \<Rightarrow> ref_engine \<Rightarrow> int \<times> ref_engine" where
  "ref_reset h e = (case ref_stmt h e of
       None \<Rightarrow> (SQLITE_MISUSE, e)
     | Some s \<Rightarrow> ((case st_cursor s of Failed rc \<Rightarrow> SQLITE_ERROR | _ \<Rightarrow> SQLITE_OK),
                  ref_update h (Some (s\<lparr>st_cursor := Ready\<rparr>)) e))"

definition ref_clear_bindings :: "nat \<Rightarrow> ref_engine \<Rightarrow> int \<times> ref_engine" where
  "ref_clear_bindings h e = (case ref_stmt h e of
       None \<Rightarrow> (SQLITE_MISUSE, e)
     | Some s \<Rightarrow> (SQLITE_OK, ref_update h (Some (s\<lparr>st_binds := no_binds\<rparr>)) e))"

definition ref_sqlite :: "ref_engine sqlite3_api" where
  "ref_sqlite = \<lparr>
     api_open = (\<lambda>fn e. ((SQLITE_OK, 1), e)),
     api_extended_result_codes = (\<lambda>c e. e),
     api_close = (\<lambda>c e. e),
     api_prepare = ref_prepare,
     api_finalize = (\<lambda>h e. if h = 0 then e else ref_update h None e),
     api_bind_null = (\<lambda>h i. ref_bind h i Null),
     api_bind_text = (\<lambda>h i t. ref_bind h i (Text t)),
     api_bind_int = (\<lambda>h i x. ref_bind h i (Integer (scast x))),
     api_bind_int64 = (\<lambda>h i x. ref_bind h i (Integer x)),
     api_step = ref_step,
     api_reset = ref_reset,
     api_clear_bindings = ref_clear_bindings,
     api_column_int = (\<lambda>h i e. case ref_column h i e of Integer x \<Rightarrow> ucast x | _ \<Rightarrow> 0),
     api_column_int64 = (\<lambda>h i e. case ref_column h i e of Integer x \<Rightarrow> x | _ \<Rightarrow> 0),
     api_column_text = (\<lambda>h i e. case ref_column h i e of Text t \<Rightarrow> Some t | _ \<Rightarrow> None),
     api_errmsg = (\<lambda>c e. Some ''error''),
     api_errstr = (\<lambda>rc. ''code'')\<rparr>"

section \<open>The laws hold\<close>

lemma ref_view_simps [simp]:
  "v_db (ref_view e) = re_db e"
  "v_stmts (ref_view e) h = ref_stmt h e"
  by (simp_all add: ref_view_def ref_stmt_def)

lemma ref_view_stmts: "v_stmts (ref_view e) = (\<lambda>h. ref_stmt h e)"
  by (rule ext) simp

lemma ref_update_db [simp]: "re_db (ref_update h s e) = re_db e"
  by (simp add: ref_update_def)

lemma ref_stmt_update:
  "ref_stmt h e = Some s \<Longrightarrow> ref_stmt h' (ref_update h t e) = (if h' = h then t else ref_stmt h' e)"
  by (auto simp: ref_stmt_def ref_update_def nth_list_update split: if_splits)

lemma ref_stmt_with_db [simp]: "ref_stmt h (e\<lparr>re_db := d\<rparr>) = ref_stmt h e"
  by (simp add: ref_stmt_def)

lemma ref_view_eqI: "re_db e = v_db v \<Longrightarrow> (\<And>h. ref_stmt h e = v_stmts v h) \<Longrightarrow> ref_view e = v"
  by (cases v) (auto simp: ref_view_def ref_stmt_def)

lemma ref_view_update:
  assumes "ref_stmt h e = Some s"
  shows "ref_view (ref_update h t e) = (ref_view e)\<lparr>v_stmts := (v_stmts (ref_view e))(h := t)\<rparr>"
  by (rule ref_view_eqI) (auto simp: ref_stmt_update [OF assms])

lemma ref_run_effect: "ref_run k b d = Inr (d', rs) \<Longrightarrow> sql_effect k b d d' rs"
  by (cases k)
    (auto simp: sql_effect_simps select_result_def sorted_wrt_map [symmetric] split: option.splits if_splits
      intro!: exI [where x = "sort_key (\<lambda>r. - row_time r) (filter (selects b) _)"]
        sorted_wrt_mono_rel [OF _ sorted_sort_key [unfolded sorted_map]])

lemma ref_run_total: "sql_effect k b d d' rs \<Longrightarrow> \<exists>r. ref_run k b d = Inr r"
  by (cases k) (auto simp: sql_effect_simps split: option.splits)

lemma code_of_ok [simp]: "\<not> is_error_code (code_of rs)"
  by (cases rs) (simp_all add: is_error_code_def)

lemma ref_run_code: "ref_run k b d = Inl rc \<Longrightarrow> is_error_code rc"
  by (cases k) (auto simp: is_error_code_def sqlite_codes split: option.splits if_splits)

lemma misuse_is_error [simp]: "is_error_code SQLITE_MISUSE" "is_error_code SQLITE_ERROR"
  by (simp_all add: is_error_code_def sqlite_codes)

lemma ok_is_no_error [simp]: "\<not> is_error_code SQLITE_OK"
  by (simp add: is_error_code_def)

lemma ref_binds: "(\<And>h i x. f h i x = ref_bind h i (enc x)) \<Longrightarrow> binds_as ref_view f ok enc"
  by (auto simp: binds_as_def ref_bind_def bound_def ref_view_update split: if_splits)

lemma ref_binds_reliably: "(\<And>h i x. f h i x = ref_bind h i (enc x)) \<Longrightarrow> binds_reliably ref_view f ok"
  by (auto simp: binds_reliably_def ref_bind_def)

lemma ref_step_run:
  assumes "ref_stmt h e = Some s" and "st_cursor s = Ready \<or> st_cursor s = Done"
    and "sql_kind_of (st_sql s) = Some k"
  shows "ref_step h e = (case ref_run k (st_binds s) (re_db e) of
             Inl rc \<Rightarrow> (rc, ref_update h (Some (s\<lparr>st_cursor := Failed rc\<rparr>)) e)
           | Inr (d, rs) \<Rightarrow>
               (code_of rs, ref_update h (Some (s\<lparr>st_cursor := cursor_of rs\<rparr>)) (e\<lparr>re_db := d\<rparr>)))"
  using assms by (auto simp: ref_step_def)

lemma ref_step_keeps_others:
  "ref_step h e = (rc, e') \<Longrightarrow> h' \<noteq> h \<Longrightarrow> ref_stmt h' e' = ref_stmt h' e"
  by (auto simp: ref_step_def ref_stmt_update split: option.splits cursor.splits sum.splits)

lemma ref_step_failure:
  assumes "ref_step h e = (rc, e')" and "ref_stmt h e = Some s" and "is_error_code rc"
  shows "re_db e' = re_db e \<and> ref_stmt h e' = Some (s\<lparr>st_cursor := Failed rc\<rparr>)"
  using assms
  by (auto simp: ref_step_def ref_stmt_update split: option.splits cursor.splits sum.splits)

interpretation ref: sqlite3_reliable ref_sqlite ref_view
proof (unfold_locales, goal_cases)
  case (5 c sql w rc h w' k)
  then show ?case
    by (auto simp: ref_sqlite_def ref_prepare_def ref_stmt_def nth_append intro!: ref_view_eqI
        split: option.splits if_splits)
next
  case (6 h w)
  then show ?case
    by (cases "ref_stmt h w")
      (auto simp: ref_sqlite_def ref_view_update ref_update_def ref_stmt_def nth_list_update
        intro!: ref_view_eqI split: if_splits)
next
  case (11 h w rc w' s)
  then show ?case by (auto simp: ref_sqlite_def ref_clear_bindings_def ref_view_update)
next
  case (12 h w rc w' s)
  then show ?case
    by (auto simp: ref_sqlite_def ref_reset_def ref_view_update at_cursor_def split: cursor.splits)
next
  case (13 h w rc w' s k)
  then show ?case
    by (auto simp: ref_sqlite_def ref_step_run ref_stmt_update dest: ref_run_code split: sum.splits)
      (blast intro: ref_run_effect)+
next
  case (15 h w rc w' s)
  then show ?case using ref_step_failure by (auto simp: ref_sqlite_def)
next
  case (16 h w rc w' h' s')
  then show ?case
    using ref_step_keeps_others [of h w rc w' h']
    by (auto simp: ref_sqlite_def intro!: exI [where x = "st_cursor s'"])
next
  case (21 sql k w c)
  then show ?case by (auto simp: ref_sqlite_def ref_prepare_def)
next
  case (28 w h s k d' rs)
  then show ?case
    by (auto simp: ref_sqlite_def ref_step_run dest!: ref_run_total)
qed (auto simp: ref_sqlite_def ref_column_def ref_step_def ref_stmt_update ref_reset_def
    ref_clear_bindings_def intro!: ref_binds ref_binds_reliably split: cursor.splits)

end
