(* ===== verification/Store_Contract.thy ===== *)
theory Store_Contract
  imports Trust_Types "HOL-Library.Multiset"
begin

text \<open>
  The abstract class \<^verbatim>\<open>core::trust::Store\<close> and its \<^verbatim>\<open>Query\<close> (\<^verbatim>\<open>store.h\<close>) as a table of
  functions, and what its documentation promises as a locale: the store is a bag of requests, a
  query yields the requests that match its filters, newest first.

  Clients (the caching agent, the request processor, the bus adaptor) call a store through the
  table only, so what is proved of them in the locale holds for every implementation.
\<close>

section \<open>The virtual table\<close>

record ('w, 'q) store_vtable =
  vt_reset :: "('w, unit) act"
  vt_add :: "request \<Rightarrow> ('w, unit) act"
  vt_remove_application :: "string \<Rightarrow> ('w, unit) act"
  vt_query :: "('w, 'q) act"
  vt_status :: "('q \<times> 'w, status) act"
  vt_for_application_id :: "string \<Rightarrow> ('q \<times> 'w, unit) act"
  vt_for_feature :: "feature \<Rightarrow> ('q \<times> 'w, unit) act"
  vt_for_interval :: "timestamp \<Rightarrow> timestamp \<Rightarrow> ('q \<times> 'w, unit) act"
  vt_for_answer :: "answer \<Rightarrow> ('q \<times> 'w, unit) act"
  vt_all :: "('q \<times> 'w, unit) act"
  vt_execute :: "('q \<times> 'w, unit) act"
  vt_next :: "('q \<times> 'w, unit) act"
  vt_erase :: "('q \<times> 'w, unit) act"
  vt_current :: "('q \<times> 'w, request) act"
  vt_destroy_query :: "'q \<Rightarrow> ('w, unit) act"

section \<open>Abstract queries\<close>

record query_filter =
  f_application :: "string option"
  f_feature :: "feature option"
  f_interval :: "(timestamp \<times> timestamp) option"
  f_answer :: "answer option"

definition no_filter :: query_filter where
  "no_filter = \<lparr>f_application = None, f_feature = None, f_interval = None, f_answer = None\<rparr>"

fun opt_eq :: "'a option \<Rightarrow> 'a \<Rightarrow> bool" where
  "opt_eq None x = True"
| "opt_eq (Some y) x = (y = x)"

fun in_interval :: "(timestamp \<times> timestamp) option \<Rightarrow> timestamp \<Rightarrow> bool" where
  "in_interval None t = True"
| "in_interval (Some (b, e)) t = (sint b \<le> sint t \<and> sint t \<le> sint e)"

definition matches :: "query_filter \<Rightarrow> request \<Rightarrow> bool" where
  "matches f r \<longleftrightarrow>
     opt_eq (f_application f) (req_from r) \<and> opt_eq (f_feature f) (req_feature r) \<and>
     in_interval (f_interval f) (req_when r) \<and> opt_eq (f_answer f) (req_answer r)"

definition newest_first :: "request list \<Rightarrow> bool" where
  "newest_first = sorted_wrt (\<lambda>x y. sint (req_when y) \<le> sint (req_when x))"

text \<open>What an execution of a query may yield.\<close>

definition answers :: "query_filter \<Rightarrow> request multiset \<Rightarrow> request list \<Rightarrow> bool" where
  "answers f R rs \<longleftrightarrow> mset rs = filter_mset (matches f) R \<and> newest_first rs"

text \<open>A query is being narrowed down, or it has been run and stands before these results.\<close>

datatype phase = Building | Results "request list"

fun phase_status :: "phase \<Rightarrow> status" where
  "phase_status Building = armed"
| "phase_status (Results []) = eor"
| "phase_status (Results (r # rs)) = has_more_results"

text \<open>
  Requests a store can hold: the application id is not empty and has no zero byte. A store may
  keep less of a feature than the 64 bits its type has; what it keeps is the parameter \<open>keep\<close> of the
  contract, which is the feature itself when that is below \<open>2 ^ 31\<close>.
\<close>

definition clean_id :: "string \<Rightarrow> bool" where
  "clean_id s \<longleftrightarrow> s \<noteq> [] \<and> CHR 0x00 \<notin> set s"

definition small_feature :: "feature \<Rightarrow> bool" where
  "small_feature f \<longleftrightarrow> unat (feature_value f) < 2 ^ 31"

section \<open>The contract\<close>

text \<open>
  The parameters beside the table: \<open>inv\<close>, the implementation's invariant; \<open>room\<close>, there is space for
  that many more requests; \<open>fresh\<close>, one more query can be made; \<open>contents\<close>, the requests held; \<open>keep\<close>, what is
  kept of a feature; \<open>answer_ok\<close>, the answers that can be stored and asked for; \<open>owned\<close>, the query
  is one this store made; \<open>qstate\<close>, where a query stands.
\<close>

locale trust_store =
  fixes V :: "('w, 'q) store_vtable"
    and inv :: "'w \<Rightarrow> bool"
    and room :: "nat \<Rightarrow> 'w \<Rightarrow> bool"
    and fresh :: "'w \<Rightarrow> bool"
    and contents :: "'w \<Rightarrow> request multiset"
    and keep :: "feature \<Rightarrow> feature"
    and answer_ok :: "answer \<Rightarrow> bool"
    and owned :: "'q \<Rightarrow> bool"
    and qstate :: "'q \<Rightarrow> 'w \<Rightarrow> query_filter \<Rightarrow> phase \<Rightarrow> bool"
  assumes reset: "inv w \<Longrightarrow> \<exists>w'. vt_reset V w = (Inr (), w') \<and> inv w' \<and> contents w' = {#}"
    and keep: "small_feature ft \<Longrightarrow> keep ft = ft"
    and add: "inv w \<Longrightarrow> room (Suc n) w \<Longrightarrow> clean_id (req_from r) \<Longrightarrow> answer_ok (req_answer r) \<Longrightarrow>
      \<exists>w'. vt_add V r w = (Inr (), w') \<and> inv w' \<and> room n w' \<and>
           contents w' = add_mset (r\<lparr>req_feature := keep (req_feature r)\<rparr>) (contents w)"
    and remove_application: "inv w \<Longrightarrow> clean_id i \<Longrightarrow>
      \<exists>w'. vt_remove_application V i w = (Inr (), w') \<and> inv w' \<and>
           contents w' = filter_mset (\<lambda>r. req_from r \<noteq> i) (contents w)"
    and query: "inv w \<Longrightarrow> fresh w \<Longrightarrow>
      \<exists>q w'. vt_query V w = (Inr q, w') \<and> inv w' \<and> contents w' = contents w \<and>
             (\<forall>n. room n w \<longrightarrow> room n w') \<and> owned q \<and> qstate q w' no_filter Building"
    and status: "inv w \<Longrightarrow> qstate q w f p \<Longrightarrow>
      vt_status V (q, w) = (Inr (phase_status p), (q, w))"
    and for_application_id: "inv w \<Longrightarrow> qstate q w f Building \<Longrightarrow> clean_id i \<Longrightarrow>
      \<exists>q' w'. vt_for_application_id V i (q, w) = (Inr (), (q', w')) \<and> inv w' \<and>
              contents w' = contents w \<and> (\<forall>n. room n w \<longrightarrow> room n w') \<and> (owned q \<longrightarrow> owned q') \<and>
              qstate q' w' (f\<lparr>f_application := Some i\<rparr>) Building"
    and for_feature: "inv w \<Longrightarrow> qstate q w f Building \<Longrightarrow>
      \<exists>q' w'. vt_for_feature V ft (q, w) = (Inr (), (q', w')) \<and> inv w' \<and>
              contents w' = contents w \<and> (\<forall>n. room n w \<longrightarrow> room n w') \<and> (owned q \<longrightarrow> owned q') \<and>
              qstate q' w' (f\<lparr>f_feature := Some ft\<rparr>) Building"
    and for_interval: "inv w \<Longrightarrow> qstate q w f Building \<Longrightarrow>
      \<exists>q' w'. vt_for_interval V b e (q, w) = (Inr (), (q', w')) \<and> inv w' \<and>
              contents w' = contents w \<and> (\<forall>n. room n w \<longrightarrow> room n w') \<and> (owned q \<longrightarrow> owned q') \<and>
              qstate q' w' (f\<lparr>f_interval := Some (b, e)\<rparr>) Building"
    and for_answer: "inv w \<Longrightarrow> qstate q w f Building \<Longrightarrow> answer_ok a \<Longrightarrow>
      \<exists>q' w'. vt_for_answer V a (q, w) = (Inr (), (q', w')) \<and> inv w' \<and>
              contents w' = contents w \<and> (\<forall>n. room n w \<longrightarrow> room n w') \<and> (owned q \<longrightarrow> owned q') \<and>
              qstate q' w' (f\<lparr>f_answer := Some a\<rparr>) Building"
    and all: "inv w \<Longrightarrow> qstate q w f Building \<Longrightarrow>
      \<exists>q' w'. vt_all V (q, w) = (Inr (), (q', w')) \<and> inv w' \<and>
              contents w' = contents w \<and> (\<forall>n. room n w \<longrightarrow> room n w') \<and> (owned q \<longrightarrow> owned q') \<and>
              qstate q' w' no_filter Building"
    and execute: "inv w \<Longrightarrow> qstate q w f p \<Longrightarrow>
      \<exists>q' w' rs. vt_execute V (q, w) = (Inr (), (q', w')) \<and> inv w' \<and>
              contents w' = contents w \<and> (\<forall>n. room n w \<longrightarrow> room n w') \<and> (owned q \<longrightarrow> owned q') \<and>
              qstate q' w' f (Results rs) \<and> answers f (contents w) rs"
    and current: "inv w \<Longrightarrow> qstate q w f (Results (r # rs)) \<Longrightarrow>
      vt_current V (q, w) = (Inr r, (q, w))"
    and current_none: "inv w \<Longrightarrow> qstate q w f p \<Longrightarrow> p = Building \<or> p = Results [] \<Longrightarrow>
      vt_current V (q, w) = (Inl NoCurrentResult, (q, w))"
    and "next": "inv w \<Longrightarrow> qstate q w f (Results (r # rs)) \<Longrightarrow>
      \<exists>q' w'. vt_next V (q, w) = (Inr (), (q', w')) \<and> inv w' \<and>
              contents w' = contents w \<and> (\<forall>n. room n w \<longrightarrow> room n w') \<and> (owned q \<longrightarrow> owned q') \<and>
              qstate q' w' f (Results rs)"
    and erase: "inv w \<Longrightarrow> qstate q w f (Results (r # rs)) \<Longrightarrow>
      \<exists>q' w'. vt_erase V (q, w) = (Inr (), (q', w')) \<and> inv w' \<and>
              contents w' = contents w - {#r#} \<and> r \<in># contents w \<and> (owned q \<longrightarrow> owned q') \<and>
              qstate q' w' f (Results rs)"
    and destroy_query: "inv w \<Longrightarrow> owned q \<Longrightarrow>
      \<exists>w'. vt_destroy_query V q w = (Inr (), w') \<and> inv w' \<and>
           contents w' = contents w \<and> (\<forall>n. room n w \<longrightarrow> room n w')"
    and room_less: "room (Suc n) w \<Longrightarrow> room n w"

end
