(* ===== verification/Sqlite_Store_Laws.thy ===== *)
theory Sqlite_Store_Laws
  imports Sqlite_Store Sqlite_Reference Store_Contract
begin

text \<open>
  The SQLite store keeps the contract of \<open>trust_store\<close> on every engine that keeps the laws of
  \<open>sqlite3_reliable\<close>. First the wrappers of \<^verbatim>\<open>PreparedStatement\<close>, one triple each; then the
  invariant of the store, the abstraction of the table to a bag of requests, and one lemma per
  operation.
\<close>

section \<open>Statements\<close>

lemma is_error_eq: "is_error rc = (rc, is_error_code rc)"
  by (simp add: is_error_def is_error_code_def)

lemma PS_call_ok: "f w = (rc, w') \<Longrightarrow> \<not> is_error_code rc \<Longrightarrow> PS_call sq ps f w = (Inr rc, w')"
  by (simp add: PS_call_def is_error_eq)

lemma PS_call_error:
  "f w = (rc, w') \<Longrightarrow> is_error_code rc \<Longrightarrow>
   PS_call sq ps f w =
     (Inl (runtime_error (api_errstr sq rc @ '': '' @ PS_error_from_db sq ps w')), w')"
  by (simp add: PS_call_def is_error_eq)

lemma triple_call:
  assumes "\<And>w rc w'. P w \<Longrightarrow> f w = (rc, w') \<Longrightarrow> \<not> is_error_code rc \<and> Q rc w'"
  shows "triple P (PS_call sq ps f) Q no_throw"
  unfolding triple_def
proof (intro allI impI)
  fix w assume "P w"
  obtain rc w' where f: "f w = (rc, w')" by force
  with assms [OF \<open>P w\<close> f] show "case PS_call sq ps f w of
    (Inr x, w') \<Rightarrow> Q x w' | (Inl e, w') \<Rightarrow> no_throw e w'"
    by (simp add: PS_call_ok)
qed

lemma triple_discard:
  "triple P m (\<lambda>_. Q) E \<Longrightarrow> triple P (bindE m (\<lambda>_. returnE ())) (\<lambda>_. Q) E"
  by (erule triple_bind) (simp add: triple_return)

text \<open>A statement of the view that is between two runs: nothing pending, no failure to report.\<close>

definition has_stmt :: "view \<Rightarrow> prepared_statement \<Rightarrow> string \<Rightarrow> bool" where
  "has_stmt v ps sql \<longleftrightarrow> (\<exists>s. v_stmts v (ps_statement ps) = Some s \<and> st_sql s = sql \<and>
     (st_cursor s = Ready \<or> st_cursor s = Done))"

lemma bound_simps [simp]:
  "v_db (bound h i x s v) = v_db v"
  "v_stmts (bound h i x s v) h' =
     (if h' = h then Some (s\<lparr>st_binds := (st_binds s)(i := x)\<rparr>) else v_stmts v h')"
  by (simp_all add: bound_def)

lemma at_cursor_simps [simp]:
  "v_db (at_cursor h c s v) = v_db v"
  "v_stmts (at_cursor h c s v) h' =
     (if h' = h then Some (s\<lparr>st_cursor := c\<rparr>) else v_stmts v h')"
  by (simp_all add: at_cursor_def)

text \<open>The view with the statement \<open>s\<close> at handle \<open>h\<close> reset and its parameters bound to \<open>b\<close>.\<close>

definition at_binds :: "nat \<Rightarrow> (nat \<Rightarrow> sqlval) \<Rightarrow> stmt \<Rightarrow> view \<Rightarrow> view" where
  "at_binds h b s v = v\<lparr>v_stmts := (v_stmts v)(h \<mapsto> s\<lparr>st_cursor := Ready, st_binds := b\<rparr>)\<rparr>"

lemma at_binds_simps [simp]:
  "v_db (at_binds h b s v) = v_db v"
  "v_stmts (at_binds h b s v) h' =
     (if h' = h then Some (s\<lparr>st_cursor := Ready, st_binds := b\<rparr>) else v_stmts v h')"
  by (simp_all add: at_binds_def)

lemma bound_at_binds [simp]:
  "bound h i x (s\<lparr>st_cursor := Ready, st_binds := b\<rparr>) (at_binds h b s v) = at_binds h (b(i := x)) s v"
  by (simp add: at_binds_def bound_def)

lemma at_cursor_Ready: "at_cursor h Ready s v = at_binds h (st_binds s) s v"
  by (simp add: at_binds_def at_cursor_def)

text \<open>What a step leaves of the other statements.\<close>

definition others_kept :: "nat \<Rightarrow> view \<Rightarrow> view \<Rightarrow> bool" where
  "others_kept h v v' \<longleftrightarrow> (\<forall>h' s'. h' \<noteq> h \<longrightarrow> v_stmts v h' = Some s' \<longrightarrow>
     (undisturbed (st_cursor s') (v_db v) (v_db v') \<longrightarrow> v_stmts v' h' = Some s') \<and>
     (\<exists>c. v_stmts v' h' = Some (s'\<lparr>st_cursor := c\<rparr>)))"

lemma others_keptD:
  "others_kept h v v' \<Longrightarrow> h' \<noteq> h \<Longrightarrow> v_stmts v h' = Some s' \<Longrightarrow>
   undisturbed (st_cursor s') (v_db v) (v_db v') \<Longrightarrow> v_stmts v' h' = Some s'"
  by (simp add: others_kept_def)

text \<open>Running a statement from the start: the documented effect, and nothing else.\<close>

definition ran :: "sql_kind \<Rightarrow> nat \<Rightarrow> stmt \<Rightarrow> view \<Rightarrow> int \<Rightarrow> view \<Rightarrow> bool" where
  "ran k h s v rc v' \<longleftrightarrow> (\<exists>rs. sql_effect k (st_binds s) (v_db v) (v_db v') rs \<and> rc = code_of rs \<and>
     v_stmts v' h = Some (s\<lparr>st_cursor := cursor_of rs\<rparr>)) \<and> others_kept h v v'"

context sqlite3_reliable
begin

abbreviation at_view :: "view \<Rightarrow> 'w \<Rightarrow> bool" where
  "at_view v \<equiv> \<lambda>w. view w = v"

lemma reset_triple:
  assumes "v_stmts v (ps_statement ps) = Some s" and "\<nexists>e. st_cursor s = Failed e"
  shows "triple (at_view v) (PS_reset sq ps)
           (\<lambda>_. at_view (at_binds (ps_statement ps) (st_binds s) s v)) no_throw"
  unfolding PS_reset_def
proof (rule triple_discard, rule triple_call)
  fix w rc w' assume w: "view w = v" and f: "api_reset sq (ps_statement ps) w = (rc, w')"
  have "rc = SQLITE_OK"
    using reset_ok [of w "ps_statement ps" s] assms w f by simp
  then show "\<not> is_error_code rc \<and> view w' = at_binds (ps_statement ps) (st_binds s) s v"
    using reset [OF f, of s] assms(1) w by (simp add: is_error_code_def at_cursor_Ready)
qed

lemma clear_bindings_triple:
  "triple (at_view (at_binds (ps_statement ps) b s v)) (PS_clear_bindings sq ps)
     (\<lambda>_. at_view (at_binds (ps_statement ps) no_binds s v)) no_throw"
  unfolding PS_clear_bindings_def
proof (rule triple_discard, rule triple_call)
  fix w rc w'
  assume w: "view w = at_binds (ps_statement ps) b s v"
    and f: "api_clear_bindings sq (ps_statement ps) w = (rc, w')"
  have "\<not> is_error_code rc"
    using clear_bindings_ok [of w "ps_statement ps"] w f by simp
  then show "\<not> is_error_code rc \<and> view w' = at_binds (ps_statement ps) no_binds s v"
    using clear_bindings [OF f] w by (simp add: at_binds_def)
qed

lemma bind_call_triple:
  assumes "binds_as view f ok enc" and "binds_reliably view f ok"
    and "sql_kind_of (st_sql s) = Some k" and "1 \<le> i \<and> i \<le> parameter_count k" and "ok x"
  shows "triple (at_view (at_binds h b s v)) (bindE (PS_call sq ps (f h i x)) (\<lambda>_. returnE ()))
           (\<lambda>_. at_view (at_binds h (b(i := enc x)) s v)) no_throw"
proof (rule triple_discard, rule triple_call)
  fix w rc w' assume w: "view w = at_binds h b s v" and f: "f h i x w = (rc, w')"
  let ?s = "s\<lparr>st_cursor := Ready, st_binds := b\<rparr>"
  have s: "v_stmts (view w) h = Some ?s" "st_cursor ?s = Ready" "sql_kind_of (st_sql ?s) = Some k"
    using w assms(3) by simp_all
  then have "\<not> is_error_code rc"
    using assms(2,4,5) f unfolding binds_reliably_def by (metis fst_conv)
  moreover from this have "view w' = bound h i (enc x) ?s (view w)"
    using assms(1,5) f s unfolding binds_as_def by fastforce
  ultimately show "\<not> is_error_code rc \<and> view w' = at_binds h (b(i := enc x)) s v"
    by (simp add: w)
qed

lemma bind_text_triple:
  assumes "sql_kind_of (st_sql s) = Some k" and "1 \<le> i \<and> i \<le> parameter_count k" and "clean_id t"
  shows "triple (at_view (at_binds (ps_statement ps) b s v)) (PS_bind_text sq ps i t)
           (\<lambda>_. at_view (at_binds (ps_statement ps) (b(i := Text t)) s v)) no_throw"
  using bind_call_triple [OF bind_text bind_text_ok assms(1,2), of t] assms(3) unfolding PS_bind_text_def
  by (simp add: clean_id_def nul_free_def)

lemma bind_text_triple_any:
  assumes "sql_kind_of (st_sql s) = Some k" and "1 \<le> i \<and> i \<le> parameter_count k" and "nul_free t"
  shows "triple (at_view (at_binds (ps_statement ps) b s v)) (PS_bind_text sq ps i t)
           (\<lambda>_. at_view (at_binds (ps_statement ps) (if t = [] then b else b(i := Text t)) s v)) no_throw"
proof (cases "t = []")
  case True
  then show ?thesis by (simp add: PS_bind_text_def triple_return)
next
  case False
  with assms show ?thesis using bind_text_triple [OF assms(1,2)] by (simp add: clean_id_def nul_free_def)
qed

lemma bind_int_triple:
  assumes "sql_kind_of (st_sql s) = Some k" and "1 \<le> i \<and> i \<le> parameter_count k"
  shows "triple (at_view (at_binds (ps_statement ps) b s v)) (PS_bind_int sq ps i x)
           (\<lambda>_. at_view (at_binds (ps_statement ps) (b(i := Integer (scast x))) s v)) no_throw"
  using bind_call_triple [OF bind_int bind_int_ok assms TrueI] unfolding PS_bind_int_def by simp

lemma bind_int64_triple:
  assumes "sql_kind_of (st_sql s) = Some k" and "1 \<le> i \<and> i \<le> parameter_count k"
  shows "triple (at_view (at_binds (ps_statement ps) b s v)) (PS_bind_int64 sq ps i x)
           (\<lambda>_. at_view (at_binds (ps_statement ps) (b(i := Integer x)) s v)) no_throw"
  using bind_call_triple [OF bind_int64 bind_int64_ok assms TrueI] unfolding PS_bind_int64_def by simp

lemma step_triple:
  assumes "v_stmts v (ps_statement ps) = Some s" and "sql_kind_of (st_sql s) = Some k"
    and "st_cursor s = Ready \<or> st_cursor s = Done" and "sql_effect k (st_binds s) (v_db v) d' rs"
  shows "triple (at_view v) (PS_step sq ps) (\<lambda>rc w. ran k (ps_statement ps) s v rc (view w)) no_throw"
  unfolding PS_step_def
proof (rule triple_call)
  fix w rc w' assume w: "view w = v" and f: "api_step sq (ps_statement ps) w = (rc, w')"
  have "\<not> is_error_code rc"
    using step_run_ok [of w "ps_statement ps" s k d' rs] assms w f by simp
  moreover have "others_kept (ps_statement ps) v (view w')"
    unfolding others_kept_def using step_others [OF f] w by blast
  ultimately show "\<not> is_error_code rc \<and> ran k (ps_statement ps) s v rc (view w')"
    unfolding ran_def using step_run [OF f] assms w by auto
qed

lemma step_next_triple:
  assumes "v_stmts v (ps_statement ps) = Some s" and "st_cursor s = On_row r rs"
  shows "triple (at_view v) (PS_step sq ps)
           (\<lambda>rc w. rc = code_of rs \<and> v_db (view w) = v_db v \<and>
              v_stmts (view w) (ps_statement ps) = Some (s\<lparr>st_cursor := cursor_of rs\<rparr>) \<and>
              others_kept (ps_statement ps) v (view w)) no_throw"
  unfolding PS_step_def
proof (rule triple_call)
  fix w rc w' assume w: "view w = v" and f: "api_step sq (ps_statement ps) w = (rc, w')"
  have "\<not> is_error_code rc"
    using step_next_ok [of w "ps_statement ps" s r rs] assms w f by simp
  moreover have "others_kept (ps_statement ps) v (view w')"
    unfolding others_kept_def using step_others [OF f] w by blast
  ultimately show "\<not> is_error_code rc \<and> rc = code_of rs \<and> v_db (view w') = v_db v \<and>
      v_stmts (view w') (ps_statement ps) = Some (s\<lparr>st_cursor := cursor_of rs\<rparr>) \<and>
      others_kept (ps_statement ps) v (view w')"
    using step_next [OF f] assms w by auto
qed

lemma prepare_triple:
  assumes "sql_kind_of sql = Some k" and "needs_table k \<Longrightarrow> db_table (v_db v) \<noteq> None"
  shows "triple (at_view v) (Database_prepare_tagged_statement sq db sql)
           (\<lambda>ps w. ps_db ps = db \<and> ps_statement ps \<noteq> 0 \<and> v_stmts v (ps_statement ps) = None \<and>
              view w = v\<lparr>v_stmts := (v_stmts v)(ps_statement ps \<mapsto> fresh_stmt sql)\<rparr>) no_throw"
  unfolding triple_def
proof (intro allI impI)
  fix w assume w: "view w = v"
  obtain rc h w' where p: "api_prepare sq db sql w = ((rc, h), w')" by (metis surj_pair)
  have "\<not> is_error_code rc"
    using prepare_ok [of sql k w db] assms w p by auto
  with prepare [OF p assms(1)] w
  show "case Database_prepare_tagged_statement sq db sql w of
      (Inr ps, w) \<Rightarrow> ps_db ps = db \<and> ps_statement ps \<noteq> 0 \<and> v_stmts v (ps_statement ps) = None \<and>
              view w = v\<lparr>v_stmts := (v_stmts v)(ps_statement ps \<mapsto> fresh_stmt sql)\<rparr>
    | (Inl e, w) \<Rightarrow> no_throw e w"
    by (simp add: Database_prepare_tagged_statement_def p is_error_eq PS_new_def)
qed

lemma prepare_statement_eq:
  "Database_prepare_statement sq db sql = Database_prepare_tagged_statement sq db sql"
  by (simp add: Database_prepare_statement_def Database_prepare_tagged_statement_def)

lemma destroy_triple:
  "triple (at_view v) (PS_destroy sq ps)
     (\<lambda>_. at_view (if ps_statement ps = 0 then v
        else v\<lparr>v_stmts := (v_stmts v)(ps_statement ps := None)\<rparr>)) no_throw"
  by (auto simp: triple_def PS_destroy_def finalize)

end

section \<open>The store's invariant and its abstraction\<close>

definition request_of_row :: "row \<Rightarrow> request" where
  "request_of_row r =
     \<lparr>req_from = (case r_ApplicationId r of Text t \<Rightarrow> t | _ \<Rightarrow> ''''),
      req_feature = Feature (case r_Feature r of Integer x \<Rightarrow> scast (ucast x :: int32) | _ \<Rightarrow> 0),
      req_when = (case r_Timestamp r of Integer x \<Rightarrow> x | _ \<Rightarrow> 0),
      req_answer = (case r_Answer r of Integer x \<Rightarrow> ucast x | _ \<Rightarrow> 0)\<rparr>"

text \<open>
  A row the store wrote: a clean application id, features and answers that are sign-extended
  32-bit numbers, a positive id.
\<close>

definition int32_value :: "sqlval \<Rightarrow> bool" where
  "int32_value x \<longleftrightarrow> (\<exists>i :: int32. x = Integer (scast i))"

definition row_ok :: "row \<Rightarrow> bool" where
  "row_ok r \<longleftrightarrow>
     (\<exists>t. r_ApplicationId r = Text t \<and> clean_id t) \<and> int32_value (r_Feature r) \<and>
     (\<exists>x. r_Timestamp r = Integer x) \<and> int32_value (r_Answer r) \<and> 0 < sint (r_Id r)"

text \<open>
  \<^verbatim>\<open>erase\<close> reads the id of a row as a 32-bit number, so the table is only in order while its
  ids fit.
\<close>

definition id_limit :: int where "id_limit = 2 ^ 31"

definition rows_ok :: "row list \<Rightarrow> bool" where
  "rows_ok rows \<longleftrightarrow> (\<forall>r \<in> set rows. row_ok r) \<and> distinct (map r_Id rows) \<and> max_rowid rows < id_limit"

definition store_ok :: "sqlite_store \<Rightarrow> view \<Rightarrow> bool" where
  "store_ok st v \<longleftrightarrow>
     db_table (v_db v) \<noteq> None \<and> rows_ok (table_rows (v_db v)) \<and>
     has_stmt v (delete_statement st) Delete_statement \<and>
     has_stmt v (insert_statement st) Insert_statement \<and>
     has_stmt v (remove_application_statement st) RemoveApplication_statement"

text \<open>Room in the table for \<open>n\<close> more requests.\<close>

definition store_room :: "nat \<Rightarrow> view \<Rightarrow> bool" where
  "store_room n v \<longleftrightarrow> max_rowid (table_rows (v_db v)) + int n < id_limit"

definition store_contents :: "view \<Rightarrow> request multiset" where
  "store_contents v = image_mset request_of_row (mset (table_rows (v_db v)))"

text \<open>The handles of a query are its own.\<close>

definition query_owned :: "sqlite_store \<Rightarrow> query \<Rightarrow> bool" where
  "query_owned st q \<longleftrightarrow>
     ps_statement (q_select_statement q) \<noteq> ps_statement (q_delete_statement q) \<and>
     (\<forall>ps \<in> {q_select_statement q, q_delete_statement q}. ps_statement ps \<noteq> 0 \<and>
        ps_statement ps \<noteq> ps_statement (delete_statement st) \<and>
        ps_statement ps \<noteq> ps_statement (insert_statement st) \<and>
        ps_statement ps \<noteq> ps_statement (remove_application_statement st))"

definition filter_of_binds :: "(nat \<Rightarrow> sqlval) \<Rightarrow> query_filter" where
  "filter_of_binds b =
     \<lparr>f_application = (case b 1 of Text t \<Rightarrow> Some t | _ \<Rightarrow> None),
      f_feature = (case b 2 of Integer x \<Rightarrow> Some (Feature x) | _ \<Rightarrow> None),
      f_interval = (case b 3 of Integer x \<Rightarrow> (case b 4 of Integer y \<Rightarrow> Some (x, y) | _ \<Rightarrow> None) | _ \<Rightarrow> None),
      f_answer = (case b 5 of Integer x \<Rightarrow> Some (ucast x) | _ \<Rightarrow> None)\<rparr>"

definition binds_ok :: "(nat \<Rightarrow> sqlval) \<Rightarrow> bool" where
  "binds_ok b \<longleftrightarrow>
     (b 1 = Null \<or> (\<exists>t. b 1 = Text t)) \<and> (b 2 = Null \<or> (\<exists>x. b 2 = Integer x)) \<and>
     (b 3 = Null \<and> b 4 = Null \<or> (\<exists>x y. b 3 = Integer x \<and> b 4 = Integer y)) \<and>
     (b 5 = Null \<or> int32_value (b 5))"

text \<open>Where a query stands, read off its select statement and its status field.\<close>

fun in_phase :: "phase \<Rightarrow> row list \<Rightarrow> cursor \<Rightarrow> bool" where
  "in_phase Building rows c = (c = Ready)"
| "in_phase (Results rs) rows c =
     (\<exists>sel. c = cursor_of (map columns sel) \<and> rs = map request_of_row sel \<and>
            distinct sel \<and> set sel \<subseteq> set rows)"

definition query_state :: "sqlite_store \<Rightarrow> query \<Rightarrow> view \<Rightarrow> query_filter \<Rightarrow> phase \<Rightarrow> bool" where
  "query_state st q v f p \<longleftrightarrow>
     query_owned st q \<and> has_stmt v (q_delete_statement q) Query_Delete_statement \<and>
     q_status q = phase_status p \<and>
     (\<exists>s. v_stmts v (ps_statement (q_select_statement q)) = Some s \<and>
          st_sql s = Query_Select_statement \<and> binds_ok (st_binds s) \<and>
          f = filter_of_binds (st_binds s) \<and> in_phase p (table_rows (v_db v)) (st_cursor s))"

section \<open>Rows and requests\<close>

lemma columns_nth [simp]:
  "columns r ! 0 = Integer (r_Id r)" "columns r ! Suc 0 = r_ApplicationId r"
  "columns r ! 2 = r_Feature r" "columns r ! 3 = r_Timestamp r" "columns r ! 4 = r_Answer r"
  "length (columns r) = 5"
  by (simp_all add: columns_def)

lemma columns_inject [simp]: "columns r = columns r' \<longleftrightarrow> r = r'"
  by (cases r; cases r') (simp add: columns_def)

lemma request_of_row_simps:
  assumes "row_ok r"
  shows "r_ApplicationId r = Text (req_from (request_of_row r))"
    and "r_Feature r = Integer (feature_value (req_feature (request_of_row r)))"
    and "r_Timestamp r = Integer (req_when (request_of_row r))"
    and "r_Answer r = Integer (scast (req_answer (request_of_row r)))"
    and "clean_id (req_from (request_of_row r))"
  using assms by (auto simp: row_ok_def int32_value_def request_of_row_def)

lemma selects_matches:
  assumes "row_ok r" and "binds_ok b"
  shows "selects b r \<longleftrightarrow> matches (filter_of_binds b) (request_of_row r)"
proof -
  have "ifnull_eq (b 1) (r_ApplicationId r) \<longleftrightarrow>
      opt_eq (f_application (filter_of_binds b)) (req_from (request_of_row r))"
    using assms(2) by (auto simp: request_of_row_simps [OF assms(1)] ifnull_eq_def filter_of_binds_def binds_ok_def)
  moreover have "ifnull_eq (b 2) (r_Feature r) \<longleftrightarrow>
      opt_eq (f_feature (filter_of_binds b)) (req_feature (request_of_row r))"
    using assms(2)
    by (cases "req_feature (request_of_row r)")
      (auto simp: request_of_row_simps [OF assms(1)] ifnull_eq_def filter_of_binds_def binds_ok_def)
  moreover have "ifnull_between (b 3) (b 4) (r_Timestamp r) \<longleftrightarrow>
      in_interval (f_interval (filter_of_binds b)) (req_when (request_of_row r))"
    using assms(2)
    by (auto simp: request_of_row_simps [OF assms(1)] ifnull_between_def filter_of_binds_def binds_ok_def)
  moreover have "ifnull_eq (b 5) (r_Answer r) \<longleftrightarrow>
      opt_eq (f_answer (filter_of_binds b)) (req_answer (request_of_row r))"
    using assms(2)
    by (auto simp: request_of_row_simps [OF assms(1)] ifnull_eq_def filter_of_binds_def binds_ok_def
        int32_value_def)
  ultimately show ?thesis by (simp add: selects_def matches_def)
qed

lemma row_time_request: "row_ok r \<Longrightarrow> row_time r = sint (req_when (request_of_row r))"
  by (simp add: row_time_def request_of_row_simps)

lemma select_result_answers:
  assumes ok: "\<forall>r \<in> set rows. row_ok r" and b: "binds_ok b" and res: "select_result b rows rs"
  shows "answers (filter_of_binds b) (image_mset request_of_row (mset rows)) (map request_of_row rs)"
proof -
  have rs: "mset rs = filter_mset (selects b) (mset rows)"
    using res by (simp add: select_result_def)
  then have sub: "set rs \<subseteq> set rows"
    by (metis filter_is_subset mset_filter set_mset_mset)
  have "filter_mset (selects b) (mset rows) =
      filter_mset (\<lambda>r. matches (filter_of_binds b) (request_of_row r)) (mset rows)"
    using ok b by (intro filter_mset_cong) (auto simp: selects_matches)
  then have "mset (map request_of_row rs) =
      filter_mset (matches (filter_of_binds b)) (image_mset request_of_row (mset rows))"
    by (simp add: rs filter_mset_image_mset)
  moreover have "newest_first (map request_of_row rs)"
    using res sub ok unfolding newest_first_def select_result_def sorted_wrt_map
    by (auto simp: row_time_request subset_iff elim: sorted_wrt_mono_rel [rotated])
  ultimately show ?thesis by (simp add: answers_def)
qed

lemma select_result_subset:
  assumes "distinct (map r_Id rows)" and "select_result b rows rs"
  shows "distinct rs" and "set rs \<subseteq> set rows"
proof -
  have rs: "mset rs = mset (filter (selects b) rows)"
    using assms(2) by (simp add: select_result_def)
  then show "set rs \<subseteq> set rows"
    by (metis filter_is_subset set_mset_mset)
  have "distinct (filter (selects b) rows)"
    using assms(1) by (simp add: distinct_map)
  then show "distinct rs" using rs by (metis mset_eq_imp_distinct_iff)
qed

lemma max_rowid_ge: "r \<in> set rows \<Longrightarrow> sint (r_Id r) \<le> max_rowid rows"
  by (induction rows rule: max_rowid.induct) auto

lemma max_rowid_in: "rows \<noteq> [] \<Longrightarrow> \<exists>r \<in> set rows. max_rowid rows = sint (r_Id r)"
  by (induction rows rule: max_rowid.induct) (auto simp: max_def)

lemma max_rowid_nonneg: "\<forall>r \<in> set rows. row_ok r \<Longrightarrow> 0 \<le> max_rowid rows"
  using max_rowid_in [of rows] by (cases rows) (auto simp: row_ok_def less_imp_le)

lemma max_rowid_mono: "\<forall>r \<in> set rows. row_ok r \<Longrightarrow> set rows' \<subseteq> set rows \<Longrightarrow> max_rowid rows' \<le> max_rowid rows"
  by (cases "rows' = []")
    (use max_rowid_in [of rows'] in \<open>auto simp: max_rowid_nonneg intro!: max_rowid_ge\<close>)

lemma max_rowid_snoc: "max_rowid (rows @ [r]) = (if rows = [] then sint (r_Id r) else max (max_rowid rows) (sint (r_Id r)))"
  by (induction rows rule: max_rowid.induct) auto

text \<open>Deleting rows keeps a table in order.\<close>

lemma rows_ok_filter: "rows_ok rows \<Longrightarrow> rows_ok (filter P rows)"
  using max_rowid_mono [of rows "filter P rows"]
  by (auto simp: rows_ok_def distinct_map inj_on_def)

lemma rows_ok_Nil [simp]: "rows_ok []"
  by (simp add: rows_ok_def id_limit_def)

text \<open>
  The bindings \<^verbatim>\<open>Store::add\<close> makes, and the request a later query reads from the row they become.
  An empty application id is not bound at all, so the binding of an earlier call stays; and only
  the low 32 bits of the feature are kept, sign-extended.
\<close>

definition add_binds :: "(nat \<Rightarrow> sqlval) \<Rightarrow> request \<Rightarrow> nat \<Rightarrow> sqlval" where
  "add_binds b r = (if req_from r = [] then b else b(1 := Text (req_from r)))
     (2 := Integer (scast (ucast (feature_value (req_feature r)) :: int32)),
      3 := Integer (req_when r), 4 := Integer (scast (req_answer r)))"

definition kept_feature :: "feature \<Rightarrow> feature" where
  "kept_feature f = Feature (scast (ucast (feature_value f) :: int32))"

lemma kept_feature_small: "small_feature f \<Longrightarrow> kept_feature f = f"
  by (simp add: kept_feature_def small_feature_def scast_ucast_small)

lemma new_row_request:
  assumes "add_binds b r 1 = Text t"
  shows "request_of_row (new_row rows (add_binds b r)) =
     r\<lparr>req_from := t, req_feature := kept_feature (req_feature r)\<rparr>"
  using assms by (auto simp: request_of_row_def new_row_def add_binds_def kept_feature_def)

lemma clean_binds:
  assumes "clean_id (req_from r)"
  shows "add_binds b r 1 = Text (req_from r)" and "nul_free (req_from r)"
  using assms by (auto simp: add_binds_def clean_id_def nul_free_def)

lemma rows_ok_new_row:
  assumes ok: "rows_ok rows" and room: "max_rowid rows + 1 < id_limit"
    and "add_binds b r 1 = Text t" and "clean_id t"
  shows "rows_ok (rows @ [new_row rows (add_binds b r)])"
proof -
  let ?n = "new_row rows (add_binds b r)"
  have rows: "\<forall>r \<in> set rows. row_ok r" using ok by (simp add: rows_ok_def)
  then have pos: "0 \<le> max_rowid rows" by (rule max_rowid_nonneg)
  have n: "sint (r_Id ?n) = max_rowid rows + 1"
    using room pos sint_word_of_int_small [of "max_rowid rows + 1"]
    by (simp add: new_row_def id_limit_def)
  then have "r_Id ?n \<notin> r_Id ` set rows"
    using max_rowid_ge by fastforce
  moreover have "row_ok ?n"
    using assms(3,4) pos n by (auto simp: row_ok_def new_row_def add_binds_def int32_value_def)
  moreover have "max_rowid (rows @ [?n]) < id_limit"
    using n room by (auto simp: max_rowid_snoc)
  ultimately show ?thesis using ok by (auto simp: rows_ok_def)
qed

section \<open>Frames\<close>

text \<open>A view changed at one handle only, and then a step of that handle.\<close>

definition only_at :: "nat \<Rightarrow> view \<Rightarrow> view \<Rightarrow> bool" where
  "only_at h v v0 \<longleftrightarrow> v_db v0 = v_db v \<and> (\<forall>h'. h' \<noteq> h \<longrightarrow> v_stmts v0 h' = v_stmts v h')"

lemma only_at_refl [simp]: "only_at h v v"
  by (simp add: only_at_def)

lemma only_at_binds [simp]: "only_at h v (at_binds h b s v)"
  by (simp add: only_at_def)

lemma has_stmt_step:
  assumes "has_stmt v ps sql" and "only_at h v v0" and "others_kept h v0 v'"
    and "ps_statement ps = h \<Longrightarrow> has_stmt v' ps sql"
  shows "has_stmt v' ps sql"
proof (cases "ps_statement ps = h")
  case False
  with assms(1,2) obtain s where s: "v_stmts v0 (ps_statement ps) = Some s" "st_sql s = sql"
    "st_cursor s = Ready \<or> st_cursor s = Done"
    by (auto simp: has_stmt_def only_at_def)
  then have "v_stmts v' (ps_statement ps) = Some s"
    using others_keptD [OF assms(3) False] by auto
  with s show ?thesis by (auto simp: has_stmt_def)
qed (use assms(4) in simp)

lemma store_ok_step:
  assumes ok: "store_ok st v" and at: "only_at h v v0" and kept: "others_kept h v0 v'"
    and tab: "db_table (v_db v') = Some rows'" "rows_ok rows'"
    and h: "\<And>ps sql. ps \<in> {delete_statement st, insert_statement st, remove_application_statement st} \<Longrightarrow>
      ps_statement ps = h \<Longrightarrow> has_stmt v ps sql \<Longrightarrow> has_stmt v' ps sql"
  shows "store_ok st v'"
  using ok tab has_stmt_step [OF _ at kept] h by (auto simp: store_ok_def)

text \<open>The three statements of the store that change the table never yield rows.\<close>

lemma has_stmt_done:
  "v_stmts v h = Some s \<Longrightarrow> v_stmts v' h = Some s' \<Longrightarrow> st_sql s' = st_sql s \<Longrightarrow> st_cursor s' = Done \<Longrightarrow>
   ps_statement ps = h \<Longrightarrow> has_stmt v ps sql \<Longrightarrow> has_stmt v' ps sql"
  by (auto simp: has_stmt_def)

definition sqlite_vtable :: "'w sqlite3_api \<Rightarrow> sqlite_store \<Rightarrow> ('w, query) store_vtable" where
  "sqlite_vtable sq st =
     \<lparr>vt_reset = Store_reset sq st,
      vt_add = Store_add sq st,
      vt_remove_application = Store_remove_application sq st,
      vt_query = Store_query sq st,
      vt_status = Query_status,
      vt_for_application_id = Query_for_application_id sq,
      vt_for_feature = Query_for_feature sq,
      vt_for_interval = Query_for_interval sq,
      vt_for_answer = Query_for_answer sq,
      vt_all = Query_all sq,
      vt_execute = Query_execute sq,
      vt_next = Query_next sq,
      vt_erase = Query_erase sq,
      vt_current = Query_current sq,
      vt_destroy_query = Query_destroy sq\<rparr>"

section \<open>Operations of the store\<close>

context sqlite3_reliable
begin

text \<open>A statement that yields no rows, run with its parameters bound.\<close>

lemma run_triple_raw:
  assumes "sql_kind_of (st_sql s) = Some k" and "sql_effect k b (v_db v) d' []"
    and det: "\<And>d'' rs. sql_effect k b (v_db v) d'' rs \<Longrightarrow> d'' = d' \<and> rs = []"
  shows "triple (at_view (at_binds (ps_statement ps) b s v))
           (bindE (PS_step sq ps) (\<lambda>_. returnE ()))
           (\<lambda>_ w. v_db (view w) = d' \<and>
              v_stmts (view w) (ps_statement ps) = Some (s\<lparr>st_cursor := Done, st_binds := b\<rparr>) \<and>
              others_kept (ps_statement ps) (at_binds (ps_statement ps) b s v) (view w)) no_throw"
proof (rule triple_discard, rule triple_weaken)
  let ?v0 = "at_binds (ps_statement ps) b s v" and ?s0 = "s\<lparr>st_cursor := Ready, st_binds := b\<rparr>"
  show "triple (at_view ?v0) (PS_step sq ps) (\<lambda>rc w. ran k (ps_statement ps) ?s0 ?v0 rc (view w)) no_throw"
    by (rule step_triple [where d' = d' and rs = "[]"]) (simp_all add: assms(1,2))
  show "v_db (view w) = d' \<and>
      v_stmts (view w) (ps_statement ps) = Some (s\<lparr>st_cursor := Done, st_binds := b\<rparr>) \<and>
      others_kept (ps_statement ps) ?v0 (view w)"
    if ran: "ran k (ps_statement ps) ?s0 ?v0 rc (view w)" for rc w
  proof -
    from ran obtain rs where e: "sql_effect k b (v_db v) (v_db (view w)) rs"
      and "v_stmts (view w) (ps_statement ps) = Some (?s0\<lparr>st_cursor := cursor_of rs\<rparr>)"
      and "others_kept (ps_statement ps) ?v0 (view w)"
      by (auto simp: ran_def)
    with det [OF e] show ?thesis by simp
  qed
qed simp_all

lemma run_triple:
  assumes s: "v_stmts v (ps_statement ps) = Some s" "sql_kind_of (st_sql s) = Some k"
    and eff: "sql_effect k b (v_db v) d' []"
    and det: "\<And>d'' rs. sql_effect k b (v_db v) d'' rs \<Longrightarrow> d'' = d' \<and> rs = []"
    and ok: "store_ok st v" and tab: "db_table d' = Some rows'" "rows_ok rows'"
  shows "triple (at_view (at_binds (ps_statement ps) b s v))
           (block [bindE (PS_step sq ps) (\<lambda>_. returnE ())])
           (\<lambda>_ w. store_ok st (view w) \<and> v_db (view w) = d' \<and>
              v_stmts (view w) (ps_statement ps) = Some (s\<lparr>st_cursor := Done, st_binds := b\<rparr>)) no_throw"
proof (rule triple_block_Cons [OF triple_weaken [OF run_triple_raw [OF s(2) eff det]] triple_block_Nil])
  fix w assume w: "v_db (view w) = d' \<and>
      v_stmts (view w) (ps_statement ps) = Some (s\<lparr>st_cursor := Done, st_binds := b\<rparr>) \<and>
      others_kept (ps_statement ps) (at_binds (ps_statement ps) b s v) (view w)"
  then have st: "v_stmts (view w) (ps_statement ps) = Some (s\<lparr>st_cursor := Done, st_binds := b\<rparr>)"
    by blast
  have "store_ok st (view w)"
    by (rule store_ok_step [OF ok only_at_binds _ _ tab(2)])
      (use w tab(1) in \<open>auto intro: has_stmt_done [OF s(1) st]\<close>)
  with w show "store_ok st (view w) \<and> v_db (view w) = d' \<and>
      v_stmts (view w) (ps_statement ps) = Some (s\<lparr>st_cursor := Done, st_binds := b\<rparr>)" by simp
qed simp_all

lemma Store_add_triple_any:
  assumes ok: "store_ok st v" and room: "store_room 1 v" and nul: "nul_free (req_from r)"
    and s: "v_stmts v (ps_statement (insert_statement st)) = Some s"
    and t: "add_binds (st_binds s) r 1 = Text t" "clean_id t"
  shows "triple (at_view v) (Store_add sq st r)
    (\<lambda>_ w. store_ok st (view w) \<and>
       store_contents (view w) =
         add_mset (r\<lparr>req_from := t, req_feature := kept_feature (req_feature r)\<rparr>) (store_contents v) \<and>
       v_stmts (view w) (ps_statement (insert_statement st)) =
         Some (s\<lparr>st_cursor := Done, st_binds := add_binds (st_binds s) r\<rparr>) \<and>
       db_table (v_db (view w)) =
         Some (table_rows (v_db v) @ [new_row (table_rows (v_db v)) (add_binds (st_binds s) r)])) no_throw"
proof -
  obtain rows where sql: "st_sql s = Insert_statement" "\<nexists>e. st_cursor s = Failed e"
    and rows: "db_table (v_db v) = Some rows" "rows_ok rows" "max_rowid rows + 1 < id_limit"
    using ok room s by (auto simp: store_ok_def has_stmt_def store_room_def)
  have k: "sql_kind_of (st_sql s) = Some Insert_request" by (simp add: sql)
  let ?b = "add_binds (st_binds s) r" and ?h = "ps_statement (insert_statement st)"
  have lim: "max_rowid rows < rowid_bound" using rows(3) by (simp add: id_limit_def rowid_bound_def)
  let ?d = "(v_db v)\<lparr>db_table := Some (rows @ [new_row rows ?b])\<rparr>"
  have eff: "sql_effect Insert_request ?b (v_db v) d rs \<longleftrightarrow> d = ?d \<and> rs = []" for d rs
    using rows(1) lim t(1) by (auto simp: sql_effect_simps)
  have run: "triple (at_view (at_binds ?h ?b s v))
      (block [bindE (PS_step sq (insert_statement st)) (\<lambda>_. returnE ())])
      (\<lambda>_ w. store_ok st (view w) \<and> v_db (view w) = ?d \<and>
         v_stmts (view w) ?h = Some (s\<lparr>st_cursor := Done, st_binds := ?b\<rparr>)) no_throw"
    by (rule run_triple [OF s k])
      (use eff ok rows_ok_new_row [OF rows(2,3) t] in auto)
  have "triple (at_view v) (Store_add sq st r)
      (\<lambda>_ w. store_ok st (view w) \<and> v_db (view w) = ?d \<and>
         v_stmts (view w) ?h = Some (s\<lparr>st_cursor := Done, st_binds := ?b\<rparr>)) no_throw"
    unfolding Store_add_def column_indices
    by (intro triple_block_Cons [OF reset_triple [OF s sql(2)]]
        triple_block_Cons [OF bind_text_triple_any [OF k _ nul]]
        triple_block_Cons [OF bind_int_triple [OF k]] triple_block_Cons [OF bind_int64_triple [OF k]])
      (use run in \<open>simp_all add: add_binds_def del: block.simps\<close>)
  then show ?thesis
    by (rule triple_weaken)
      (use rows in \<open>auto simp: store_contents_def new_row_request [OF t(1)]\<close>)
qed

lemma Store_add_triple:
  assumes ok: "store_ok st v" and room: "store_room (Suc n) v" and r: "clean_id (req_from r)"
  shows "triple (at_view v) (Store_add sq st r)
    (\<lambda>_ w. store_ok st (view w) \<and> store_room n (view w) \<and>
       store_contents (view w) = add_mset (r\<lparr>req_feature := kept_feature (req_feature r)\<rparr>) (store_contents v))
    no_throw"
proof -
  obtain s where s: "v_stmts v (ps_statement (insert_statement st)) = Some s"
    using ok by (auto simp: store_ok_def has_stmt_def)
  let ?rows = "table_rows (v_db v)"
  have room1: "store_room 1 v" using room by (simp add: store_room_def)
  have pos: "0 \<le> max_rowid ?rows" using ok by (auto simp: store_ok_def rows_ok_def intro: max_rowid_nonneg)
  have "sint (r_Id (new_row ?rows b)) = max_rowid ?rows + 1" for b
    using pos room1 sint_word_of_int_small [of "max_rowid ?rows + 1"]
    by (simp add: new_row_def store_room_def id_limit_def)
  then have fits: "db_table (v_db v') = Some (?rows @ [new_row ?rows b]) \<Longrightarrow> store_room n v'" for v' b
    using room by (auto simp: store_room_def table_rows_def max_rowid_snoc)
  show ?thesis
    by (rule triple_weaken [OF Store_add_triple_any [OF ok room1 _ s, where r = r]])
      (use clean_binds [OF r] r fits in auto)
qed

lemma Store_remove_application_triple:
  assumes ok: "store_ok st v" and i: "clean_id i"
  shows "triple (at_view v) (Store_remove_application sq st i)
    (\<lambda>_ w. store_ok st (view w) \<and>
       store_contents (view w) = filter_mset (\<lambda>r. req_from r \<noteq> i) (store_contents v)) no_throw"
proof -
  obtain s rows where s: "v_stmts v (ps_statement (remove_application_statement st)) = Some s"
    "st_sql s = RemoveApplication_statement" "\<nexists>e. st_cursor s = Failed e"
    and rows: "db_table (v_db v) = Some rows" "rows_ok rows"
    using ok by (auto simp: store_ok_def has_stmt_def)
  have k: "sql_kind_of (st_sql s) = Some Delete_application" by (simp add: s(2))
  let ?b = "(st_binds s)(1 := Text i)" and ?rows = "filter (\<lambda>r. r_ApplicationId r \<noteq> Text i) rows"
  let ?d = "(v_db v)\<lparr>db_table := Some ?rows\<rparr>"
  have "triple (at_view (at_binds (ps_statement (remove_application_statement st)) ?b s v))
      (block [bindE (PS_step sq (remove_application_statement st)) (\<lambda>_. returnE ())])
      (\<lambda>_ w. store_ok st (view w) \<and> v_db (view w) = ?d) no_throw"
    by (rule triple_weaken [OF run_triple [OF s(1) k _ _ ok _ rows_ok_filter [OF rows(2)]]])
      (use rows in \<open>auto simp: sql_effect_simps\<close>)
  then have "triple (at_view v) (Store_remove_application sq st i)
      (\<lambda>_ w. store_ok st (view w) \<and> v_db (view w) = ?d) no_throw"
    unfolding Store_remove_application_def parameter_indices
    by (intro triple_block_Cons [OF reset_triple [OF s(1,3)]]
        triple_block_Cons [OF bind_text_triple [OF k _ i]]) (simp_all del: block.simps)
  moreover have "image_mset request_of_row (mset ?rows) =
      filter_mset (\<lambda>r. req_from r \<noteq> i) (image_mset request_of_row (mset rows))"
    using rows(2)
    by (auto simp: rows_ok_def filter_mset_image_mset request_of_row_simps
        intro!: arg_cong [where f = "image_mset request_of_row"] filter_mset_cong)
  ultimately show ?thesis
    by (elim triple_weaken) (use rows in \<open>auto simp: store_contents_def\<close>)
qed

lemma Store_reset_triple:
  assumes ok: "store_ok st v"
  shows "triple (at_view v) (Store_reset sq st)
    (\<lambda>_ w. store_ok st (view w) \<and> store_contents (view w) = {#}) no_throw"
proof -
  obtain s rows where s: "v_stmts v (ps_statement (delete_statement st)) = Some s"
    "st_sql s = Delete_statement" "\<nexists>e. st_cursor s = Failed e"
    and rows: "db_table (v_db v) = Some rows"
    using ok by (auto simp: store_ok_def has_stmt_def)
  have k: "sql_kind_of (st_sql s) = Some Delete_all" by (simp add: s(2))
  let ?d = "(v_db v)\<lparr>db_table := Some []\<rparr>"
  have "triple (at_view (at_binds (ps_statement (delete_statement st)) (st_binds s) s v))
      (block [bindE (PS_step sq (delete_statement st)) (\<lambda>_. returnE ())])
      (\<lambda>_ w. store_ok st (view w) \<and> v_db (view w) = ?d) no_throw"
    by (rule triple_weaken [OF run_triple [OF s(1) k, where d' = ?d and rows' = "[]"]])
      (use rows ok in \<open>auto simp: sql_effect_simps\<close>)
  then have "triple (at_view v) (Store_reset sq st)
      (\<lambda>_ w. store_ok st (view w) \<and> v_db (view w) = ?d) no_throw"
    unfolding Store_reset_def
    by (intro triple_catch_total triple_block_Cons [OF reset_triple [OF s(1,3)]])
  then show ?thesis by (rule triple_weaken) (auto simp: store_contents_def)
qed

end

section \<open>Operations of a query\<close>

lemma query_act_apply: "query_act f (q, w) = (case f q w of (r, w') \<Rightarrow> (r, (q, w')))"
  by (simp add: query_act_def)

lemma query_totalE:
  assumes "triple P (f q) Q no_throw" and "P w"
  obtains x w' where "query_act f (q, w) = (Inr x, (q, w'))" and "Q x w'"
  using triple_totalE [OF assms] by (metis (no_types, lifting) case_prod_conv query_act_apply)

lemma cursor_of_no_failure [simp]: "cursor_of rs \<noteq> Failed e" "Failed e \<noteq> cursor_of rs"
  "cursor_of rs \<noteq> Ready"
  by (cases rs; simp)+

lemma store_ok_only_at:
  assumes "store_ok st v" and "query_owned st q"
  shows "store_ok st (at_binds (ps_statement (q_select_statement q)) b s v)"
  using assms by (auto simp: store_ok_def has_stmt_def query_owned_def)

lemma store_contents_db: "v_db v' = v_db v \<Longrightarrow> store_contents v' = store_contents v"
  by (simp add: store_contents_def)

lemma store_room_db: "v_db v' = v_db v \<Longrightarrow> store_room n v' = store_room n v"
  by (simp add: store_room_def)

text \<open>Binding a parameter of the select statement of a query that is being built.\<close>

lemma query_state_binds:
  assumes "query_state st q v f Building" and "v_stmts v (ps_statement (q_select_statement q)) = Some s"
    and "binds_ok b"
  shows "query_state st q (at_binds (ps_statement (q_select_statement q)) b s v) (filter_of_binds b) Building"
  using assms by (auto simp: query_state_def has_stmt_def query_owned_def)

lemma query_stateD:
  assumes "query_state st q v f p"
  obtains s where "v_stmts v (ps_statement (q_select_statement q)) = Some s"
    and "st_sql s = Query_Select_statement" and "binds_ok (st_binds s)"
    and "f = filter_of_binds (st_binds s)" and "in_phase p (table_rows (v_db v)) (st_cursor s)"
    and "\<nexists>e. st_cursor s = Failed e" and "query_owned st q"
    and "has_stmt v (q_delete_statement q) Query_Delete_statement" and "q_status q = phase_status p"
proof -
  have "\<nexists>e. c = Failed e" if "in_phase p rows c" for rows c
    using that by (cases p) auto
  with assms show ?thesis unfolding query_state_def using that by blast
qed

lemma at_binds_self:
  "v_stmts v h = Some s \<Longrightarrow> st_cursor s = Ready \<Longrightarrow> at_binds h (st_binds s) s v = v"
  by (simp add: at_binds_def fun_upd_idem)

lemma filter_of_binds_update:
  "filter_of_binds (b(1 := Text t)) = (filter_of_binds b)\<lparr>f_application := Some t\<rparr>"
  "filter_of_binds (b(2 := Integer x)) = (filter_of_binds b)\<lparr>f_feature := Some (Feature x)\<rparr>"
  "filter_of_binds (b(3 := Integer x, 4 := Integer y)) = (filter_of_binds b)\<lparr>f_interval := Some (x, y)\<rparr>"
  "filter_of_binds (b(5 := Integer (scast a))) = (filter_of_binds b)\<lparr>f_answer := Some a\<rparr>"
  "filter_of_binds no_binds = no_filter"
  by (simp_all add: filter_of_binds_def no_binds_def no_filter_def cong: sqlval.case_cong)

lemma binds_ok_update:
  "binds_ok b \<Longrightarrow> binds_ok (b(1 := Text t))"
  "binds_ok b \<Longrightarrow> binds_ok (b(2 := Integer x))"
  "binds_ok b \<Longrightarrow> binds_ok (b(3 := Integer x, 4 := Integer y))"
  "binds_ok b \<Longrightarrow> binds_ok (b(5 := Integer (scast (a :: int32))))"
  "binds_ok no_binds"
  by (auto simp: binds_ok_def no_binds_def int32_value_def)

lemma query_owned_status [simp]: "query_owned st (q\<lparr>q_status := x\<rparr>) = query_owned st q"
  by (simp add: query_owned_def)

lemma Query_step_eq:
  "query_act (\<lambda>q. PS_step sq (q_select_statement q)) (q, w) = (Inr (code_of cs), (q, w')) \<Longrightarrow>
   Query_step sq (q, w) =
     (Inr (), (q\<lparr>q_status := (if cs = [] then eor else has_more_results)\<rparr>, w'))"
  by (cases cs) (simp_all add: Query_step_def bindE_apply set_status_def sqlite_codes)

text \<open>A step of the select statement does not touch the store's own statements.\<close>

lemma store_ok_select_step:
  assumes "store_ok st v" and "query_owned st q"
    and "only_at (ps_statement (q_select_statement q)) v v0"
    and "others_kept (ps_statement (q_select_statement q)) v0 v'" and "v_db v' = v_db v"
  shows "store_ok st v'"
proof -
  obtain rows where "db_table (v_db v') = Some rows" and "rows_ok rows"
    using assms(1,5) by (auto simp: store_ok_def)
  then show ?thesis
    by (rule store_ok_step [OF assms(1,3,4)]) (use assms(2) in \<open>auto simp: query_owned_def\<close>)
qed

lemma mset_filter_key:
  assumes "distinct (map g xs)" and "x \<in> set xs"
  shows "mset (filter (\<lambda>y. g y \<noteq> g x) xs) = mset xs - {#x#}"
proof -
  from assms(2) obtain ys zs where xs: "xs = ys @ x # zs" by (meson split_list)
  with assms(1) have "filter (\<lambda>y. g y \<noteq> g x) ys = ys" and "filter (\<lambda>y. g y \<noteq> g x) zs = zs"
    by (auto simp: filter_id_conv image_iff)
  then show ?thesis by (simp add: xs)
qed

context sqlite3_reliable
begin

lemma query_bind:
  assumes ok: "store_ok st (view w)" and qs: "query_state st q (view w) f Building"
    and m: "\<And>s v. st_sql s = Query_Select_statement \<Longrightarrow>
      triple (at_view (at_binds (ps_statement (q_select_statement q)) (st_binds s) s v)) (m q)
        (\<lambda>_. at_view (at_binds (ps_statement (q_select_statement q)) (g (st_binds s)) s v)) no_throw"
    and g: "\<And>b. binds_ok b \<Longrightarrow> binds_ok (g b) \<and> filter_of_binds (g b) = F (filter_of_binds b)"
  shows "\<exists>q' w'. query_act m (q, w) = (Inr (), (q', w')) \<and> store_ok st (view w') \<and>
      store_contents (view w') = store_contents (view w) \<and>
      (\<forall>n. store_room n (view w) \<longrightarrow> store_room n (view w')) \<and> (query_owned st q \<longrightarrow> query_owned st q') \<and>
      query_state st q' (view w') (F f) Building"
proof -
  let ?h = "ps_statement (q_select_statement q)"
  obtain s where s: "v_stmts (view w) ?h = Some s" "st_sql s = Query_Select_statement"
    "binds_ok (st_binds s)" "f = filter_of_binds (st_binds s)" "st_cursor s = Ready" "query_owned st q"
    using qs by (auto elim: query_stateD)
  have "triple (at_view (view w)) (m q)
      (\<lambda>_. at_view (at_binds ?h (g (st_binds s)) s (view w))) no_throw"
    using m [OF s(2), of "view w"] at_binds_self [OF s(1,5)] by simp
  then obtain w' where "query_act m (q, w) = (Inr (), (q, w'))"
    and w': "view w' = at_binds ?h (g (st_binds s)) s (view w)"
    by (rule query_totalE [where f = m and q = q, OF _ refl]) simp
  moreover have "query_state st q (view w') (F f) Building"
    using query_state_binds [OF qs s(1), of "g (st_binds s)"] g [OF s(3)] s(4) w' by simp
  ultimately show ?thesis
    using store_ok_only_at [OF ok s(6)] w' by (auto simp: store_contents_def store_room_def)
qed

lemma query_ran_select:
  assumes ok: "store_ok st v" and own: "query_owned st q"
    and s: "st_sql s = Query_Select_statement" "binds_ok (st_binds s)"
    and del: "has_stmt v (q_delete_statement q) Query_Delete_statement"
    and rows: "db_table (v_db v) = Some rows" "rows_ok rows"
    and v0: "v0 = at_binds (ps_statement (q_select_statement q)) (st_binds s) s v"
    and ran: "ran Select_requests (ps_statement (q_select_statement q))
      (s\<lparr>st_cursor := Ready, st_binds := st_binds s\<rparr>) v0 rc (view w')"
  shows "\<exists>sel. rc = code_of (map columns sel) \<and> store_ok st (view w') \<and> v_db (view w') = v_db v \<and>
      query_state st (q\<lparr>q_status := phase_status (Results (map request_of_row sel))\<rparr>) (view w')
        (filter_of_binds (st_binds s)) (Results (map request_of_row sel)) \<and>
      answers (filter_of_binds (st_binds s)) (store_contents v) (map request_of_row sel)"
proof -
  let ?h = "ps_statement (q_select_statement q)"
  from ran obtain rs where rs: "sql_effect Select_requests (st_binds s) (v_db v) (v_db (view w')) rs"
      "rc = code_of rs" "v_stmts (view w') ?h = Some (s\<lparr>st_cursor := cursor_of rs\<rparr>)"
    and kept: "others_kept ?h v0 (view w')"
    by (auto simp: ran_def v0)
  from rs(1) rows(1) obtain sel where sel: "select_result (st_binds s) rows sel" "rs = map columns sel"
    and db: "v_db (view w') = v_db v"
    by (auto simp: sql_effect_simps)
  have at: "only_at ?h v v0" by (simp add: v0)
  have "has_stmt (view w') (q_delete_statement q) Query_Delete_statement"
    by (rule has_stmt_step [OF del at kept]) (use own in \<open>auto simp: query_owned_def\<close>)
  moreover have "store_ok st (view w')"
    by (rule store_ok_select_step [OF ok own at kept db])
  moreover have "answers (filter_of_binds (st_binds s)) (store_contents v) (map request_of_row sel)"
    using select_result_answers [OF _ s(2) sel(1)] rows by (simp add: store_contents_def rows_ok_def)
  moreover have "in_phase (Results (map request_of_row sel)) (table_rows (v_db (view w')))
      (cursor_of (map columns sel))"
    using select_result_subset [OF _ sel(1)] rows db by (auto simp: rows_ok_def)
  ultimately show ?thesis
    using sel(2) rs(2,3) db own s by (intro exI [where x = sel]) (simp add: query_state_def)
qed

lemma Query_execute_law:
  assumes ok: "store_ok st (view w)" and qs: "query_state st q (view w) f p"
  shows "\<exists>q' w' rs. Query_execute sq (q, w) = (Inr (), (q', w')) \<and> store_ok st (view w') \<and>
      store_contents (view w') = store_contents (view w) \<and>
      (\<forall>n. store_room n (view w) \<longrightarrow> store_room n (view w')) \<and> (query_owned st q \<longrightarrow> query_owned st q') \<and>
      query_state st q' (view w') f (Results rs) \<and> answers f (store_contents (view w)) rs"
proof -
  let ?ps = "q_select_statement q" and ?h = "ps_statement (q_select_statement q)"
  obtain s where s: "v_stmts (view w) ?h = Some s" "st_sql s = Query_Select_statement"
    "binds_ok (st_binds s)" "f = filter_of_binds (st_binds s)" "\<nexists>e. st_cursor s = Failed e"
    and own: "query_owned st q" and del: "has_stmt (view w) (q_delete_statement q) Query_Delete_statement"
    using qs by (auto elim: query_stateD)
  obtain rows where rows: "db_table (v_db (view w)) = Some rows" "rows_ok rows"
    using ok by (auto simp: store_ok_def)
  let ?v0 = "at_binds ?h (st_binds s) s (view w)" and ?s0 = "s\<lparr>st_cursor := Ready, st_binds := st_binds s\<rparr>"
  obtain w1 where w1: "query_act (\<lambda>q. PS_reset sq (q_select_statement q)) (q, w) = (Inr (), (q, w1))"
    "view w1 = ?v0"
    by (rule query_totalE [where f = "\<lambda>q. PS_reset sq (q_select_statement q)" and q = q,
          OF reset_triple [OF s(1,5)] refl]) auto
  have "\<exists>sel. select_result (st_binds s) rows sel"
    by (rule exI [where x = "sort_key (\<lambda>r. - row_time r) (filter (selects (st_binds s)) rows)"])
      (auto simp: select_result_def intro!: sorted_wrt_mono_rel [OF _ sorted_sort_key [unfolded sorted_map]])
  then obtain sel0 where "sql_effect Select_requests (st_binds s) (v_db (view w)) (v_db (view w)) (map columns sel0)"
    using rows by (auto intro: sql_effect.select_requests)
  then have tr: "triple (at_view ?v0) (PS_step sq ?ps) (\<lambda>rc w. ran Select_requests ?h ?s0 ?v0 rc (view w)) no_throw"
    by (intro step_triple) (auto simp: s(2))
  obtain rc w2 where w2: "query_act (\<lambda>q. PS_step sq (q_select_statement q)) (q, w1) = (Inr rc, (q, w2))"
    "ran Select_requests ?h ?s0 ?v0 rc (view w2)"
    by (rule query_totalE [where f = "\<lambda>q. PS_step sq (q_select_statement q)" and q = q, OF tr w1(2)])
  from query_ran_select [OF ok own s(2,3) del rows refl w2(2)] obtain sel where
    sel: "rc = code_of (map columns sel)" "store_ok st (view w2)" "v_db (view w2) = v_db (view w)"
      "query_state st (q\<lparr>q_status := phase_status (Results (map request_of_row sel))\<rparr>) (view w2)
        f (Results (map request_of_row sel))"
      "answers f (store_contents (view w)) (map request_of_row sel)"
    using s(4) by blast
  have "phase_status (Results (map request_of_row sel)) =
      (if map columns sel = [] then eor else has_more_results)"
    by (cases sel) simp_all
  then have "Query_execute sq (q, w) =
      (Inr (), (q\<lparr>q_status := phase_status (Results (map request_of_row sel))\<rparr>, w2))"
    using Query_step_eq [OF w2(1) [unfolded sel(1)]] w1(1) by (simp add: Query_execute_def bindE_apply)
  then show ?thesis
    using sel(2,4,5) own store_contents_db [OF sel(3)] store_room_db [OF sel(3)]
    by (intro exI conjI) (assumption | simp)+
qed

end

end
