(* ===== verification/Sqlite_Query_Laws.thy ===== *)
theory Sqlite_Query_Laws
  imports Sqlite_Store_Laws
begin

text \<open>
  The operations of \<^verbatim>\<open>Query\<close> keep the contract too, which completes the refinement: the SQLite
  store is a \<open>trust_store\<close>.
\<close>

lemma select_parameters:
  "Select_Parameter_ApplicationId = 1" "Select_Parameter_Feature = 2" "Select_Parameter_LowerBound = 3"
  "Select_Parameter_UpperBound = 4" "Select_Parameter_Answer = 5"
  by (simp_all add: parameter_indices)

lemma Query_status_law: "query_state st q v f p \<Longrightarrow> Query_status (q, w) = (Inr (phase_status p), (q, w))"
  by (simp add: Query_status_def query_state_def)

context sqlite3_reliable
begin

lemma Query_for_application_id_law:
  assumes ok: "store_ok st (view w)" and qs: "query_state st q (view w) f Building" and i: "clean_id i"
  shows "\<exists>q' w'. Query_for_application_id sq i (q, w) = (Inr (), (q', w')) \<and> store_ok st (view w') \<and>
      store_contents (view w') = store_contents (view w) \<and>
      (\<forall>n. store_room n (view w) \<longrightarrow> store_room n (view w')) \<and> (query_owned st q \<longrightarrow> query_owned st q') \<and>
      query_state st q' (view w') (f\<lparr>f_application := Some i\<rparr>) Building"
  unfolding Query_for_application_id_def
proof (rule query_bind [OF ok qs, where g = "\<lambda>b. b(1 := Text i)"])
  fix s :: stmt and v assume "st_sql s = Query_Select_statement"
  then have k: "sql_kind_of (st_sql s) = Some Select_requests" by simp
  show "triple (at_view (at_binds (ps_statement (q_select_statement q)) (st_binds s) s v))
      (PS_bind_text sq (q_select_statement q) Select_Parameter_ApplicationId i)
      (\<lambda>_. at_view (at_binds (ps_statement (q_select_statement q)) ((st_binds s)(1 := Text i)) s v)) no_throw"
    unfolding select_parameters by (rule bind_text_triple [OF k _ i]) simp
qed (simp add: binds_ok_update filter_of_binds_update del: One_nat_def)

lemma Query_for_feature_law:
  assumes ok: "store_ok st (view w)" and qs: "query_state st q (view w) f Building"
  shows "\<exists>q' w'. Query_for_feature sq ft (q, w) = (Inr (), (q', w')) \<and> store_ok st (view w') \<and>
      store_contents (view w') = store_contents (view w) \<and>
      (\<forall>n. store_room n (view w) \<longrightarrow> store_room n (view w')) \<and> (query_owned st q \<longrightarrow> query_owned st q') \<and>
      query_state st q' (view w') (f\<lparr>f_feature := Some ft\<rparr>) Building"
  unfolding Query_for_feature_def
proof (rule query_bind [OF ok qs, where g = "\<lambda>b. b(2 := Integer (feature_value ft))"])
  fix s :: stmt and v assume "st_sql s = Query_Select_statement"
  then have k: "sql_kind_of (st_sql s) = Some Select_requests" by simp
  show "triple (at_view (at_binds (ps_statement (q_select_statement q)) (st_binds s) s v))
      (PS_bind_int64 sq (q_select_statement q) Select_Parameter_Feature (feature_value ft))
      (\<lambda>_. at_view (at_binds (ps_statement (q_select_statement q))
          ((st_binds s)(2 := Integer (feature_value ft))) s v)) no_throw"
    unfolding select_parameters by (rule bind_int64_triple [OF k]) simp
qed (simp add: binds_ok_update filter_of_binds_update)

lemma Query_for_interval_law:
  assumes ok: "store_ok st (view w)" and qs: "query_state st q (view w) f Building"
  shows "\<exists>q' w'. Query_for_interval sq b e (q, w) = (Inr (), (q', w')) \<and> store_ok st (view w') \<and>
      store_contents (view w') = store_contents (view w) \<and>
      (\<forall>n. store_room n (view w) \<longrightarrow> store_room n (view w')) \<and> (query_owned st q \<longrightarrow> query_owned st q') \<and>
      query_state st q' (view w') (f\<lparr>f_interval := Some (b, e)\<rparr>) Building"
  unfolding Query_for_interval_def
proof (rule query_bind [OF ok qs, where g = "\<lambda>m. m(3 := Integer b, 4 := Integer e)"])
  fix s :: stmt and v assume "st_sql s = Query_Select_statement"
  then have k: "sql_kind_of (st_sql s) = Some Select_requests" by simp
  show "triple (at_view (at_binds (ps_statement (q_select_statement q)) (st_binds s) s v))
      (block [PS_bind_int64 sq (q_select_statement q) Select_Parameter_LowerBound b,
              PS_bind_int64 sq (q_select_statement q) Select_Parameter_UpperBound e])
      (\<lambda>_. at_view (at_binds (ps_statement (q_select_statement q))
          ((st_binds s)(3 := Integer b, 4 := Integer e)) s v)) no_throw"
    unfolding select_parameters
    by (rule triple_block_Cons [OF bind_int64_triple [OF k]], simp,
        rule triple_block_Cons [OF bind_int64_triple [OF k]], simp, rule triple_block_Nil)
qed (simp add: binds_ok_update filter_of_binds_update)

lemma Query_for_answer_law:
  assumes ok: "store_ok st (view w)" and qs: "query_state st q (view w) f Building"
  shows "\<exists>q' w'. Query_for_answer sq a (q, w) = (Inr (), (q', w')) \<and> store_ok st (view w') \<and>
      store_contents (view w') = store_contents (view w) \<and>
      (\<forall>n. store_room n (view w) \<longrightarrow> store_room n (view w')) \<and> (query_owned st q \<longrightarrow> query_owned st q') \<and>
      query_state st q' (view w') (f\<lparr>f_answer := Some a\<rparr>) Building"
  unfolding Query_for_answer_def
proof (rule query_bind [OF ok qs, where g = "\<lambda>b. b(5 := Integer (scast a))"])
  fix s :: stmt and v assume "st_sql s = Query_Select_statement"
  then have k: "sql_kind_of (st_sql s) = Some Select_requests" by simp
  show "triple (at_view (at_binds (ps_statement (q_select_statement q)) (st_binds s) s v))
      (PS_bind_int sq (q_select_statement q) Select_Parameter_Answer a)
      (\<lambda>_. at_view (at_binds (ps_statement (q_select_statement q))
          ((st_binds s)(5 := Integer (scast a))) s v)) no_throw"
    unfolding select_parameters by (rule bind_int_triple [OF k]) simp
qed (simp add: binds_ok_update filter_of_binds_update)

lemma all_triple:
  assumes "v_stmts v (ps_statement ps) = Some s" and "\<nexists>e. st_cursor s = Failed e"
  shows "triple (at_view v) (block [PS_reset sq ps, PS_clear_bindings sq ps])
     (\<lambda>_. at_view (at_binds (ps_statement ps) no_binds s v)) no_throw"
  by (rule triple_block_Cons [OF reset_triple [OF assms]], rule triple_block_Cons [OF clear_bindings_triple],
      rule triple_block_Nil)

lemma Query_all_law:
  assumes ok: "store_ok st (view w)" and qs: "query_state st q (view w) f Building"
  shows "\<exists>q' w'. Query_all sq (q, w) = (Inr (), (q', w')) \<and> store_ok st (view w') \<and>
      store_contents (view w') = store_contents (view w) \<and>
      (\<forall>n. store_room n (view w) \<longrightarrow> store_room n (view w')) \<and> (query_owned st q \<longrightarrow> query_owned st q') \<and>
      query_state st q' (view w') no_filter Building"
  unfolding Query_all_def
proof (rule query_bind [OF ok qs, where g = "\<lambda>_. no_binds" and F = "\<lambda>_. no_filter"])
  fix s :: stmt and v
  let ?ps = "q_select_statement q"
  show "triple (at_view (at_binds (ps_statement ?ps) (st_binds s) s v))
      (block [PS_reset sq ?ps, PS_clear_bindings sq ?ps])
      (\<lambda>_. at_view (at_binds (ps_statement ?ps) no_binds s v)) no_throw"
    using all_triple [of "at_binds (ps_statement ?ps) (st_binds s) s v" ?ps
        "s\<lparr>st_cursor := Ready, st_binds := st_binds s\<rparr>"]
    by (simp add: at_binds_def)
qed (simp add: binds_ok_update filter_of_binds_update)

text \<open>Stepping on, with the rows still to come given by the cursor.\<close>

lemma Query_next_raw:
  assumes ok: "store_ok st (view w)" and own: "query_owned st q"
    and del: "has_stmt (view w) (q_delete_statement q) Query_Delete_statement"
    and s: "v_stmts (view w) (ps_statement (q_select_statement q)) = Some s"
      "st_sql s = Query_Select_statement" "binds_ok (st_binds s)" "st_cursor s = On_row c (map columns sel)"
    and sel: "distinct sel" "set sel \<subseteq> set (table_rows (v_db (view w)))"
  shows "\<exists>w'. Query_next sq (q, w) =
        (Inr (), (q\<lparr>q_status := phase_status (Results (map request_of_row sel))\<rparr>, w')) \<and>
      store_ok st (view w') \<and> v_db (view w') = v_db (view w) \<and>
      query_state st (q\<lparr>q_status := phase_status (Results (map request_of_row sel))\<rparr>) (view w')
        (filter_of_binds (st_binds s)) (Results (map request_of_row sel))"
proof -
  let ?h = "ps_statement (q_select_statement q)" and ?rs = "map columns sel"
  obtain w' where w': "query_act (\<lambda>q. PS_step sq (q_select_statement q)) (q, w) = (Inr (code_of ?rs), (q, w'))"
    and db: "v_db (view w') = v_db (view w)" and kept: "others_kept ?h (view w) (view w')"
    and st: "v_stmts (view w') ?h = Some (s\<lparr>st_cursor := cursor_of ?rs\<rparr>)"
    by (rule query_totalE [where f = "\<lambda>q. PS_step sq (q_select_statement q)" and q = q,
          OF step_next_triple [OF s(1,4)] refl]) auto
  have status: "phase_status (Results (map request_of_row sel)) = (if ?rs = [] then eor else has_more_results)"
    by (cases sel) simp_all
  have "Query_next sq (q, w) =
      (Inr (), (q\<lparr>q_status := phase_status (Results (map request_of_row sel))\<rparr>, w'))"
    unfolding Query_next_def status by (rule Query_step_eq [OF w'])
  moreover have "has_stmt (view w') (q_delete_statement q) Query_Delete_statement"
    by (rule has_stmt_step [OF del only_at_refl kept]) (use own in \<open>auto simp: query_owned_def\<close>)
  moreover have "store_ok st (view w')"
    by (rule store_ok_select_step [OF ok own only_at_refl kept db])
  ultimately show ?thesis
    using st db own s sel by (auto simp: query_state_def simp del: phase_status.simps)
qed

lemma query_state_row:
  assumes "query_state st q v f (Results (r # rs))"
  obtains s x sel where "v_stmts v (ps_statement (q_select_statement q)) = Some s"
    "st_sql s = Query_Select_statement" "binds_ok (st_binds s)"
    "st_cursor s = On_row (columns x) (map columns sel)"
    "f = filter_of_binds (st_binds s)" "r = request_of_row x" "rs = map request_of_row sel"
    "distinct (x # sel)" "set (x # sel) \<subseteq> set (table_rows (v_db v))"
    "query_owned st q" "has_stmt v (q_delete_statement q) Query_Delete_statement"
    "q_status q = has_more_results"
  using assms
  by (elim query_stateD) (auto simp: Cons_eq_map_conv)

lemma Query_next_law:
  assumes ok: "store_ok st (view w)" and qs: "query_state st q (view w) f (Results (r # rs))"
  shows "\<exists>q' w'. Query_next sq (q, w) = (Inr (), (q', w')) \<and> store_ok st (view w') \<and>
      store_contents (view w') = store_contents (view w) \<and>
      (\<forall>n. store_room n (view w) \<longrightarrow> store_room n (view w')) \<and> (query_owned st q \<longrightarrow> query_owned st q') \<and>
      query_state st q' (view w') f (Results rs)"
proof (rule query_state_row [OF qs])
  fix s x sel
  assume s: "v_stmts (view w) (ps_statement (q_select_statement q)) = Some s"
      "st_sql s = Query_Select_statement" "binds_ok (st_binds s)"
      "st_cursor s = On_row (columns x) (map columns sel)"
    and f: "f = filter_of_binds (st_binds s)" "rs = map request_of_row sel"
    and sel: "distinct (x # sel)" "set (x # sel) \<subseteq> set (table_rows (v_db (view w)))"
    and own: "query_owned st q" "has_stmt (view w) (q_delete_statement q) Query_Delete_statement"
  obtain w' where w': "Query_next sq (q, w) = (Inr (), (q\<lparr>q_status := phase_status (Results rs)\<rparr>, w'))"
      "store_ok st (view w')" "v_db (view w') = v_db (view w)"
      "query_state st (q\<lparr>q_status := phase_status (Results rs)\<rparr>) (view w') f (Results rs)"
    using Query_next_raw [OF ok own s, of] sel unfolding f by auto
  then show ?thesis
    using own(1) store_contents_db [OF w'(3)] store_room_db [OF w'(3)] by (intro exI conjI) (assumption | simp)+
qed

lemma Query_current_law:
  assumes ok: "store_ok st (view w)" and qs: "query_state st q (view w) f (Results (r # rs))"
  shows "Query_current sq (q, w) = (Inr r, (q, w))"
proof (rule query_state_row [OF qs])
  fix s x sel
  assume s: "v_stmts (view w) (ps_statement (q_select_statement q)) = Some s"
      "st_cursor s = On_row (columns x) (map columns sel)"
    and r: "r = request_of_row x" and sel: "set (x # sel) \<subseteq> set (table_rows (v_db (view w)))"
    and st: "q_status q = has_more_results"
  have x: "row_ok x" using ok sel by (auto simp: store_ok_def rows_ok_def)
  then obtain t i j a where c: "r_ApplicationId x = Text t" "clean_id t" "r_Feature x = Integer (scast (i :: int32))"
    "r_Timestamp x = Integer j" "r_Answer x = Integer (scast (a :: int32))"
    by (auto simp: row_ok_def int32_value_def)
  let ?h = "ps_statement (q_select_statement q)"
  have "api_column_text sq ?h 1 w = Some t" "api_column_int sq ?h 2 w = i"
    "api_column_int64 sq ?h 3 w = j" "api_column_int sq ?h 4 w = a"
    using c column_text [OF s, of 1 t] column_int [OF s, of 2] column_int64 [OF s, of 3] column_int [OF s, of 4]
    by (simp_all add: nul_free_def clean_id_def)
  then show ?thesis
    using st c r
    by (simp add: Query_current_def Query_status_def bindE_apply query_act_apply column_indices PS_column_text_def
        PS_column_int_def PS_column_int64_def request_of_row_def)
qed

lemma Query_current_none_law:
  assumes "query_state st q (view w) f p" and "p = Building \<or> p = Results []"
  shows "Query_current sq (q, w) = (Inl NoCurrentResult, (q, w))"
  using assms by (auto simp: query_state_def Query_current_def Query_status_def bindE_apply)

text \<open>
  Deleting one row through the query's delete statement: the row disappears, the rows the
  select statement has still to yield stay.
\<close>

lemma delete_id_triple:
  assumes ok: "store_ok st v" and own: "query_owned st q"
    and sd: "v_stmts v (ps_statement (q_delete_statement q)) = Some sd" "st_sql sd = Query_Delete_statement"
      "\<nexists>e. st_cursor sd = Failed e"
    and x: "x \<in> set rows" and rows: "db_table (v_db v) = Some rows"
  shows "triple (at_view v)
     (block [PS_reset sq (q_delete_statement q),
        PS_bind_int sq (q_delete_statement q) Query_Delete_Parameter_Id (ucast (r_Id x)),
        bindE (PS_step sq (q_delete_statement q)) (\<lambda>_. returnE ())])
     (\<lambda>_ w. v_db (view w) = (v_db v)\<lparr>db_table := Some (filter (\<lambda>r. r_Id r \<noteq> r_Id x) rows)\<rparr> \<and>
        has_stmt (view w) (q_delete_statement q) Query_Delete_statement \<and>
        (\<exists>b. others_kept (ps_statement (q_delete_statement q))
           (at_binds (ps_statement (q_delete_statement q)) b sd v) (view w))) no_throw"
proof -
  have k: "sql_kind_of (st_sql sd) = Some Delete_id" by (simp add: sd(2))
  have "rows_ok rows" using ok rows by (auto simp: store_ok_def)
  then have "0 \<le> sint (r_Id x)" and "sint (r_Id x) < 2 ^ 31"
    using x max_rowid_ge [OF x] by (auto simp: rows_ok_def row_ok_def id_limit_def less_imp_le)
  then have i: "scast (ucast (r_Id x) :: int32) = r_Id x" by (rule scast_ucast_sint_small)
  let ?b = "(st_binds sd)(1 := Integer (r_Id x))"
  let ?d = "(v_db v)\<lparr>db_table := Some (filter (\<lambda>r. r_Id r \<noteq> r_Id x) rows)\<rparr>"
  have eff: "sql_effect Delete_id ?b (v_db v) d rs \<longleftrightarrow> d = ?d \<and> rs = []" for d rs
    using rows by (auto simp: sql_effect_simps)
  let ?h = "ps_statement (q_delete_statement q)"
  let ?Q = "\<lambda>_ w. v_db (view w) = ?d \<and> has_stmt (view w) (q_delete_statement q) Query_Delete_statement \<and>
      (\<exists>b. others_kept ?h (at_binds ?h b sd v) (view w))"
  have "triple (at_view (at_binds ?h ?b sd v)) (bindE (PS_step sq (q_delete_statement q)) (\<lambda>_. returnE ())) ?Q no_throw"
    by (rule triple_weaken [OF run_triple_raw [OF k, of ?b v ?d]])
      (unfold eff, auto simp: has_stmt_def sd(2))
  then have run: "triple (at_view (at_binds ?h ?b sd v))
      (block [bindE (PS_step sq (q_delete_statement q)) (\<lambda>_. returnE ())]) ?Q no_throw"
    by (rule triple_block_Cons) (rule triple_block_Nil)
  show ?thesis
    unfolding parameter_indices
    by (rule triple_block_Cons [OF reset_triple [OF sd(1,3)]],
        rule triple_block_Cons [OF bind_int_triple [OF k]], simp, unfold i, rule run)
qed

lemma Query_erase_unfold:
  assumes "q_status q = has_more_results"
    and "api_column_int sq (ps_statement (q_select_statement q)) 0 w = i"
    and "block [PS_reset sq (q_delete_statement q),
        PS_bind_int sq (q_delete_statement q) Query_Delete_Parameter_Id i,
        bindE (PS_step sq (q_delete_statement q)) (\<lambda>_. returnE ())] w = (Inr (), w')"
  shows "Query_erase sq (q, w) = Query_next sq (q, w')"
  using assms(3) bindE_return_right [of "Query_next sq"]
  by (auto simp: Query_erase_def Query_status_def bindE_apply query_act_apply column_indices
      PS_column_int_def assms(1,2) bindE_returns_iff split: prod.splits sum.splits)

lemma Query_erase_law:
  assumes ok: "store_ok st (view w)" and qs: "query_state st q (view w) f (Results (r # rs))"
  shows "\<exists>q' w'. Query_erase sq (q, w) = (Inr (), (q', w')) \<and> store_ok st (view w') \<and>
      store_contents (view w') = store_contents (view w) - {#r#} \<and> r \<in># store_contents (view w) \<and>
      (query_owned st q \<longrightarrow> query_owned st q') \<and> query_state st q' (view w') f (Results rs)"
proof (rule query_state_row [OF qs])
  fix s x sel
  let ?h = "ps_statement (q_select_statement q)" and ?hd = "ps_statement (q_delete_statement q)"
  assume s: "v_stmts (view w) ?h = Some s" "st_sql s = Query_Select_statement" "binds_ok (st_binds s)"
      "st_cursor s = On_row (columns x) (map columns sel)"
    and f: "f = filter_of_binds (st_binds s)" "r = request_of_row x" "rs = map request_of_row sel"
    and sel: "distinct (x # sel)" "set (x # sel) \<subseteq> set (table_rows (v_db (view w)))"
    and own: "query_owned st q" and del: "has_stmt (view w) (q_delete_statement q) Query_Delete_statement"
    and st: "q_status q = has_more_results"
  obtain rows where rows: "db_table (v_db (view w)) = Some rows" "rows_ok rows"
    using ok by (auto simp: store_ok_def)
  have x: "x \<in> set rows" and dis: "distinct (map r_Id rows)" using sel rows by (auto simp: rows_ok_def)
  obtain sd where sd: "v_stmts (view w) ?hd = Some sd" "st_sql sd = Query_Delete_statement" "\<nexists>e. st_cursor sd = Failed e"
    using del by (auto simp: has_stmt_def)
  let ?rows = "filter (\<lambda>r. r_Id r \<noteq> r_Id x) rows"
  obtain w1 b where w1: "block [PS_reset sq (q_delete_statement q),
        PS_bind_int sq (q_delete_statement q) Query_Delete_Parameter_Id (ucast (r_Id x)),
        bindE (PS_step sq (q_delete_statement q)) (\<lambda>_. returnE ())] w = (Inr (), w1)"
    and db: "v_db (view w1) = (v_db (view w))\<lparr>db_table := Some ?rows\<rparr>"
    and del1: "has_stmt (view w1) (q_delete_statement q) Query_Delete_statement"
    and kept: "others_kept ?hd (at_binds ?hd b sd (view w)) (view w1)"
    by (rule triple_totalE [OF delete_id_triple [OF ok own sd x rows(1)] refl]) auto
  have col: "api_column_int sq ?h 0 w = ucast (r_Id x)"
    by (rule column_int [OF s(1,4)]) simp_all
  have sub: "set sel \<subseteq> set ?rows"
    using sel rows(1) x dis by (auto simp: distinct_map dest: inj_onD)
  have "undisturbed (st_cursor s) (v_db (view w)) (v_db (view w1))"
    using sub rows(1) by (auto simp: s(4) db)
  then have s1: "v_stmts (view w1) ?h = Some s"
    using others_keptD [OF kept, of ?h s] s(1) own by (simp add: query_owned_def)
  have ok1: "store_ok st (view w1)"
    by (rule store_ok_step [OF ok only_at_binds kept _ rows_ok_filter [OF rows(2)]])
      (use own in \<open>auto simp: db query_owned_def\<close>)
  obtain w2 where w2: "Query_next sq (q, w1) = (Inr (), (q\<lparr>q_status := phase_status (Results rs)\<rparr>, w2))"
      "store_ok st (view w2)" "v_db (view w2) = v_db (view w1)"
      "query_state st (q\<lparr>q_status := phase_status (Results rs)\<rparr>) (view w2) f (Results rs)"
    using Query_next_raw [OF ok1 own del1 s1 s(2,3,4)] sel(1) sub unfolding f(1,3) by (auto simp: db)
  have "store_contents (view w2) = store_contents (view w) - {#r#}" and "r \<in># store_contents (view w)"
    using mset_filter_key [OF dis x] rows(1) x
    by (simp_all add: store_contents_def w2(3) db f(2) image_mset_Diff)
  then show ?thesis
    using w2 own Query_erase_unfold [OF st col w1] by (intro exI conjI) (assumption | simp)+
qed

lemma store_ok_fresh:
  assumes "store_ok st v" and "v_stmts v h = None"
  shows "store_ok st (v\<lparr>v_stmts := (v_stmts v)(h \<mapsto> s)\<rparr>)"
  using assms by (auto simp: store_ok_def has_stmt_def)

lemma store_ok_handle:
  assumes "store_ok st v" and "v_stmts v h = None"
    and "ps \<in> {delete_statement st, insert_statement st, remove_application_statement st}"
  shows "h \<noteq> ps_statement ps"
  using assms by (auto simp: store_ok_def has_stmt_def)

lemma Store_query_law:
  assumes ok: "store_ok st (view w)"
  shows "\<exists>q w'. Store_query sq st w = (Inr q, w') \<and> store_ok st (view w') \<and>
      store_contents (view w') = store_contents (view w) \<and>
      (\<forall>n. store_room n (view w) \<longrightarrow> store_room n (view w')) \<and> query_owned st q \<and>
      query_state st q (view w') no_filter Building"
proof -
  let ?v = "view w" and ?db = "store_db st"
  have tab: "db_table (v_db ?v) \<noteq> None" using ok by (simp add: store_ok_def)
  obtain del w1 where w1: "Database_prepare_tagged_statement sq ?db Query_Delete_statement w = (Inr del, w1)"
    and d: "ps_statement del \<noteq> 0" "v_stmts ?v (ps_statement del) = None"
    and v1: "view w1 = ?v\<lparr>v_stmts := (v_stmts ?v)(ps_statement del \<mapsto> fresh_stmt Query_Delete_statement)\<rparr>"
    by (rule triple_totalE [OF prepare_triple [of Query_Delete_statement Delete_id ?v ?db] refl])
      (use tab in auto)
  obtain sel w2 where w2: "Database_prepare_tagged_statement sq ?db Query_Select_statement w1 = (Inr sel, w2)"
    and s: "ps_statement sel \<noteq> 0" "v_stmts (view w1) (ps_statement sel) = None"
    and v2: "view w2 = (view w1)\<lparr>v_stmts := (v_stmts (view w1))(ps_statement sel \<mapsto> fresh_stmt Query_Select_statement)\<rparr>"
    by (rule triple_totalE [OF prepare_triple [of Query_Select_statement Select_requests "view w1" ?db] refl])
      (use tab v1 in auto)
  let ?q = "\<lparr>q_delete_statement = del, q_select_statement = sel, q_status = armed\<rparr>"
  have new: "Query_Private_new sq ?db w = (Inr ?q, w2)"
    by (simp add: Query_Private_new_def bindE_apply on_throwE_apply w1 w2)
  have ok1: "store_ok st (view w1)" unfolding v1 by (rule store_ok_fresh [OF ok d(2)])
  have ok2: "store_ok st (view w2)" unfolding v2 by (rule store_ok_fresh [OF ok1 s(2)])
  have own: "query_owned st ?q"
    using d(1) s v1 store_ok_handle [OF ok d(2)] store_ok_handle [OF ok1 s(2)]
    by (auto simp: query_owned_def)
  have "query_state st ?q (view w2) no_filter Building"
    using own s v1
    by (auto simp: query_state_def has_stmt_def v2 fresh_stmt_def binds_ok_update filter_of_binds_update)
  from Query_all_law [OF ok2 this] obtain q' w3 where all: "Query_all sq (?q, w2) = (Inr (), (q', w3))"
      "store_ok st (view w3)" "store_contents (view w3) = store_contents (view w2)"
      "\<forall>n. store_room n (view w2) \<longrightarrow> store_room n (view w3)" "query_state st q' (view w3) no_filter Building"
    by blast
  have q': "q' = ?q"
    using all(1) by (auto simp: Query_all_def query_act_apply split: prod.splits)
  have "Store_query sq st w = (Inr ?q, w3)"
    using new all(1) by (simp add: Store_query_def Query_new_def bindE_apply on_throwE_apply with_object_apply)
  moreover have "v_db (view w2) = v_db ?v" by (simp add: v2 v1)
  ultimately show ?thesis
    using all own store_contents_db store_room_db unfolding q' by metis
qed

lemma Query_destroy_law:
  assumes ok: "store_ok st (view w)" and own: "query_owned st q"
  shows "\<exists>w'. Query_destroy sq q w = (Inr (), w') \<and> store_ok st (view w') \<and>
      store_contents (view w') = store_contents (view w) \<and> (\<forall>n. store_room n (view w) \<longrightarrow> store_room n (view w'))"
  using assms
  by (auto simp: Query_destroy_def PS_destroy_def bindE_apply finalize store_ok_def has_stmt_def query_owned_def
      store_contents_def store_room_def)

lemma sqlite_store_is_trust_store:
  "trust_store (sqlite_vtable sq st) (\<lambda>w. store_ok st (view w)) (\<lambda>n w. store_room n (view w))
     (\<lambda>_. True) (\<lambda>w. store_contents (view w)) kept_feature (\<lambda>_. True) (query_owned st) (\<lambda>q w. query_state st q (view w))"
proof (unfold_locales, unfold sqlite_vtable_def store_vtable.simps, goal_cases)
  case (1 w) from triple_totalE [OF Store_reset_triple [OF this] refl] show ?case by fastforce
next
  case (2 ft) then show ?case by (rule kept_feature_small)
next
  case (3 w n r) from triple_totalE [OF Store_add_triple [OF this(1-3)] refl] show ?case by fastforce
next
  case (4 w i) from triple_totalE [OF Store_remove_application_triple [OF this] refl] show ?case by fastforce
next
  case (5 w) then show ?case by (intro Store_query_law)
next
  case (6 w q f p) then show ?case by (intro Query_status_law)
next
  case (7 w q f i) then show ?case by (rule Query_for_application_id_law)
next
  case (8 w q f ft) then show ?case by (rule Query_for_feature_law)
next
  case (9 w q f b e) then show ?case by (rule Query_for_interval_law)
next
  case (10 w q f a) then show ?case by (intro Query_for_answer_law)
next
  case (11 w q f) then show ?case by (rule Query_all_law)
next
  case (12 w q f p) then show ?case by (rule Query_execute_law)
next
  case (13 w q f r rs) then show ?case by (rule Query_current_law)
next
  case (14 w q f p) then show ?case by (intro Query_current_none_law)
next
  case (15 w q f r rs) then show ?case by (rule Query_next_law)
next
  case (16 w q f r rs) then show ?case by (rule Query_erase_law)
next
  case (17 w q) then show ?case by (rule Query_destroy_law)
next
  case (18 n w) then show ?case by (simp add: store_room_def)
qed

end

end
