(* ===== verification/Sqlite_Store_Life.thy ===== *)
theory Sqlite_Store_Life
  imports Sqlite_Query_Laws
begin

text \<open>
  The life of an SQLite store: opening one (which creates or upgrades the database), closing it and
  opening it again, and what a failing engine leaves behind. The refinement of the previous
  theory is packed into a locale here and interpreted on the reference engine.
\<close>

section \<open>The store as a trust store\<close>

locale sqlite_backed = sqlite3_reliable sq view
  for sq :: "'w sqlite3_api" and view :: "'w \<Rightarrow> view" +
  fixes st :: sqlite_store

sublocale sqlite_backed \<subseteq> backing: trust_store "sqlite_vtable sq st" "\<lambda>w. store_ok st (view w)"
  "\<lambda>n w. store_room n (view w)" "\<lambda>_. True" "\<lambda>w. store_contents (view w)" kept_feature "\<lambda>_. True" "query_owned st"
  "\<lambda>q w. query_state st q (view w)"
  by (rule sqlite_store_is_trust_store)

interpretation ref_store: sqlite_backed ref_sqlite ref_view st for st
  by unfold_locales

section \<open>Opening\<close>

text \<open>A database file the store can open: not set up yet, or set up and in order.\<close>

definition db_usable :: "db \<Rightarrow> bool" where
  "db_usable d \<longleftrightarrow> rows_ok (table_rows d) \<and> (db_version d \<noteq> 0 \<longrightarrow> db_table d \<noteq> None)"

text \<open>What opening leaves of the statements at hand.\<close>

definition idle_kept :: "view \<Rightarrow> view \<Rightarrow> bool" where
  "idle_kept v v' \<longleftrightarrow> (\<forall>h s. v_stmts v h = Some s \<longrightarrow> st_cursor s = Ready \<or> st_cursor s = Done \<longrightarrow>
     v_stmts v' h = Some s)"

lemma idle_kept_trans: "idle_kept v v' \<Longrightarrow> idle_kept v' v'' \<Longrightarrow> idle_kept v v''"
  by (auto simp: idle_kept_def)

lemma has_stmt_idle: "idle_kept v v' \<Longrightarrow> has_stmt v ps sql \<Longrightarrow> has_stmt v' ps sql"
  by (auto simp: idle_kept_def has_stmt_def)

context sqlite3_reliable
begin

lemma open_statement:
  assumes "sql_kind_of sql = Some k" and "needs_table k \<Longrightarrow> db_table (v_db (view w)) \<noteq> None"
  obtains ps w' where "Database_prepare_tagged_statement sq db sql w = (Inr ps, w')"
    and "v_db (view w') = v_db (view w)" and "idle_kept (view w) (view w')" and "has_stmt (view w') ps sql"
    and "v_stmts (view w') (ps_statement ps) = Some (fresh_stmt sql)" and "v_stmts (view w) (ps_statement ps) = None"
    and "ps_statement ps \<noteq> 0"
  by (rule triple_totalE [OF prepare_triple [OF assms, of db] refl])
    (auto simp: idle_kept_def has_stmt_def fresh_stmt_def intro: that)

text \<open>A statement prepared, stepped once and finalized at the end of the scope.\<close>

lemma transient_statement:
  assumes "sql_kind_of sql = Some k" and "\<not> needs_table k"
    and eff: "sql_effect k no_binds (v_db (view w)) d' rs"
    and det: "\<And>d'' rs'. sql_effect k no_binds (v_db (view w)) d'' rs' \<Longrightarrow> d'' = d' \<and> rs' = rs"
    and col: "\<And>ps w'. v_stmts (view w') (ps_statement ps) = Some ((fresh_stmt sql)\<lparr>st_cursor := cursor_of rs\<rparr>) \<Longrightarrow>
      m ps w' = (Inr x, w')"
  shows "\<exists>w'. bindE (Database_prepare_statement sq db sql) (\<lambda>stmt.
        finallyE (bindE (PS_step sq stmt) (\<lambda>_. m stmt)) (PS_destroy sq stmt)) w = (Inr x, w') \<and>
      v_db (view w') = d' \<and> idle_kept (view w) (view w')"
proof (rule open_statement [OF assms(1), of w db])
  fix ps w1
  assume w1: "Database_prepare_tagged_statement sq db sql w = (Inr ps, w1)"
    "v_db (view w1) = v_db (view w)" "idle_kept (view w) (view w1)"
    "v_stmts (view w1) (ps_statement ps) = Some (fresh_stmt sql)" "v_stmts (view w) (ps_statement ps) = None"
    "ps_statement ps \<noteq> 0"
  obtain rc w2 where w2: "PS_step sq ps w1 = (Inr rc, w2)" "ran k (ps_statement ps) (fresh_stmt sql) (view w1) rc (view w2)"
    by (rule triple_totalE [OF step_triple [OF w1(4), of k d' rs] refl])
      (use assms(1) eff w1(2) in \<open>auto simp: fresh_stmt_def\<close>)
  then obtain rs' where "sql_effect k no_binds (v_db (view w)) (v_db (view w2)) rs'"
    and st: "v_stmts (view w2) (ps_statement ps) = Some ((fresh_stmt sql)\<lparr>st_cursor := cursor_of rs'\<rparr>)"
    and kept: "others_kept (ps_statement ps) (view w1) (view w2)"
    by (auto simp: ran_def w1(2) fresh_stmt_def)
  then have d: "v_db (view w2) = d'" and rs: "rs' = rs" using det by auto
  have "idle_kept (view w) (view (api_finalize sq (ps_statement ps) w2))"
    unfolding idle_kept_def
  proof (intro allI impI)
    fix h s assume hs: "v_stmts (view w) h = Some s" "st_cursor s = Ready \<or> st_cursor s = Done"
    then have ne: "h \<noteq> ps_statement ps" using w1(5) by auto
    have "v_stmts (view w1) h = Some s" using hs w1(3) by (auto simp: idle_kept_def)
    then have "v_stmts (view w2) h = Some s" using others_keptD [OF kept ne] hs(2) by auto
    then show "v_stmts (view (api_finalize sq (ps_statement ps) w2)) h = Some s"
      using ne by (simp add: finalize)
  qed
  then show ?thesis
    using col [of w2 ps] st d rs w2(1) w1(1)
    by (simp add: prepare_statement_eq bindE_apply finallyE_apply PS_destroy_def finalize)
qed (use assms(2) in simp)

lemma get_version_law:
  "\<exists>w'. Database_get_version sq db w = (Inr (db_version (v_db (view w))), w') \<and>
     v_db (view w') = v_db (view w) \<and> idle_kept (view w) (view w')"
  unfolding Database_get_version_def
proof (rule transient_statement [where k = Get_user_version and rs = "[[Integer (scast (db_version (v_db (view w))))]]"])
  fix ps :: prepared_statement and w'
  assume "v_stmts (view w') (ps_statement ps) = Some ((fresh_stmt get_version_pragma)
      \<lparr>st_cursor := cursor_of [[Integer (scast (db_version (v_db (view w))))]]\<rparr>)"
  then show "PS_column_int sq ps 0 w' = (Inr (db_version (v_db (view w))), w')"
    using column_int [of w' "ps_statement ps"] by (simp add: PS_column_int_def fresh_stmt_def)
qed (auto simp: sql_effect_simps)

lemma set_version_law:
  "\<exists>w'. Database_set_version sq db Store_version w = (Inr (), w') \<and>
     v_db (view w') = (v_db (view w))\<lparr>db_version := Store_version\<rparr> \<and> idle_kept (view w) (view w')"
  unfolding Database_set_version_def
  by (rule transient_statement [where k = "Set_user_version Store_version" and rs = "[]"])
    (auto simp: sql_effect_simps)

lemma create_table_law:
  assumes "v_stmts (view w) (ps_statement ps) = Some s" and "st_sql s = CreateDataTableIfNotExists_statement"
    and "st_cursor s = Ready \<or> st_cursor s = Done"
  shows "\<exists>w'. Store_create_data_table_if_not_exists sq ps w = (Inr (), w') \<and>
     v_db (view w') = (v_db (view w))\<lparr>db_table := Some (table_rows (v_db (view w)))\<rparr>"
proof -
  have eff: "sql_effect Create_table b d d' rs \<longleftrightarrow> d' = d\<lparr>db_table := Some (table_rows d)\<rparr> \<and> rs = []"
    for b d d' rs
    by (auto simp: sql_effect_simps table_rows_def split: option.splits)
  have k: "sql_kind_of (st_sql s) = Some Create_table" by (simp add: assms(2))
  show ?thesis
    by (rule triple_totalE [OF step_triple [OF assms(1) k assms(3), unfolded eff, OF conjI [OF refl refl]] refl])
      (auto simp: ran_def eff Store_create_data_table_if_not_exists_def bindE_apply)
qed

lemma upgrade_law:
  assumes "has_stmt (view w) create CreateDataTableIfNotExists_statement" and "db_usable (v_db (view w))"
  shows "\<exists>w'. Store_upgrade sq db create (db_version (v_db (view w))) w = (Inr (), w') \<and>
     db_table (v_db (view w')) = Some (table_rows (v_db (view w))) \<and>
     db_version (v_db (view w')) =
       (if db_version (v_db (view w)) = 0 then Store_version else db_version (v_db (view w)))"
proof (cases "db_version (v_db (view w)) = 0")
  case True
  from assms(1) obtain s where "v_stmts (view w) (ps_statement create) = Some s"
    "st_sql s = CreateDataTableIfNotExists_statement" "st_cursor s = Ready \<or> st_cursor s = Done"
    by (auto simp: has_stmt_def)
  from create_table_law [OF this] obtain w1 where
    "Store_create_data_table_if_not_exists sq create w = (Inr (), w1)"
    "v_db (view w1) = (v_db (view w))\<lparr>db_table := Some (table_rows (v_db (view w)))\<rparr>"
    by blast
  with True set_version_law [of db w1] show ?thesis by (auto simp: Store_upgrade_def bindE_apply)
next
  case False
  with assms(2) show ?thesis by (auto simp: Store_upgrade_def db_usable_def)
qed

lemma Store_body_law:
  assumes "has_stmt (view w) create CreateDataTableIfNotExists_statement" and us: "db_usable (v_db (view w))"
  shows "\<exists>st w'. Store_body sq db create w = (Inr st, w') \<and> store_ok st (view w') \<and> store_db st = db \<and>
     db_table (v_db (view w')) = Some (table_rows (v_db (view w))) \<and>
     db_version (v_db (view w')) =
       (if db_version (v_db (view w)) = 0 then Store_version else db_version (v_db (view w))) \<and>
     v_stmts (view w') (ps_statement (insert_statement st)) = Some (fresh_stmt Insert_statement)"
proof -
  let ?d = "v_db (view w)"
  from get_version_law [of db w] obtain w1 where
    w1: "Database_get_version sq db w = (Inr (db_version ?d), w1)" "v_db (view w1) = ?d"
    and k1: "idle_kept (view w) (view w1)"
    by blast
  from upgrade_law [OF has_stmt_idle [OF k1 assms(1)], of db] us obtain w2 where
    w2: "Store_upgrade sq db create (db_version ?d) w1 = (Inr (), w2)"
      "db_table (v_db (view w2)) = Some (table_rows ?d)"
      "db_version (v_db (view w2)) = (if db_version ?d = 0 then Store_version else db_version ?d)"
    unfolding w1(2) by blast
  obtain del w3 where w3: "Database_prepare_tagged_statement sq db Delete_statement w2 = (Inr del, w3)"
    "v_db (view w3) = v_db (view w2)" "has_stmt (view w3) del Delete_statement"
    by (rule open_statement [of Delete_statement Delete_all w2 db]) (use w2(2) in auto)
  obtain ins w4 where w4: "Database_prepare_tagged_statement sq db Insert_statement w3 = (Inr ins, w4)"
    "v_db (view w4) = v_db (view w2)" "idle_kept (view w3) (view w4)" "has_stmt (view w4) ins Insert_statement"
    "v_stmts (view w4) (ps_statement ins) = Some (fresh_stmt Insert_statement)"
    by (rule open_statement [of Insert_statement Insert_request w3 db]) (use w2(2) w3(2) in auto)
  obtain rem w5 where w5: "Database_prepare_tagged_statement sq db RemoveApplication_statement w4 = (Inr rem, w5)"
    "v_db (view w5) = v_db (view w2)" "idle_kept (view w4) (view w5)" "has_stmt (view w5) rem RemoveApplication_statement"
    by (rule open_statement [of RemoveApplication_statement Delete_application w4 db]) (use w2(2) w4(2) in auto)
  have "has_stmt (view w5) del Delete_statement" "has_stmt (view w5) ins Insert_statement"
    using w3(3) w4(4) has_stmt_idle w5(3) idle_kept_trans [OF w4(3) w5(3)] by blast+
  moreover have "v_stmts (view w5) (ps_statement ins) = Some (fresh_stmt Insert_statement)"
    using w4(5) w5(3) by (simp add: idle_kept_def fresh_stmt_def)
  ultimately show ?thesis
    using us w1 w2 w3 w4 w5
    by (simp add: Store_body_def bindE_apply on_throwE_apply store_ok_def db_usable_def)
qed

lemma Store_new_law:
  assumes home: "data_home w = (Inr home, w1)" "view w1 = view w"
    and dir: "fs_mkdir fsys (fs_join fsys home name) S_IRWXU w1 = (rc, w2)" "view w2 = view w"
      "rc = None \<or> rc = Some EEXIST"
    and us: "db_usable (v_db (view w))"
  shows "\<exists>st w'. Store_new sq fsys data_home name w = (Inr st, w') \<and> store_ok st (view w') \<and>
     db_table (v_db (view w')) = Some (table_rows (v_db (view w))) \<and>
     db_version (v_db (view w')) =
       (if db_version (v_db (view w)) = 0 then Store_version else db_version (v_db (view w))) \<and>
     v_stmts (view w') (ps_statement (insert_statement st)) = Some (fresh_stmt Insert_statement)"
proof -
  let ?p = "fs_join fsys home name"
  have d: "ensure_dir_or_throw fsys ?p w1 = (Inr ?p, w2)"
    using dir by (auto simp: ensure_dir_or_throw_def)
  obtain db w3 where w3: "Database_new sq (fs_join fsys ?p ''trust.db'') w2 = (Inr db, w3)" "view w3 = view w"
  proof -
    obtain db w0 where o: "api_open sq (fs_join fsys ?p ''trust.db'') w2 = ((SQLITE_OK, db), w0)"
      using open_ok by (metis prod.collapse)
    then have "view w0 = view w2" using open_view by (metis snd_conv)
    then show thesis using that [of db "api_extended_result_codes sq db w0"] o dir(2)
      by (simp add: Database_new_def extended_view)
  qed
  obtain create w4 where w4: "Database_prepare_tagged_statement sq db CreateDataTableIfNotExists_statement w3 = (Inr create, w4)"
    "v_db (view w4) = v_db (view w3)" "has_stmt (view w4) create CreateDataTableIfNotExists_statement"
    by (rule open_statement [of CreateDataTableIfNotExists_statement Create_table w3 db]) auto
  obtain st w5 where "Store_body sq db create w4 = (Inr st, w5)" "store_ok st (view w5)"
     "db_table (v_db (view w5)) = Some (table_rows (v_db (view w)))"
     "db_version (v_db (view w5)) =
       (if db_version (v_db (view w)) = 0 then Store_version else db_version (v_db (view w)))"
     "v_stmts (view w5) (ps_statement (insert_statement st)) = Some (fresh_stmt Insert_statement)"
    using Store_body_law [OF w4(3), of db] us unfolding w4(2) w3(2) by blast
  then show ?thesis
    using home d w3 w4 by (simp add: Store_new_def bindE_apply on_throwE_apply)
qed

lemma Store_destroy_law:
  "\<exists>w'. Store_destroy sq st w = (Inr (), w') \<and> v_db (view w') = v_db (view w)"
  by (simp add: Store_destroy_def PS_destroy_def Database_destroy_def bindE_apply finalize close_view)

end

section \<open>Failing engines\<close>

text \<open>
  What the three operations that change the table do on an engine that may fail at any call: an
  exception means that the table is as it was, a normal return that the statement ran.
\<close>

definition prepared_as :: "prepared_statement \<Rightarrow> string \<Rightarrow> (nat \<Rightarrow> sqlval) \<Rightarrow> view \<Rightarrow> bool" where
  "prepared_as ps sql b v \<longleftrightarrow> (\<exists>s. v_stmts v (ps_statement ps) = Some s \<and> st_sql s = sql \<and> st_binds s = b)"

definition ready_as :: "prepared_statement \<Rightarrow> string \<Rightarrow> (nat \<Rightarrow> sqlval) \<Rightarrow> view \<Rightarrow> bool" where
  "ready_as ps sql b v \<longleftrightarrow>
     v_stmts v (ps_statement ps) = Some \<lparr>st_sql = sql, st_binds = b, st_cursor = Ready\<rparr>"

lemma triple_call_error:
  assumes "\<And>w rc w'. P w \<Longrightarrow> f w = (rc, w') \<Longrightarrow> if is_error_code rc then E w' else Q rc w'"
  shows "triple P (PS_call sq ps f) Q (\<lambda>e w. is_runtime_error e \<and> E w)"
  unfolding triple_def
proof (intro allI impI)
  fix w assume "P w"
  obtain rc w' where f: "f w = (rc, w')" by force
  with assms [OF \<open>P w\<close> f] show "case PS_call sq ps f w of
    (Inr x, w') \<Rightarrow> Q x w' | (Inl e, w') \<Rightarrow> is_runtime_error e \<and> E w'"
    by (auto simp: PS_call_def is_error_eq)
qed

context sqlite3
begin

abbreviation db_is :: "db \<Rightarrow> 'w \<Rightarrow> bool" where
  "db_is d \<equiv> \<lambda>w. v_db (view w) = d"

abbreviation failed_with :: "db \<Rightarrow> exn \<Rightarrow> 'w \<Rightarrow> bool" where
  "failed_with d \<equiv> \<lambda>e w. is_runtime_error e \<and> v_db (view w) = d"

lemma weak_reset:
  "triple (\<lambda>w. db_is d w \<and> prepared_as ps sql b (view w)) (PS_reset sq ps)
     (\<lambda>_ w. db_is d w \<and> ready_as ps sql b (view w)) (failed_with d)"
  unfolding PS_reset_def
proof (rule triple_discard, rule triple_call_error)
  fix w rc w'
  assume w: "db_is d w \<and> prepared_as ps sql b (view w)" and f: "api_reset sq (ps_statement ps) w = (rc, w')"
  then obtain s where s: "v_stmts (view w) (ps_statement ps) = Some s" "st_sql s = sql" "st_binds s = b"
    by (auto simp: prepared_as_def)
  then show "if is_error_code rc then db_is d w' else db_is d w' \<and> ready_as ps sql b (view w')"
    using reset [OF f s(1)] w by (cases s) (auto simp: at_cursor_def ready_as_def)
qed

lemma weak_bind_call:
  assumes "binds_as view f ok enc" and "ok x"
  shows "triple (\<lambda>w. db_is d w \<and> ready_as ps sql b (view w))
     (bindE (PS_call sq ps (f (ps_statement ps) i x)) (\<lambda>_. returnE ()))
     (\<lambda>_ w. db_is d w \<and> ready_as ps sql (b(i := enc x)) (view w)) (failed_with d)"
proof (rule triple_discard, rule triple_call_error)
  fix w rc w'
  assume w: "db_is d w \<and> ready_as ps sql b (view w)" and f: "f (ps_statement ps) i x w = (rc, w')"
  let ?s = "\<lparr>st_sql = sql, st_binds = b, st_cursor = Ready\<rparr>"
  have "v_stmts (view w) (ps_statement ps) = Some ?s" using w by (simp add: ready_as_def)
  with assms f have "if is_error_code rc then view w' = view w
      else rc = SQLITE_OK \<and> view w' = bound (ps_statement ps) i (enc x) ?s (view w)"
    unfolding binds_as_def by fastforce
  then show "if is_error_code rc then db_is d w' else db_is d w' \<and> ready_as ps sql (b(i := enc x)) (view w')"
    using w by (auto simp: ready_as_def bound_def split: if_splits)
qed

lemma weak_bind_text:
  assumes "nul_free t"
  shows "triple (\<lambda>w. db_is d w \<and> ready_as ps sql b (view w)) (PS_bind_text sq ps i t)
     (\<lambda>_ w. db_is d w \<and> ready_as ps sql (if t = [] then b else b(i := Text t)) (view w)) (failed_with d)"
proof (cases "t = []")
  case True
  then show ?thesis by (simp add: PS_bind_text_def triple_return)
next
  case False
  then show ?thesis using weak_bind_call [OF bind_text assms] by (simp add: PS_bind_text_def)
qed

lemmas weak_bind_int = weak_bind_call [OF bind_int TrueI, folded PS_bind_int_def]
lemmas weak_bind_int64 = weak_bind_call [OF bind_int64 TrueI, folded PS_bind_int64_def]

lemma weak_step:
  assumes "sql_kind_of sql = Some k"
  shows "triple (\<lambda>w. db_is d w \<and> ready_as ps sql b (view w)) (bindE (PS_step sq ps) (\<lambda>_. returnE ()))
     (\<lambda>_ w. \<exists>rs. sql_effect k b d (v_db (view w)) rs) (failed_with d)"
  unfolding PS_step_def
proof (rule triple_discard, rule triple_call_error)
  fix w rc w'
  assume w: "db_is d w \<and> ready_as ps sql b (view w)" and f: "api_step sq (ps_statement ps) w = (rc, w')"
  then have s: "v_stmts (view w) (ps_statement ps) = Some \<lparr>st_sql = sql, st_binds = b, st_cursor = Ready\<rparr>"
    by (simp add: ready_as_def)
  show "if is_error_code rc then db_is d w' else \<exists>rs. sql_effect k b d (v_db (view w')) rs"
    using step_run [OF f s] step_error [OF f s] assms w by auto
qed

lemma weak_add:
  assumes "nul_free (req_from r)"
  shows "triple (\<lambda>w. db_is d w \<and> prepared_as (insert_statement st) Insert_statement b (view w)) (Store_add sq st r)
     (\<lambda>_ w. \<exists>rs. sql_effect Insert_request (add_binds b r) d (v_db (view w)) rs) (failed_with d)"
  unfolding Store_add_def column_indices
  by (rule triple_block_Cons [OF weak_reset triple_block_Cons [OF weak_bind_text [OF assms]
      triple_block_Cons [OF weak_bind_int triple_block_Cons [OF weak_bind_int64 triple_block_Cons [OF weak_bind_int
      triple_block_Cons [OF triple_weaken [OF weak_step] triple_block_Nil]]]]]])
    (auto simp: add_binds_def)

lemma weak_remove_application:
  assumes "nul_free i"
  shows "triple (\<lambda>w. db_is d w \<and> prepared_as (remove_application_statement st) RemoveApplication_statement b (view w))
     (Store_remove_application sq st i)
     (\<lambda>_ w. \<exists>rs. sql_effect Delete_application (if i = [] then b else b(1 := Text i)) d (v_db (view w)) rs)
     (failed_with d)"
  unfolding Store_remove_application_def parameter_indices
  by (rule triple_block_Cons [OF weak_reset triple_block_Cons [OF weak_bind_text [OF assms]
      triple_block_Cons [OF triple_weaken [OF weak_step] triple_block_Nil]]]) auto

lemma weak_reset_store:
  "triple (\<lambda>w. db_is d w \<and> prepared_as (delete_statement st) Delete_statement b (view w)) (Store_reset sq st)
     (\<lambda>_ w. \<exists>rs. sql_effect Delete_all b d (v_db (view w)) rs)
     (\<lambda>e w. (\<exists>s. e = ErrorResettingStore s) \<and> v_db (view w) = d)"
proof -
  have "triple (\<lambda>w. db_is d w \<and> prepared_as (delete_statement st) Delete_statement b (view w))
     (block [PS_reset sq (delete_statement st), bindE (PS_step sq (delete_statement st)) (\<lambda>_. returnE ())])
     (\<lambda>_ w. \<exists>rs. sql_effect Delete_all b d (v_db (view w)) rs) (failed_with d)"
    by (rule triple_block_Cons [OF weak_reset triple_block_Cons [OF triple_weaken [OF weak_step] triple_block_Nil]]) auto
  then show ?thesis
    unfolding Store_reset_def by (rule triple_catch) (auto intro: triple_throw)
qed

text \<open>The first call on a statement that stands at a failure throws again and clears it.\<close>

lemma add_after_failure:
  assumes "v_stmts (view w) (ps_statement (insert_statement st)) = Some s" and "st_cursor s = Failed e"
  shows "\<exists>x w'. Store_add sq st r w = (Inl x, w') \<and> is_runtime_error x \<and>
     view w' = at_binds (ps_statement (insert_statement st)) (st_binds s) s (view w)"
proof -
  obtain rc w' where f: "api_reset sq (ps_statement (insert_statement st)) w = (rc, w')" by force
  from reset [OF f assms(1)] assms(2) have "is_error_code rc"
    "view w' = at_binds (ps_statement (insert_statement st)) (st_binds s) s (view w)"
    by (auto simp: at_cursor_Ready)
  then show ?thesis
    by (simp add: Store_add_def PS_reset_def bindE_apply PS_call_def f is_error_eq)
qed

end

section \<open>A request without an application id\<close>

text \<open>
  The table's \<^verbatim>\<open>NOT NULL\<close> constraint refuses a request whose application id was never bound. The
  statement then stands at its failure, which the next \<^verbatim>\<open>sqlite3_reset\<close> reports once more.
\<close>

lemma triple_totalI: "triple P m Q no_throw \<Longrightarrow> triple P m Q E"
  by (erule triple_weaken) auto

context sqlite3_reliable
begin

lemma step_insert_null:
  assumes "sql_kind_of (st_sql s) = Some Insert_request" and "b 1 = Null"
  shows "triple (at_view (at_binds (ps_statement ps) b s v)) (bindE (PS_step sq ps) (\<lambda>_. returnE ()))
     (\<lambda>_ _. False)
     (\<lambda>e w. v_db (view w) = v_db v \<and> others_kept (ps_statement ps) (at_binds (ps_statement ps) b s v) (view w) \<and>
        (\<exists>rc. v_stmts (view w) (ps_statement ps) = Some (s\<lparr>st_cursor := Failed rc, st_binds := b\<rparr>)))"
  unfolding PS_step_def
proof (rule triple_discard, rule triple_weaken [OF triple_call_error [where Q = "\<lambda>_ _. False"]])
  fix w rc w'
  let ?v = "at_binds (ps_statement ps) b s v"
  assume w: "view w = ?v" and f: "api_step sq (ps_statement ps) w = (rc, w')"
  then have s: "v_stmts (view w) (ps_statement ps) = Some (s\<lparr>st_cursor := Ready, st_binds := b\<rparr>)" by simp
  have "is_error_code rc"
    using step_run [OF f s] assms by (force simp: sql_effect_simps)
  moreover from step_error [OF f s this] have "v_db (view w') = v_db v \<and>
      (\<exists>rc. v_stmts (view w') (ps_statement ps) = Some (s\<lparr>st_cursor := Failed rc, st_binds := b\<rparr>))"
    by (intro conjI exI [where x = rc]) (simp_all add: w)
  moreover have "others_kept (ps_statement ps) ?v (view w')"
    unfolding others_kept_def w [symmetric] using step_others [OF f] by blast
  ultimately show "if is_error_code rc then v_db (view w') = v_db v \<and> others_kept (ps_statement ps) ?v (view w') \<and>
        (\<exists>rc. v_stmts (view w') (ps_statement ps) = Some (s\<lparr>st_cursor := Failed rc, st_binds := b\<rparr>))
      else False"
    by simp
qed auto

lemma add_null_id:
  assumes s: "v_stmts v (ps_statement (insert_statement st)) = Some s" "st_sql s = Insert_statement"
      "\<nexists>e. st_cursor s = Failed e" "st_binds s 1 = Null"
    and r: "req_from r = []"
  shows "triple (at_view v) (Store_add sq st r) (\<lambda>_ _. False)
     (\<lambda>e w. v_db (view w) = v_db v \<and> (\<exists>b rc. b 1 = Null \<and>
        others_kept (ps_statement (insert_statement st)) (at_binds (ps_statement (insert_statement st)) b s v) (view w) \<and>
        v_stmts (view w) (ps_statement (insert_statement st)) = Some (s\<lparr>st_cursor := Failed rc, st_binds := b\<rparr>)))"
proof -
  have k: "sql_kind_of (st_sql s) = Some Insert_request" by (simp add: s(2))
  have nul: "nul_free (req_from r)" by (simp add: r nul_free_def)
  have b: "add_binds (st_binds s) r 1 = Null" using s(4) r by (simp add: add_binds_def)
  have last: "triple (at_view (at_binds (ps_statement (insert_statement st)) (add_binds (st_binds s) r) s v))
      (block [bindE (PS_step sq (insert_statement st)) (\<lambda>_. returnE ())]) (\<lambda>_ _. False)
      (\<lambda>e w. v_db (view w) = v_db v \<and> (\<exists>b rc. b 1 = Null \<and>
        others_kept (ps_statement (insert_statement st)) (at_binds (ps_statement (insert_statement st)) b s v) (view w) \<and>
        v_stmts (view w) (ps_statement (insert_statement st)) = Some (s\<lparr>st_cursor := Failed rc, st_binds := b\<rparr>)))"
    by (rule triple_block_Cons [OF triple_weaken [OF step_insert_null [where b = "add_binds (st_binds s) r", OF k b]] triple_block_Nil])
      (use b in blast)+
  show ?thesis
    unfolding Store_add_def column_indices
    by (intro triple_block_Cons [OF triple_totalI [OF reset_triple [OF s(1,3)]]]
        triple_block_Cons [OF triple_totalI [OF bind_text_triple_any [OF k _ nul]]]
        triple_block_Cons [OF triple_totalI [OF bind_int_triple [OF k]]]
        triple_block_Cons [OF triple_totalI [OF bind_int64_triple [OF k]]])
      (use last in \<open>simp_all add: add_binds_def del: block.simps\<close>)
qed

lemma failed_add_sequence:
  assumes ok: "store_ok st (view w)" and room: "store_room 1 (view w)"
    and s: "v_stmts (view w) (ps_statement (insert_statement st)) = Some s" "st_binds s 1 = Null"
    and r1: "req_from r1 = []" and r3: "clean_id (req_from r3)"
    and own: "ps_statement (insert_statement st) \<notin>
      {ps_statement (delete_statement st), ps_statement (remove_application_statement st)}"
  shows "\<exists>e1 w1 e2 w2 w3. Store_add sq st r1 w = (Inl e1, w1) \<and> Store_add sq st r2 w1 = (Inl e2, w2) \<and>
     is_runtime_error e2 \<and> store_contents (view w2) = store_contents (view w) \<and> Store_add sq st r3 w2 = (Inr (), w3) \<and>
     store_contents (view w3) = add_mset (r3\<lparr>req_feature := kept_feature (req_feature r3)\<rparr>) (store_contents (view w))"
proof -
  let ?h = "ps_statement (insert_statement st)"
  have sql: "st_sql s = Insert_statement" "\<nexists>e. st_cursor s = Failed e"
    using ok s(1) by (auto simp: store_ok_def has_stmt_def)
  obtain x w1 where a1: "Store_add sq st r1 w = (x, w1)" by force
  from add_null_id [OF s(1) sql s(2) r1] obtain e1 where e1: "x = Inl e1"
    using a1 by (cases x) (auto dest: triple_returnD)
  obtain b rc where w1: "v_db (view w1) = v_db (view w)" "b 1 = Null" "others_kept ?h (at_binds ?h b s (view w)) (view w1)"
    "v_stmts (view w1) ?h = Some (s\<lparr>st_cursor := Failed rc, st_binds := b\<rparr>)"
    using triple_throwD [OF add_null_id [OF s(1) sql s(2) r1] refl a1 [unfolded e1]] by blast
  obtain e2 w2 where a2: "Store_add sq st r2 w1 = (Inl e2, w2)" "is_runtime_error e2"
    "view w2 = at_binds ?h b (s\<lparr>st_cursor := Failed rc, st_binds := b\<rparr>) (view w1)"
    using add_after_failure [OF w1(4)] by fastforce
  have "has_stmt (view w1) ps t" if "has_stmt (view w) ps t" "ps_statement ps \<noteq> ?h" for ps t
    using has_stmt_step [OF that(1) only_at_binds w1(3)] that(2) by blast
  then have ok2: "store_ok st (view w2)"
    using ok own w1(1) sql(1) unfolding store_ok_def a2(3) by (auto simp: has_stmt_def)
  have room2: "store_room 1 (view w2)" using room w1(1) by (simp add: store_room_def a2(3))
  have c: "store_contents (view w2) = store_contents (view w)" using w1(1) by (simp add: store_contents_def a2(3))
  from triple_totalE [OF Store_add_triple [OF ok2 room2 [unfolded One_nat_def] r3] refl] obtain w3 where
    "Store_add sq st r3 w2 = (Inr (), w3)"
    "store_contents (view w3) = add_mset (r3\<lparr>req_feature := kept_feature (req_feature r3)\<rparr>) (store_contents (view w2))"
    by auto
  with a1 e1 a2(1,2) c show ?thesis by auto
qed

text \<open>
  On a reliable engine an addition throws for that reason only, as long as what is bound for the application id is nothing
  or the id of an earlier request.
\<close>

lemma failed_add_cause:
  assumes ok: "store_ok st (view w)" and room: "store_room 1 (view w)" and r: "nul_free (req_from r)"
    and s: "v_stmts (view w) (ps_statement (insert_statement st)) = Some s"
      "st_binds s 1 = Null \<or> (\<exists>t. st_binds s 1 = Text t \<and> clean_id t)"
    and a: "Store_add sq st r w = (Inl e, w')"
  shows "req_from r = [] \<and> st_binds s 1 = Null"
proof (rule ccontr)
  assume "\<not> ?thesis"
  then obtain t where t: "add_binds (st_binds s) r 1 = Text t" "clean_id t"
    using s(2) r by (cases "req_from r = []") (auto simp: add_binds_def clean_id_def nul_free_def)
  from triple_totalE [OF Store_add_triple_any [OF ok room r s(1) t] refl] a show False by (metis Inl_Inr_False prod.inject)
qed

lemma add_empty_id:
  assumes ok: "store_ok st (view w)" and room: "store_room 1 (view w)"
    and r1: "clean_id (req_from r1)" and a1: "Store_add sq st r1 w = (Inr (), w1)" and room1: "store_room 1 (view w1)"
    and r2: "req_from r2 = []"
  shows "\<exists>w2. Store_add sq st r2 w1 = (Inr (), w2) \<and>
     store_contents (view w2) =
       add_mset (r2\<lparr>req_from := req_from r1, req_feature := kept_feature (req_feature r2)\<rparr>) (store_contents (view w1))"
proof -
  let ?h = "ps_statement (insert_statement st)"
  obtain s where s: "v_stmts (view w) ?h = Some s" using ok by (auto simp: store_ok_def has_stmt_def)
  note first = Store_add_triple_any [OF ok room clean_binds(2) [OF r1] s clean_binds(1) [OF r1] r1]
  from triple_returnD [OF first refl a1] have w1: "store_ok st (view w1)"
    "v_stmts (view w1) ?h = Some (s\<lparr>st_cursor := Done, st_binds := add_binds (st_binds s) r1\<rparr>)"
    by auto
  have b: "add_binds (add_binds (st_binds s) r1) r2 1 = Text (req_from r1)"
    using r1 r2 by (auto simp: add_binds_def clean_id_def)
  have nul: "nul_free (req_from r2)" by (simp add: r2 nul_free_def)
  show ?thesis
    by (rule triple_totalE [OF Store_add_triple_any [OF w1(1) room1 nul w1(2) _ r1] refl]) (use b in auto)
qed

end

end
