(* ===== verification/Cached_Agent.thy ===== *)
theory Cached_Agent
  imports Store_Contract
begin

text \<open>
  The two functions that decide a trust request from the store before they ask the user:
  \<^verbatim>\<open>process_trust_request\<close> (\<^verbatim>\<open>request.cpp\<close>) and \<^verbatim>\<open>CachedAgent\<close> (\<^verbatim>\<open>cached_agent.cpp\<close>). Both
  see the store and the agent through their abstract interfaces only, so what they guarantee is
  proved here against the contract of \<open>trust_store\<close> and holds for every implementation.

  The clock (\<^verbatim>\<open>std::chrono::system_clock::now\<close>) is a reading of the world, the parameter \<open>now\<close>.
\<close>

section \<open>Model\<close>

text \<open>
  \<^verbatim>\<open>auto query = store->query(); ...\<close>: the body runs on the query object, which is destroyed
  at the end of the scope, also when the body throws.
\<close>

definition with_query :: "('w, 'q) store_vtable \<Rightarrow> ('q \<times> 'w, 'a) act \<Rightarrow> ('w, 'a) act" where
  "with_query V m = bindE (vt_query V) (\<lambda>q w. case m (q, w) of
     (r, (q', w')) \<Rightarrow> (r, snd (vt_destroy_query V q' w')))"

record 'w reporter =
  report_cached_answer_found :: "agent_params \<Rightarrow> request \<Rightarrow> ('w, unit) act"
  report_user_prompted_for_trust :: "agent_params \<Rightarrow> answer \<Rightarrow> ('w, unit) act"

text \<open>The base class \<^verbatim>\<open>Reporter\<close>: both functions are empty.\<close>

definition null_reporter :: "'w reporter" where
  "null_reporter = \<lparr>report_cached_answer_found = (\<lambda>_ _. returnE ()),
     report_user_prompted_for_trust = (\<lambda>_ _. returnE ())\<rparr>"

record ('w, 'q) cached_configuration =
  cc_agent :: "'w agent option"
  cc_store :: "('w, 'q) store_vtable option"
  cc_reporter :: "'w reporter"

record ('w, 'q) cached_agent =
  ca_agent :: "'w agent"
  ca_store :: "('w, 'q) store_vtable"
  ca_reporter :: "'w reporter"

definition CachedAgent_new :: "('w, 'q) cached_configuration \<Rightarrow> ('w, ('w, 'q) cached_agent) act" where
  "CachedAgent_new c = (case cc_agent c of
       None \<Rightarrow> throwE (logic_error ''Cannot operate without an agent implementation.'')
     | Some agent \<Rightarrow> (case cc_store c of
         None \<Rightarrow> throwE (logic_error ''Cannot operate without a store implementation.'')
       | Some store \<Rightarrow> returnE \<lparr>ca_agent = agent, ca_store = store, ca_reporter = cc_reporter c\<rparr>))"

definition CachedAgent_authenticate ::
  "('w, 'q) cached_agent \<Rightarrow> ('w \<Rightarrow> timestamp) \<Rightarrow> 'w agent"
where
  "CachedAgent_authenticate ca now params =
     (let V = ca_store ca in with_query V (
      bindE (vt_for_application_id V (app_id params)) (\<lambda>_.
      bindE (vt_for_feature V (app_feature params)) (\<lambda>_.
      bindE (vt_execute V) (\<lambda>_.
      bindE (vt_status V) (\<lambda>s.
      if s = has_more_results
      then
        bindE (vt_current V) (\<lambda>c.
        bindE (in_world (report_cached_answer_found (ca_reporter ca) params c)) (\<lambda>_.
        bindE (vt_current V) (\<lambda>c'. returnE (req_answer c'))))
      else
        in_world (
          bindE (ca_agent ca
            \<lparr>app_uid = app_uid params, app_pid = app_pid params, app_id = app_id params,
             app_feature = app_feature params, app_description = app_description params\<rparr>) (\<lambda>answer.
          bindE (report_user_prompted_for_trust (ca_reporter ca) params answer) (\<lambda>_.
          bindE (readE now) (\<lambda>t.
          bindE (vt_add V
            \<lparr>req_from = app_id params, req_feature = app_feature params, req_when = t,
             req_answer = answer\<rparr>) (\<lambda>_.
          returnE answer)))))))))))"

record ('w, 'q) request_parameters =
  rp_agent :: "'w agent option"
  rp_store :: "('w, 'q) store_vtable option"
  rp_application_uid :: uid
  rp_application_pid :: pid
  rp_application_id :: string
  rp_feature :: feature
  rp_description :: string

definition process_trust_request ::
  "('w \<Rightarrow> timestamp) \<Rightarrow> ('w, 'q) request_parameters \<Rightarrow> ('w, answer) act"
where
  "process_trust_request now params = (case rp_agent params of
       None \<Rightarrow> throwE (logic_error ''Cannot operate without an agent implementation.'')
     | Some agent \<Rightarrow> (case rp_store params of
         None \<Rightarrow> throwE (logic_error ''Cannot operate without a store implementation.'')
       | Some V \<Rightarrow> with_query V (
           bindE (vt_for_application_id V (rp_application_id params)) (\<lambda>_.
           bindE (vt_for_feature V (rp_feature params)) (\<lambda>_.
           bindE (vt_execute V) (\<lambda>_.
           bindE (vt_status V) (\<lambda>s.
           if s = has_more_results
           then bindE (vt_current V) (\<lambda>c. returnE (req_answer c))
           else in_world (
             bindE (agent
               \<lparr>app_uid = rp_application_uid params, app_pid = rp_application_pid params,
                app_id = rp_application_id params, app_feature = rp_feature params,
                app_description = rp_description params\<rparr>) (\<lambda>answer.
             bindE (readE now) (\<lambda>t.
             bindE (vt_add V
               \<lparr>req_from = rp_application_id params, req_feature = rp_feature params, req_when = t,
                req_answer = answer\<rparr>) (\<lambda>_.
             returnE answer)))))))))))"

section \<open>What a client may rely on\<close>

text \<open>The filter both functions narrow their query down to.\<close>

definition asks :: "string \<Rightarrow> feature \<Rightarrow> query_filter" where
  "asks i f = \<lparr>f_application = Some i, f_feature = Some f, f_interval = None, f_answer = None\<rparr>"

lemma matches_asks [simp]: "matches (asks i f) r \<longleftrightarrow> req_from r = i \<and> req_feature r = f"
  by (auto simp: matches_def asks_def)

text \<open>\<open>r\<close> is a most recent decision on the application and the feature.\<close>

definition latest :: "string \<Rightarrow> feature \<Rightarrow> request multiset \<Rightarrow> request \<Rightarrow> bool" where
  "latest i f R r \<longleftrightarrow> r \<in># R \<and> req_from r = i \<and> req_feature r = f \<and>
     (\<forall>r' \<in># R. req_from r' = i \<longrightarrow> req_feature r' = f \<longrightarrow> sint (req_when r') \<le> sint (req_when r))"

definition decided :: "string \<Rightarrow> feature \<Rightarrow> request multiset \<Rightarrow> bool" where
  "decided i f R \<longleftrightarrow> (\<exists>r. r \<in># R \<and> req_from r = i \<and> req_feature r = f)"

lemma answers_Cons_latest:
  assumes "answers (asks i f) R (r # rs)"
  shows "latest i f R r"
proof -
  have m: "mset (r # rs) = filter_mset (matches (asks i f)) R" and s: "newest_first (r # rs)"
    using assms by (auto simp: answers_def)
  from arg_cong [OF m, of set_mset]
  have "insert r (set rs) = {r' \<in> set_mset R. req_from r' = i \<and> req_feature r' = f}"
    by simp
  then show ?thesis using s unfolding latest_def newest_first_def by auto
qed

lemma answers_Nil_iff: "answers (asks i f) R [] \<longleftrightarrow> \<not> decided i f R"
  by (auto simp: answers_def decided_def newest_first_def filter_mset_eq_conv)

text \<open>
  The part the two functions share, in the abstract: a result of the query decides, and
  \<open>found\<close> turns it into the outcome; otherwise \<open>ask\<close> runs.
\<close>

definition consult :: "('w, 'q) store_vtable \<Rightarrow> string \<Rightarrow> feature \<Rightarrow>
  ('q \<times> 'w, 'a) act \<Rightarrow> ('w, 'a) act \<Rightarrow> ('w, 'a) act" where
  "consult V i f found ask = with_query V (
      bindE (vt_for_application_id V i) (\<lambda>_.
      bindE (vt_for_feature V f) (\<lambda>_.
      bindE (vt_execute V) (\<lambda>_.
      bindE (vt_status V) (\<lambda>s.
      if s = has_more_results then found else in_world ask)))))"

definition found_by :: "('w, 'q) cached_agent \<Rightarrow> agent_params \<Rightarrow> ('q \<times> 'w, answer) act" where
  "found_by c p =
     bindE (vt_current (ca_store c)) (\<lambda>r.
     bindE (in_world (report_cached_answer_found (ca_reporter c) p r)) (\<lambda>_.
     bindE (vt_current (ca_store c)) (\<lambda>r'. returnE (req_answer r'))))"

definition asked_by :: "('w, 'q) cached_agent \<Rightarrow> ('w \<Rightarrow> timestamp) \<Rightarrow> agent_params \<Rightarrow> ('w, answer) act" where
  "asked_by c now p =
     bindE (ca_agent c p) (\<lambda>answer.
     bindE (report_user_prompted_for_trust (ca_reporter c) p answer) (\<lambda>_.
     bindE (readE now) (\<lambda>t.
     bindE (vt_add (ca_store c)
       \<lparr>req_from = app_id p, req_feature = app_feature p, req_when = t, req_answer = answer\<rparr>) (\<lambda>_.
     returnE answer))))"

lemma authenticate_consult:
  "CachedAgent_authenticate c now p =
     consult (ca_store c) (app_id p) (app_feature p) (found_by c p) (asked_by c now p)"
proof -
  have eta: "\<lparr>app_uid = app_uid p, app_pid = app_pid p, app_id = app_id p, app_feature = app_feature p,
      app_description = app_description p\<rparr> = p"
    by (cases p) simp
  show ?thesis
    unfolding CachedAgent_authenticate_def consult_def found_by_def asked_by_def Let_def eta by (rule refl)
qed

context trust_store
begin

text \<open>The query the two functions run, up to the point where they look at its status.\<close>

lemma consult_cases:
  assumes "inv w" and "fresh w" and "clean_id i"
  obtains (hit) q w' r rs where "inv w'" "contents w' = contents w" "\<forall>n. room n w \<longrightarrow> room n w'" "owned q"
      "qstate q w' (asks i f) (Results (r # rs))" "latest i f (contents w) r"
      "\<And>found (ask :: (_, answer) act). consult V i f found ask w =
        (case found (q, w') of (x, (q', w'')) \<Rightarrow> (x, snd (vt_destroy_query V q' w'')))"
    | (miss) q w' where "inv w'" "contents w' = contents w" "\<forall>n. room n w \<longrightarrow> room n w'" "owned q"
      "\<not> decided i f (contents w)"
      "\<And>found (ask :: (_, answer) act). consult V i f found ask w =
        (case ask w' of (x, w'') \<Rightarrow> (x, snd (vt_destroy_query V q w'')))"
proof -
  from query [OF assms(1,2)] obtain q1 w1 where
    1: "vt_query V w = (Inr q1, w1)" "inv w1" "contents w1 = contents w" "\<forall>n. room n w \<longrightarrow> room n w1" "owned q1"
      "qstate q1 w1 no_filter Building" by blast
  from for_application_id [OF 1(2,6) assms(3)] obtain q2 w2 where
    2: "vt_for_application_id V i (q1, w1) = (Inr (), (q2, w2))" "inv w2" "contents w2 = contents w1"
      "\<forall>n. room n w1 \<longrightarrow> room n w2" "owned q1 \<longrightarrow> owned q2" "qstate q2 w2 (no_filter\<lparr>f_application := Some i\<rparr>) Building"
    by blast
  from for_feature [OF 2(2,6), of f] obtain q3 w3 where
    3: "vt_for_feature V f (q2, w2) = (Inr (), (q3, w3))" "inv w3" "contents w3 = contents w2"
      "\<forall>n. room n w2 \<longrightarrow> room n w3" "owned q2 \<longrightarrow> owned q3"
      "qstate q3 w3 (no_filter\<lparr>f_application := Some i, f_feature := Some f\<rparr>) Building"
    by auto
  have flt: "no_filter\<lparr>f_application := Some i, f_feature := Some f\<rparr> = asks i f"
    by (simp add: no_filter_def asks_def)
  from execute [OF 3(2) 3(6) [unfolded flt]] obtain q4 w4 rs where
    4: "vt_execute V (q3, w3) = (Inr (), (q4, w4))" "inv w4" "contents w4 = contents w3"
      "\<forall>n. room n w3 \<longrightarrow> room n w4" "owned q3 \<longrightarrow> owned q4" "qstate q4 w4 (asks i f) (Results rs)"
      "answers (asks i f) (contents w3) rs"
    by blast
  note st = status [OF 4(2,6)]
  show thesis
  proof (cases rs)
    case Nil
    show thesis
      by (rule miss [of w4 q4]) (use 1 2 3 4 st Nil answers_Nil_iff [of i f "contents w"] in
        \<open>auto simp: consult_def with_query_def bindE_apply split: prod.splits\<close>)
  next
    case (Cons r rs')
    show thesis
      by (rule hit [of w4 q4 r rs']) (use 1 2 3 4 st Cons answers_Cons_latest [of i f "contents w" r rs'] in
        \<open>auto simp: consult_def with_query_def bindE_apply split: prod.splits\<close>)
  qed
qed

end

section \<open>The guarantees\<close>

text \<open>
  What the two functions rely on beside the store: prompting the user and reporting do not touch
  the store or a query on it, and the reporter returns.
\<close>

locale consulting = trust_store V inv room fresh contents keep answer_ok owned qstate
  for V :: "('w, 'q) store_vtable" and inv room fresh contents keep answer_ok owned qstate +
  fixes agent :: "'w agent"
    and rep :: "'w reporter"
    and now :: "'w \<Rightarrow> timestamp"
  assumes agent_frame: "inv w \<Longrightarrow> agent p w = (x, w') \<Longrightarrow>
      inv w' \<and> contents w' = contents w \<and> (\<forall>n. room n w \<longrightarrow> room n w')"
    and agent_answer: "inv w \<Longrightarrow> agent p w = (Inr a, w') \<Longrightarrow> answer_ok a"
    and report_found: "inv w \<Longrightarrow> qstate q w f ph \<Longrightarrow>
      \<exists>w'. report_cached_answer_found rep p c w = (Inr (), w') \<and> inv w' \<and> contents w' = contents w \<and>
           (\<forall>n. room n w \<longrightarrow> room n w') \<and> qstate q w' f ph"
    and report_prompted: "inv w \<Longrightarrow>
      \<exists>w'. report_user_prompted_for_trust rep p a w = (Inr (), w') \<and> inv w' \<and> contents w' = contents w \<and>
           (\<forall>n. room n w \<longrightarrow> room n w')"
begin

abbreviation ca :: "('w, 'q) cached_agent" where
  "ca \<equiv> \<lparr>ca_agent = agent, ca_store = V, ca_reporter = rep\<rparr>"

lemma destroy_owned:
  assumes "inv w" and "owned q"
  shows "inv (snd (vt_destroy_query V q w))" "contents (snd (vt_destroy_query V q w)) = contents w"
    "room n w \<longrightarrow> room n (snd (vt_destroy_query V q w))"
  using destroy_query [OF assms] by auto

lemma authenticate_decided:
  assumes "inv w" and "fresh w" and "clean_id (app_id p)" and "decided (app_id p) (app_feature p) (contents w)"
  shows "\<exists>w' r. CachedAgent_authenticate (ca\<lparr>ca_agent := any\<rparr>) now p w = (Inr (req_answer r), w') \<and>
     latest (app_id p) (app_feature p) (contents w) r \<and> inv w' \<and> contents w' = contents w \<and> (\<forall>n. room n w \<longrightarrow> room n w')"
proof (rule consult_cases [OF assms(1,2,3), of "app_feature p"])
  fix q w1 r rs
  assume w1: "inv w1" "contents w1 = contents w" "\<forall>n. room n w \<longrightarrow> room n w1" "owned q"
      "qstate q w1 (asks (app_id p) (app_feature p)) (Results (r # rs))"
    and r: "latest (app_id p) (app_feature p) (contents w) r"
    and c: "\<And>found (ask :: (_, answer) act). consult V (app_id p) (app_feature p) found ask w =
        (case found (q, w1) of (x, (q', w'')) \<Rightarrow> (x, snd (vt_destroy_query V q' w'')))"
  from report_found [OF w1(1,5)] obtain w2 where
    w2: "report_cached_answer_found rep p r w1 = (Inr (), w2)" "inv w2" "contents w2 = contents w1"
      "\<forall>n. room n w1 \<longrightarrow> room n w2" "qstate q w2 (asks (app_id p) (app_feature p)) (Results (r # rs))"
    by blast
  show ?thesis
    using r w1 w2 destroy_owned [OF w2(2) w1(4)] current [OF w1(1,5)] current [OF w2(2,5)]
    by (auto simp: authenticate_consult found_by_def asked_by_def bindE_apply c)
qed (use assms(4) in simp)

text \<open>The request recorded after a prompt, as the store keeps it.\<close>

abbreviation recorded :: "agent_params \<Rightarrow> timestamp \<Rightarrow> answer \<Rightarrow> request" where
  "recorded p t a \<equiv>
     \<lparr>req_from = app_id p, req_feature = keep (app_feature p), req_when = t, req_answer = a\<rparr>"

lemma authenticate_undecided:
  assumes "inv w" and "fresh w" and "clean_id (app_id p)" and "\<not> decided (app_id p) (app_feature p) (contents w)" and "room (Suc n) w"
  shows "\<exists>w1 w2 w'. inv w1 \<and> contents w1 = contents w \<and>
     ((\<exists>e. agent p w1 = (Inl e, w2) \<and> CachedAgent_authenticate ca now p w = (Inl e, w') \<and>
           inv w' \<and> (\<forall>m. room m w \<longrightarrow> room m w') \<and> contents w' = contents w) \<or>
      (\<exists>a t. agent p w1 = (Inr a, w2) \<and> CachedAgent_authenticate ca now p w = (Inr a, w') \<and>
           inv w' \<and> room n w' \<and> contents w' = add_mset (recorded p t a) (contents w)))"
proof (rule consult_cases [OF assms(1,2,3), of "app_feature p"])
  fix q w1
  assume w1: "inv w1" "contents w1 = contents w" "\<forall>n. room n w \<longrightarrow> room n w1" "owned q"
    and c: "\<And>found (ask :: (_, answer) act). consult V (app_id p) (app_feature p) found ask w =
        (case ask w1 of (x, w'') \<Rightarrow> (x, snd (vt_destroy_query V q w'')))"
  obtain x w2 where ag: "agent p w1 = (x, w2)" by force
  from agent_frame [OF w1(1) ag] have w2: "inv w2" "contents w2 = contents w1" "\<forall>n. room n w1 \<longrightarrow> room n w2" by auto
  show ?thesis
  proof (cases x)
    case (Inl e)
    then show ?thesis
      using ag w1 w2 destroy_owned [OF w2(1) w1(4)]
      by (auto simp: authenticate_consult found_by_def asked_by_def bindE_apply c)
  next
    case (Inr a)
    from report_prompted [OF w2(1)] obtain w3 where
      w3: "report_user_prompted_for_trust rep p a w2 = (Inr (), w3)" "inv w3" "contents w3 = contents w2"
        "\<forall>n. room n w2 \<longrightarrow> room n w3" by blast
    let ?r = "\<lparr>req_from = app_id p, req_feature = app_feature p, req_when = now w3, req_answer = a\<rparr>"
    have "room (Suc n) w3" "clean_id (req_from ?r)" "answer_ok (req_answer ?r)"
      using assms(3,5) w1(3) w2(3) w3(4) agent_answer [OF w1(1) ag [unfolded Inr]] by auto
    from add [OF w3(2) this] obtain w4 where
      w4: "vt_add V ?r w3 = (Inr (), w4)" "inv w4" "room n w4" "contents w4 = add_mset (recorded p (now w3) a) (contents w3)"
      by auto
    then show ?thesis
      using Inr ag w1 w2 w3 destroy_owned [OF w4(2) w1(4)]
      by (auto simp: authenticate_consult found_by_def asked_by_def bindE_apply c)
  qed
qed (use assms(4) in \<open>auto simp: decided_def latest_def\<close>)

text \<open>
  An answer given at a prompt is the answer from then on for the feature as the store keeps it: the
  user is not asked again.
\<close>

lemma authenticate_kept:
  assumes w: "inv w" "room (Suc n) w" "fresh w" and w'_fresh: "fresh w'" and p: "clean_id (app_id p)"
    and new: "\<not> decided (app_id p) (app_feature p) (contents w)"
      "\<not> decided (app_id p) (keep (app_feature p)) (contents w)"
    and first: "CachedAgent_authenticate ca now p w = (Inr a, w')"
    and same: "app_id p' = app_id p" "app_feature p' = keep (app_feature p)"
  shows "\<exists>w''. CachedAgent_authenticate (ca\<lparr>ca_agent := any\<rparr>) now p' w' = (Inr a, w'') \<and>
     contents w'' = contents w'"
proof -
  from authenticate_undecided [OF w(1,3) p new(1) w(2)] first obtain t where
    w': "inv w'" "contents w' = add_mset (recorded p t a) (contents w)" by fastforce
  then have d: "decided (app_id p') (app_feature p') (contents w')"
    unfolding decided_def same by force
  have "clean_id (app_id p')" using p same by simp
  from authenticate_decided [OF w'(1) w'_fresh this d] obtain w'' r where
    a: "CachedAgent_authenticate (ca\<lparr>ca_agent := any\<rparr>) now p' w' = (Inr (req_answer r), w'')"
      "latest (app_id p') (app_feature p') (contents w') r" "contents w'' = contents w'"
    by blast
  have "r = recorded p t a"
    using a(2) new(2) w'(2) unfolding latest_def decided_def same by auto
  then show ?thesis using a by auto
qed

lemma authenticate_again:
  assumes "inv w" "room (Suc n) w" "fresh w" "fresh w'" "clean_id (app_id p)" and small: "small_feature (app_feature p)"
    and "\<not> decided (app_id p) (app_feature p) (contents w)"
    and "CachedAgent_authenticate ca now p w = (Inr a, w')"
    and "app_id p' = app_id p" "app_feature p' = app_feature p"
  shows "\<exists>w''. CachedAgent_authenticate (ca\<lparr>ca_agent := any\<rparr>) now p' w' = (Inr a, w'') \<and>
     contents w'' = contents w'"
  by (rule authenticate_kept) (use assms keep [OF small] in auto)

end

section \<open>The stand-alone function\<close>

lemma process_trust_request_misuse:
  "rp_agent params = None \<Longrightarrow> \<exists>m. process_trust_request now params w = (Inl (logic_error m), w)"
  "rp_store params = None \<Longrightarrow> \<exists>m. process_trust_request now params w = (Inl (logic_error m), w)"
  by (auto simp: process_trust_request_def split: option.splits)

definition params_of :: "('w, 'q) request_parameters \<Rightarrow> agent_params" where
  "params_of params = \<lparr>app_uid = rp_application_uid params, app_pid = rp_application_pid params,
     app_id = rp_application_id params, app_feature = rp_feature params,
     app_description = rp_description params\<rparr>"

context trust_store
begin

text \<open>\<^verbatim>\<open>process_trust_request\<close> is the caching agent with a reporter that says nothing.\<close>

lemma process_is_authenticate:
  assumes "inv w" and "fresh w" and "clean_id (rp_application_id params)"
    and "rp_agent params = Some agent" and "rp_store params = Some V"
  shows "process_trust_request now params w = CachedAgent_authenticate
     \<lparr>ca_agent = agent, ca_store = V, ca_reporter = null_reporter\<rparr> now (params_of params) w"
proof -
  let ?ca = "\<lparr>ca_agent = agent, ca_store = V, ca_reporter = null_reporter\<rparr>"
  have id: "clean_id (app_id (params_of params))" using assms(3) by (simp add: params_of_def)
  have "process_trust_request now params = consult V (app_id (params_of params)) (app_feature (params_of params))
      (bindE (vt_current V) (\<lambda>c. returnE (req_answer c))) (asked_by ?ca now (params_of params))"
    using assms(4,5)
    by (simp add: process_trust_request_def consult_def asked_by_def params_of_def null_reporter_def)
  then show ?thesis
    unfolding authenticate_consult
    by (cases rule: consult_cases [OF assms(1,2) id, where f = "app_feature (params_of params)"])
      (simp_all add: found_by_def null_reporter_def bindE_apply current)
qed

text \<open>A decided request is answered from the store; the agent is not asked.\<close>

lemma process_decided:
  assumes "inv w" and "fresh w" and "clean_id (rp_application_id params)"
    and "decided (rp_application_id params) (rp_feature params) (contents w)"
    and "rp_agent params = Some agent" and "rp_store params = Some V"
  shows "\<exists>w' r. process_trust_request now params w = (Inr (req_answer r), w') \<and>
     latest (rp_application_id params) (rp_feature params) (contents w) r \<and> inv w' \<and> contents w' = contents w"
proof -
  let ?ask = "asked_by \<lparr>ca_agent = agent, ca_store = V, ca_reporter = null_reporter\<rparr> now (params_of params)"
  have p: "process_trust_request now params = consult V (rp_application_id params) (rp_feature params)
      (bindE (vt_current V) (\<lambda>c. returnE (req_answer c))) ?ask"
    using assms(5,6)
    by (simp add: process_trust_request_def consult_def asked_by_def params_of_def null_reporter_def)
  from assms(1-3) show ?thesis
  proof (cases rule: consult_cases [where f = "rp_feature params"])
    case (hit q w1 r rs)
    then show ?thesis using destroy_query [OF hit(1,4)] current [OF hit(1,5)] by (auto simp: p bindE_apply)
  qed (use assms(4) in simp)
qed

end

end
