(* ===== verification/Store_Properties.thy ===== *)
theory Store_Properties
  imports Sqlite_Store_Life Cached_Agent
begin

text \<open>
  What the SQLite store guarantees, and what the caching agent guarantees on top of it, stated over the
  code's own operations. The hypothesis \<open>sqlite3_reliable sq view\<close> is the documented behaviour of the
  database library; the witnesses discharge it with the reference engine.
\<close>

section \<open>A concrete store\<close>

text \<open>A home directory and a file system on which every directory can be made.\<close>

definition demo_home :: "(ref_engine, string) act" where
  "demo_home = returnE ''/home''"

definition demo_fs :: "ref_engine filesystem" where
  "demo_fs = \<lparr>fs_mkdir = (\<lambda>_ _ e. (None, e)), fs_join = (\<lambda>a b. a @ ''/'' @ b)\<rparr>"

text \<open>The engine and the store after opening an empty file.\<close>

definition demo_engine :: ref_engine where
  "demo_engine =
    \<lparr>re_db = \<lparr>db_table = Some [], db_version = Store_version\<rparr>,
     re_stmts = [Some ((fresh_stmt CreateDataTableIfNotExists_statement)\<lparr>st_cursor := Done\<rparr>), None, None,
       Some (fresh_stmt Delete_statement), Some (fresh_stmt Insert_statement),
       Some (fresh_stmt RemoveApplication_statement)]\<rparr>"

definition demo_store :: sqlite_store where
  "demo_store = \<lparr>store_db = 1, create_data_table_statement = \<lparr>ps_db = 1, ps_statement = 1\<rparr>,
     delete_statement = \<lparr>ps_db = 1, ps_statement = 4\<rparr>, insert_statement = \<lparr>ps_db = 1, ps_statement = 5\<rparr>,
     remove_application_statement = \<lparr>ps_db = 1, ps_statement = 6\<rparr>\<rparr>"

lemmas demo_run =
  ref_sqlite_def ref_prepare_def ref_step_def ref_stmt_def ref_update_def ref_column_def ref_bind_def ref_reset_def
  ref_clear_bindings_def
  bindE_apply on_throwE_apply finallyE_apply catchE_apply
  Database_new_def Database_prepare_statement_def Database_prepare_tagged_statement_def Database_get_version_def
  Database_set_version_def PS_new_def PS_step_def PS_call_def PS_destroy_def PS_column_int_def PS_reset_def
  PS_bind_text_def PS_bind_int_def PS_bind_int64_def is_error_def

lemma demo_open:
  "create_for_service ref_sqlite demo_fs demo_home ''camera'' ref_empty = (Inr demo_store, demo_engine)"
  by (simp add: create_for_service_def Store_new_def demo_home_def demo_fs_def ensure_dir_or_throw_def
      Store_body_def Store_upgrade_def Store_create_data_table_if_not_exists_def
      demo_run ref_empty_def demo_engine_def demo_store_def fresh_stmt_def sqlite_codes)

lemma demo_store_ok: "store_ok demo_store (ref_view demo_engine)" "store_room 1 (ref_view demo_engine)"
  "store_contents (ref_view demo_engine) = {#}"
  by (simp_all add: store_ok_def store_room_def store_contents_def has_stmt_def demo_store_def demo_engine_def
      ref_stmt_def fresh_stmt_def id_limit_def)

lemma ref_reliable: "sqlite3_reliable ref_sqlite ref_view"
  by unfold_locales

section \<open>The caching agent over the SQLite store\<close>

text \<open>Agents and reporters that leave the database connection alone.\<close>

definition leaves_database :: "('w \<Rightarrow> view) \<Rightarrow> 'w agent \<Rightarrow> bool" where
  "leaves_database view agent \<longleftrightarrow> (\<forall>p w. view (snd (agent p w)) = view w)"

definition quiet_reporter :: "('w \<Rightarrow> view) \<Rightarrow> 'w reporter \<Rightarrow> bool" where
  "quiet_reporter view rep \<longleftrightarrow>
     (\<forall>p c w. fst (report_cached_answer_found rep p c w) = Inr () \<and>
              view (snd (report_cached_answer_found rep p c w)) = view w) \<and>
     (\<forall>p a w. fst (report_user_prompted_for_trust rep p a w) = Inr () \<and>
              view (snd (report_user_prompted_for_trust rep p a w)) = view w)"

lemma quiet_null_reporter: "quiet_reporter view null_reporter"
  by (simp add: quiet_reporter_def null_reporter_def)

lemma leaves_database_const: "leaves_database view (\<lambda>p. returnE a)" "leaves_database view (\<lambda>p. throwE e)"
  by (simp_all add: leaves_database_def)

locale sqlite_consulting = sqlite_backed sq view st
  for sq :: "'w sqlite3_api" and view :: "'w \<Rightarrow> view" and st :: sqlite_store +
  fixes agent :: "'w agent" and rep :: "'w reporter" and now :: "'w \<Rightarrow> timestamp"
  assumes agent_view: "leaves_database view agent" and rep_view: "quiet_reporter view rep"

sublocale sqlite_consulting \<subseteq> consulting "sqlite_vtable sq st" "\<lambda>w. store_ok st (view w)"
  "\<lambda>n w. store_room n (view w)" "\<lambda>_. True" "\<lambda>w. store_contents (view w)" kept_feature "\<lambda>_. True" "query_owned st"
  "\<lambda>q w. query_state st q (view w)" agent rep now
proof (unfold_locales, goal_cases)
  case (1 w p x w')
  moreover have "view w' = view w" using agent_view 1(2) by (metis leaves_database_def snd_conv)
  ultimately show ?case by simp
next
  case (3 w q f ph p c)
  moreover obtain w' where "report_cached_answer_found rep p c w = (Inr (), w')" "view w' = view w"
    using rep_view unfolding quiet_reporter_def by (metis prod.collapse)
  ultimately show ?case by auto
next
  case (4 w p a)
  moreover obtain w' where "report_user_prompted_for_trust rep p a w = (Inr (), w')" "view w' = view w"
    using rep_view unfolding quiet_reporter_def by (metis prod.collapse)
  ultimately show ?case by auto
qed simp

context sqlite_consulting
begin

lemmas over_sqlite_decided = authenticate_decided
lemmas over_sqlite_undecided = authenticate_undecided
lemmas over_sqlite_kept = authenticate_kept
lemmas over_sqlite_again = authenticate_again

end

interpretation demo: sqlite_consulting ref_sqlite ref_view st "\<lambda>p. returnE a" null_reporter now for st a now
  by unfold_locales (rule leaves_database_const quiet_null_reporter)+

lemma sqlite_consultingI:
  "sqlite3_reliable sq view \<Longrightarrow> leaves_database view agent \<Longrightarrow> quiet_reporter view rep \<Longrightarrow>
   sqlite_consulting sq view agent rep"
  by (simp add: sqlite_consulting_def sqlite_consulting_axioms_def sqlite_backed_def)

lemma sqlite_backedI: "sqlite3_reliable sq view \<Longrightarrow> sqlite_backed sq view"
  by (simp add: sqlite_backed_def)

lemma kept_feature_alias:
  assumes "unat k < 2 ^ 31"
  shows "kept_feature (Feature (2 ^ 32 + k)) = Feature k"
proof -
  have "(ucast (2 ^ 32 + k) :: int32) = ucast k"
    by transfer (simp add: take_bit_eq_mod mod_mod_cancel)
  then show ?thesis
    using scast_ucast_small [OF assms] by (simp add: kept_feature_def)
qed

text \<open>The data directory can be located and made, or is there already.\<close>

definition dir_ready :: "('w \<Rightarrow> view) \<Rightarrow> 'w filesystem \<Rightarrow> ('w, string) act \<Rightarrow> string \<Rightarrow> bool" where
  "dir_ready view fsys data_home name \<longleftrightarrow> (\<forall>w. \<exists>home w1 rc w2. data_home w = (Inr home, w1) \<and> view w1 = view w \<and>
     fs_mkdir fsys (fs_join fsys home name) S_IRWXU w1 = (rc, w2) \<and> view w2 = view w \<and>
     (rc = None \<or> rc = Some EEXIST))"

lemma demo_dir_ready: "dir_ready ref_view demo_fs demo_home name"
  by (simp add: dir_ready_def demo_fs_def demo_home_def)

lemma open_usable:
  assumes "sqlite3_reliable sq view" and "dir_ready view fsys data_home name" and "name \<noteq> []"
    and "db_usable (v_db (view w))"
  shows "\<exists>st w'. create_for_service sq fsys data_home name w = (Inr st, w') \<and> store_ok st (view w') \<and>
     store_contents (view w') = store_contents (view w) \<and> table_rows (v_db (view w')) = table_rows (v_db (view w)) \<and>
     db_version (v_db (view w')) =
       (if db_version (v_db (view w)) = 0 then Store_version else db_version (v_db (view w))) \<and>
     v_stmts (view w') (ps_statement (insert_statement st)) = Some (fresh_stmt Insert_statement)"
proof -
  obtain home w1 rc w2 where "data_home w = (Inr home, w1)" "view w1 = view w"
    "fs_mkdir fsys (fs_join fsys home name) S_IRWXU w1 = (rc, w2)" "view w2 = view w" "rc = None \<or> rc = Some EEXIST"
    using assms(2) unfolding dir_ready_def by metis
  from sqlite3_reliable.Store_new_law [where view = view and data_home = data_home and w = w and fsys = fsys and name = name, OF assms(1) this assms(4)]
  obtain st w' where "Store_new sq fsys data_home name w = (Inr st, w')" "store_ok st (view w')"
     "db_table (v_db (view w')) = Some (table_rows (v_db (view w)))"
     "db_version (v_db (view w')) =
       (if db_version (v_db (view w)) = 0 then Store_version else db_version (v_db (view w)))"
     "v_stmts (view w') (ps_statement (insert_statement st)) = Some (fresh_stmt Insert_statement)"
    by blast
  with assms(3) show ?thesis by (auto simp: create_for_service_def store_contents_def)
qed

section \<open>Properties of the store\<close>

text \<open>
  C1. The SQLite store implements the abstract store: on an engine that keeps SQLite's documented
  behaviour, every operation of \<^verbatim>\<open>Store\<close> and \<^verbatim>\<open>Query\<close> does to the table what the contract says it
  does to a bag of requests (add inserts one, remove_application deletes the application's, reset
  deletes all, a query yields the matching requests newest first, erase deletes the current one),
  returns without throwing and keeps the invariant.
\<close>

theorem sqlite_store_refines_contract:
  assumes "sqlite3_reliable sq view"
  shows "trust_store (sqlite_vtable sq st) (\<lambda>w. store_ok st (view w)) (\<lambda>n w. store_room n (view w))
     (\<lambda>_. True) (\<lambda>w. store_contents (view w)) kept_feature (\<lambda>_. True) (query_owned st) (\<lambda>q w. query_state st q (view w))"
  using assms by (rule sqlite3_reliable.sqlite_store_is_trust_store)

theorem sqlite_store_refines_contract_witness:
  "trust_store (sqlite_vtable ref_sqlite demo_store) (\<lambda>w. store_ok demo_store (ref_view w))
     (\<lambda>n w. store_room n (ref_view w)) (\<lambda>_. True) (\<lambda>w. store_contents (ref_view w)) kept_feature (\<lambda>_. True)
     (query_owned demo_store)
     (\<lambda>q w. query_state demo_store q (ref_view w)) \<and>
   store_ok demo_store (ref_view demo_engine)"
  using sqlite_store_refines_contract [OF ref_reliable] demo_store_ok by blast

text \<open>
  Opening a store by name on a database that is not set up yet, or that is set up and in order,
  gives a store that satisfies the invariant and holds exactly the requests the database held; a
  database without a version gets the current one, any other version is kept.
\<close>

theorem create_for_service_opens:
  assumes "sqlite3_reliable sq view" and "dir_ready view fsys data_home name" and "name \<noteq> []"
    and "db_usable (v_db (view w))"
  shows "\<exists>st w'. create_for_service sq fsys data_home name w = (Inr st, w') \<and> store_ok st (view w') \<and>
     store_contents (view w') = store_contents (view w) \<and>
     db_version (v_db (view w')) =
       (if db_version (v_db (view w)) = 0 then Store_version else db_version (v_db (view w)))"
  using open_usable [OF assms] by blast

theorem create_for_service_opens_witness:
  "\<exists>st w'. create_for_service ref_sqlite demo_fs demo_home ''camera'' ref_empty = (Inr st, w') \<and>
     store_ok st (ref_view w') \<and> store_contents (ref_view w') = {#} \<and>
     db_version (v_db (ref_view w')) = Store_version"
  using create_for_service_opens [OF ref_reliable demo_dir_ready, of "''camera''" ref_empty]
  by (simp add: ref_empty_def db_usable_def table_rows_def store_contents_def)

text \<open>
  A store that is closed and opened again holds the same requests: closing changes nothing
  in the database and the constructor's upgrade step keeps the existing table, whatever version
  the database records.
\<close>

theorem store_survives_restart:
  assumes "sqlite3_reliable sq view" and "store_ok st (view w)" and "name \<noteq> []"
    and "dir_ready view fsys data_home name"
  shows "\<exists>w1 st' w'. Store_destroy sq st w = (Inr (), w1) \<and>
     create_for_service sq fsys data_home name w1 = (Inr st', w') \<and> store_ok st' (view w') \<and>
     store_contents (view w') = store_contents (view w)"
proof -
  from sqlite3_reliable.Store_destroy_law [OF assms(1)] obtain w1 where
    w1: "Store_destroy sq st w = (Inr (), w1)" "v_db (view w1) = v_db (view w)" by blast
  have "db_usable (v_db (view w1))"
    using assms(2) w1(2) by (simp add: store_ok_def db_usable_def)
  from open_usable [OF assms(1,4,3) this] w1 show ?thesis
    by (metis store_contents_db)
qed

text \<open>A store with one decision in it.\<close>

definition demo_row :: row where
  "demo_row = \<lparr>r_Id = 1, r_ApplicationId = Text ''app'', r_Feature = Integer 0, r_Timestamp = Integer 5,
     r_Answer = Integer 1\<rparr>"

definition demo_granted :: ref_engine where
  "demo_granted = demo_engine\<lparr>re_db := \<lparr>db_table = Some [demo_row], db_version = Store_version\<rparr>\<rparr>"

definition demo_request :: request where
  "demo_request = \<lparr>req_from = ''app'', req_feature = Feature 0, req_when = 5, req_answer = granted\<rparr>"

lemma demo_row_ok: "row_ok demo_row" "request_of_row demo_row = demo_request"
proof -
  have "int32_value (Integer 0)" "int32_value (Integer 1)"
    unfolding int32_value_def by (rule exI [where x = 0], simp, rule exI [where x = 1], simp)
  then show "row_ok demo_row" by (simp add: row_ok_def demo_row_def clean_id_def)
  show "request_of_row demo_row = demo_request"
    by (simp add: request_of_row_def demo_row_def demo_request_def granted_def)
qed

lemma demo_granted_ok: "store_ok demo_store (ref_view demo_granted)" "store_room 1 (ref_view demo_granted)"
  "store_contents (ref_view demo_granted) = {#demo_request#}"
  using demo_row_ok
  by (simp_all add: store_ok_def store_room_def store_contents_def has_stmt_def demo_store_def demo_granted_def
      demo_engine_def ref_stmt_def fresh_stmt_def id_limit_def rows_ok_def)
    (simp_all add: demo_row_def)

theorem store_survives_restart_witness:
  "\<exists>w1 st' w'. Store_destroy ref_sqlite demo_store demo_granted = (Inr (), w1) \<and>
     create_for_service ref_sqlite demo_fs demo_home ''camera'' w1 = (Inr st', w') \<and> store_ok st' (ref_view w') \<and>
     store_contents (ref_view w') = {#demo_request#}"
  using store_survives_restart [OF ref_reliable demo_granted_ok(1) _ demo_dir_ready, of "''camera''"]
  unfolding demo_granted_ok(3) by simp

text \<open>
  C9. \<^verbatim>\<open>Store::add\<close> on an engine that may fail at any call, with any reported error: when it throws, the
  exception is a \<^verbatim>\<open>std::runtime_error\<close> and the database is as it was; when it returns, exactly one row
  was appended, under a fresh id, with the values bound (no half-written request).
\<close>

theorem add_is_atomic:
  assumes "sqlite3 sq view" and "nul_free (req_from r)" and "db_table (v_db (view w)) = Some rows"
    and "prepared_as (insert_statement st) Insert_statement b (view w)"
  shows "case Store_add sq st r w of
      (Inl e, w') \<Rightarrow> is_runtime_error e \<and> v_db (view w') = v_db (view w)
    | (Inr _, w') \<Rightarrow> v_db (view w') =
        (v_db (view w))\<lparr>db_table := Some (rows @ [new_row rows (add_binds b r)])\<rparr>"
  by (rule triple_outcome [OF sqlite3.weak_add [OF assms(1,2), of "v_db (view w)" st b]])
    (use assms(3,4) in \<open>simp_all add: sql_effect_simps\<close>)

lemma demo_prepared:
  "prepared_as (insert_statement demo_store) Insert_statement no_binds (ref_view demo_engine)"
  "prepared_as (remove_application_statement demo_store) RemoveApplication_statement no_binds (ref_view demo_granted)"
  "prepared_as (delete_statement demo_store) Delete_statement no_binds (ref_view demo_granted)"
  by (simp_all add: prepared_as_def demo_store_def demo_engine_def demo_granted_def ref_stmt_def fresh_stmt_def)

lemma demo_tables: "db_table (v_db (ref_view demo_engine)) = Some []" "db_table (v_db (ref_view demo_granted)) = Some [demo_row]"
  by (simp_all add: demo_engine_def demo_granted_def)

lemma ref_lawful: "sqlite3 ref_sqlite ref_view"
  by unfold_locales

lemma demo_add_without_id:
  "\<exists>e1 w1. Store_add ref_sqlite demo_store (demo_request\<lparr>req_from := []\<rparr>) demo_engine = (Inl e1, w1)"
  using ref.failed_add_sequence [OF demo_store_ok(1,2), of "fresh_stmt Insert_statement"
      "demo_request\<lparr>req_from := []\<rparr>" demo_request demo_request]
  unfolding demo_store_ok(3)
  by (auto simp: demo_store_def demo_engine_def ref_stmt_def fresh_stmt_def no_binds_def demo_request_def clean_id_def)

theorem add_is_atomic_witness:
  "v_db (ref_view (snd (Store_add ref_sqlite demo_store demo_request demo_engine))) = (v_db (ref_view demo_engine))
        \<lparr>db_table := Some [new_row [] (add_binds no_binds demo_request)]\<rparr> \<and>
   (\<exists>e w'. Store_add ref_sqlite demo_store (demo_request\<lparr>req_from := []\<rparr>) demo_engine = (Inl e, w') \<and>
      is_runtime_error e \<and> v_db (ref_view w') = v_db (ref_view demo_engine))"
proof
  have c: "clean_id (req_from demo_request)" by (simp add: clean_id_def demo_request_def)
  from triple_totalE [OF ref.Store_add_triple [OF demo_store_ok(1) demo_store_ok(2) [unfolded One_nat_def] c] refl] obtain w' where
    "Store_add ref_sqlite demo_store demo_request demo_engine = (Inr (), w')" by auto
  with add_is_atomic [OF ref_lawful _ demo_tables(1) demo_prepared(1), of demo_request]
  show "v_db (ref_view (snd (Store_add ref_sqlite demo_store demo_request demo_engine))) = (v_db (ref_view demo_engine))
        \<lparr>db_table := Some [new_row [] (add_binds no_binds demo_request)]\<rparr>"
    by (simp add: nul_free_def demo_request_def)
next
  from demo_add_without_id obtain e w' where
    a: "Store_add ref_sqlite demo_store (demo_request\<lparr>req_from := []\<rparr>) demo_engine = (Inl e, w')" by blast
  with add_is_atomic [OF ref_lawful _ demo_tables(1) demo_prepared(1), of "demo_request\<lparr>req_from := []\<rparr>"]
  show "\<exists>e w'. Store_add ref_sqlite demo_store (demo_request\<lparr>req_from := []\<rparr>) demo_engine = (Inl e, w') \<and>
      is_runtime_error e \<and> v_db (ref_view w') = v_db (ref_view demo_engine)"
    by (simp add: nul_free_def)
qed

text \<open>
  \<^verbatim>\<open>Store::remove_application\<close> on an engine that may fail: an exception leaves the database as it
  was, a normal return has deleted the rows of the application and no other row.
\<close>

theorem remove_application_is_atomic:
  assumes "sqlite3 sq view" and "clean_id i" and "db_table (v_db (view w)) = Some rows"
    and "prepared_as (remove_application_statement st) RemoveApplication_statement b (view w)"
  shows "case Store_remove_application sq st i w of
      (Inl e, w') \<Rightarrow> is_runtime_error e \<and> v_db (view w') = v_db (view w)
    | (Inr _, w') \<Rightarrow> v_db (view w') =
        (v_db (view w))\<lparr>db_table := Some (filter (\<lambda>r. r_ApplicationId r \<noteq> Text i) rows)\<rparr>"
proof -
  have i: "nul_free i" "i \<noteq> []" using assms(2) by (auto simp: clean_id_def nul_free_def)
  show ?thesis
    by (rule triple_outcome [OF sqlite3.weak_remove_application [OF assms(1) i(1), of "v_db (view w)" st b]])
      (use assms(3,4) i(2) in \<open>simp_all add: sql_effect_simps\<close>)
qed

theorem remove_application_is_atomic_witness:
  "case Store_remove_application ref_sqlite demo_store ''app'' demo_granted of
      (Inl e, w') \<Rightarrow> is_runtime_error e \<and> v_db (ref_view w') = v_db (ref_view demo_granted)
    | (Inr _, w') \<Rightarrow> v_db (ref_view w') = (v_db (ref_view demo_granted))
        \<lparr>db_table := Some (filter (\<lambda>r. r_ApplicationId r \<noteq> Text ''app'') [demo_row])\<rparr>"
  by (rule remove_application_is_atomic [OF ref_lawful _ demo_tables(2) demo_prepared(2)])
    (simp add: clean_id_def)

text \<open>
  \<^verbatim>\<open>Store::reset\<close> on an engine that may fail: the only exception that leaves it is
  \<^verbatim>\<open>ErrorResettingStore\<close>, and then the database is as it was; a normal return leaves an empty table.
\<close>

theorem reset_is_atomic:
  assumes "sqlite3 sq view" and "db_table (v_db (view w)) = Some rows"
    and "prepared_as (delete_statement st) Delete_statement b (view w)"
  shows "case Store_reset sq st w of
      (Inl e, w') \<Rightarrow> (\<exists>m. e = ErrorResettingStore m) \<and> v_db (view w') = v_db (view w)
    | (Inr _, w') \<Rightarrow> v_db (view w') = (v_db (view w))\<lparr>db_table := Some []\<rparr>"
  by (rule triple_outcome [OF sqlite3.weak_reset_store [OF assms(1), of "v_db (view w)" st b]])
    (use assms(2,3) in \<open>simp_all add: sql_effect_simps\<close>)

theorem reset_is_atomic_witness:
  "case Store_reset ref_sqlite demo_store demo_granted of
      (Inl e, w') \<Rightarrow> (\<exists>m. e = ErrorResettingStore m) \<and> v_db (ref_view w') = v_db (ref_view demo_granted)
    | (Inr _, w') \<Rightarrow> v_db (ref_view w') = (v_db (ref_view demo_granted))\<lparr>db_table := Some []\<rparr>"
  by (rule reset_is_atomic [OF ref_lawful demo_tables(2) demo_prepared(3)])

text \<open>
  C11. A request with an empty application id is not refused once another request has been added:
  \<^verbatim>\<open>bind_text\<close> returns early on the empty string, the binding of the earlier request stays, and the
  new request is stored under the earlier request's application id.
\<close>

theorem add_empty_id_reuses_previous_id:
  assumes "sqlite3_reliable sq view" and "store_ok st (view w)" and "store_room 1 (view w)"
    and "clean_id (req_from r1)" and "Store_add sq st r1 w = (Inr (), w1)" and "store_room 1 (view w1)"
    and "req_from r2 = []"
  shows "\<exists>w2. Store_add sq st r2 w1 = (Inr (), w2) \<and>
     store_contents (view w2) =
       add_mset (r2\<lparr>req_from := req_from r1, req_feature := kept_feature (req_feature r2)\<rparr>) (store_contents (view w1))"
  by (rule sqlite3_reliable.add_empty_id [OF assms])

text \<open>A first request added to the fresh store.\<close>

definition demo_added :: ref_engine where
  "demo_added = snd (Store_add ref_sqlite demo_store demo_request demo_engine)"

lemma demo_added:
  "Store_add ref_sqlite demo_store demo_request demo_engine = (Inr (), demo_added)"
  "store_room 1 (ref_view demo_added)"
proof -
  have c: "clean_id (req_from demo_request)" by (simp add: clean_id_def demo_request_def)
  from demo_store_ok(1) obtain s where s: "v_stmts (ref_view demo_engine) (ps_statement (insert_statement demo_store)) = Some s"
    by (auto simp: store_ok_def has_stmt_def)
  show "Store_add ref_sqlite demo_store demo_request demo_engine = (Inr (), demo_added)"
    by (rule triple_totalE [OF ref.Store_add_triple [OF demo_store_ok(1) demo_store_ok(2) [unfolded One_nat_def] c] refl]) (simp add: demo_added_def)
  from triple_returnD [OF ref.Store_add_triple_any [OF demo_store_ok(1,2) clean_binds(2) [OF c] s clean_binds(1) [OF c] c] refl this]
  show "store_room 1 (ref_view demo_added)"
    by (simp add: store_room_def demo_engine_def new_row_def id_limit_def)
qed

theorem add_empty_id_reuses_previous_id_witness:
  "\<exists>w2. Store_add ref_sqlite demo_store (demo_request\<lparr>req_from := [], req_when := 6\<rparr>) demo_added = (Inr (), w2) \<and>
     store_contents (ref_view w2) =
       add_mset (demo_request\<lparr>req_when := 6\<rparr>) (store_contents (ref_view demo_added))"
  using add_empty_id_reuses_previous_id [OF ref_reliable demo_store_ok(1,2) _ demo_added,
      of "demo_request\<lparr>req_from := [], req_when := 6\<rparr>"]
  by (simp add: demo_request_def clean_id_def kept_feature_def)



section \<open>Properties of the caching agent\<close>

abbreviation caching :: "'w agent \<Rightarrow> 'w sqlite3_api \<Rightarrow> sqlite_store \<Rightarrow> 'w reporter \<Rightarrow> ('w, query) cached_agent" where
  "caching agent sq st rep \<equiv> \<lparr>ca_agent = agent, ca_store = sqlite_vtable sq st, ca_reporter = rep\<rparr>"

definition demo_params :: agent_params where
  "demo_params = \<lparr>app_uid = Uid 1000, app_pid = Pid 42, app_id = ''app'', app_feature = Feature 0,
     app_description = ''camera''\<rparr>"

lemma demo_params_clean: "clean_id (app_id demo_params)" "small_feature (app_feature demo_params)"
  by (simp_all add: demo_params_def clean_id_def small_feature_def)

text \<open>
  C2. A decision found in the store is final: when the store holds a decision of the user on the
  application and the feature, the caching agent answers with a most recent one of them, leaves
  the store as it is, and does so whatever agent it was given: the user is not prompted.
\<close>

theorem cached_decision_is_returned:
  assumes "sqlite3_reliable sq view" and "quiet_reporter view rep" and "store_ok st (view w)"
    and "clean_id (app_id p)" and "decided (app_id p) (app_feature p) (store_contents (view w))"
  shows "\<exists>w' r. CachedAgent_authenticate (caching agent sq st rep) now p w = (Inr (req_answer r), w') \<and>
     latest (app_id p) (app_feature p) (store_contents (view w)) r \<and> store_ok st (view w') \<and>
     store_contents (view w') = store_contents (view w)"
proof -
  have env: "sqlite_consulting sq view (\<lambda>_. returnE denied) rep"
    using assms(1,2) by (intro sqlite_consultingI leaves_database_const)
  from sqlite_consulting.over_sqlite_decided [OF env assms(3) TrueI assms(4,5), of agent now]
  show ?thesis by simp blast
qed

theorem cached_decision_is_returned_witness:
  "\<exists>w'. CachedAgent_authenticate (caching (\<lambda>_. throwE other_exception) ref_sqlite demo_store null_reporter)
       (\<lambda>_. 7) demo_params demo_granted = (Inr granted, w') \<and>
     store_contents (ref_view w') = {#demo_request#}"
proof -
  have "decided (app_id demo_params) (app_feature demo_params) (store_contents (ref_view demo_granted))"
    by (simp add: demo_granted_ok decided_def demo_params_def demo_request_def)
  from cached_decision_is_returned [OF ref_reliable quiet_null_reporter demo_granted_ok(1) demo_params_clean(1) this]
  show ?thesis by (force simp: demo_granted_ok latest_def demo_request_def)
qed

text \<open>
  C3. Without a decision in the store the caching agent passes the request on, unchanged. When the
  agent throws, its exception leaves the function and the store is as it was; when it answers, the
  answer is returned and recorded in the store, with nothing else changed.
\<close>

theorem undecided_request_is_prompted:
  assumes "sqlite3_reliable sq view" and "leaves_database view agent" and "quiet_reporter view rep"
    and "store_ok st (view w)" and "store_room 1 (view w)" and "clean_id (app_id p)"
    and "\<not> decided (app_id p) (app_feature p) (store_contents (view w))"
  shows "\<exists>w1 w2 w'. store_contents (view w1) = store_contents (view w) \<and>
     ((\<exists>e. agent p w1 = (Inl e, w2) \<and>
           CachedAgent_authenticate (caching agent sq st rep) now p w = (Inl e, w') \<and>
           store_ok st (view w') \<and> store_contents (view w') = store_contents (view w)) \<or>
      (\<exists>a t. agent p w1 = (Inr a, w2) \<and>
           CachedAgent_authenticate (caching agent sq st rep) now p w = (Inr a, w') \<and> store_ok st (view w') \<and>
           store_contents (view w') = add_mset
             \<lparr>req_from = app_id p, req_feature = kept_feature (app_feature p), req_when = t, req_answer = a\<rparr>
             (store_contents (view w))))"
  using sqlite_consulting.over_sqlite_undecided [OF sqlite_consultingI [OF assms(1,2,3)] assms(4) TrueI assms(6,7) assms(5) [unfolded One_nat_def], of now]
  by blast

lemma demo_undecided: "\<not> decided i f (store_contents (ref_view demo_engine))"
  by (simp add: demo_store_ok(3) decided_def)

theorem undecided_request_is_prompted_witness:
  "\<exists>w' t. CachedAgent_authenticate (caching (\<lambda>_. returnE denied) ref_sqlite demo_store null_reporter)
       (\<lambda>_. 7) demo_params demo_engine = (Inr denied, w') \<and>
     store_contents (ref_view w') =
       {#\<lparr>req_from = ''app'', req_feature = Feature 0, req_when = t, req_answer = denied\<rparr>#}"
  using undecided_request_is_prompted [OF ref_reliable leaves_database_const(1) quiet_null_reporter demo_store_ok(1,2)
      demo_params_clean(1) demo_undecided, of denied "\<lambda>_. 7"]
  by (auto simp: demo_store_ok(3) demo_params_def kept_feature_def)

text \<open>
  Once the user has answered a prompt, every later request of the same application for the
  same feature gets that answer, whoever asks and whatever agent stands behind the cache: the user
  is prompted once. (The feature is below \<open>2 ^ 31\<close>, the range the store keeps.)
\<close>

theorem answer_is_remembered:
  assumes "sqlite3_reliable sq view" and "leaves_database view agent" and "quiet_reporter view rep"
    and "store_ok st (view w)" and "store_room 1 (view w)" and "clean_id (app_id p)"
    and "small_feature (app_feature p)" and "\<not> decided (app_id p) (app_feature p) (store_contents (view w))"
    and "CachedAgent_authenticate (caching agent sq st rep) now p w = (Inr a, w')"
    and "app_id p' = app_id p" and "app_feature p' = app_feature p"
  shows "\<exists>w''. CachedAgent_authenticate (caching agent' sq st rep) now p' w' = (Inr a, w'') \<and>
     store_contents (view w'') = store_contents (view w')"
  using sqlite_consulting.over_sqlite_again [OF sqlite_consultingI [OF assms(1,2,3)] assms(4) assms(5) [unfolded One_nat_def] TrueI TrueI assms(6-11), of agent']
  by simp

definition demo_denied :: "ref_engine" where
  "demo_denied = snd (CachedAgent_authenticate (caching (\<lambda>_. returnE denied) ref_sqlite demo_store null_reporter)
       (\<lambda>_. 7) demo_params demo_engine)"

lemma demo_denied:
  "CachedAgent_authenticate (caching (\<lambda>_. returnE denied) ref_sqlite demo_store null_reporter)
       (\<lambda>_. 7) demo_params demo_engine = (Inr denied, demo_denied)"
  using demo.authenticate_undecided [OF demo_store_ok(1) TrueI demo_params_clean(1) demo_undecided demo_store_ok(2) [unfolded One_nat_def],
      of denied "\<lambda>_. 7"]
  by (auto simp: demo_denied_def)

theorem answer_is_remembered_witness:
  "\<exists>w''. CachedAgent_authenticate (caching (\<lambda>_. returnE granted) ref_sqlite demo_store null_reporter)
       (\<lambda>_. 7) (demo_params\<lparr>app_pid := Pid 43\<rparr>) demo_denied = (Inr denied, w'') \<and>
     store_contents (ref_view w'') = store_contents (ref_view demo_denied)"
  by (rule answer_is_remembered [OF ref_reliable leaves_database_const(1) quiet_null_reporter demo_store_ok(1,2)
      demo_params_clean demo_undecided demo_denied]) simp_all

text \<open>
  C7. \<^verbatim>\<open>process_trust_request\<close> and the caching agent with the empty reporter are the same function: for
  the same parameters they return the same answer, or throw the same exception, and leave the same world.
\<close>

theorem process_trust_request_is_caching_agent:
  assumes "sqlite3_reliable sq view" and "store_ok st (view w)" and "clean_id (rp_application_id params)"
    and "rp_agent params = Some agent" and "rp_store params = Some (sqlite_vtable sq st)"
  shows "process_trust_request now params w =
     CachedAgent_authenticate (caching agent sq st null_reporter) now (params_of params) w"
  by (rule trust_store.process_is_authenticate
      [OF sqlite3_reliable.sqlite_store_is_trust_store [OF assms(1)] assms(2) TrueI assms(3-5)])

definition demo_parameters :: "(ref_engine, query) request_parameters" where
  "demo_parameters = \<lparr>rp_agent = Some (\<lambda>_. returnE denied), rp_store = Some (sqlite_vtable ref_sqlite demo_store),
     rp_application_uid = Uid 1000, rp_application_pid = Pid 42, rp_application_id = ''app'',
     rp_feature = Feature 0, rp_description = ''camera''\<rparr>"

theorem process_trust_request_is_caching_agent_witness:
  "process_trust_request (\<lambda>_. 7) demo_parameters demo_engine = (Inr denied, demo_denied)"
proof -
  have "params_of demo_parameters = demo_params" by (simp add: params_of_def demo_parameters_def demo_params_def)
  then show ?thesis
    using process_trust_request_is_caching_agent [OF ref_reliable demo_store_ok(1),
        of demo_parameters "\<lambda>_. returnE denied" "\<lambda>_. 7"] demo_denied
    by (simp add: demo_parameters_def clean_id_def)
qed

text \<open>
  C10. A grant for one feature answers requests for another: \<^verbatim>\<open>Store::add\<close> keeps the low 32 bits of
  the 64-bit feature, so the user's answer for feature \<open>2 ^ 32 + k\<close> is recorded, and from then on
  returned without a prompt, as the answer for feature \<open>k\<close>.
\<close>

theorem answer_leaks_to_truncated_feature:
  assumes "sqlite3_reliable sq view" and "leaves_database view agent" and "quiet_reporter view rep"
    and "store_ok st (view w)" and "store_room 1 (view w)" and "clean_id (app_id p)"
    and "app_feature p = Feature (2 ^ 32 + k)" and "unat k < 2 ^ 31"
    and "\<not> decided (app_id p) (Feature (2 ^ 32 + k)) (store_contents (view w))"
    and "\<not> decided (app_id p) (Feature k) (store_contents (view w))"
    and "CachedAgent_authenticate (caching agent sq st rep) now p w = (Inr a, w')"
  shows "\<exists>w''. CachedAgent_authenticate (caching agent' sq st rep) now (p\<lparr>app_feature := Feature k\<rparr>) w' = (Inr a, w'')"
proof -
  have k: "kept_feature (app_feature p) = Feature k" using kept_feature_alias [OF assms(8)] assms(7) by simp
  have new: "\<not> decided (app_id p) (app_feature p) (store_contents (view w))"
      "\<not> decided (app_id p) (kept_feature (app_feature p)) (store_contents (view w))"
    using assms(9,10) k by (simp_all only: assms(7) not_False_eq_True)
  have same: "app_id (p\<lparr>app_feature := Feature k\<rparr>) = app_id p"
      "app_feature (p\<lparr>app_feature := Feature k\<rparr>) = kept_feature (app_feature p)"
    by (simp_all add: k)
  from sqlite_consulting.over_sqlite_kept [OF sqlite_consultingI [OF assms(1,2,3)] assms(4) assms(5) [unfolded One_nat_def] TrueI TrueI assms(6) new assms(11) same, of agent']
  show ?thesis by auto
qed

text \<open>The same engine, after the user granted feature \<open>2 ^ 32\<close> to the application.\<close>

definition demo_big :: agent_params where
  "demo_big = demo_params\<lparr>app_feature := Feature (2 ^ 32)\<rparr>"

definition demo_big_granted :: "ref_engine" where
  "demo_big_granted = snd (CachedAgent_authenticate (caching (\<lambda>_. returnE granted) ref_sqlite demo_store null_reporter)
       (\<lambda>_. 7) demo_big demo_engine)"

lemma demo_big_granted:
  "clean_id (app_id demo_big)"
  "CachedAgent_authenticate (caching (\<lambda>_. returnE granted) ref_sqlite demo_store null_reporter)
       (\<lambda>_. 7) demo_big demo_engine = (Inr granted, demo_big_granted)"
proof -
  show c: "clean_id (app_id demo_big)" by (simp add: demo_big_def demo_params_def clean_id_def)
  show "CachedAgent_authenticate (caching (\<lambda>_. returnE granted) ref_sqlite demo_store null_reporter)
       (\<lambda>_. 7) demo_big demo_engine = (Inr granted, demo_big_granted)"
    using demo.authenticate_undecided [OF demo_store_ok(1) TrueI c demo_undecided demo_store_ok(2) [unfolded One_nat_def], of granted "\<lambda>_. 7"]
    by (auto simp: demo_big_granted_def)
qed

theorem answer_leaks_to_truncated_feature_witness:
  "\<exists>w''. CachedAgent_authenticate (caching (\<lambda>_. returnE denied) ref_sqlite demo_store null_reporter)
     (\<lambda>_. 7) (demo_big\<lparr>app_feature := Feature 0\<rparr>) demo_big_granted = (Inr granted, w'')"
  by (rule answer_leaks_to_truncated_feature [OF ref_reliable leaves_database_const(1) quiet_null_reporter
      demo_store_ok(1,2) demo_big_granted(1) _ _ demo_undecided demo_undecided demo_big_granted(2)])
    (simp_all add: demo_big_def)

end
