(* ===== verification/Request_Sequences.thy ===== *)
theory Request_Sequences
  imports Store_Properties
begin

text \<open>
  Whole histories of requests: any number of requests, one after another, through the caching agent. The specification is
  a table that remembers the first answer to each pair of application and feature; the caching agent over the store
  refines it, whatever the user answers and however often the agent behind it throws.
\<close>

section \<open>Requests one after another\<close>

text \<open>The results of a list of requests; an exception ends the one request only.\<close>

primrec serve :: "'w agent \<Rightarrow> agent_params list \<Rightarrow> 'w \<Rightarrow> (exn + answer) list \<times> 'w" where
  "serve agent [] w = ([], w)"
| "serve agent (p # ps) w =
     (case agent p w of (x, w1) \<Rightarrow> case serve agent ps w1 of (xs, w2) \<Rightarrow> (x # xs, w2))"

section \<open>The specification\<close>

type_synonym memo = "string \<times> feature \<rightharpoonup> answer"

abbreviation key :: "agent_params \<Rightarrow> string \<times> feature" where
  "key p \<equiv> (app_id p, app_feature p)"

definition learn :: "string \<times> feature \<Rightarrow> exn + answer \<Rightarrow> memo \<Rightarrow> memo" where
  "learn k u m = (case u of Inl _ \<Rightarrow> m | Inr a \<Rightarrow> m(k \<mapsto> a))"

text \<open>
  \<open>us\<close> are the outcomes of the prompts, in order. The result is what each request gets, the requests that were prompted,
  and the table at the end.
\<close>

fun memo_serve :: "memo \<Rightarrow> agent_params list \<Rightarrow> (exn + answer) list \<Rightarrow> (exn + answer) list \<times> agent_params list \<times> memo" where
  "memo_serve m [] us = ([], [], m)"
| "memo_serve m (p # ps) us = (case m (key p) of
       Some a \<Rightarrow> (case memo_serve m ps us of (xs, qs, m') \<Rightarrow> (Inr a # xs, qs, m'))
     | None \<Rightarrow> (case us of
         [] \<Rightarrow> ([], [], m)
       | u # us' \<Rightarrow> (case memo_serve (learn (key p) u m) ps us' of (xs, qs, m') \<Rightarrow> (u # xs, p # qs, m'))))"

text \<open>The table agrees with the requests held by a store.\<close>

definition remembers :: "memo \<Rightarrow> request multiset \<Rightarrow> bool" where
  "remembers m R \<longleftrightarrow> (\<forall>r \<in># R. m (req_from r, req_feature r) = Some (req_answer r)) \<and>
     (\<forall>i f. m (i, f) \<noteq> None \<longrightarrow> decided i f R)"

lemma remembers_decided: "remembers m R \<Longrightarrow> m (i, f) \<noteq> None \<longleftrightarrow> decided i f R"
  by (auto simp: remembers_def decided_def)

lemma remembers_latest: "remembers m R \<Longrightarrow> latest i f R r \<Longrightarrow> m (i, f) = Some (req_answer r)"
  by (auto simp: remembers_def latest_def)

lemma remembers_learn:
  "remembers m R \<Longrightarrow> m (i, f) = None \<Longrightarrow> req_from r = i \<Longrightarrow> req_feature r = f \<Longrightarrow> req_answer r = a \<Longrightarrow>
   remembers (learn (i, f) (Inr a) m) (add_mset r R)"
  unfolding remembers_def learn_def decided_def by (auto split: if_splits) (metis option.discI)+

lemma learn_keeps: "m k' = None \<Longrightarrow> m k = Some a \<Longrightarrow> learn k' u m k = Some a"
  by (auto simp: learn_def split: sum.split)

subsection \<open>What the specification promises\<close>

lemma memo_serve_answers:
  assumes "memo_serve m ps us = (xs, qs, m')" and "length xs = length ps" and "j < length ps"
    and "m (key (ps ! j)) = Some a"
  shows "xs ! j = Inr a"
  using assms
proof (induction m ps us arbitrary: xs qs m' j rule: memo_serve.induct)
  case (2 m p ps us)
  then show ?case
    by (cases j) (auto simp: learn_keeps split: option.splits list.splits prod.splits)
qed simp

text \<open>The first answer to a request is the answer to every later one with the same application and feature.\<close>

lemma memo_serve_first_answer:
  assumes "memo_serve m ps us = (xs, qs, m')" and "length xs = length ps" and "i < j" and "j < length ps"
    and "key (ps ! j) = key (ps ! i)" and "xs ! i = Inr a"
  shows "xs ! j = Inr a"
  using assms
proof (induction m ps us arbitrary: xs qs m' i j rule: memo_serve.induct)
  case (2 m p ps us)
  obtain j' where j: "j = Suc j'" using 2(5) by (cases j) auto
  show ?case
  proof (cases i)
    case 0
    then show ?thesis
      using 2(3-8) j memo_serve_answers [of _ ps]
      by (auto simp: learn_def split: option.splits list.splits prod.splits sum.splits)
  next
    case (Suc i')
    then show ?thesis
      using 2 j by (auto split: option.splits list.splits prod.splits)
  qed
qed simp

text \<open>What was answered is in the table at the end, and nothing is in it that nobody answered.\<close>

lemma memo_serve_keeps: "memo_serve m ps us = (xs, qs, m') \<Longrightarrow> m k = Some a \<Longrightarrow> m' k = Some a"
proof (induction m ps us arbitrary: xs qs m' rule: memo_serve.induct)
  case (2 m p ps us)
  then show ?case by (auto simp: learn_keeps split: option.splits list.splits prod.splits)
qed simp

lemma memo_serve_learns:
  assumes "memo_serve m ps us = (xs, qs, m')" and "j < length xs" and "xs ! j = Inr a"
  shows "m' (key (ps ! j)) = Some a"
  using assms
proof (induction m ps us arbitrary: xs qs m' j rule: memo_serve.induct)
  case (2 m p ps us)
  then show ?case
    by (cases j) (auto simp: learn_def split: option.splits list.splits prod.splits sum.splits dest: memo_serve_keeps)
qed simp

lemma memo_serve_ran: "memo_serve m ps us = (xs, qs, m') \<Longrightarrow> m' k = Some a \<Longrightarrow> m k = Some a \<or> Inr a \<in> set us"
proof (induction m ps us arbitrary: xs qs m' rule: memo_serve.induct)
  case (2 m p ps us)
  then show ?case
    by (fastforce simp: learn_def split: option.splits list.splits prod.splits sum.splits if_splits)
qed simp

section \<open>The refinement\<close>

text \<open>A store on which one more query can always be made.\<close>

locale consulting_always = consulting +
  assumes always_fresh: "inv w \<Longrightarrow> fresh w"
begin

text \<open>A request the table does not know: one prompt, and its outcome is learnt.\<close>

lemma prompted_step:
  assumes "inv w" and "room (Suc n) w" and m: "remembers m (contents w)" "m (key p) = None"
    and p: "clean_id (app_id p)" "small_feature (app_feature p)"
  shows "\<exists>u w1. CachedAgent_authenticate ca now p w = (u, w1) \<and> (\<exists>v v'. agent p v = (u, v')) \<and> inv w1 \<and>
    room n w1 \<and> remembers (learn (key p) u m) (contents w1) \<and>
    size (contents w1) = size (contents w) + (if \<exists>a. u = Inr a then 1 else 0)" (is "\<exists>u w1. ?P u w1")
proof -
  have "\<not> decided (app_id p) (app_feature p) (contents w)" using remembers_decided [OF m(1)] m(2) by blast
  from authenticate_undecided [OF assms(1) always_fresh [OF assms(1)] p(1) this assms(2)] show ?thesis
  proof (elim exE conjE disjE, goal_cases)
    case (1 w1 w2 w' e)
    then have "?P (Inl e) w'" using assms(2) m(1) by (auto simp: learn_def intro: room_less)
    then show ?case by blast
  next
    case (2 w1 w2 w' a t)
    then have "?P (Inr a) w'"
      using remembers_learn [OF m, of "recorded p t a" a] keep [OF p(2)] by auto
    then show ?case by blast
  qed
qed

lemma known_step:
  assumes "inv w" and m: "remembers m (contents w)" "m (key p) = Some a" and p: "clean_id (app_id p)"
  shows "\<exists>w1. CachedAgent_authenticate ca now p w = (Inr a, w1) \<and> inv w1 \<and> contents w1 = contents w \<and>
    (\<forall>n. room n w \<longrightarrow> room n w1)"
proof -
  have "decided (app_id p) (app_feature p) (contents w)" using remembers_decided [OF m(1)] m(2) by blast
  from authenticate_decided [OF assms(1) always_fresh [OF assms(1)] p this, of agent] show ?thesis
    using remembers_latest [OF m(1)] m(2) by fastforce
qed

lemma serve_refines:
  assumes "inv w" and "room (length ps) w" and "remembers m (contents w)"
    and "\<forall>p \<in> set ps. clean_id (app_id p) \<and> small_feature (app_feature p)"
  shows "\<exists>us xs qs m' w'. serve (CachedAgent_authenticate ca now) ps w = (xs, w') \<and> memo_serve m ps us = (xs, qs, m') \<and>
    length xs = length ps \<and> list_all2 (\<lambda>q u. \<exists>v v'. agent q v = (u, v')) qs us \<and> inv w' \<and> remembers m' (contents w') \<and>
    size (contents w') = size (contents w) + length (filter (\<lambda>u. \<exists>a. u = Inr a) us)"
  using assms
proof (induction ps arbitrary: w m)
  case Nil
  then show ?case by (intro exI [of _ "[]"]) simp
next
  case (Cons p ps)
  have p: "clean_id (app_id p)" "small_feature (app_feature p)" using Cons.prems(4) by auto
  have room: "room (Suc (length ps)) w" using Cons.prems(2) by simp
  show ?case
  proof (cases "m (key p)")
    case (Some a)
    from known_step [OF Cons.prems(1,3) Some p(1)] obtain w1 where
      w1: "CachedAgent_authenticate ca now p w = (Inr a, w1)" "inv w1" "contents w1 = contents w" "room (length ps) w1"
      using room_less [OF room] by blast
    from Cons.IH [OF w1(2,4), of m] Cons.prems(3,4) w1(3) obtain us xs qs m' w' where
      "serve (CachedAgent_authenticate ca now) ps w1 = (xs, w')" "memo_serve m ps us = (xs, qs, m')"
      "length xs = length ps" "list_all2 (\<lambda>q u. \<exists>v v'. agent q v = (u, v')) qs us" "inv w'"
      "remembers m' (contents w')" "size (contents w') = size (contents w) + length (filter (\<lambda>u. \<exists>a. u = Inr a) us)"
      by auto
    then show ?thesis using w1(1) Some by (intro exI [of _ us] exI [of _ "Inr a # xs"]) auto
  next
    case None
    from prompted_step [OF Cons.prems(1) room Cons.prems(3) None p] obtain u w1 where
      w1: "CachedAgent_authenticate ca now p w = (u, w1)" "\<exists>v v'. agent p v = (u, v')" "inv w1" "room (length ps) w1"
      "remembers (learn (key p) u m) (contents w1)"
      "size (contents w1) = size (contents w) + (if \<exists>a. u = Inr a then 1 else 0)" by blast
    from Cons.IH [OF w1(3-5)] Cons.prems(4) obtain us xs qs m' w' where
      "serve (CachedAgent_authenticate ca now) ps w1 = (xs, w')" "memo_serve (learn (key p) u m) ps us = (xs, qs, m')"
      "length xs = length ps" "list_all2 (\<lambda>q u. \<exists>v v'. agent q v = (u, v')) qs us" "inv w'"
      "remembers m' (contents w')" "size (contents w') = size (contents w1) + length (filter (\<lambda>u. \<exists>a. u = Inr a) us)"
      by auto
    then show ?thesis using w1 None by (intro exI [of _ "u # us"] exI [of _ "u # xs"] exI [of _ "p # qs"]) auto
  qed
qed

end

sublocale sqlite_consulting \<subseteq> always: consulting_always "sqlite_vtable sq st" "\<lambda>w. store_ok st (view w)"
  "\<lambda>n w. store_room n (view w)" "\<lambda>_. True" "\<lambda>w. store_contents (view w)" kept_feature "\<lambda>_. True" "query_owned st"
  "\<lambda>q w. query_state st q (view w)" agent rep now
  by unfold_locales simp

context sqlite_consulting
begin

lemmas over_sqlite_serve = always.serve_refines

end

text \<open>
  C4. The caching agent over the SQLite store is a table that remembers first answers. For any sequence of requests, answered
  or refused by any agent behind the cache, the results are those of the table: a request for an application and a feature
  that have an answer gets this answer; any other is prompted, once, and its outcome is the result. So the first answer of the
  user stays the answer, a prompt that fails is repeated at the next request, the store agrees with the table at the end, and it
  has grown by one request for each answered prompt.
\<close>

theorem first_answer_is_final:
  assumes "sqlite3_reliable sq view" and "leaves_database view agent" and "quiet_reporter view rep"
    and "store_ok st (view w)" and "store_room (length ps) (view w)" and "remembers m (store_contents (view w))"
    and "\<forall>p \<in> set ps. clean_id (app_id p) \<and> small_feature (app_feature p)"
    and "serve (CachedAgent_authenticate (caching agent sq st rep) now) ps w = (xs, w')"
  shows "\<exists>us qs m'. memo_serve m ps us = (xs, qs, m') \<and> length xs = length ps \<and> list_all2 (\<lambda>q u. \<exists>v v'. agent q v = (u, v')) qs us \<and>
    (\<forall>i j a. i < j \<longrightarrow> j < length ps \<longrightarrow> key (ps ! j) = key (ps ! i) \<longrightarrow> xs ! i = Inr a \<longrightarrow> xs ! j = Inr a) \<and>
    store_ok st (view w') \<and> remembers m' (store_contents (view w')) \<and>
    size (store_contents (view w')) = size (store_contents (view w)) + length (filter (\<lambda>u. \<exists>a. u = Inr a) us)"
proof -
  from sqlite_consulting.over_sqlite_serve [OF sqlite_consultingI [OF assms(1-3)] assms(4-7), of now] assms(8)
  obtain us qs m' where r: "memo_serve m ps us = (xs, qs, m')" "length xs = length ps"
    "list_all2 (\<lambda>q u. \<exists>v v'. agent q v = (u, v')) qs us" "store_ok st (view w')"
    "remembers m' (store_contents (view w'))"
    "size (store_contents (view w')) = size (store_contents (view w)) + length (filter (\<lambda>u. \<exists>a. u = Inr a) us)"
    by auto
  then show ?thesis using memo_serve_first_answer [OF r(1,2)] by blast
qed

theorem first_answer_is_final_witness:
  "fst (serve (CachedAgent_authenticate (caching (\<lambda>_. returnE denied) ref_sqlite demo_store null_reporter) (\<lambda>_. 7))
      [demo_params, demo_params\<lparr>app_pid := Pid 43\<rparr>, demo_params] demo_engine) = [Inr denied, Inr denied, Inr denied]"
proof -
  let ?ps = "[demo_params, demo_params\<lparr>app_pid := Pid 43\<rparr>, demo_params]"
  obtain xs w' where s: "serve (CachedAgent_authenticate (caching (\<lambda>_. returnE denied) ref_sqlite demo_store null_reporter)
      (\<lambda>_. 7)) ?ps demo_engine = (xs, w')" by force
  have "store_room (length ?ps) (ref_view demo_engine)" "remembers Map.empty (store_contents (ref_view demo_engine))"
    using demo_store_ok(3) by (simp_all add: store_room_def demo_engine_def id_limit_def remembers_def)
  moreover have "\<forall>p \<in> set ?ps. clean_id (app_id p) \<and> small_feature (app_feature p)" using demo_params_clean by simp
  ultimately obtain us qs m' where m: "memo_serve Map.empty ?ps us = (xs, qs, m')" "length xs = length ?ps"
    "list_all2 (\<lambda>q u. \<exists>v v'. (\<lambda>_. returnE denied) q v = (u, v' :: ref_engine)) qs us"
    using first_answer_is_final [OF ref_reliable leaves_database_const(1) quiet_null_reporter demo_store_ok(1) _ _ _ s]
    by blast
  from m(3) have "\<forall>u \<in> set us. u = Inr denied" by (auto simp: list_all2_conv_all_nth in_set_conv_nth)
  with m(1,2) have "xs = [Inr denied, Inr denied, Inr denied]" by (cases us) (auto simp: learn_def)
  then show ?thesis using s by simp
qed

end
