(* ===== verification/Concurrent_Requests.thy ===== *)
theory Concurrent_Requests
  imports Request_Sequences
begin

text \<open>
  Several requests at once: the workers of a daemon in \<^verbatim>\<open>CachedAgent::authenticate_request_with_parameters\<close>
  (\<^verbatim>\<open>cached_agent.cpp\<close>), or several processes in \<^verbatim>\<open>process_trust_request\<close> (\<^verbatim>\<open>request.cpp\<close>) on one store.
  Each operation of the store is atomic (\<^verbatim>\<open>Store::guard\<close>), but nothing is held between the query that finds no decision
  and the addition of the user's answer, so the requests interleave there.

  The requests are numbered; \<open>ps i\<close> are the parameters of request \<open>i\<close>. An answer is recorded as \<^verbatim>\<open>Store::add\<close>
  stores it, with the feature cut to 32 bits (\<open>kept_feature\<close>), while the query compares the whole feature. Only requests whose
  identifier the statements bind as it is take steps (\<open>clean_id\<close>): an empty one would reuse the identifier bound before.
\<close>

section \<open>Step relation\<close>

datatype asking_phase = Asking | Prompting | Answered answer | Failed exn

record asking =
  as_store :: "request multiset"
  as_phase :: "nat \<Rightarrow> asking_phase"
  as_prompts :: "nat list"

definition asking_start :: "request multiset \<Rightarrow> asking" where
  "asking_start R = \<lparr>as_store = R, as_phase = (\<lambda>_. Asking), as_prompts = []\<rparr>"

definition ask_ends :: "nat \<Rightarrow> asking_phase \<Rightarrow> asking \<Rightarrow> asking" where
  "ask_ends i ph s = s\<lparr>as_phase := (as_phase s)(i := ph)\<rparr>"

definition ask_prompts :: "nat \<Rightarrow> asking \<Rightarrow> asking" where
  "ask_prompts i s = s\<lparr>as_phase := (as_phase s)(i := Prompting), as_prompts := as_prompts s @ [i]\<rparr>"

definition answer_request :: "agent_params \<Rightarrow> timestamp \<Rightarrow> answer \<Rightarrow> request" where
  "answer_request p t a = \<lparr>req_from = app_id p, req_feature = kept_feature (app_feature p), req_when = t, req_answer = a\<rparr>"

definition ask_records :: "agent_params \<Rightarrow> nat \<Rightarrow> timestamp \<Rightarrow> answer \<Rightarrow> asking \<Rightarrow> asking" where
  "ask_records p i t a s = ask_ends i (Answered a) (s\<lparr>as_store := add_mset (answer_request p t a) (as_store s)\<rparr>)"

inductive ask_step :: "(nat \<Rightarrow> agent_params) \<Rightarrow> asking \<Rightarrow> asking \<Rightarrow> bool" for ps where
  found: "as_phase s i = Asking \<Longrightarrow> clean_id (app_id (ps i)) \<Longrightarrow> latest (app_id (ps i)) (app_feature (ps i)) (as_store s) r \<Longrightarrow>
    ask_step ps s (ask_ends i (Answered (req_answer r)) s)"
| not_found: "as_phase s i = Asking \<Longrightarrow> clean_id (app_id (ps i)) \<Longrightarrow> \<not> decided (app_id (ps i)) (app_feature (ps i)) (as_store s) \<Longrightarrow>
    ask_step ps s (ask_prompts i s)"
| prompt_answered: "as_phase s i = Prompting \<Longrightarrow> ask_step ps s (ask_records (ps i) i t a s)"
| prompt_failed: "as_phase s i = Prompting \<Longrightarrow> ask_step ps s (ask_ends i (Failed e) s)"

abbreviation ask_steps :: "(nat \<Rightarrow> agent_params) \<Rightarrow> asking \<Rightarrow> asking \<Rightarrow> bool" where
  "ask_steps ps \<equiv> (ask_step ps)\<^sup>*\<^sup>*"

lemmas ask_updates = ask_ends_def ask_prompts_def ask_records_def answer_request_def asking_start_def

section \<open>One request alone takes these steps\<close>

context consulting
begin

text \<open>A run of the code for request \<open>i\<close>, with nothing in between, is one or two steps.\<close>

lemma authenticate_is_steps:
  assumes w: "inv w" "fresh w" "room (Suc n) w" and p: "clean_id (app_id (ps i))" and k: "keep = kept_feature"
    and s: "as_store s = contents w" "as_phase s i = Asking"
    and run: "CachedAgent_authenticate ca now (ps i) w = (x, w')"
  shows "\<exists>s'. ask_steps ps s s' \<and> as_store s' = contents w' \<and>
    as_phase s' = (as_phase s)(i := (case x of Inr a \<Rightarrow> Answered a | Inl e \<Rightarrow> Failed e))"
proof (cases "decided (app_id (ps i)) (app_feature (ps i)) (contents w)")
  case True
  from authenticate_decided [OF w(1,2) p True, of agent] run obtain r where
    r: "x = Inr (req_answer r)" "latest (app_id (ps i)) (app_feature (ps i)) (contents w) r" "contents w' = contents w" by auto
  have "ask_step ps s (ask_ends i (Answered (req_answer r)) s)" using found [where ps = ps and s = s and i = i, OF s(2) p] r(2) s(1) by simp
  then show ?thesis using r s(1) by (intro exI [of _ "ask_ends i (Answered (req_answer r)) s"]) (simp add: ask_ends_def r_into_rtranclp)
next
  case False
  have 1: "ask_step ps s (ask_prompts i s)" using not_found [where ps = ps and s = s and i = i, OF s(2) p] False s(1) by simp
  have ph: "as_phase (ask_prompts i s) i = Prompting" by (simp add: ask_prompts_def)
  from authenticate_undecided [OF w(1,2) p False w(3)] run consider
    (Throw) e where "x = Inl e" "contents w' = contents w"
  | (Answer) a t where "x = Inr a" "contents w' = add_mset (recorded (ps i) t a) (contents w)" by auto
  then show ?thesis
  proof cases
    case Throw
    then show ?thesis using 1 prompt_failed [OF ph, of ps e] s(1)
      by (intro exI [of _ "ask_ends i (Failed e) (ask_prompts i s)"]) (auto simp: ask_updates)
  next
    case Answer
    then show ?thesis using 1 prompt_answered [OF ph, of ps t a] s(1) k
      by (intro exI [of _ "ask_records (ps i) i t a (ask_prompts i s)"]) (auto simp: ask_updates)
  qed
qed

end

context sqlite_consulting
begin

lemmas over_sqlite_is_steps = authenticate_is_steps [OF _ _ _ _ refl]

end

text \<open>So it is over the SQLite store: the steps are those of the daemon's caching agent.\<close>

lemma caching_agent_is_steps:
  assumes "sqlite3_reliable sq view" and "leaves_database view agent" and "quiet_reporter view rep"
    and "store_ok st (view w)" and "store_room 1 (view w)" and "clean_id (app_id (ps i))"
    and "as_store s = store_contents (view w)" and "as_phase s i = Asking"
    and "CachedAgent_authenticate (caching agent sq st rep) now (ps i) w = (x, w')"
  shows "\<exists>s'. ask_steps ps s s' \<and> as_store s' = store_contents (view w') \<and>
    as_phase s' = (as_phase s)(i := (case x of Inr a \<Rightarrow> Answered a | Inl e \<Rightarrow> Failed e))"
  by (rule sqlite_consulting.over_sqlite_is_steps [where ps = ps and i = i and n = 0,
        OF sqlite_consultingI [OF assms(1-3)] assms(4) TrueI assms(5) [unfolded One_nat_def] assms(6-9)])

section \<open>What holds in every interleaving\<close>

lemma decided_add: "decided i f (add_mset r R) \<longleftrightarrow> decided i f R \<or> (req_from r = i \<and> req_feature r = f)"
  by (auto simp: decided_def)

text \<open>The feature under which the answer to request \<open>i\<close> stands in the store: as asked for where it was found there, as kept where it was prompted.\<close>

definition answered_feature :: "(nat \<Rightarrow> agent_params) \<Rightarrow> nat list \<Rightarrow> nat \<Rightarrow> feature" where
  "answered_feature ps is i = (if i \<in> set is then kept_feature (app_feature (ps i)) else app_feature (ps i))"

lemma answered_feature_small: "small_feature (app_feature (ps i)) \<Longrightarrow> answered_feature ps is i = app_feature (ps i)"
  by (simp add: answered_feature_def kept_feature_small)

lemma answered_feature_prompts: "j \<noteq> i \<Longrightarrow> answered_feature ps (is @ [i]) j = answered_feature ps is j"
  by (simp add: answered_feature_def)

text \<open>What the requests have to do with the store \<open>R\<close> they started from.\<close>

definition ask_inv :: "(nat \<Rightarrow> agent_params) \<Rightarrow> request multiset \<Rightarrow> asking \<Rightarrow> bool" where
  "ask_inv ps R s \<longleftrightarrow> (\<exists>N. as_store s = R + N \<and>
       (\<forall>r \<in># N. \<exists>i t a. i \<in> set (as_prompts s) \<and> as_phase s i = Answered a \<and> r = answer_request (ps i) t a)) \<and>
     (\<forall>i a. as_phase s i = Answered a \<longrightarrow> (\<exists>r. r \<in># as_store s \<and> req_from r = app_id (ps i) \<and>
       req_feature r = answered_feature ps (as_prompts s) i \<and> req_answer r = a)) \<and>
     (\<forall>i \<in> set (as_prompts s). \<not> decided (app_id (ps i)) (app_feature (ps i)) R \<and> as_phase s i \<noteq> Asking) \<and>
     (\<forall>i. as_phase s i = Prompting \<longrightarrow> i \<in> set (as_prompts s)) \<and> distinct (as_prompts s)"

lemma ask_inv_start: "ask_inv ps R (asking_start R)"
  by (simp add: ask_inv_def asking_start_def)

lemma decided_mono: "decided i f R \<Longrightarrow> decided i f (R + N)"
  by (auto simp: decided_def)

lemma ask_inv_step:
  assumes inv: "ask_inv ps R s" and "ask_step ps s s'"
  shows "ask_inv ps R s'"
proof -
  from inv obtain N where N: "as_store s = R + N"
    "\<forall>r \<in># N. \<exists>i t a. i \<in> set (as_prompts s) \<and> as_phase s i = Answered a \<and> r = answer_request (ps i) t a"
    unfolding ask_inv_def by blast
  from assms(2) show ?thesis
  proof (cases rule: ask_step.cases)
    case (found i r)
    have new: "i \<notin> set (as_prompts s)" using found(2) inv by (auto simp: ask_inv_def)
    then have "\<forall>r \<in># N. \<exists>j t a. j \<in> set (as_prompts s) \<and> (j \<noteq> i \<and> as_phase s j = Answered a) \<and> r = answer_request (ps j) t a"
      using N(2) by metis
    then have "\<exists>N. as_store s = R + N \<and> (\<forall>r \<in># N. \<exists>j t a. j \<in> set (as_prompts s) \<and>
        as_phase s' j = Answered a \<and> r = answer_request (ps j) t a)"
      using N(1) found(1) by (intro exI [of _ N]) (fastforce simp: ask_ends_def)
    moreover have "\<exists>q. q \<in># as_store s \<and> req_from q = app_id (ps i) \<and>
        req_feature q = answered_feature ps (as_prompts s) i \<and> req_answer q = req_answer r"
      using found(4) new by (intro exI [of _ r]) (simp add: latest_def answered_feature_def)
    then have "\<exists>q. q \<in># as_store s \<and> req_from q = app_id (ps j) \<and>
        req_feature q = answered_feature ps (as_prompts s) j \<and> req_answer q = b" if "as_phase s' j = Answered b" for j b
      using that found(1) inv by (cases "j = i") (auto simp: ask_inv_def ask_ends_def)
    ultimately show ?thesis using found(1,2) inv by (auto simp: ask_inv_def ask_ends_def)
  next
    case (not_found i)
    have "i \<notin> set (as_prompts s)" using not_found(2) inv by (auto simp: ask_inv_def)
    moreover have "\<not> decided (app_id (ps i)) (app_feature (ps i)) R" using not_found(4) N(1) decided_mono by metis
    moreover have "\<forall>r \<in># N. \<exists>j t a. j \<in> set (as_prompts s') \<and> as_phase s' j = Answered a \<and> r = answer_request (ps j) t a"
      using N(2) not_found(1,2) by (fastforce simp: ask_prompts_def)
    ultimately show ?thesis using not_found inv N(1)
      by (auto simp: ask_inv_def ask_prompts_def answered_feature_prompts split: if_splits)
  next
    case (prompt_answered i t a)
    let ?r = "answer_request (ps i) t a"
    have i: "i \<in> set (as_prompts s)" using prompt_answered(2) inv by (auto simp: ask_inv_def)
    have "\<exists>j t a. j \<in> set (as_prompts s') \<and> as_phase s' j = Answered a \<and> r = answer_request (ps j) t a"
      if "r \<in># add_mset ?r N" for r
    proof (cases "r = ?r")
      case True
      then show ?thesis using i prompt_answered(1) by (intro exI [of _ i]) (auto simp: ask_records_def ask_ends_def)
    next
      case False
      with that N(2) obtain j t' a' where "j \<in> set (as_prompts s)" "as_phase s j = Answered a'" "r = answer_request (ps j) t' a'"
        by auto
      then show ?thesis using prompt_answered(1,2) by (intro exI [of _ j]) (auto simp: ask_records_def ask_ends_def)
    qed
    moreover have "as_store s' = R + add_mset ?r N" using prompt_answered(1) N(1) by (simp add: ask_records_def ask_ends_def)
    ultimately have "\<exists>N. as_store s' = R + N \<and> (\<forall>r \<in># N. \<exists>j t a. j \<in> set (as_prompts s') \<and>
        as_phase s' j = Answered a \<and> r = answer_request (ps j) t a)" by blast
    moreover have "\<exists>r. r \<in># as_store s' \<and> req_from r = app_id (ps j) \<and>
        req_feature r = answered_feature ps (as_prompts s') j \<and> req_answer r = b" if "as_phase s' j = Answered b" for j b
    proof (cases "j = i")
      case True
      then show ?thesis using that prompt_answered(1) i
        by (intro exI [of _ ?r]) (simp add: ask_updates answered_feature_def)
    next
      case False
      then have "as_phase s j = Answered b" using that prompt_answered(1) by (simp add: ask_updates)
      then obtain r where "r \<in># as_store s" "req_from r = app_id (ps j)"
          "req_feature r = answered_feature ps (as_prompts s) j" "req_answer r = b"
        using inv by (auto simp: ask_inv_def)
      then show ?thesis using prompt_answered(1) by (intro exI [of _ r]) (simp add: ask_updates)
    qed
    ultimately show ?thesis using inv prompt_answered(1,2) by (auto simp: ask_inv_def ask_records_def ask_ends_def)
  next
    case (prompt_failed i e)
    have "\<forall>r \<in># N. \<exists>j t a. j \<in> set (as_prompts s') \<and> as_phase s' j = Answered a \<and> r = answer_request (ps j) t a"
      using N(2) prompt_failed(1,2) by (fastforce simp: ask_ends_def)
    then show ?thesis using prompt_failed inv N(1) by (auto simp: ask_inv_def ask_ends_def)
  qed
qed

lemma ask_inv_steps: "ask_steps ps s s' \<Longrightarrow> ask_inv ps R s \<Longrightarrow> ask_inv ps R s'"
  by (induction rule: rtranclp_induct) (auto intro: ask_inv_step)

text \<open>Once there is a decision, a request that has not looked yet is never prompted.\<close>

definition settled :: "(nat \<Rightarrow> agent_params) \<Rightarrow> nat \<Rightarrow> asking \<Rightarrow> bool" where
  "settled ps j s \<longleftrightarrow> decided (app_id (ps j)) (app_feature (ps j)) (as_store s) \<and> j \<notin> set (as_prompts s)"

lemma settled_step: "ask_step ps s s' \<Longrightarrow> settled ps j s \<Longrightarrow> settled ps j s'"
  by (erule ask_step.cases) (auto simp: settled_def ask_updates decided_add)

lemma settled_steps: "ask_steps ps s s' \<Longrightarrow> settled ps j s \<Longrightarrow> settled ps j s'"
  by (induction rule: rtranclp_induct) (auto intro: settled_step)

text \<open>
  C5. Requests that are processed at once. However they interleave: the store gains only requests that a prompt has answered, one
  for each; every answer handed out is recorded in the store for its application, under the feature asked for where it was found and
  under the feature as kept (the low 32 bits) where it was prompted; an application and a feature
  that were decided before are never prompted; and once one request has got an answer, no other one for the same
  application and the recorded feature that has not been looked up yet is prompted.
\<close>

theorem concurrent_answers_are_recorded:
  assumes "ask_steps ps (asking_start R) s"
  shows "R \<subseteq># as_store s \<and>
    (\<forall>r \<in># as_store s - R. \<exists>i t a. i \<in> set (as_prompts s) \<and> as_phase s i = Answered a \<and> r = answer_request (ps i) t a) \<and>
    (as_phase s i = Answered a \<longrightarrow> (\<exists>r. r \<in># as_store s \<and> req_from r = app_id (ps i) \<and>
       req_feature r = answered_feature ps (as_prompts s) i \<and> req_answer r = a)) \<and>
    (decided (app_id (ps i)) (app_feature (ps i)) R \<longrightarrow> i \<notin> set (as_prompts s)) \<and>
    (as_phase s i = Answered a \<and> as_phase s j = Asking \<and> app_id (ps j) = app_id (ps i) \<and> app_feature (ps j) = answered_feature ps (as_prompts s) i \<and>
       ask_steps ps s s' \<longrightarrow> j \<notin> set (as_prompts s'))"
proof (intro conjI)
  have inv: "ask_inv ps R s" by (rule ask_inv_steps [OF assms ask_inv_start])
  then obtain N where N: "as_store s = R + N"
    "\<forall>r \<in># N. \<exists>i t a. i \<in> set (as_prompts s) \<and> as_phase s i = Answered a \<and> r = answer_request (ps i) t a"
    unfolding ask_inv_def by blast
  then show "R \<subseteq># as_store s"
    "\<forall>r \<in># as_store s - R. \<exists>i t a. i \<in> set (as_prompts s) \<and> as_phase s i = Answered a \<and> r = answer_request (ps i) t a"
    by simp_all
  show recorded: "as_phase s i = Answered a \<longrightarrow> (\<exists>r. r \<in># as_store s \<and> req_from r = app_id (ps i) \<and>
      req_feature r = answered_feature ps (as_prompts s) i \<and> req_answer r = a)"
    and "decided (app_id (ps i)) (app_feature (ps i)) R \<longrightarrow> i \<notin> set (as_prompts s)"
    using inv by (auto simp: ask_inv_def)
  show "as_phase s i = Answered a \<and> as_phase s j = Asking \<and> app_id (ps j) = app_id (ps i) \<and> app_feature (ps j) = answered_feature ps (as_prompts s) i \<and>
       ask_steps ps s s' \<longrightarrow> j \<notin> set (as_prompts s')"
  proof (intro impI, elim conjE)
    assume a: "as_phase s i = Answered a" "as_phase s j = Asking" "app_id (ps j) = app_id (ps i)"
      "app_feature (ps j) = answered_feature ps (as_prompts s) i" "ask_steps ps s s'"
    have "j \<notin> set (as_prompts s)" using inv a(2) by (auto simp: ask_inv_def)
    moreover have "decided (app_id (ps j)) (app_feature (ps j)) (as_store s)" using recorded a(1,3,4) by (auto simp: decided_def)
    ultimately have "settled ps j s" by (simp add: settled_def)
    from settled_steps [OF a(5) this] show "j \<notin> set (as_prompts s')" by (simp add: settled_def)
  qed
qed

theorem concurrent_answers_are_recorded_witness:
  "as_phase (ask_records demo_params 0 7 denied (ask_prompts 0 (asking_start {#}))) 0 = Answered denied \<and>
   1 \<notin> set (as_prompts (ask_records demo_params 0 7 denied (ask_prompts 0 (asking_start {#}))))"
proof -
  let ?s1 = "ask_prompts 0 (asking_start {#})"
  let ?s = "ask_records demo_params 0 7 denied ?s1"
  have "ask_step (\<lambda>_. demo_params) (asking_start {#}) ?s1" by (rule not_found) (simp_all add: asking_start_def decided_def demo_params_clean)
  moreover have "ask_step (\<lambda>_. demo_params) ?s1 ?s" by (rule prompt_answered) (simp add: ask_prompts_def)
  ultimately have steps: "ask_steps (\<lambda>_. demo_params) (asking_start {#}) ?s" by simp
  have ph: "as_phase ?s 0 = Answered denied" "as_phase ?s 1 = Asking" by (simp_all add: ask_updates)
  from concurrent_answers_are_recorded [OF steps, of 0 denied 1 ?s] ph show ?thesis
    by (simp add: answered_feature_small demo_params_clean)
qed

text \<open>
  C6. The user can be asked twice and the answers can differ. Two requests for the same application and feature (a clean identifier,
  a feature that fits in 31 bits) that both look
  before either is answered are both prompted; one is granted and the other denied, both answers are recorded, and from then on
  the answer given last stands, which contradicts what one of the two was told.
\<close>

theorem concurrent_prompts_disagree:
  fixes t t' :: timestamp
  assumes "clean_id (app_id p)" and "small_feature (app_feature p)"
    and "\<not> decided (app_id p) (app_feature p) R" and "sint t < sint t'"
  shows "\<exists>s. ask_steps (\<lambda>_. p) (asking_start R) s \<and> as_prompts s = [0, 1] \<and> as_phase s 0 = Answered granted \<and>
    as_phase s 1 = Answered denied \<and> latest (app_id p) (app_feature p) (as_store s) (answer_request p t' denied) \<and>
    ask_step (\<lambda>_. p) s (ask_ends 2 (Answered denied) s)"
proof -
  let ?s0 = "asking_start R" and ?ps = "\<lambda>_::nat. p"
  let ?s1 = "ask_prompts 0 ?s0"
  let ?s2 = "ask_prompts 1 ?s1"
  let ?s3 = "ask_records p 0 t granted ?s2"
  let ?s4 = "ask_records p 1 t' denied ?s3"
  have steps: "ask_step ?ps ?s0 ?s1" "ask_step ?ps ?s1 ?s2" "ask_step ?ps ?s2 ?s3" "ask_step ?ps ?s3 ?s4"
    using assms(1,3) by (rule_tac [1-2] not_found, rule_tac [7-8] prompt_answered) (simp_all add: ask_updates)
  have l: "latest (app_id p) (app_feature p) (as_store ?s4) (answer_request p t' denied)"
    using assms by (auto simp: latest_def ask_updates decided_def kept_feature_small)
  have "ask_step ?ps ?s4 (ask_ends 2 (Answered (req_answer (answer_request p t' denied))) ?s4)"
    by (rule found) (use l assms(1) in \<open>simp_all add: ask_updates\<close>)
  then show ?thesis
    using steps l by (intro exI [of _ ?s4]) (auto simp: ask_updates intro: converse_rtranclp_into_rtranclp)
qed

theorem concurrent_prompts_disagree_witness:
  "\<exists>s. ask_steps (\<lambda>_. demo_params) (asking_start {#}) s \<and> as_phase s 0 = Answered granted \<and> as_phase s 1 = Answered denied"
  using concurrent_prompts_disagree [OF demo_params_clean(1,2), of "{#}" 5 7] by (auto simp: decided_def)

end
