(* ===== verification/Dbus_Codec.thy ===== *)
theory Dbus_Codec
  imports Trust_Types
begin

text \<open>
  The wire format of the bus (\<^verbatim>\<open>dbus/codec.h\<close>): how requests, answers, query states, tagged
  integers and request parameters are written to and read from a message.

  Messages and their typed arguments belong to the bus library. A message body is modelled as
  the list of its arguments, a writer as a function that appends to it, a reader as a function on
  the arguments not read yet; popping an argument of another type throws. Strings are carried as they
  are (the bus requires them to be valid text without zero bytes). The calls of
  \<^verbatim>\<open>push_byte\<close> and \<^verbatim>\<open>pop_byte\<close> pass signed bytes, as the casts in the code say.
\<close>

datatype dvalue =
    Byte byte
  | Uint64 uint64
  | Int64 int64
  | String string
  | Path string

type_synonym body = "dvalue list"
type_synonym 'a decoder = "(body, 'a) act"

section \<open>Primitive readers\<close>

definition bad_argument :: exn where
  "bad_argument = runtime_error ''Mismatching type of argument''"

fun pop_byte :: "byte decoder" where
  "pop_byte (Byte b # r) = (Inr b, r)"
| "pop_byte r = (Inl bad_argument, r)"

fun pop_uint64 :: "uint64 decoder" where
  "pop_uint64 (Uint64 x # r) = (Inr x, r)"
| "pop_uint64 r = (Inl bad_argument, r)"

fun pop_int64 :: "int64 decoder" where
  "pop_int64 (Int64 x # r) = (Inr x, r)"
| "pop_int64 r = (Inl bad_argument, r)"

fun pop_string :: "string decoder" where
  "pop_string (String s # r) = (Inr s, r)"
| "pop_string r = (Inl bad_argument, r)"

fun pop_path :: "string decoder" where
  "pop_path (Path s # r) = (Inr s, r)"
| "pop_path r = (Inl bad_argument, r)"

section \<open>Codecs\<close>

definition encode_answer :: "answer \<Rightarrow> body" where
  "encode_answer a = [Byte (ucast a)]"

definition decode_answer :: "answer decoder" where
  "decode_answer = bindE pop_byte (\<lambda>b. returnE (scast b))"

definition encode_status :: "status \<Rightarrow> body" where
  "encode_status s = [Byte (ucast s)]"

definition decode_status :: "status decoder" where
  "decode_status = bindE pop_byte (\<lambda>b. returnE (scast b))"

text \<open>
  One template serves every tagged integer. The value is converted to and from an unsigned 64-bit
  number: a user id is widened with zeros, a process id, which is signed, with its sign.
\<close>

definition encode_uid :: "uid \<Rightarrow> body" where
  "encode_uid u = [Uint64 (ucast (uid_value u))]"

definition decode_uid :: "uid decoder" where
  "decode_uid = bindE pop_uint64 (\<lambda>x. returnE (Uid (ucast x)))"

definition encode_pid :: "pid \<Rightarrow> body" where
  "encode_pid p = [Uint64 (scast (pid_value p))]"

definition decode_pid :: "pid decoder" where
  "decode_pid = bindE pop_uint64 (\<lambda>x. returnE (Pid (ucast x)))"

definition encode_feature :: "feature \<Rightarrow> body" where
  "encode_feature f = [Uint64 (feature_value f)]"

definition decode_feature :: "feature decoder" where
  "decode_feature = bindE pop_uint64 (\<lambda>x. returnE (Feature x))"

definition encode_request :: "request \<Rightarrow> body" where
  "encode_request r =
     [String (req_from r), Uint64 (feature_value (req_feature r)), Uint64 (req_when r)] @
     encode_answer (req_answer r)"

definition decode_request :: "request decoder" where
  "decode_request =
     bindE pop_string (\<lambda>from_id.
     bindE pop_uint64 (\<lambda>feature.
     bindE pop_uint64 (\<lambda>t.
     bindE decode_answer (\<lambda>a.
     returnE \<lparr>req_from = from_id, req_feature = Feature feature, req_when = t, req_answer = a\<rparr>))))"

definition encode_params :: "agent_params \<Rightarrow> body" where
  "encode_params p =
     encode_uid (app_uid p) @ encode_pid (app_pid p) @ [String (app_id p)] @
     encode_feature (app_feature p) @ [String (app_description p)]"

definition decode_params :: "agent_params decoder" where
  "decode_params =
     bindE decode_uid (\<lambda>u.
     bindE decode_pid (\<lambda>p.
     bindE pop_string (\<lambda>i.
     bindE decode_feature (\<lambda>f.
     bindE pop_string (\<lambda>d.
     returnE \<lparr>app_uid = u, app_pid = p, app_id = i, app_feature = f, app_description = d\<rparr>)))))"

section \<open>Round trips\<close>

text \<open>The answers a signed byte can carry; both enumerators are among them.\<close>

definition byte_answer :: "answer \<Rightarrow> bool" where
  "byte_answer a \<longleftrightarrow> scast (ucast a :: byte) = a"

lemma byte_answer_named: "byte_answer denied" "byte_answer granted"
  by (simp_all add: byte_answer_def answer_defs)

lemma byte_status_named:
  "scast (ucast armed :: byte) = armed" "scast (ucast has_more_results :: byte) = has_more_results"
  "scast (ucast eor :: byte) = eor" "scast (ucast query_error :: byte) = query_error"
  by (simp_all add: status_defs)

lemma byte_answer_iff: "byte_answer a \<longleftrightarrow> - 128 \<le> sint a \<and> sint a < 128"
proof -
  have "sint (scast (ucast a :: byte) :: answer) = signed_take_bit 7 (sint a)"
    by (rule bit_eqI) (auto simp: bit_simps min_def)
  then have "byte_answer a \<longleftrightarrow> signed_take_bit 7 (sint a) = sint a"
    unfolding byte_answer_def by (metis signed_word_eqI)
  then show ?thesis by (simp add: signed_take_bit_int_eq_self_iff)
qed

lemma pid_roundtrip: "(ucast (scast (p :: int32) :: uint64) :: int32) = p"
  by simp

lemma uid_roundtrip: "(ucast (ucast (u :: uint32) :: uint64) :: uint32) = u"
  by (rule bit_word_eqI) (auto simp: bit_simps)

lemma decode_encode_answer: "byte_answer a \<Longrightarrow> decode_answer (encode_answer a @ r) = (Inr a, r)"
  by (simp add: decode_answer_def encode_answer_def bindE_apply byte_answer_def)

lemma decode_encode_status: "byte_answer s \<Longrightarrow> decode_status (encode_status s @ r) = (Inr s, r)"
  by (simp add: decode_status_def encode_status_def bindE_apply byte_answer_def)

lemma decode_encode_status_named:
  "list_all (\<lambda>s. decode_status (encode_status s @ r) = (Inr s, r)) [armed, has_more_results, eor, query_error]"
  by (simp add: decode_encode_status byte_answer_def byte_status_named)

lemma decode_encode_uid: "decode_uid (encode_uid u @ r) = (Inr u, r)"
  by (simp add: decode_uid_def encode_uid_def bindE_apply uid_roundtrip)

lemma decode_encode_pid: "decode_pid (encode_pid p @ r) = (Inr p, r)"
  by (simp add: decode_pid_def encode_pid_def bindE_apply)

lemma decode_encode_feature: "decode_feature (encode_feature f @ r) = (Inr f, r)"
  by (simp add: decode_feature_def encode_feature_def bindE_apply)

lemma decode_encode_request:
  "byte_answer (req_answer q) \<Longrightarrow> decode_request (encode_request q @ r) = (Inr q, r)"
  by (simp add: decode_request_def encode_request_def bindE_apply decode_encode_answer)

lemma decode_encode_params: "decode_params (encode_params p @ r) = (Inr p, r)"
  by (simp add: decode_params_def encode_params_def bindE_apply decode_encode_uid decode_encode_pid
      decode_encode_feature)

end
