(* ===== verification/Dbus_Interface.thy ===== *)
theory Dbus_Interface
  imports Dbus_Codec
begin

text \<open>
  The interface of the store on the bus (\<^verbatim>\<open>dbus/interface.h\<close>): the names of the two
  interfaces, of their methods and of the errors, and the timeout of each call.
\<close>

definition Store_interface_name :: string where
  "Store_interface_name = ''core.trust.Store''"

definition Query_interface_name :: string where
  "Query_interface_name = ''core.trust.Store.Query''"

definition Store_service_name :: string where
  "Store_service_name = ''com.ubuntu.trust.store''"

definition Error_AddingRequest :: string where
  "Error_AddingRequest = ''core.trust.store.error.AddingRequest''"

definition Error_RemovingApplication :: string where
  "Error_RemovingApplication = ''core.trust.store.error.RemovingApplication''"

definition Error_ResettingStore :: string where
  "Error_ResettingStore = ''core.trust.store.error.ResettingStore''"

definition Error_CreatingQuery :: string where
  "Error_CreatingQuery = ''core.trust.store.error.CreatingQuery''"

definition Error_NoCurrentRequest :: string where
  "Error_NoCurrentRequest = ''core.trust.store.query.error.NoCurrentRequest''"

text \<open>A method: its interface, its name and its timeout in milliseconds.\<close>

record bus_method =
  bm_interface :: string
  bm_name :: string
  bm_timeout :: nat

definition Method_Query_Status :: bus_method where
  "Method_Query_Status =
     \<lparr>bm_interface = Query_interface_name, bm_name = ''Status'', bm_timeout = 1000\<rparr>"

definition Method_Query_ForApplicationId :: bus_method where
  "Method_Query_ForApplicationId =
     \<lparr>bm_interface = Query_interface_name, bm_name = ''ForApplicationId'', bm_timeout = 1000\<rparr>"

definition Method_Query_ForFeature :: bus_method where
  "Method_Query_ForFeature =
     \<lparr>bm_interface = Query_interface_name, bm_name = ''ForFeature'', bm_timeout = 1000\<rparr>"

definition Method_Query_ForInterval :: bus_method where
  "Method_Query_ForInterval =
     \<lparr>bm_interface = Query_interface_name, bm_name = ''ForInterval'', bm_timeout = 1000\<rparr>"

definition Method_Query_ForAnswer :: bus_method where
  "Method_Query_ForAnswer =
     \<lparr>bm_interface = Query_interface_name, bm_name = ''ForAnswer'', bm_timeout = 1000\<rparr>"

definition Method_Query_All :: bus_method where
  "Method_Query_All =
     \<lparr>bm_interface = Query_interface_name, bm_name = ''All'', bm_timeout = 1000\<rparr>"

definition Method_Query_Execute :: bus_method where
  "Method_Query_Execute =
     \<lparr>bm_interface = Query_interface_name, bm_name = ''Execute'', bm_timeout = 1000\<rparr>"

definition Method_Query_Next :: bus_method where
  "Method_Query_Next =
     \<lparr>bm_interface = Query_interface_name, bm_name = ''Next'', bm_timeout = 1000\<rparr>"

definition Method_Query_Erase :: bus_method where
  "Method_Query_Erase =
     \<lparr>bm_interface = Query_interface_name, bm_name = ''Erase'', bm_timeout = 1000\<rparr>"

definition Method_Query_Current :: bus_method where
  "Method_Query_Current =
     \<lparr>bm_interface = Query_interface_name, bm_name = ''Current'', bm_timeout = 1000\<rparr>"

definition Method_Add :: bus_method where
  "Method_Add =
     \<lparr>bm_interface = Store_interface_name, bm_name = ''Add'', bm_timeout = 1000\<rparr>"

definition Method_RemoveApplication :: bus_method where
  "Method_RemoveApplication =
     \<lparr>bm_interface = Store_interface_name, bm_name = ''RemoveApplication'', bm_timeout = 1000\<rparr>"

definition Method_Reset :: bus_method where
  "Method_Reset =
     \<lparr>bm_interface = Store_interface_name, bm_name = ''Reset'', bm_timeout = 1000\<rparr>"

definition Method_AddQuery :: bus_method where
  "Method_AddQuery =
     \<lparr>bm_interface = Store_interface_name, bm_name = ''AddQuery'', bm_timeout = 1000\<rparr>"

definition Method_RemoveQuery :: bus_method where
  "Method_RemoveQuery =
     \<lparr>bm_interface = Store_interface_name, bm_name = ''RemoveQuery'', bm_timeout = 1000\<rparr>"

lemmas store_methods =
  Method_Add_def
  Method_RemoveApplication_def
  Method_Reset_def
  Method_AddQuery_def
  Method_RemoveQuery_def

lemmas query_methods =
  Method_Query_Status_def
  Method_Query_ForApplicationId_def
  Method_Query_ForFeature_def
  Method_Query_ForInterval_def
  Method_Query_ForAnswer_def
  Method_Query_All_def
  Method_Query_Execute_def
  Method_Query_Next_def
  Method_Query_Erase_def
  Method_Query_Current_def

text \<open>No two methods of an interface share a name, so a call reaches the handler it names.\<close>

lemma store_methods_distinct:
  "distinct [Method_Add, Method_RemoveApplication, Method_Reset, Method_AddQuery, Method_RemoveQuery]"
  by (simp add: store_methods)

lemma query_methods_distinct:
  "distinct [Method_Query_Status, Method_Query_ForApplicationId, Method_Query_ForFeature, Method_Query_ForInterval,
     Method_Query_ForAnswer, Method_Query_All, Method_Query_Execute, Method_Query_Next, Method_Query_Erase,
     Method_Query_Current]"
  by (simp add: query_methods)

end
