(* ===== verification/Remote_Store.thy ===== *)
theory Remote_Store
  imports Dbus_Interface Store_Contract
begin

text \<open>
  A store on the bus: the adaptor that exposes a store (\<^verbatim>\<open>expose.cpp\<close>) and the stub that
  resolves one (\<^verbatim>\<open>resolve.cpp\<close>).

  The adaptor is a set of handlers, one per method and object path, that read the arguments of a call,
  call the store, and send replies. Handlers run one at a time on the bus's thread. Its state beside
  the store is the counter of queries and the table of query objects; the query behind an object
  lives as long as the table holds the object. The messages a handler sends are collected in
  \<open>srv_outbox\<close>, in order.

  The bus itself is a parameter: \<open>cl_call\<close> is \<^verbatim>\<open>invoke_method_synchronously\<close>. What is assumed of it
  is said in the locale \<open>remote_bus\<close>: a call runs the handler installed for the method at the
  object's path, and the first message the handler sends in reply is the result.
\<close>

section \<open>The adaptor\<close>

datatype reply = method_return body | error_reply string string

record 'q server =
  srv_query_counter :: uint64
  srv_query_store :: "string \<rightharpoonup> 'q"
  srv_outbox :: "reply list"

type_synonym ('w, 'q, 'a) srv_act = "('q server \<times> 'w, 'a) act"

definition send :: "reply \<Rightarrow> ('w, 'q, unit) srv_act" where
  "send m = modifyE (\<lambda>(srv, w). (srv\<lparr>srv_outbox := srv_outbox srv @ [m]\<rparr>, w))"

definition read_args :: "'a decoder \<Rightarrow> body \<Rightarrow> ('s, 'a) act" where
  "read_args d args = (\<lambda>s. (fst (d args), s))"

text \<open>\<^verbatim>\<open>try { m } catch (const E& e) { h(e); return; } k\<close>\<close>

definition try_return :: "(exn \<Rightarrow> bool) \<Rightarrow> ('s, 'a) act \<Rightarrow> (exn \<Rightarrow> ('s, 'b) act) \<Rightarrow> ('a \<Rightarrow> ('s, 'b) act) \<Rightarrow> ('s, 'b) act" where
  "try_return p m h k = (\<lambda>s. case m s of
       (Inl e, s') \<Rightarrow> if p e then h e s' else (Inl e, s')
     | (Inr x, s') \<Rightarrow> k x s')"

definition handle_add :: "('w, 'q) store_vtable \<Rightarrow> body \<Rightarrow> ('w, 'q, unit) srv_act" where
  "handle_add V msg =
     bindE (read_args decode_request msg) (\<lambda>request.
     try_return is_runtime_error (in_world (vt_add V request))
       (\<lambda>e. send (error_reply Error_AddingRequest (what e)))
       (\<lambda>_. send (method_return [])))"

definition handle_remove_application :: "('w, 'q) store_vtable \<Rightarrow> body \<Rightarrow> ('w, 'q, unit) srv_act" where
  "handle_remove_application V msg =
     bindE (read_args pop_string msg) (\<lambda>application_id.
     try_return is_runtime_error (in_world (vt_remove_application V application_id))
       (\<lambda>e. send (error_reply Error_RemovingApplication (what e)))
       (\<lambda>_. send (method_return [])))"

text \<open>The handler of \<^verbatim>\<open>Reset\<close> does not return after it has sent the error.\<close>

fun is_ErrorResettingStore :: "exn \<Rightarrow> bool" where
  "is_ErrorResettingStore (ErrorResettingStore _) = True"
| "is_ErrorResettingStore _ = False"

definition handle_reset :: "('w, 'q) store_vtable \<Rightarrow> body \<Rightarrow> ('w, 'q, unit) srv_act" where
  "handle_reset V msg = block
     [catchE is_ErrorResettingStore (in_world (vt_reset V))
        (\<lambda>e. send (error_reply Error_ResettingStore (what e))),
      send (method_return [])]"

definition query_path :: "uint64 \<Rightarrow> string" where
  "query_path n = ''/queries/'' @ to_string_nat (unat n)"

definition next_query_counter :: "('w, 'q, uint64) srv_act" where
  "next_query_counter = (\<lambda>(srv, w).
     (Inr (srv_query_counter srv), (srv\<lparr>srv_query_counter := srv_query_counter srv + 1\<rparr>, w)))"

text \<open>
  \<^verbatim>\<open>detail::Store\<close>, the table of query objects. An object that is not inserted, because its path is
  taken, is released with its query at the end of the handler; an erased one is released at once.
\<close>

definition query_store_insert :: "('w, 'q) store_vtable \<Rightarrow> string \<Rightarrow> 'q \<Rightarrow> ('w, 'q, unit) srv_act" where
  "query_store_insert V path q = (\<lambda>(srv, w). case srv_query_store srv path of
       None \<Rightarrow> (Inr (), (srv\<lparr>srv_query_store := (srv_query_store srv)(path \<mapsto> q)\<rparr>, w))
     | Some _ \<Rightarrow> (Inr (), (srv, snd (vt_destroy_query V q w))))"

definition query_store_erase :: "('w, 'q) store_vtable \<Rightarrow> string \<Rightarrow> ('w, 'q, unit) srv_act" where
  "query_store_erase V path = (\<lambda>(srv, w). case srv_query_store srv path of
       None \<Rightarrow> (Inr (), (srv, w))
     | Some q \<Rightarrow> (Inr (), (srv\<lparr>srv_query_store := (srv_query_store srv)(path := None)\<rparr>, snd (vt_destroy_query V q w))))"

definition handle_add_query :: "('w, 'q) store_vtable \<Rightarrow> body \<Rightarrow> ('w, 'q, unit) srv_act" where
  "handle_add_query V msg =
     catchE is_runtime_error
       (bindE next_query_counter (\<lambda>n.
        bindE (in_world (vt_query V)) (\<lambda>query.
        block
          [query_store_insert V (query_path n) query,
           send (method_return [Path (query_path n)])])))
       (\<lambda>e. send (error_reply Error_CreatingQuery (what e)))"

definition handle_remove_query :: "('w, 'q) store_vtable \<Rightarrow> body \<Rightarrow> ('w, 'q, unit) srv_act" where
  "handle_remove_query V msg = block
     [catchE (\<lambda>_. True)
        (bindE (read_args pop_path msg) (\<lambda>path. block
          [query_store_erase V path, send (method_return [])]))
        (\<lambda>_. returnE ()),
      send (method_return [])]"

text \<open>
  The handlers of a query object hold the query they were installed with: a call runs a member
  function on it in place.
\<close>

definition on_query :: "string \<Rightarrow> ('q \<times> 'w, 'a) act \<Rightarrow> ('w, 'q, 'a) srv_act" where
  "on_query path m = (\<lambda>(srv, w). case srv_query_store srv path of
       None \<Rightarrow> (Inl other_exception, (srv, w))
     | Some q \<Rightarrow> (case m (q, w) of (r, (q', w')) \<Rightarrow>
         (r, (srv\<lparr>srv_query_store := (srv_query_store srv)(path \<mapsto> q')\<rparr>, w'))))"

definition handle_query_all :: "('w, 'q) store_vtable \<Rightarrow> string \<Rightarrow> body \<Rightarrow> ('w, 'q, unit) srv_act" where
  "handle_query_all V path msg = block [on_query path (vt_all V), send (method_return [])]"

definition handle_query_current :: "('w, 'q) store_vtable \<Rightarrow> string \<Rightarrow> body \<Rightarrow> ('w, 'q, unit) srv_act" where
  "handle_query_current V path msg =
     catchE ((=) NoCurrentResult)
       (bindE (on_query path (vt_current V)) (\<lambda>request. send (method_return (encode_request request))))
       (\<lambda>e. send (error_reply Error_NoCurrentRequest (what e)))"

definition handle_query_erase :: "('w, 'q) store_vtable \<Rightarrow> string \<Rightarrow> body \<Rightarrow> ('w, 'q, unit) srv_act" where
  "handle_query_erase V path msg = block [on_query path (vt_erase V), send (method_return [])]"

definition handle_query_execute :: "('w, 'q) store_vtable \<Rightarrow> string \<Rightarrow> body \<Rightarrow> ('w, 'q, unit) srv_act" where
  "handle_query_execute V path msg = block [on_query path (vt_execute V), send (method_return [])]"

definition handle_query_for_answer :: "('w, 'q) store_vtable \<Rightarrow> string \<Rightarrow> body \<Rightarrow> ('w, 'q, unit) srv_act" where
  "handle_query_for_answer V path msg =
     bindE (read_args decode_answer msg) (\<lambda>a. block [on_query path (vt_for_answer V a), send (method_return [])])"

definition handle_query_for_application_id ::
  "('w, 'q) store_vtable \<Rightarrow> string \<Rightarrow> body \<Rightarrow> ('w, 'q, unit) srv_act"
where
  "handle_query_for_application_id V path msg =
     bindE (read_args pop_string msg) (\<lambda>i. block [on_query path (vt_for_application_id V i), send (method_return [])])"

definition handle_query_for_feature :: "('w, 'q) store_vtable \<Rightarrow> string \<Rightarrow> body \<Rightarrow> ('w, 'q, unit) srv_act" where
  "handle_query_for_feature V path msg =
     bindE (read_args decode_feature msg) (\<lambda>f. block [on_query path (vt_for_feature V f), send (method_return [])])"

definition decode_interval :: "(int64 \<times> int64) decoder" where
  "decode_interval = bindE pop_int64 (\<lambda>b. bindE pop_int64 (\<lambda>e. returnE (b, e)))"

definition handle_query_for_interval :: "('w, 'q) store_vtable \<Rightarrow> string \<Rightarrow> body \<Rightarrow> ('w, 'q, unit) srv_act" where
  "handle_query_for_interval V path msg =
     bindE (read_args decode_interval msg) (\<lambda>interval.
     block [on_query path (vt_for_interval V (fst interval) (snd interval)), send (method_return [])])"

definition handle_query_next :: "('w, 'q) store_vtable \<Rightarrow> string \<Rightarrow> body \<Rightarrow> ('w, 'q, unit) srv_act" where
  "handle_query_next V path msg = block [on_query path (vt_next V), send (method_return [])]"

definition handle_query_status :: "('w, 'q) store_vtable \<Rightarrow> string \<Rightarrow> body \<Rightarrow> ('w, 'q, unit) srv_act" where
  "handle_query_status V path msg =
     bindE (on_query path (vt_status V)) (\<lambda>s. send (method_return (encode_status s)))"

text \<open>The handlers the constructor installs at the root, and those installed at a query's path.\<close>

definition root_handlers :: "('w, 'q) store_vtable \<Rightarrow> (bus_method \<times> (body \<Rightarrow> ('w, 'q, unit) srv_act)) list" where
  "root_handlers V =
     [(Method_Add, handle_add V),
      (Method_RemoveApplication, handle_remove_application V),
      (Method_Reset, handle_reset V),
      (Method_AddQuery, handle_add_query V),
      (Method_RemoveQuery, handle_remove_query V)]"

definition query_handlers ::
  "('w, 'q) store_vtable \<Rightarrow> string \<Rightarrow> (bus_method \<times> (body \<Rightarrow> ('w, 'q, unit) srv_act)) list"
where
  "query_handlers V path =
     [(Method_Query_All, handle_query_all V path),
      (Method_Query_Current, handle_query_current V path),
      (Method_Query_Erase, handle_query_erase V path),
      (Method_Query_Execute, handle_query_execute V path),
      (Method_Query_ForAnswer, handle_query_for_answer V path),
      (Method_Query_ForApplicationId, handle_query_for_application_id V path),
      (Method_Query_ForFeature, handle_query_for_feature V path),
      (Method_Query_ForInterval, handle_query_for_interval V path),
      (Method_Query_Next, handle_query_next V path),
      (Method_Query_Status, handle_query_status V path)]"

definition root_path :: string where "root_path = ''/''"

definition handler_at ::
  "('w, 'q) store_vtable \<Rightarrow> 'q server \<Rightarrow> string \<Rightarrow> bus_method \<Rightarrow> (body \<Rightarrow> ('w, 'q, unit) srv_act) option"
where
  "handler_at V srv path m =
     (if path = root_path then map_of (root_handlers V) m
      else if srv_query_store srv path = None then None
      else map_of (query_handlers V path) m)"

text \<open>The name the adaptor claims on the bus.\<close>

definition exposed_name :: "string \<Rightarrow> ('w, string) act" where
  "exposed_name name =
     (if name = [] then throwE ServiceNameMustNotBeEmpty else returnE (''com.ubuntu.trust.store.'' @ name))"

section \<open>The stub\<close>

text \<open>
  The bus library prints an error to a string (\<open>cl_print\<close>, from the name and the message); \<open>cl_cout\<close> is standard output.
\<close>

record 'c client =
  cl_call :: "string \<Rightarrow> bus_method \<Rightarrow> body \<Rightarrow> ('c, reply) act"
  cl_print :: "string \<Rightarrow> string \<Rightarrow> string"
  cl_cout :: "string \<Rightarrow> 'c \<Rightarrow> 'c"

text \<open>\<^verbatim>\<open>if (result.is_error()) throw std::runtime_error(result.error().print());\<close>\<close>

definition invoke_void :: "'c client \<Rightarrow> string \<Rightarrow> bus_method \<Rightarrow> body \<Rightarrow> ('c, unit) act" where
  "invoke_void cl path m args = bindE (cl_call cl path m args) (\<lambda>r. case r of
       error_reply n e \<Rightarrow> throwE (runtime_error (cl_print cl n e))
     | method_return _ \<Rightarrow> returnE ())"

definition invoke_value :: "'a decoder \<Rightarrow> exn option \<Rightarrow> 'c client \<Rightarrow> string \<Rightarrow> bus_method \<Rightarrow> body \<Rightarrow> ('c, 'a) act" where
  "invoke_value d on_error cl path m args = bindE (cl_call cl path m args) (\<lambda>r. case r of
       error_reply n e \<Rightarrow> throwE (case on_error of Some x \<Rightarrow> x | None \<Rightarrow> runtime_error (cl_print cl n e))
     | method_return b \<Rightarrow> read_args d b)"

text \<open>A stub query is the object path of its query.\<close>

definition at_path :: "(string \<Rightarrow> ('c, 'a) act) \<Rightarrow> (string \<times> 'c, 'a) act" where
  "at_path f = (\<lambda>(path, c). in_world (f path) (path, c))"

definition remote_query_destroy :: "'c client \<Rightarrow> string \<Rightarrow> ('c, unit) act" where
  "remote_query_destroy cl path =
     catchE (\<lambda>_. True)
       (bindE (cl_call cl root_path Method_RemoveQuery [Path path]) (\<lambda>_. returnE ()))
       (\<lambda>_. returnE ())"

text \<open>\<^verbatim>\<open>all\<close> does not look at the result of the call.\<close>

definition remote_query_all :: "'c client \<Rightarrow> (string \<times> 'c, unit) act" where
  "remote_query_all cl = at_path (\<lambda>path. bindE (cl_call cl path Method_Query_All []) (\<lambda>_. returnE ()))"

definition remote_query_current :: "'c client \<Rightarrow> (string \<times> 'c, request) act" where
  "remote_query_current cl = at_path (\<lambda>path.
     invoke_value decode_request (Some NoCurrentResult) cl path Method_Query_Current [])"

definition remote_query_erase :: "'c client \<Rightarrow> (string \<times> 'c, unit) act" where
  "remote_query_erase cl = at_path (\<lambda>path. invoke_void cl path Method_Query_Erase [])"

definition remote_query_execute :: "'c client \<Rightarrow> (string \<times> 'c, unit) act" where
  "remote_query_execute cl = at_path (\<lambda>path. invoke_void cl path Method_Query_Execute [])"

definition remote_query_for_answer :: "'c client \<Rightarrow> answer \<Rightarrow> (string \<times> 'c, unit) act" where
  "remote_query_for_answer cl a = at_path (\<lambda>path. invoke_void cl path Method_Query_ForAnswer (encode_answer a))"

definition remote_query_for_application_id :: "'c client \<Rightarrow> string \<Rightarrow> (string \<times> 'c, unit) act" where
  "remote_query_for_application_id cl i = at_path (\<lambda>path.
     invoke_void cl path Method_Query_ForApplicationId [String i])"

definition remote_query_for_feature :: "'c client \<Rightarrow> feature \<Rightarrow> (string \<times> 'c, unit) act" where
  "remote_query_for_feature cl f = at_path (\<lambda>path. invoke_void cl path Method_Query_ForFeature (encode_feature f))"

definition remote_query_for_interval :: "'c client \<Rightarrow> timestamp \<Rightarrow> timestamp \<Rightarrow> (string \<times> 'c, unit) act" where
  "remote_query_for_interval cl b e = at_path (\<lambda>path.
     invoke_void cl path Method_Query_ForInterval [Int64 b, Int64 e])"

definition remote_query_next :: "'c client \<Rightarrow> (string \<times> 'c, unit) act" where
  "remote_query_next cl = at_path (\<lambda>path. invoke_void cl path Method_Query_Next [])"

definition remote_query_status :: "'c client \<Rightarrow> (string \<times> 'c, status) act" where
  "remote_query_status cl = at_path (\<lambda>path. invoke_value decode_status None cl path Method_Query_Status [])"

definition remote_add :: "'c client \<Rightarrow> request \<Rightarrow> ('c, unit) act" where
  "remote_add cl r = invoke_void cl root_path Method_Add (encode_request r)"

definition remote_remove_application :: "'c client \<Rightarrow> string \<Rightarrow> ('c, unit) act" where
  "remote_remove_application cl i = invoke_void cl root_path Method_RemoveApplication [String i]"

definition remote_reset :: "'c client \<Rightarrow> ('c, unit) act" where
  "remote_reset cl =
     catchE is_runtime_error (invoke_void cl root_path Method_Reset [])
       (\<lambda>e. modifyE (cl_cout cl (what e @ [CHR 0x0A])))"

definition remote_query :: "'c client \<Rightarrow> ('c, string) act" where
  "remote_query cl = invoke_value pop_path None cl root_path Method_AddQuery []"

definition remote_vtable :: "'c client \<Rightarrow> ('c, string) store_vtable" where
  "remote_vtable cl =
     \<lparr>vt_reset = remote_reset cl,
      vt_add = remote_add cl,
      vt_remove_application = remote_remove_application cl,
      vt_query = remote_query cl,
      vt_status = remote_query_status cl,
      vt_for_application_id = remote_query_for_application_id cl,
      vt_for_feature = remote_query_for_feature cl,
      vt_for_interval = remote_query_for_interval cl,
      vt_for_answer = remote_query_for_answer cl,
      vt_all = remote_query_all cl,
      vt_execute = remote_query_execute cl,
      vt_next = remote_query_next cl,
      vt_erase = remote_query_erase cl,
      vt_current = remote_query_current cl,
      vt_destroy_query = remote_query_destroy cl\<rparr>"

definition resolved_name :: "string \<Rightarrow> ('w, string) act" where
  "resolved_name name =
     (if name = [] then throwE ServiceNameMustNotBeEmpty else returnE (''com.ubuntu.trust.store.'' @ name))"

end
