(* ===== verification/Remote_Store_Laws.thy ===== *)
theory Remote_Store_Laws
  imports Remote_Store
begin

text \<open>
  A store on the bus is a store: over a bus that delivers calls and replies, the stub keeps the same
  contract the exposed store keeps, with the same contents. The differences the bus makes are in the
  parameters: answers must fit the byte they are sent in, and a query can be made only while the
  64-bit counter behind the object paths has not run out.
\<close>

lemma query_path_inject [simp]: "query_path m = query_path n \<longleftrightarrow> m = n"
  by (simp add: query_path_def word_unat_eq_iff)

lemma query_path_not_root [simp]: "query_path n \<noteq> root_path" "root_path \<noteq> query_path n"
  by (simp_all add: query_path_def root_path_def)

lemma root_handlers_lookup [simp]:
  "map_of (root_handlers V) Method_Add = Some (handle_add V)"
  "map_of (root_handlers V) Method_RemoveApplication = Some (handle_remove_application V)"
  "map_of (root_handlers V) Method_Reset = Some (handle_reset V)"
  "map_of (root_handlers V) Method_AddQuery = Some (handle_add_query V)"
  "map_of (root_handlers V) Method_RemoveQuery = Some (handle_remove_query V)"
  by (intro map_of_is_SomeI; simp add: root_handlers_def store_methods)+

lemma query_handlers_lookup [simp]:
  "map_of (query_handlers V path) Method_Query_All = Some (handle_query_all V path)"
  "map_of (query_handlers V path) Method_Query_Current = Some (handle_query_current V path)"
  "map_of (query_handlers V path) Method_Query_Erase = Some (handle_query_erase V path)"
  "map_of (query_handlers V path) Method_Query_Execute = Some (handle_query_execute V path)"
  "map_of (query_handlers V path) Method_Query_ForAnswer = Some (handle_query_for_answer V path)"
  "map_of (query_handlers V path) Method_Query_ForApplicationId = Some (handle_query_for_application_id V path)"
  "map_of (query_handlers V path) Method_Query_ForFeature = Some (handle_query_for_feature V path)"
  "map_of (query_handlers V path) Method_Query_ForInterval = Some (handle_query_for_interval V path)"
  "map_of (query_handlers V path) Method_Query_Next = Some (handle_query_next V path)"
  "map_of (query_handlers V path) Method_Query_Status = Some (handle_query_status V path)"
  by (intro map_of_is_SomeI; simp add: query_handlers_def query_methods)+

definition cleared :: "'q server \<Rightarrow> 'q server" where
  "cleared srv = srv\<lparr>srv_outbox := []\<rparr>"

lemma cleared_simps [simp]:
  "srv_outbox (cleared srv) = []" "srv_query_store (cleared srv) = srv_query_store srv"
  "srv_query_counter (cleared srv) = srv_query_counter srv"
  by (simp_all add: cleared_def)

lemma cleared_idem: "srv_outbox srv = [] \<Longrightarrow> cleared srv = srv"
  by (simp add: cleared_def)

text \<open>What the program relies on of the bus.\<close>

definition delivers :: "('w, 'q) store_vtable \<Rightarrow> ('q server \<times> 'w) client \<Rightarrow> bool" where
  "delivers V cl \<longleftrightarrow> (\<forall>srv w path m h args srv' w' r rs.
     handler_at V srv path m = Some h \<longrightarrow> h args (cleared srv, w) = (Inr (), (srv', w')) \<longrightarrow>
     srv_outbox srv' = r # rs \<longrightarrow> cl_call cl path m args (srv, w) = (Inr r, (cleared srv', w')))"

text \<open>The names of the live objects are paths the counter has given out.\<close>

definition paths_used :: "'q server \<Rightarrow> bool" where
  "paths_used srv \<longleftrightarrow> (\<forall>path q. srv_query_store srv path = Some q \<longrightarrow>
     (\<exists>n. path = query_path n \<and> n < srv_query_counter srv))"

lemmas handler_defs =
  handle_add_def handle_remove_application_def handle_reset_def handle_add_query_def handle_remove_query_def
  handle_query_all_def handle_query_current_def handle_query_erase_def handle_query_execute_def
  handle_query_for_answer_def handle_query_for_application_id_def handle_query_for_feature_def
  handle_query_for_interval_def handle_query_next_def handle_query_status_def
  read_args_def try_return_def send_def next_query_counter_def query_store_insert_def query_store_erase_def
  on_query_def decode_interval_def

text \<open>
  The invariant, freshness and query states of the exposed store, lifted to the server: nothing is
  waiting to be sent, every object's query belongs to the store, and the answers stored fit a byte.
\<close>

definition bus_inv ::
  "('w \<Rightarrow> bool) \<Rightarrow> ('w \<Rightarrow> request multiset) \<Rightarrow> ('q \<Rightarrow> bool) \<Rightarrow> 'q server \<times> 'w \<Rightarrow> bool"
where
  "bus_inv I contents owned c \<longleftrightarrow> I (snd c) \<and> srv_outbox (fst c) = [] \<and> paths_used (fst c) \<and>
     (\<forall>path q. srv_query_store (fst c) path = Some q \<longrightarrow> owned q) \<and>
     (\<forall>r \<in># contents (snd c). byte_answer (req_answer r))"

definition bus_fresh :: "('w \<Rightarrow> bool) \<Rightarrow> 'q server \<times> 'w \<Rightarrow> bool" where
  "bus_fresh fresh c \<longleftrightarrow> fresh (snd c) \<and> srv_query_counter (fst c) \<noteq> - 1"

fun byte_phase :: "phase \<Rightarrow> bool" where
  "byte_phase Building = True"
| "byte_phase (Results rs) = (\<forall>r \<in> set rs. byte_answer (req_answer r))"

definition bus_qstate :: "('q \<Rightarrow> 'w \<Rightarrow> query_filter \<Rightarrow> phase \<Rightarrow> bool) \<Rightarrow>
  string \<Rightarrow> 'q server \<times> 'w \<Rightarrow> query_filter \<Rightarrow> phase \<Rightarrow> bool" where
  "bus_qstate qstate path c f p \<longleftrightarrow>
     (\<exists>q. srv_query_store (fst c) path = Some q \<and> qstate q (snd c) f p) \<and> byte_phase p"

definition put :: "string \<Rightarrow> 'q \<Rightarrow> 'q server \<Rightarrow> 'q server" where
  "put path q srv = srv\<lparr>srv_query_store := (srv_query_store srv)(path \<mapsto> q)\<rparr>"

locale remote_bus = trust_store V inv room fresh contents keep answer_ok owned qstate
  for V :: "('w, 'q) store_vtable" and inv room fresh contents keep answer_ok owned qstate +
  fixes cl :: "('q server \<times> 'w) client"
  assumes delivers: "delivers V cl"
begin

abbreviation r_inv :: "'q server \<times> 'w \<Rightarrow> bool" where
  "r_inv \<equiv> bus_inv inv contents owned"

abbreviation r_qstate :: "string \<Rightarrow> 'q server \<times> 'w \<Rightarrow> query_filter \<Rightarrow> phase \<Rightarrow> bool" where
  "r_qstate \<equiv> bus_qstate qstate"

lemma root_call:
  assumes "map_of (root_handlers V) m = Some h" and "h args (cleared srv, w) = (Inr (), (srv', w'))"
    and "srv_outbox srv' = r # rs"
  shows "cl_call cl root_path m args (srv, w) = (Inr r, (cleared srv', w'))"
  using delivers assms unfolding delivers_def handler_at_def by (metis (full_types))

lemma query_call:
  assumes "paths_used srv" and "srv_query_store srv path = Some q"
    and "map_of (query_handlers V path) m = Some h" and "h args (cleared srv, w) = (Inr (), (srv', w'))"
    and "srv_outbox srv' = r # rs"
  shows "cl_call cl path m args (srv, w) = (Inr r, (cleared srv', w'))"
proof -
  have "path \<noteq> root_path" using assms(1,2) by (auto simp: paths_used_def)
  then have "handler_at V srv path m = Some h" using assms(2,3) by (simp add: handler_at_def)
  then show ?thesis using delivers assms(4,5) unfolding delivers_def by blast
qed

lemma on_query_run:
  assumes "srv_query_store srv path = Some q" and "m (q, w) = (x, (q', w'))"
  shows "on_query path m (srv, w) = (x, (put path q' srv, w'))"
  using assms by (simp add: on_query_def put_def)

lemma put_same: "srv_query_store srv path = Some q \<Longrightarrow> put path q srv = srv"
  by (simp add: put_def fun_upd_idem)

lemma put_simps [simp]:
  "srv_outbox (put path q srv) = srv_outbox srv" "cleared (put path q srv) = put path q (cleared srv)"
  "srv_query_counter (put path q srv) = srv_query_counter srv"
  "srv_query_store (put path q srv) = (srv_query_store srv)(path \<mapsto> q)"
  by (simp_all add: put_def cleared_def)

lemma send_apply: "send m (srv, w) = (Inr (), (srv\<lparr>srv_outbox := srv_outbox srv @ [m]\<rparr>, w))"
  by (simp add: send_def)

text \<open>A call that changes the query and answers with nothing.\<close>

lemma query_void_call:
  assumes c: "r_inv (srv, w)" and q: "srv_query_store srv path = Some q"
    and h: "map_of (query_handlers V path) m = Some h"
    and op: "op (q, w) = (Inr (), (q', w'))"
    and run: "\<And>s. h args s = block [on_query path op, send (method_return [])] s"
  shows "cl_call cl path m args (srv, w) = (Inr (method_return []), (put path q' srv, w'))"
proof -
  have s: "srv_outbox srv = []" "paths_used srv" using c by (simp_all add: bus_inv_def)
  have "h args (cleared srv, w) = (Inr (), ((put path q' srv)\<lparr>srv_outbox := [method_return []]\<rparr>, w'))"
    using on_query_run [of "cleared srv" path q op w] q op
    by (simp add: run bindE_apply send_apply cleared_idem [OF s(1)] s(1))
  from query_call [OF s(2) q h this] show ?thesis
    using s(1) by (simp add: cleared_def put_def)
qed

lemma r_inv_put:
  assumes "r_inv (srv, w)" and "srv_query_store srv path = Some q" and "inv w'" and "owned q'"
    and "\<forall>r \<in># contents w'. byte_answer (req_answer r)"
  shows "r_inv (put path q' srv, w')"
  using assms by (auto simp: bus_inv_def paths_used_def)

lemma r_owned: "r_inv (srv, w) \<Longrightarrow> srv_query_store srv path = Some q \<Longrightarrow> owned q"
  by (auto simp: bus_inv_def)

text \<open>The law of such a call, from the law of the exposed query.\<close>

lemma query_void_law:
  assumes c: "r_inv c" and qs: "r_qstate path c f p"
    and h: "map_of (query_handlers V path) m = Some h"
    and run: "\<And>s. h args s = block [on_query path op, send (method_return [])] s"
    and law: "\<And>q w. inv w \<Longrightarrow> qstate q w f p \<Longrightarrow>
      \<exists>q' w'. op (q, w) = (Inr (), (q', w')) \<and> inv w' \<and> contents w' \<subseteq># contents w \<and> R w w' \<and>
        (owned q \<longrightarrow> owned q') \<and> qstate q' w' f' p'"
    and ph: "byte_phase p'"
  shows "\<exists>c'. cl_call cl path m args c = (Inr (method_return []), c') \<and> r_inv c' \<and> R (snd c) (snd c') \<and>
     r_qstate path c' f' p'"
proof -
  obtain srv w where [simp]: "c = (srv, w)" by force
  obtain q where q: "srv_query_store srv path = Some q" "qstate q w f p" using qs by (auto simp: bus_qstate_def)
  have w: "inv w" "\<forall>r \<in># contents w. byte_answer (req_answer r)" using c by (auto simp: bus_inv_def)
  from law [OF w(1) q(2)] obtain q' w' where l: "op (q, w) = (Inr (), (q', w'))" "inv w'"
      "contents w' \<subseteq># contents w" "R w w'" "owned q \<longrightarrow> owned q'" "qstate q' w' f' p'"
    by blast
  have own: "owned q'" using l(5) r_owned [of srv w path q] c q(1) by simp
  have "\<forall>r \<in># contents w'. byte_answer (req_answer r)" using w(2) mset_subset_eqD [OF l(3)] by blast
  then have "r_inv (put path q' srv, w')" using r_inv_put [of srv w] c q(1) l(2) own by simp
  moreover have "cl_call cl path m args c = (Inr (method_return []), (put path q' srv, w'))"
    using query_void_call [OF _ q(1) h l(1) run] c by simp
  ultimately show ?thesis using l(4,6) ph by (auto simp: bus_qstate_def)
qed

text \<open>Reading calls: they leave the server as it is.\<close>

lemma status_law:
  assumes c: "r_inv c" and qs: "r_qstate path c f p"
  shows "remote_query_status cl (path, c) = (Inr (phase_status p), (path, c))"
proof -
  obtain srv w where [simp]: "c = (srv, w)" by force
  obtain q where q: "srv_query_store srv path = Some q" "qstate q w f p" using qs by (auto simp: bus_qstate_def)
  have s: "srv_outbox srv = []" "paths_used srv" "inv w" using c by (simp_all add: bus_inv_def)
  have "on_query path (vt_status V) (srv, w) = (Inr (phase_status p), (srv, w))"
    using on_query_run [where m = "vt_status V", OF q(1) status [OF s(3) q(2)]] put_same [OF q(1)] by simp
  then have "handle_query_status V path [] (cleared srv, w) =
      (Inr (), (srv\<lparr>srv_outbox := [method_return (encode_status (phase_status p))]\<rparr>, w))"
    by (simp add: handle_query_status_def bindE_apply send_apply cleared_idem [OF s(1)] s(1))
  from query_call [OF s(2) q(1) query_handlers_lookup(10) this]
  have "cl_call cl path Method_Query_Status [] (srv, w) =
      (Inr (method_return (encode_status (phase_status p))), (srv, w))"
    using s(1) by (simp add: cleared_def)
  moreover have "scast (ucast (phase_status p) :: byte) = phase_status p"
    by (cases p rule: phase_status.cases) (simp_all add: status_defs)
  ultimately show ?thesis
    by (simp add: remote_query_status_def at_path_def invoke_value_def bindE_apply read_args_def decode_status_def
        encode_status_def)
qed

lemma current_law:
  assumes c: "r_inv c" and qs: "r_qstate path c f (Results (r # rs))"
  shows "remote_query_current cl (path, c) = (Inr r, (path, c))"
proof -
  obtain srv w where [simp]: "c = (srv, w)" by force
  obtain q where q: "srv_query_store srv path = Some q" "qstate q w f (Results (r # rs))"
    using qs by (auto simp: bus_qstate_def)
  have s: "srv_outbox srv = []" "paths_used srv" "inv w" using c by (simp_all add: bus_inv_def)
  have "on_query path (vt_current V) (srv, w) = (Inr r, (srv, w))"
    using on_query_run [where m = "vt_current V", OF q(1) current [OF s(3) q(2)]] put_same [OF q(1)] by simp
  then have "handle_query_current V path [] (cleared srv, w) =
      (Inr (), (srv\<lparr>srv_outbox := [method_return (encode_request r)]\<rparr>, w))"
    by (simp add: handle_query_current_def bindE_apply catchE_apply send_apply cleared_idem [OF s(1)] s(1))
  from query_call [OF s(2) q(1) query_handlers_lookup(2) this]
  have "cl_call cl path Method_Query_Current [] (srv, w) = (Inr (method_return (encode_request r)), (srv, w))"
    using s(1) by (simp add: cleared_def)
  moreover have "byte_answer (req_answer r)" using qs by (simp add: bus_qstate_def)
  ultimately show ?thesis
    using decode_encode_request [of r "[]"]
    by (simp add: remote_query_current_def at_path_def invoke_value_def bindE_apply read_args_def)
qed

lemma current_none_law:
  assumes c: "r_inv c" and qs: "r_qstate path c f p" and p: "p = Building \<or> p = Results []"
  shows "remote_query_current cl (path, c) = (Inl NoCurrentResult, (path, c))"
proof -
  obtain srv w where [simp]: "c = (srv, w)" by force
  obtain q where q: "srv_query_store srv path = Some q" "qstate q w f p" using qs by (auto simp: bus_qstate_def)
  have s: "srv_outbox srv = []" "paths_used srv" "inv w" using c by (simp_all add: bus_inv_def)
  have "on_query path (vt_current V) (srv, w) = (Inl NoCurrentResult, (srv, w))"
    using on_query_run [where m = "vt_current V", OF q(1) current_none [OF s(3) q(2) p]] put_same [OF q(1)] by simp
  then have "handle_query_current V path [] (cleared srv, w) = (Inr (), (srv\<lparr>srv_outbox :=
      [error_reply Error_NoCurrentRequest (what NoCurrentResult)]\<rparr>, w))"
    by (simp add: handle_query_current_def bindE_apply catchE_apply send_apply cleared_idem [OF s(1)] s(1))
  from query_call [OF s(2) q(1) query_handlers_lookup(2) this]
  have "cl_call cl path Method_Query_Current [] (srv, w) =
      (Inr (error_reply Error_NoCurrentRequest (what NoCurrentResult)), (srv, w))"
    using s(1) by (simp add: cleared_def)
  then show ?thesis
    by (simp add: remote_query_current_def at_path_def invoke_value_def bindE_apply)
qed

text \<open>Calls on the store itself.\<close>

lemma root_void_call:
  assumes c: "r_inv (srv, w)" and h: "map_of (root_handlers V) m = Some h"
    and run: "h args (srv, w) = (Inr (), (srv\<lparr>srv_outbox := method_return [] # rs\<rparr>, w'))"
  shows "cl_call cl root_path m args (srv, w) = (Inr (method_return []), (srv, w'))"
proof -
  have s: "srv_outbox srv = []" using c by (simp add: bus_inv_def)
  then have "h args (cleared srv, w) = (Inr (), (srv\<lparr>srv_outbox := method_return [] # rs\<rparr>, w'))"
    using run by (simp add: cleared_idem)
  from root_call [OF h this] s show ?thesis by (simp add: cleared_def)
qed

lemma r_inv_world:
  "r_inv (srv, w) \<Longrightarrow> inv w' \<Longrightarrow> \<forall>r \<in># contents w'. byte_answer (req_answer r) \<Longrightarrow> r_inv (srv, w')"
  by (simp add: bus_inv_def)

lemma add_law:
  assumes c: "r_inv c" and "room (Suc n) (snd c)" and "clean_id (req_from r)" and a: "answer_ok (req_answer r)" "byte_answer (req_answer r)"
  shows "\<exists>c'. remote_add cl r c = (Inr (), c') \<and> r_inv c' \<and> room n (snd c') \<and>
     contents (snd c') = add_mset (r\<lparr>req_feature := keep (req_feature r)\<rparr>) (contents (snd c))"
proof -
  obtain srv w where [simp]: "c = (srv, w)" by force
  have s: "srv_outbox srv = []" "inv w" "\<forall>r \<in># contents w. byte_answer (req_answer r)"
    using c by (simp_all add: bus_inv_def)
  from add [OF s(2), of n r] assms obtain w' where w': "vt_add V r w = (Inr (), w')" "inv w'" "room n w'"
    "contents w' = add_mset (r\<lparr>req_feature := keep (req_feature r)\<rparr>) (contents w)" by auto
  have "handle_add V (encode_request r) (srv, w) = (Inr (), (srv\<lparr>srv_outbox := [method_return []]\<rparr>, w'))"
    using w'(1) decode_encode_request [OF a(2), of "[]"] s(1)
    by (simp add: handle_add_def read_args_def try_return_def bindE_apply send_apply)
  from root_void_call [OF _ root_handlers_lookup(1) this] c
  have "cl_call cl root_path Method_Add (encode_request r) (srv, w) = (Inr (method_return []), (srv, w'))" by simp
  then show ?thesis
    using r_inv_world [of srv w w'] c w' s(3) a(2) by (auto simp: remote_add_def invoke_void_def bindE_apply)
qed

lemma remove_application_law:
  assumes c: "r_inv c" and i: "clean_id i"
  shows "\<exists>c'. remote_remove_application cl i c = (Inr (), c') \<and> r_inv c' \<and>
     contents (snd c') = filter_mset (\<lambda>r. req_from r \<noteq> i) (contents (snd c))"
proof -
  obtain srv w where [simp]: "c = (srv, w)" by force
  have s: "srv_outbox srv = []" "inv w" "\<forall>r \<in># contents w. byte_answer (req_answer r)"
    using c by (simp_all add: bus_inv_def)
  from remove_application [OF s(2) i] obtain w' where w': "vt_remove_application V i w = (Inr (), w')" "inv w'"
    "contents w' = filter_mset (\<lambda>r. req_from r \<noteq> i) (contents w)" by auto
  have "handle_remove_application V [String i] (srv, w) = (Inr (), (srv\<lparr>srv_outbox := [method_return []]\<rparr>, w'))"
    using w'(1) s(1) by (simp add: handle_remove_application_def read_args_def try_return_def bindE_apply send_apply)
  from root_void_call [OF _ root_handlers_lookup(2) this] c
  have "cl_call cl root_path Method_RemoveApplication [String i] (srv, w) = (Inr (method_return []), (srv, w'))" by simp
  then show ?thesis
    using r_inv_world [of srv w w'] c w' s(3)
    by (auto simp: remote_remove_application_def invoke_void_def bindE_apply)
qed

lemma reset_law:
  assumes c: "r_inv c"
  shows "\<exists>c'. remote_reset cl c = (Inr (), c') \<and> r_inv c' \<and> contents (snd c') = {#}"
proof -
  obtain srv w where [simp]: "c = (srv, w)" by force
  have s: "srv_outbox srv = []" "inv w" using c by (simp_all add: bus_inv_def)
  from reset [OF s(2)] obtain w' where w': "vt_reset V w = (Inr (), w')" "inv w'" "contents w' = {#}" by auto
  have "handle_reset V [] (srv, w) = (Inr (), (srv\<lparr>srv_outbox := [method_return []]\<rparr>, w'))"
    using w'(1) s(1) by (simp add: handle_reset_def catchE_apply bindE_apply send_apply)
  from root_void_call [OF _ root_handlers_lookup(3) this] c
  have "cl_call cl root_path Method_Reset [] (srv, w) = (Inr (method_return []), (srv, w'))" by simp
  then show ?thesis
    using r_inv_world [of srv w w'] c w' by (auto simp: remote_reset_def invoke_void_def bindE_apply catchE_apply)
qed

lemma destroy_query_law:
  assumes c: "r_inv c"
  shows "\<exists>c'. remote_query_destroy cl path c = (Inr (), c') \<and> r_inv c' \<and> contents (snd c') = contents (snd c) \<and>
     (\<forall>n. room n (snd c) \<longrightarrow> room n (snd c'))"
proof -
  obtain srv w where [simp]: "c = (srv, w)" by force
  have s: "srv_outbox srv = []" "inv w" "\<forall>r \<in># contents w. byte_answer (req_answer r)"
    using c by (simp_all add: bus_inv_def)
  show ?thesis
  proof (cases "srv_query_store srv path")
    case None
    have "handle_remove_query V [Path path] (srv, w) =
        (Inr (), (srv\<lparr>srv_outbox := [method_return [], method_return []]\<rparr>, w))"
      using s(1) None
      by (simp add: handle_remove_query_def read_args_def bindE_apply catchE_apply send_apply query_store_erase_def)
    from root_void_call [OF _ root_handlers_lookup(5) this] c show ?thesis
      by (auto simp: remote_query_destroy_def bindE_apply catchE_apply)
  next
    case (Some q)
    have "owned q" using c Some r_owned by auto
    from destroy_query [OF s(2) this] obtain w' where w': "vt_destroy_query V q w = (Inr (), w')" "inv w'"
      "contents w' = contents w" "\<forall>n. room n w \<longrightarrow> room n w'" by blast
    let ?srv = "srv\<lparr>srv_query_store := (srv_query_store srv)(path := None)\<rparr>"
    have "handle_remove_query V [Path path] (cleared srv, w) =
        (Inr (), (?srv\<lparr>srv_outbox := [method_return [], method_return []]\<rparr>, w'))"
      using s(1) Some w'(1)
      by (simp add: handle_remove_query_def read_args_def bindE_apply catchE_apply send_apply query_store_erase_def
          cleared_idem)
    from root_call [OF root_handlers_lookup(5) this] have
      "cl_call cl root_path Method_RemoveQuery [Path path] (srv, w) = (Inr (method_return []), (?srv, w'))"
      using s(1) by (simp add: cleared_def)
    moreover have "r_inv (?srv, w')" using c w' s by (auto simp: bus_inv_def paths_used_def split: if_splits)
    ultimately show ?thesis using w' by (auto simp: remote_query_destroy_def bindE_apply catchE_apply)
  qed
qed

lemma query_law:
  assumes c: "r_inv c" and fresh: "bus_fresh fresh c"
  shows "\<exists>path c'. remote_query cl c = (Inr path, c') \<and> r_inv c' \<and> contents (snd c') = contents (snd c) \<and>
     (\<forall>n. room n (snd c) \<longrightarrow> room n (snd c')) \<and> r_qstate path c' no_filter Building"
proof -
  obtain srv w where [simp]: "c = (srv, w)" by force
  have s: "srv_outbox srv = []" "inv w" "paths_used srv" "\<forall>r \<in># contents w. byte_answer (req_answer r)"
    using c by (simp_all add: bus_inv_def)
  have "fresh w" using fresh by (simp add: bus_fresh_def)
  from query [OF s(2) this] obtain q w' where q: "vt_query V w = (Inr q, w')" "inv w'" "contents w' = contents w"
    "\<forall>n. room n w \<longrightarrow> room n w'" "owned q" "qstate q w' no_filter Building" by blast
  let ?n = "srv_query_counter srv" and ?path = "query_path (srv_query_counter srv)"
  let ?srv = "srv\<lparr>srv_query_counter := ?n + 1, srv_query_store := (srv_query_store srv)(?path \<mapsto> q)\<rparr>"
  have new: "srv_query_store srv ?path = None"
    using s(3) by (cases "srv_query_store srv ?path") (auto simp: paths_used_def)
  have less: "n < ?n \<Longrightarrow> n < ?n + 1" "?n < ?n + 1" for n
    using fresh word_less_plus_1 [of ?n] by (auto simp: bus_fresh_def)
  have "handle_add_query V [] (cleared srv, w) = (Inr (), (?srv\<lparr>srv_outbox := [method_return [Path ?path]]\<rparr>, w'))"
    using q(1) s(1) new
    by (simp add: handle_add_query_def catchE_apply bindE_apply next_query_counter_def query_store_insert_def send_apply
        cleared_idem)
  from root_call [OF root_handlers_lookup(4) this]
  have call: "cl_call cl root_path Method_AddQuery [] (srv, w) = (Inr (method_return [Path ?path]), (?srv, w'))"
    using s(1) by (simp add: cleared_def)
  have "paths_used ?srv" using s(3) less by (auto simp: paths_used_def split: if_splits)
  then have "r_inv (?srv, w')" using c q s by (auto simp: bus_inv_def)
  then show ?thesis
    using call q by (auto simp: remote_query_def invoke_value_def bindE_apply read_args_def bus_qstate_def)
qed

text \<open>The calls on a query that answer with nothing, each from the law of the exposed query.\<close>

lemma invoke_void_ok:
  "cl_call cl path m args c = (Inr (method_return []), c') \<Longrightarrow>
   at_path (\<lambda>path. invoke_void cl path m args) (path, c) = (Inr (), (path, c'))"
  by (simp add: at_path_def invoke_void_def bindE_apply)

lemma for_application_id_law:
  assumes c: "r_inv c" and qs: "r_qstate path c f Building" and i: "clean_id i"
  shows "\<exists>c'. remote_query_for_application_id cl i (path, c) = (Inr (), (path, c')) \<and> r_inv c' \<and>
     (contents (snd c') = contents (snd c) \<and> (\<forall>n. room n (snd c) \<longrightarrow> room n (snd c'))) \<and>
     r_qstate path c' (f\<lparr>f_application := Some i\<rparr>) Building"
proof -
  have "\<exists>c'. cl_call cl path Method_Query_ForApplicationId [String i] c = (Inr (method_return []), c') \<and> r_inv c' \<and>
     (contents (snd c') = contents (snd c) \<and> (\<forall>n. room n (snd c) \<longrightarrow> room n (snd c'))) \<and>
     r_qstate path c' (f\<lparr>f_application := Some i\<rparr>) Building"
    by (rule query_void_law [OF c qs query_handlers_lookup(6),
          where R = "\<lambda>w w'. contents w' = contents w \<and> (\<forall>n. room n w \<longrightarrow> room n w')"])
      (simp_all add: handle_query_for_application_id_def read_args_def bindE_apply,
        use for_application_id [OF _ _ i] in fastforce)
  then show ?thesis using invoke_void_ok unfolding remote_query_for_application_id_def by blast
qed

lemma for_feature_law:
  assumes c: "r_inv c" and qs: "r_qstate path c f Building"
  shows "\<exists>c'. remote_query_for_feature cl ft (path, c) = (Inr (), (path, c')) \<and> r_inv c' \<and>
     (contents (snd c') = contents (snd c) \<and> (\<forall>n. room n (snd c) \<longrightarrow> room n (snd c'))) \<and>
     r_qstate path c' (f\<lparr>f_feature := Some ft\<rparr>) Building"
proof -
  have "\<exists>c'. cl_call cl path Method_Query_ForFeature (encode_feature ft) c = (Inr (method_return []), c') \<and> r_inv c' \<and>
     (contents (snd c') = contents (snd c) \<and> (\<forall>n. room n (snd c) \<longrightarrow> room n (snd c'))) \<and>
     r_qstate path c' (f\<lparr>f_feature := Some ft\<rparr>) Building"
    by (rule query_void_law [OF c qs query_handlers_lookup(7), where op = "vt_for_feature V ft" and
          R = "\<lambda>w w'. contents w' = contents w \<and> (\<forall>n. room n w \<longrightarrow> room n w')"])
      (simp_all add: handle_query_for_feature_def read_args_def bindE_apply decode_encode_feature [of _ "[]", simplified],
        use for_feature in fastforce)
  then show ?thesis using invoke_void_ok unfolding remote_query_for_feature_def by blast
qed

lemma for_interval_law:
  assumes c: "r_inv c" and qs: "r_qstate path c f Building"
  shows "\<exists>c'. remote_query_for_interval cl b e (path, c) = (Inr (), (path, c')) \<and> r_inv c' \<and>
     (contents (snd c') = contents (snd c) \<and> (\<forall>n. room n (snd c) \<longrightarrow> room n (snd c'))) \<and>
     r_qstate path c' (f\<lparr>f_interval := Some (b, e)\<rparr>) Building"
proof -
  have "\<exists>c'. cl_call cl path Method_Query_ForInterval [Int64 b, Int64 e] c = (Inr (method_return []), c') \<and> r_inv c' \<and>
     (contents (snd c') = contents (snd c) \<and> (\<forall>n. room n (snd c) \<longrightarrow> room n (snd c'))) \<and>
     r_qstate path c' (f\<lparr>f_interval := Some (b, e)\<rparr>) Building"
    by (rule query_void_law [OF c qs query_handlers_lookup(8), where op = "vt_for_interval V b e" and
          R = "\<lambda>w w'. contents w' = contents w \<and> (\<forall>n. room n w \<longrightarrow> room n w')"])
      (simp_all add: handle_query_for_interval_def read_args_def bindE_apply decode_interval_def,
        use for_interval in fastforce)
  then show ?thesis using invoke_void_ok unfolding remote_query_for_interval_def by blast
qed

lemma for_answer_law:
  assumes c: "r_inv c" and qs: "r_qstate path c f Building" and a: "answer_ok a" "byte_answer a"
  shows "\<exists>c'. remote_query_for_answer cl a (path, c) = (Inr (), (path, c')) \<and> r_inv c' \<and>
     (contents (snd c') = contents (snd c) \<and> (\<forall>n. room n (snd c) \<longrightarrow> room n (snd c'))) \<and>
     r_qstate path c' (f\<lparr>f_answer := Some a\<rparr>) Building"
proof -
  have "\<exists>c'. cl_call cl path Method_Query_ForAnswer (encode_answer a) c = (Inr (method_return []), c') \<and> r_inv c' \<and>
     (contents (snd c') = contents (snd c) \<and> (\<forall>n. room n (snd c) \<longrightarrow> room n (snd c'))) \<and>
     r_qstate path c' (f\<lparr>f_answer := Some a\<rparr>) Building"
    by (rule query_void_law [OF c qs query_handlers_lookup(5), where op = "vt_for_answer V a" and
          R = "\<lambda>w w'. contents w' = contents w \<and> (\<forall>n. room n w \<longrightarrow> room n w')"])
      (use a in \<open>simp_all add: handle_query_for_answer_def read_args_def bindE_apply
          decode_encode_answer [of _ "[]", simplified]\<close>,
        use for_answer [OF _ _ a(1)] in fastforce)
  then show ?thesis using invoke_void_ok unfolding remote_query_for_answer_def by blast
qed

lemma all_law:
  assumes c: "r_inv c" and qs: "r_qstate path c f Building"
  shows "\<exists>c'. remote_query_all cl (path, c) = (Inr (), (path, c')) \<and> r_inv c' \<and>
     (contents (snd c') = contents (snd c) \<and> (\<forall>n. room n (snd c) \<longrightarrow> room n (snd c'))) \<and>
     r_qstate path c' no_filter Building"
proof -
  have "\<exists>c'. cl_call cl path Method_Query_All [] c = (Inr (method_return []), c') \<and> r_inv c' \<and>
     (contents (snd c') = contents (snd c) \<and> (\<forall>n. room n (snd c) \<longrightarrow> room n (snd c'))) \<and>
     r_qstate path c' no_filter Building"
    by (rule query_void_law [OF c qs query_handlers_lookup(1), where
          R = "\<lambda>w w'. contents w' = contents w \<and> (\<forall>n. room n w \<longrightarrow> room n w')"])
      (simp_all add: handle_query_all_def, use all in fastforce)
  then show ?thesis by (auto simp: remote_query_all_def at_path_def bindE_apply)
qed

lemma next_law:
  assumes c: "r_inv c" and qs: "r_qstate path c f (Results (r # rs))"
  shows "\<exists>c'. remote_query_next cl (path, c) = (Inr (), (path, c')) \<and> r_inv c' \<and>
     (contents (snd c') = contents (snd c) \<and> (\<forall>n. room n (snd c) \<longrightarrow> room n (snd c'))) \<and> r_qstate path c' f (Results rs)"
proof -
  have "byte_phase (Results rs)" using qs by (simp add: bus_qstate_def)
  then have "\<exists>c'. cl_call cl path Method_Query_Next [] c = (Inr (method_return []), c') \<and> r_inv c' \<and>
     (contents (snd c') = contents (snd c) \<and> (\<forall>n. room n (snd c) \<longrightarrow> room n (snd c'))) \<and> r_qstate path c' f (Results rs)"
    by (intro query_void_law [OF c qs query_handlers_lookup(9), where
          R = "\<lambda>w w'. contents w' = contents w \<and> (\<forall>n. room n w \<longrightarrow> room n w')"])
      (simp_all only: handle_query_next_def, use "next" in fastforce)
  then show ?thesis using invoke_void_ok unfolding remote_query_next_def by blast
qed

lemma erase_law:
  assumes c: "r_inv c" and qs: "r_qstate path c f (Results (r # rs))"
  shows "\<exists>c'. remote_query_erase cl (path, c) = (Inr (), (path, c')) \<and> r_inv c' \<and>
     (contents (snd c') = contents (snd c) - {#r#} \<and> r \<in># contents (snd c)) \<and> r_qstate path c' f (Results rs)"
proof -
  have "byte_phase (Results rs)" using qs by (simp add: bus_qstate_def)
  then have "\<exists>c'. cl_call cl path Method_Query_Erase [] c = (Inr (method_return []), c') \<and> r_inv c' \<and>
     (contents (snd c') = contents (snd c) - {#r#} \<and> r \<in># contents (snd c)) \<and> r_qstate path c' f (Results rs)"
    by (intro query_void_law [OF c qs query_handlers_lookup(3), where
          R = "\<lambda>w w'. contents w' = contents w - {#r#} \<and> r \<in># contents w"])
      (simp_all only: handle_query_erase_def, use erase in fastforce)
  then show ?thesis using invoke_void_ok unfolding remote_query_erase_def by blast
qed

lemma execute_law:
  assumes c: "r_inv c" and qs: "r_qstate path c f p"
  shows "\<exists>c' rs. remote_query_execute cl (path, c) = (Inr (), (path, c')) \<and> r_inv c' \<and>
     contents (snd c') = contents (snd c) \<and> (\<forall>n. room n (snd c) \<longrightarrow> room n (snd c')) \<and>
     r_qstate path c' f (Results rs) \<and> answers f (contents (snd c)) rs"
proof -
  obtain srv w where [simp]: "c = (srv, w)" by force
  obtain q where q: "srv_query_store srv path = Some q" "qstate q w f p" using qs by (auto simp: bus_qstate_def)
  have w: "inv w" "\<forall>r \<in># contents w. byte_answer (req_answer r)" using c by (auto simp: bus_inv_def)
  from execute [OF w(1) q(2)] obtain q' w' rs where l: "vt_execute V (q, w) = (Inr (), (q', w'))" "inv w'"
      "contents w' = contents w" "\<forall>n. room n w \<longrightarrow> room n w'" "owned q \<longrightarrow> owned q'" "qstate q' w' f (Results rs)"
      "answers f (contents w) rs"
    by blast
  have own: "owned q'" using l(5) r_owned [of srv w path q] c q(1) by simp
  have "set rs \<subseteq> set_mset (contents w)"
    using l(7) unfolding answers_def by (metis set_mset_mset multiset_filter_subset set_mset_mono)
  then have "byte_phase (Results rs)" using w(2) by auto
  moreover have "r_inv (put path q' srv, w')" using r_inv_put [of srv w] c q(1) l(2,3) own w(2) by simp
  moreover have "cl_call cl path Method_Query_Execute [] c = (Inr (method_return []), (put path q' srv, w'))"
    using query_void_call [where op = "vt_execute V", OF _ q(1) query_handlers_lookup(4) l(1)] c by (simp add: handle_query_execute_def)
  ultimately show ?thesis
    using l invoke_void_ok unfolding remote_query_execute_def
    by (intro exI [where x = "(put path q' srv, w')"] exI [where x = rs]) (auto simp: bus_qstate_def)
qed

lemma remote_store_is_trust_store:
  "trust_store (remote_vtable cl) r_inv (\<lambda>n c. room n (snd c)) (bus_fresh fresh) (\<lambda>c. contents (snd c)) keep
     (\<lambda>a. answer_ok a \<and> byte_answer a) (\<lambda>_. True) r_qstate"
proof (unfold_locales, unfold remote_vtable_def store_vtable.simps, goal_cases)
  case (1 c) then show ?case by (rule reset_law)
next
  case (2 ft) then show ?case by (rule keep)
next
  case (3 c n r) then show ?case using add_law by blast
next
  case (4 c i) then show ?case by (rule remove_application_law)
next
  case (5 c) then show ?case using query_law by blast
next
  case (6 c q f p) then show ?case by (rule status_law)
next
  case (7 c q f i) then show ?case using for_application_id_law by blast
next
  case (8 c q f ft) then show ?case using for_feature_law by blast
next
  case (9 c q f b e) then show ?case using for_interval_law by blast
next
  case (10 c q f a) then show ?case using for_answer_law by blast
next
  case (11 c q f) then show ?case using all_law by blast
next
  case (12 c q f p) then show ?case using execute_law by blast
next
  case (13 c q f r rs) then show ?case by (rule current_law)
next
  case (14 c q f p) then show ?case by (rule current_none_law)
next
  case (15 c q f r rs) then show ?case using next_law by blast
next
  case (16 c q f r rs) then show ?case using erase_law by blast
next
  case (17 c q) then show ?case using destroy_query_law by blast
next
  case (18 n c) then show ?case by (rule room_less)
qed

end

sublocale remote_bus \<subseteq> over_bus: trust_store "remote_vtable cl" "bus_inv inv contents owned" "\<lambda>n c. room n (snd c)"
  "bus_fresh fresh" "\<lambda>c. contents (snd c)" keep "\<lambda>a. answer_ok a \<and> byte_answer a" "\<lambda>_. True" "bus_qstate qstate"
  by (rule remote_store_is_trust_store)

section \<open>A bus\<close>

text \<open>
  A bus that delivers: it runs the handler and hands the first message back. Where no handler is
  installed, or the handler throws or sends nothing, the caller gets an exception.
\<close>

definition direct_call :: "('w, 'q) store_vtable \<Rightarrow> string \<Rightarrow> bus_method \<Rightarrow> body \<Rightarrow> ('q server \<times> 'w, reply) act" where
  "direct_call V path m args = (\<lambda>(srv, w). case handler_at V srv path m of
       None \<Rightarrow> (Inl other_exception, (srv, w))
     | Some h \<Rightarrow> (case h args (cleared srv, w) of
         (Inl e, (srv', w')) \<Rightarrow> (Inl other_exception, (cleared srv', w'))
       | (Inr _, (srv', w')) \<Rightarrow> (case srv_outbox srv' of
           [] \<Rightarrow> (Inl other_exception, (cleared srv', w'))
         | r # rs \<Rightarrow> (Inr r, (cleared srv', w')))))"

definition direct_client :: "('w, 'q) store_vtable \<Rightarrow> ('q server \<times> 'w) client" where
  "direct_client V = \<lparr>cl_call = direct_call V, cl_print = (\<lambda>n e. n @ '': '' @ e), cl_cout = (\<lambda>_ c. c)\<rparr>"

lemma direct_client_delivers: "delivers V (direct_client V)"
  by (auto simp: delivers_def direct_client_def direct_call_def)

definition new_server :: "'q server" where
  "new_server = \<lparr>srv_query_counter = 0, srv_query_store = Map.empty, srv_outbox = []\<rparr>"

lemma new_server_inv:
  "I w \<Longrightarrow> \<forall>r \<in># contents w. byte_answer (req_answer r) \<Longrightarrow> bus_inv I contents owned (new_server, w)"
  by (simp add: bus_inv_def new_server_def paths_used_def)

end
