(* ===== verification/Remote_Properties.thy ===== *)
theory Remote_Properties
  imports Request_Sequences Remote_Store_Laws
begin

text \<open>
  What a client of a store on the bus may rely on, with the SQLite store behind the adaptor in the
  witnesses.
\<close>

interpretation ref_remote: remote_bus "sqlite_vtable ref_sqlite st" "\<lambda>w. store_ok st (ref_view w)"
  "\<lambda>n w. store_room n (ref_view w)" "\<lambda>_. True" "\<lambda>w. store_contents (ref_view w)" kept_feature "\<lambda>_. True"
  "query_owned st" "\<lambda>q w. query_state st q (ref_view w)" "direct_client (sqlite_vtable ref_sqlite st)" for st
  by (unfold_locales) (rule direct_client_delivers)

lemma remote_busI:
  "trust_store V I room fresh contents keep answer_ok owned qstate \<Longrightarrow> delivers V cl \<Longrightarrow>
   remote_bus V I room fresh contents keep answer_ok owned qstate cl"
  by (simp add: remote_bus_def remote_bus_axioms_def)

text \<open>
  C13. A store on the bus is the store: whatever store the adaptor exposes, over a bus that
  delivers calls and replies, every operation of the stub does to the exposed store's contents
  what the contract says, with the same results and exceptions. Requests keep all their fields on
  the way, the answers being those a signed byte can carry.
\<close>

theorem remote_store_refines_contract:
  assumes "trust_store V I room fresh contents keep answer_ok owned qstate" and "delivers V cl"
  shows "trust_store (remote_vtable cl) (bus_inv I contents owned) (\<lambda>n c. room n (snd c)) (bus_fresh fresh)
     (\<lambda>c. contents (snd c)) keep (\<lambda>a. answer_ok a \<and> byte_answer a) (\<lambda>_. True) (bus_qstate qstate)"
  by (rule remote_bus.remote_store_is_trust_store [OF remote_busI [OF assms]])

theorem remote_store_refines_contract_witness:
  "trust_store (remote_vtable (direct_client (sqlite_vtable ref_sqlite demo_store)))
     (bus_inv (\<lambda>w. store_ok demo_store (ref_view w)) (\<lambda>w. store_contents (ref_view w)) (query_owned demo_store))
     (\<lambda>n c. store_room n (ref_view (snd c))) (bus_fresh (\<lambda>_. True)) (\<lambda>c. store_contents (ref_view (snd c))) kept_feature
     (\<lambda>a. True \<and> byte_answer a) (\<lambda>_. True) (bus_qstate (\<lambda>q w. query_state demo_store q (ref_view w))) \<and>
   bus_inv (\<lambda>w. store_ok demo_store (ref_view w)) (\<lambda>w. store_contents (ref_view w)) (query_owned demo_store)
     (new_server, demo_engine)"
  using remote_store_refines_contract [OF ref.sqlite_store_is_trust_store direct_client_delivers]
    new_server_inv [of "\<lambda>w. store_ok demo_store (ref_view w)" demo_engine "\<lambda>w. store_contents (ref_view w)"]
    demo_store_ok
  by auto



text \<open>
  C40. A reset that fails is reported to nobody. The adaptor's handler sends two messages for it,
  the error and then a success, because it does not return after the error; and the stub, which
  receives the error first, prints it and returns normally, although the requests are still there.
\<close>

theorem failed_reset_is_swallowed:
  assumes "delivers V cl" and "vt_reset V w = (Inl (ErrorResettingStore m), w')" and "srv_outbox srv = []"
  shows "handle_reset V [] (srv, w) =
      (Inr (), (srv\<lparr>srv_outbox := [error_reply Error_ResettingStore m, method_return []]\<rparr>, w')) \<and>
    remote_reset cl (srv, w) =
      (Inr (), cl_cout cl (cl_print cl Error_ResettingStore m @ [CHR 0x0A]) (srv, w'))"
proof
  show h: "handle_reset V [] (srv, w) =
      (Inr (), (srv\<lparr>srv_outbox := [error_reply Error_ResettingStore m, method_return []]\<rparr>, w'))"
    using assms(2,3) by (simp add: handle_reset_def catchE_apply bindE_apply send_def)
  have "handler_at V srv root_path Method_Reset = Some (handle_reset V)" by (simp add: handler_at_def)
  moreover have "cleared srv = srv" using assms(3) by (rule cleared_idem)
  ultimately have "cl_call cl root_path Method_Reset [] (srv, w) = (Inr (error_reply Error_ResettingStore m), (srv, w'))"
    using assms(1) h unfolding delivers_def by (fastforce simp: cleared_def)
  then show "remote_reset cl (srv, w) =
      (Inr (), cl_cout cl (cl_print cl Error_ResettingStore m @ [CHR 0x0A]) (srv, w'))"
    by (simp add: remote_reset_def invoke_void_def bindE_apply catchE_apply)
qed

text \<open>A store whose reset fails.\<close>

definition stuck_vtable :: "(ref_engine, query) store_vtable" where
  "stuck_vtable = (sqlite_vtable ref_sqlite demo_store)\<lparr>vt_reset := throwE (ErrorResettingStore ''locked'')\<rparr>"

theorem failed_reset_is_swallowed_witness:
  "remote_reset (direct_client stuck_vtable) (new_server, demo_granted) = (Inr (), (new_server, demo_granted)) \<and>
   store_contents (ref_view demo_granted) = {#demo_request#}"
  using failed_reset_is_swallowed [OF direct_client_delivers [of stuck_vtable], of demo_granted "''locked''"
      demo_granted new_server] demo_granted_ok(3)
  by (simp add: stuck_vtable_def new_server_def direct_client_def)

section \<open>The daemon and the clients of its store\<close>

text \<open>An agent whose answers a signed byte can carry.\<close>

definition byte_agent :: "'w agent \<Rightarrow> bool" where
  "byte_agent agent \<longleftrightarrow> (\<forall>p w a w'. agent p w = (Inr a, w') \<longrightarrow> byte_answer a)"

lemma remembers_byte_answers:
  assumes "remembers m R" and "\<forall>r \<in># R. byte_answer (req_answer r)" and "remembers m' R'"
    and "memo_serve m ps us = (xs, qs, m')" and "\<forall>a. Inr a \<in> set us \<longrightarrow> byte_answer a"
  shows "\<forall>r \<in># R'. byte_answer (req_answer r)"
proof
  fix r assume "r \<in># R'"
  with assms(3) have "m' (req_from r, req_feature r) = Some (req_answer r)" by (auto simp: remembers_def)
  from memo_serve_ran [OF assms(4) this] show "byte_answer (req_answer r)"
    using assms(1,2,5) unfolding remembers_def decided_def by (metis option.distinct(1) option.inject)
qed

lemma byte_agent_outcomes:
  assumes "byte_agent agent" and "list_all2 (\<lambda>q u. \<exists>v v'. agent q v = (u, v')) qs us"
  shows "\<forall>a. Inr a \<in> set us \<longrightarrow> byte_answer a"
  using assms by (fastforce simp: byte_agent_def list_all2_conv_all_nth in_set_conv_nth)

text \<open>
  C14. What the daemon has answered is what every client of its store gets. The daemon's caching agent serves any sequence of
  requests over its SQLite store; then another process that has resolved the store on the bus and calls
  \<^verbatim>\<open>process_trust_request\<close> for an application and a feature the daemon has answered gets this answer, whatever agent it would
  ask itself: the user is not asked again, and nothing is stored again.
\<close>

theorem daemon_answers_reach_bus_clients:
  assumes "sqlite3_reliable sq view" and "leaves_database view agent" and "quiet_reporter view rep" and "byte_agent agent"
    and "delivers (sqlite_vtable sq st) cl"
    and "bus_inv (\<lambda>w. store_ok st (view w)) (\<lambda>w. store_contents (view w)) (query_owned st) (srv, w)"
    and "srv_query_counter srv \<noteq> - 1" and "store_room (length ps) (view w)" and "remembers m (store_contents (view w))"
    and "\<forall>p \<in> set ps. clean_id (app_id p) \<and> small_feature (app_feature p)"
    and "serve (CachedAgent_authenticate (caching agent sq st rep) now) ps w = (xs, w')"
    and "i < length ps" and "xs ! i = Inr a"
    and "rp_application_id params = app_id (ps ! i)" and "rp_feature params = app_feature (ps ! i)"
    and "rp_agent params = Some other" and "rp_store params = Some (remote_vtable cl)"
  shows "\<exists>c. process_trust_request clock params (srv, w') = (Inr a, c) \<and>
    store_contents (view (snd c)) = store_contents (view w')"
proof -
  let ?inv = "bus_inv (\<lambda>w. store_ok st (view w)) (\<lambda>w. store_contents (view w)) (query_owned st)"
  note sc = sqlite_consultingI [OF assms(1-3)]
  from assms(6) have w: "store_ok st (view w)" "\<forall>r \<in># store_contents (view w). byte_answer (req_answer r)"
    by (auto simp: bus_inv_def)
  from sqlite_consulting.over_sqlite_serve [OF sc w(1) assms(8-10), of now] assms(11)
  obtain us qs m' where r: "memo_serve m ps us = (xs, qs, m')" "length xs = length ps"
    "list_all2 (\<lambda>q u. \<exists>v v'. agent q v = (u, v')) qs us" "store_ok st (view w')"
    "remembers m' (store_contents (view w'))" by auto
  have "\<forall>r \<in># store_contents (view w'). byte_answer (req_answer r)"
    by (rule remembers_byte_answers [OF assms(9) w(2) r(5,1) byte_agent_outcomes [OF assms(4) r(3)]])
  then have I: "?inv (srv, w')" using assms(6) r(4) by (auto simp: bus_inv_def)
  have m': "m' (rp_application_id params, rp_feature params) = Some a"
    using memo_serve_learns [OF r(1) _ assms(13)] assms(12,14,15) r(2) by simp
  then have d: "decided (rp_application_id params) (rp_feature params) (store_contents (view (snd (srv, w'))))"
    using remembers_decided [OF r(5)] by (metis option.discI snd_conv)
  have "clean_id (rp_application_id params)" "bus_fresh (\<lambda>_. True) (srv, w')"
    using assms(7,10,12,14) by (auto simp: bus_fresh_def)
  from trust_store.process_decided [OF remote_bus.remote_store_is_trust_store [OF remote_busI
      [OF sqlite3_reliable.sqlite_store_is_trust_store [OF assms(1)] assms(5)]] I this(2,1) d assms(16,17), of clock]
  show ?thesis using remembers_latest [OF r(5)] m' by auto
qed

definition demo_client_parameters :: "(query server \<times> ref_engine, string) request_parameters" where
  "demo_client_parameters = \<lparr>rp_agent = Some (\<lambda>_. returnE granted),
     rp_store = Some (remote_vtable (direct_client (sqlite_vtable ref_sqlite demo_store))),
     rp_application_uid = Uid 1000, rp_application_pid = Pid 77, rp_application_id = ''app'',
     rp_feature = Feature 0, rp_description = ''camera''\<rparr>"

theorem daemon_answers_reach_bus_clients_witness:
  "\<exists>c. process_trust_request (\<lambda>_. 9) demo_client_parameters (new_server, demo_denied) = (Inr denied, c)"
proof -
  have s: "serve (CachedAgent_authenticate (caching (\<lambda>_. returnE denied) ref_sqlite demo_store null_reporter) (\<lambda>_. 7))
      [demo_params] demo_engine = ([Inr denied], demo_denied)" using demo_denied by simp
  have b: "byte_agent (\<lambda>_. returnE denied :: (ref_engine, answer) act)"
    using byte_answer_named by (simp add: byte_agent_def)
  have i: "bus_inv (\<lambda>w. store_ok demo_store (ref_view w)) (\<lambda>w. store_contents (ref_view w)) (query_owned demo_store)
      (new_server, demo_engine)" using demo_store_ok(1,3) by (intro new_server_inv) simp_all
  have r: "store_room (length [demo_params]) (ref_view demo_engine)"
    "remembers Map.empty (store_contents (ref_view demo_engine))"
    using demo_store_ok(2,3) by (simp_all add: remembers_def)
  have c: "srv_query_counter (new_server :: query server) \<noteq> - 1" by (simp add: new_server_def)
  have p: "\<forall>p \<in> set [demo_params]. clean_id (app_id p) \<and> small_feature (app_feature p)" using demo_params_clean by simp
  from daemon_answers_reach_bus_clients [OF ref_reliable leaves_database_const(1) quiet_null_reporter b
        direct_client_delivers i c r p s, where i = 0 and params = demo_client_parameters and a = denied
        and clock = "\<lambda>_. 9" and other = "\<lambda>_. returnE granted"]
  show ?thesis by (auto simp: demo_client_parameters_def demo_params_def)
qed

end
