(* ===== verification/Dbus_Types.thy ===== *)
theory Dbus_Types
  imports Remote_Store_Laws
begin

text \<open>
  The types of the messages of the store's interface. What the handlers read with \<^verbatim>\<open>msg->reader() >> x\<close> and
  write with \<^verbatim>\<open>reply->writer() << x\<close> gives each method the types of its arguments and of its result; a decoder is typed by the
  arguments it reads, and typings compose the way the decoders do.
\<close>

section \<open>Types of values and typings of decoders\<close>

datatype dtype = BYTE | UINT64 | INT64 | STRING | OBJECT_PATH

fun type_of :: "dvalue \<Rightarrow> dtype" where
  "type_of (Byte _) = BYTE"
| "type_of (Uint64 _) = UINT64"
| "type_of (Int64 _) = INT64"
| "type_of (String _) = STRING"
| "type_of (Path _) = OBJECT_PATH"

text \<open>The body starts with arguments of these types. A reader takes what it needs and leaves the rest.\<close>

fun typed :: "dtype list \<Rightarrow> body \<Rightarrow> bool" where
  "typed [] b = True"
| "typed (t # ts) [] = False"
| "typed (t # ts) (v # b) = (type_of v = t \<and> typed ts b)"

text \<open>\<open>d\<close> reads exactly the arguments \<open>ts\<close>: it succeeds on every body that has them, and throws on every other.\<close>

definition reads :: "dtype list \<Rightarrow> 'a decoder \<Rightarrow> bool" where
  "reads ts d \<longleftrightarrow> (\<forall>b. if typed ts b then \<exists>x. d b = (Inr x, drop (length ts) b)
     else \<exists>b'. d b = (Inl bad_argument, b'))"

lemma typed_append: "typed (ts @ us) b \<longleftrightarrow> typed ts b \<and> typed us (drop (length ts) b)"
  by (induction ts b rule: typed.induct) auto

lemma typed_map: "typed ts b \<longleftrightarrow> (length ts \<le> length b \<and> map type_of (take (length ts) b) = ts)"
  by (induction ts b rule: typed.induct) auto

named_theorems typing \<open>typing rules of the decoders\<close>

lemma reads_pop [typing]:
  "reads [BYTE] pop_byte" "reads [UINT64] pop_uint64" "reads [INT64] pop_int64" "reads [STRING] pop_string"
  "reads [OBJECT_PATH] pop_path"
  unfolding reads_def
  by (rule allI, case_tac b, simp, case_tac a, simp_all)+

lemma reads_return: "reads [] (returnE x)"
  by (simp add: reads_def)

lemma reads_typed: "reads ts d \<Longrightarrow> typed ts b \<Longrightarrow> \<exists>x. d b = (Inr x, drop (length ts) b)"
  and reads_ill_typed: "reads ts d \<Longrightarrow> \<not> typed ts b \<Longrightarrow> \<exists>b'. d b = (Inl bad_argument, b')"
  unfolding reads_def by presburger+

lemma reads_bind:
  assumes d: "reads ts d" and k: "\<And>x. reads us (k x)"
  shows "reads (ts @ us) (bindE d k)"
  unfolding reads_def
proof
  fix b
  show "if typed (ts @ us) b then \<exists>x. bindE d k b = (Inr x, drop (length (ts @ us)) b)
      else \<exists>b'. bindE d k b = (Inl bad_argument, b')"
  proof (cases "typed ts b")
    case True
    from reads_typed [OF d True] obtain x where x: "d b = (Inr x, drop (length ts) b)" by blast
    then show ?thesis
      using True reads_typed [OF k [of x], of "drop (length ts) b"] reads_ill_typed [OF k [of x], of "drop (length ts) b"]
      by (simp add: typed_append bindE_apply add.commute)
  next
    case False
    from reads_ill_typed [OF d False] show ?thesis using False by (auto simp: typed_append bindE_apply)
  qed
qed

text \<open>The shape in which the rules are applied: the types of a decoder are read off its first reader.\<close>

lemma reads_Cons: "reads [t] d \<Longrightarrow> (\<And>x. reads us (k x)) \<Longrightarrow> reads (t # us) (bindE d k)"
  using reads_bind [of "[t]" d us k] by simp

lemma reads_codecs [typing]:
  "reads [BYTE] decode_answer" "reads [BYTE] decode_status" "reads [UINT64] decode_uid" "reads [UINT64] decode_pid"
  "reads [UINT64] decode_feature" "reads [INT64, INT64] decode_interval"
  unfolding decode_answer_def decode_status_def decode_uid_def decode_pid_def decode_feature_def decode_interval_def
  by (intro reads_Cons reads_return typing)+

lemma reads_structs [typing]:
  "reads [STRING, UINT64, UINT64, BYTE] decode_request"
  "reads [UINT64, UINT64, STRING, UINT64, STRING] decode_params"
  unfolding decode_request_def decode_params_def by (intro reads_Cons reads_return typing)+

lemma read_args_ill_typed: "reads ts d \<Longrightarrow> \<not> typed ts b \<Longrightarrow> read_args d b s = (Inl bad_argument, s)"
  unfolding reads_def read_args_def by (metis fst_conv)

lemma read_args_well_typed: "reads ts d \<Longrightarrow> typed ts b \<Longrightarrow> \<exists>x. read_args d b s = (Inr x, s)"
  unfolding reads_def read_args_def by (metis fst_conv)

section \<open>Types of the methods\<close>

text \<open>What each handler reads from a call, and what it writes into a reply.\<close>

definition argument_types :: "bus_method \<Rightarrow> dtype list" where
  "argument_types m =
     (if m = Method_Add then [STRING, UINT64, UINT64, BYTE]
      else if m = Method_RemoveApplication then [STRING]
      else if m = Method_RemoveQuery then [OBJECT_PATH]
      else if m = Method_Query_ForAnswer then [BYTE]
      else if m = Method_Query_ForApplicationId then [STRING]
      else if m = Method_Query_ForFeature then [UINT64]
      else if m = Method_Query_ForInterval then [INT64, INT64]
      else [])"

definition result_types :: "bus_method \<Rightarrow> dtype list" where
  "result_types m =
     (if m = Method_AddQuery then [OBJECT_PATH]
      else if m = Method_Query_Current then [STRING, UINT64, UINT64, BYTE]
      else if m = Method_Query_Status then [BYTE]
      else [])"

lemma method_types [simp]:
  "argument_types Method_Add = [STRING, UINT64, UINT64, BYTE]" "argument_types Method_RemoveApplication = [STRING]"
  "argument_types Method_Reset = []" "argument_types Method_AddQuery = []" "argument_types Method_RemoveQuery = [OBJECT_PATH]"
  "argument_types Method_Query_All = []" "argument_types Method_Query_Current = []" "argument_types Method_Query_Erase = []"
  "argument_types Method_Query_Execute = []" "argument_types Method_Query_ForAnswer = [BYTE]"
  "argument_types Method_Query_ForApplicationId = [STRING]" "argument_types Method_Query_ForFeature = [UINT64]"
  "argument_types Method_Query_ForInterval = [INT64, INT64]" "argument_types Method_Query_Next = []"
  "argument_types Method_Query_Status = []"
  "result_types Method_Add = []" "result_types Method_RemoveApplication = []"
  "result_types Method_Reset = []" "result_types Method_AddQuery = [OBJECT_PATH]" "result_types Method_RemoveQuery = []"
  "result_types Method_Query_All = []" "result_types Method_Query_Current = [STRING, UINT64, UINT64, BYTE]"
  "result_types Method_Query_Erase = []" "result_types Method_Query_Execute = []" "result_types Method_Query_ForAnswer = []"
  "result_types Method_Query_ForApplicationId = []" "result_types Method_Query_ForFeature = []"
  "result_types Method_Query_ForInterval = []" "result_types Method_Query_Next = []" "result_types Method_Query_Status = [BYTE]"
  by (simp_all add: argument_types_def result_types_def store_methods query_methods Store_interface_name_def
      Query_interface_name_def)

text \<open>The handlers there are.\<close>

lemma handler_at_elim:
  assumes "handler_at V srv path m = Some h"
  shows "(m, h) \<in> set (root_handlers V @ query_handlers V path)"
  using assms map_of_SomeD [of "root_handlers V" m h] map_of_SomeD [of "query_handlers V path" m h]
  by (auto simp: handler_at_def split: if_splits)

section \<open>What a handler sends\<close>

text \<open>
  An action whose returns are of these types: whatever it does, it adds to the messages sent so far only errors, and
  returns with a body of these types.
\<close>

definition sent :: "dtype list \<Rightarrow> reply list \<Rightarrow> 'q server \<times> 'w \<Rightarrow> bool" where
  "sent ts out s \<longleftrightarrow> (\<exists>rs. srv_outbox (fst s) = out @ rs \<and> (\<forall>b. method_return b \<in> set rs \<longrightarrow> map type_of b = ts))"

definition sends :: "dtype list \<Rightarrow> ('w, 'q, 'a) srv_act \<Rightarrow> bool" where
  "sends ts a \<longleftrightarrow> (\<forall>out s. sent ts out s \<longrightarrow> sent ts out (snd (a s)))"

lemma sendsD: "sends ts a \<Longrightarrow> sent ts out s \<Longrightarrow> a s = (x, s') \<Longrightarrow> sent ts out s'"
  by (metis sends_def snd_conv)

lemma sends_after:
  assumes a: "sends ts a" and f: "\<And>out s r s'. a s = (r, s') \<Longrightarrow> sent ts out s' \<Longrightarrow> sent ts out (snd (f s))"
  shows "sends ts f"
  unfolding sends_def using sendsD [OF a] f by (meson surj_pair)

lemma sends_bind:
  assumes a: "sends ts a" and k: "\<And>x. sends ts (k x)"
  shows "sends ts (bindE a k)"
  by (rule sends_after [OF a]) (use k in \<open>auto simp: bindE_def sends_def split: sum.split\<close>)

lemma sends_catch:
  assumes a: "sends ts a" and h: "\<And>e. sends ts (h e)"
  shows "sends ts (catchE p a h)"
  by (rule sends_after [OF a]) (use h in \<open>auto simp: catchE_def sends_def split: sum.split\<close>)

lemma sends_try:
  assumes a: "sends ts a" and h: "\<And>e. sends ts (h e)" and k: "\<And>x. sends ts (k x)"
  shows "sends ts (try_return p a h k)"
  by (rule sends_after [OF a]) (use h k in \<open>auto simp: try_return_def sends_def split: sum.split\<close>)

text \<open>Everything but \<open>send\<close> leaves the messages alone.\<close>

definition silent :: "('w, 'q, 'a) srv_act \<Rightarrow> bool" where
  "silent a \<longleftrightarrow> (\<forall>s. srv_outbox (fst (snd (a s))) = srv_outbox (fst s))"

lemma sends_silent: "silent a \<Longrightarrow> sends ts a"
  unfolding silent_def sends_def sent_def by metis

lemma silent_actions:
  "silent (in_world m)" "silent (read_args d args)" "silent (on_query path f)" "silent next_query_counter"
  "silent (query_store_insert V path q)" "silent (query_store_erase V path)" "silent (returnE x)"
  by (auto simp: silent_def read_args_def on_query_def next_query_counter_def query_store_insert_def query_store_erase_def
      split: prod.splits option.splits)

lemma sends_send: "(\<And>b. r = method_return b \<Longrightarrow> map type_of b = ts) \<Longrightarrow> sends ts (send r)"
  by (fastforce simp: sends_def sent_def send_def)

lemmas sends_intro = sends_bind sends_catch sends_try sends_send silent_actions [THEN sends_silent]

lemma encoded_types:
  "map type_of (encode_request r) = [STRING, UINT64, UINT64, BYTE]" "map type_of (encode_status s) = [BYTE]"
  by (simp_all add: encode_request_def encode_answer_def encode_status_def)

lemma handlers_send:
  "(m, h) \<in> set (root_handlers V @ query_handlers V path) \<Longrightarrow> sends (result_types m) (h args)"
  unfolding root_handlers_def query_handlers_def
  by (auto simp: handler_defs(1-15) encoded_types intro!: sends_intro)

text \<open>A handler that reads arguments does it before anything else.\<close>

lemma handlers_read:
  assumes "(m, h) \<in> set (root_handlers V @ query_handlers V path)" and "\<not> typed (argument_types m) args"
    and "m \<noteq> Method_RemoveQuery"
  shows "h args s = (Inl bad_argument, s)"
  using assms unfolding root_handlers_def query_handlers_def
  by (auto simp: handler_defs(1-15) bindE_apply read_args_ill_typed [OF reads_structs(1)] read_args_ill_typed [OF reads_pop(4)]
      read_args_ill_typed [OF reads_codecs(1)] read_args_ill_typed [OF reads_codecs(5)] read_args_ill_typed [OF reads_codecs(6)])

text \<open>
  Two clients that agree on well-typed calls: the stub over them is the same, so it makes no other calls.
\<close>

definition same_on_typed :: "'c client \<Rightarrow> 'c client \<Rightarrow> bool" where
  "same_on_typed cl cl' \<longleftrightarrow> cl_print cl = cl_print cl' \<and> cl_cout cl = cl_cout cl' \<and>
     (\<forall>path m args. map type_of args = argument_types m \<longrightarrow> cl_call cl path m args = cl_call cl' path m args)"

lemma same_on_typed_calls:
  assumes "same_on_typed cl cl'" and "map type_of args = argument_types m"
  shows "cl_call cl path m args = cl_call cl' path m args" "invoke_void cl path m args = invoke_void cl' path m args"
    "invoke_value d e cl path m args = invoke_value d e cl' path m args"
proof -
  have c: "cl_call cl path m args = cl_call cl' path m args" and p: "cl_print cl = cl_print cl'"
    using assms by (simp_all add: same_on_typed_def)
  show "cl_call cl path m args = cl_call cl' path m args" by (rule c)
  show "invoke_void cl path m args = invoke_void cl' path m args" unfolding invoke_void_def c p ..
  show "invoke_value d e cl path m args = invoke_value d e cl' path m args" unfolding invoke_value_def c p ..
qed

lemma stub_calls_typed:
  assumes "same_on_typed cl cl'"
  shows "remote_vtable cl = remote_vtable cl'"
proof -
  have out: "cl_cout cl = cl_cout cl'" using assms by (simp add: same_on_typed_def)
  have r: "remote_add cl = remote_add cl'"
    by (rule ext) (simp add: remote_add_def same_on_typed_calls [OF assms] encoded_types)
  show ?thesis
    by (simp add: remote_vtable_def remote_reset_def r remote_remove_application_def [abs_def] remote_query_def
        remote_query_status_def remote_query_for_application_id_def [abs_def] remote_query_for_feature_def [abs_def]
        remote_query_for_interval_def [abs_def] remote_query_for_answer_def [abs_def] remote_query_all_def
        remote_query_execute_def remote_query_next_def remote_query_erase_def remote_query_current_def
        remote_query_destroy_def [abs_def] out same_on_typed_calls [OF assms] encode_answer_def encode_feature_def)
qed

text \<open>
  C15. The two sides of the bus agree on the types of every method. The stub makes only calls with the argument types of the
  method it calls: over two buses that agree on those it is the same store. The handlers of the adaptor take exactly such calls:
  on any other one a handler throws before it has touched the store, its own table or the messages sent, except the one that
  removes a query, which then reports success without removing any. And what a handler returns, on every path and whatever the
  store does, is of the method's result types, so the stub can read it.
\<close>

theorem bus_messages_are_typed:
  assumes "handler_at V srv path m = Some h"
  shows "(same_on_typed cl cl' \<longrightarrow> remote_vtable cl = remote_vtable cl') \<and>
    (\<not> typed (argument_types m) args \<longrightarrow>
       (if m = Method_RemoveQuery then h args (srv, w) = (Inr (), (srv\<lparr>srv_outbox := srv_outbox srv @ [method_return []]\<rparr>, w))
        else h args (srv, w) = (Inl bad_argument, (srv, w)))) \<and>
    (h args (srv, w) = (x, (srv', w')) \<longrightarrow> (\<exists>rs. srv_outbox srv' = srv_outbox srv @ rs \<and>
       (\<forall>b. method_return b \<in> set rs \<longrightarrow> map type_of b = result_types m)))"
proof (intro conjI impI)
  show "remote_vtable cl = remote_vtable cl'" if "same_on_typed cl cl'" using that by (rule stub_calls_typed)
next
  assume ill: "\<not> typed (argument_types m) args"
  have "h = handle_remove_query V" if "m = Method_RemoveQuery"
    using assms that by (auto simp: handler_at_def root_handlers_def query_handlers_def store_methods query_methods Store_interface_name_def
        Query_interface_name_def split: if_splits)
  then show "if m = Method_RemoveQuery
      then h args (srv, w) = (Inr (), (srv\<lparr>srv_outbox := srv_outbox srv @ [method_return []]\<rparr>, w))
      else h args (srv, w) = (Inl bad_argument, (srv, w))"
    using handlers_read [OF handler_at_elim [OF assms] ill, of "(srv, w)"] ill
    by (auto simp: handle_remove_query_def read_args_ill_typed [OF reads_pop(5)] catchE_apply bindE_apply send_def)
next
  assume "h args (srv, w) = (x, (srv', w'))"
  moreover have "sent (result_types m) (srv_outbox srv) (srv, w)" by (simp add: sent_def)
  ultimately have "sent (result_types m) (srv_outbox srv) (srv', w')"
    using sendsD [OF handlers_send [OF handler_at_elim [OF assms]]] by blast
  then show "\<exists>rs. srv_outbox srv' = srv_outbox srv @ rs \<and> (\<forall>b. method_return b \<in> set rs \<longrightarrow> map type_of b = result_types m)"
    by (simp add: sent_def)
qed

text \<open>A store that counts the requests added, and a call that lacks the answer.\<close>

definition counting_vtable :: "(nat, nat) store_vtable" where
  "counting_vtable = \<lparr>vt_reset = modifyE (\<lambda>_. 0), vt_add = (\<lambda>_. modifyE Suc), vt_remove_application = (\<lambda>_. returnE ()),
     vt_query = returnE 0, vt_status = returnE armed, vt_for_application_id = (\<lambda>_. returnE ()), vt_for_feature = (\<lambda>_. returnE ()),
     vt_for_interval = (\<lambda>_ _. returnE ()), vt_for_answer = (\<lambda>_. returnE ()), vt_all = returnE (), vt_execute = returnE (),
     vt_next = returnE (), vt_erase = returnE (), vt_current = throwE NoCurrentResult, vt_destroy_query = (\<lambda>_. returnE ())\<rparr>"

theorem bus_messages_are_typed_witness:
  "handle_add counting_vtable [String ''app'', Uint64 0, Uint64 5] (new_server, 7) = (Inl bad_argument, (new_server, 7)) \<and>
   snd (snd (handle_add counting_vtable [String ''app'', Uint64 0, Uint64 5, Byte 1] (new_server, 7))) = 8"
proof
  have "handler_at counting_vtable new_server root_path Method_Add = Some (handle_add counting_vtable)"
    by (simp add: handler_at_def)
  moreover have "Method_Add \<noteq> Method_RemoveQuery" by (simp add: store_methods)
  ultimately
  show "handle_add counting_vtable [String ''app'', Uint64 0, Uint64 5] (new_server, 7) = (Inl bad_argument, (new_server, 7))"
    using bus_messages_are_typed [where args = "[String ''app'', Uint64 0, Uint64 5]" and w = "7 :: nat"
        and h = "handle_add counting_vtable"] by fastforce
  show "snd (snd (handle_add counting_vtable [String ''app'', Uint64 0, Uint64 5, Byte 1] (new_server, 7))) = 8"
    by (simp add: handler_defs(1) counting_vtable_def read_args_def try_return_def send_def decode_request_def
        decode_answer_def bindE_apply)
qed

end
