(* ===== verification/Agent_Filters.thy ===== *)
theory Agent_Filters
  imports Trust_Types
begin

text \<open>
  The agents that wrap another agent: \<^verbatim>\<open>WhiteListingAgent\<close>,
  \<^verbatim>\<open>PrivilegeEscalationPreventionAgent\<close> and \<^verbatim>\<open>AppIdFormattingTrustAgent\<close>; and
  \<^verbatim>\<open>TerminalAgent\<close>, which prompts on the terminal through \<^verbatim>\<open>whiptail\<close>.

  A wrapped agent is a shared pointer that may be null, so it is an option here; the constructors
  refuse the null pointer.
\<close>

section \<open>WhiteListingAgent\<close>

definition always_grant_for_unconfined :: "agent_params \<Rightarrow> bool" where
  "always_grant_for_unconfined params \<longleftrightarrow> app_id params = ''unconfined''"

record 'w white_listing_agent =
  wl_predicate :: "agent_params \<Rightarrow> bool"
  wl_impl :: "'w agent"

definition WhiteListingAgent_new ::
  "(agent_params \<Rightarrow> bool) \<Rightarrow> 'w agent option \<Rightarrow> ('w, 'w white_listing_agent) act"
where
  "WhiteListingAgent_new predicate impl = (case impl of
       None \<Rightarrow> throwE (runtime_error ''Missing agent implementation.'')
     | Some a \<Rightarrow> returnE \<lparr>wl_predicate = predicate, wl_impl = a\<rparr>)"

definition WhiteListingAgent_authenticate :: "'w white_listing_agent \<Rightarrow> 'w agent" where
  "WhiteListingAgent_authenticate wl parameters =
     (if wl_predicate wl parameters then returnE granted else wl_impl wl parameters)"

section \<open>PrivilegeEscalationPreventionAgent\<close>

text \<open>The user id is read from the world each time (\<^verbatim>\<open>::getuid()\<close> by default).\<close>

record 'w privilege_agent =
  pe_uid_functor :: "'w \<Rightarrow> uid"
  pe_impl :: "'w agent"

definition PrivilegeAgent_new :: "('w \<Rightarrow> uid) \<Rightarrow> 'w agent option \<Rightarrow> ('w, 'w privilege_agent) act" where
  "PrivilegeAgent_new uid_functor impl = (case impl of
       None \<Rightarrow> throwE (runtime_error ''Missing agent implementation.'')
     | Some a \<Rightarrow> returnE \<lparr>pe_uid_functor = uid_functor, pe_impl = a\<rparr>)"

definition PrivilegeAgent_authenticate :: "'w privilege_agent \<Rightarrow> 'w agent" where
  "PrivilegeAgent_authenticate pe parameters =
     bindE (readE (pe_uid_functor pe)) (\<lambda>uid.
     bindE (throw_if (uid \<noteq> app_uid parameters) PrivilegeEscalation) (\<lambda>_.
     pe_impl pe parameters))"

section \<open>AppIdFormattingTrustAgent\<close>

text \<open>
  \<^verbatim>\<open>std::regex_match\<close> for the fragment the code uses: a sequence of captured \<^verbatim>\<open>(.*)\<close> groups and
  literal characters, matched against the whole string by backtracking, each group trying the
  longest candidate first. A dot of the default (ECMAScript) grammar matches every character but
  the line terminators.
\<close>

datatype rx = Dots | Lit char

definition is_dot :: "char \<Rightarrow> bool" where
  "is_dot c \<longleftrightarrow> c \<noteq> CHR 0x0A \<and> c \<noteq> CHR 0x0D"

fun first_some :: "('a \<Rightarrow> 'b option) \<Rightarrow> 'a list \<Rightarrow> 'b option" where
  "first_some f [] = None"
| "first_some f (x # xs) = (case f x of Some y \<Rightarrow> Some y | None \<Rightarrow> first_some f xs)"

primrec regex_match :: "rx list \<Rightarrow> string \<Rightarrow> string list option" where
  "regex_match [] = (\<lambda>s. if s = [] then Some [] else None)"
| "regex_match (x # r) = (\<lambda>s. case x of
       Lit c \<Rightarrow> (case s of [] \<Rightarrow> None | d # t \<Rightarrow> if d = c then regex_match r t else None)
     | Dots \<Rightarrow> first_some (\<lambda>n. map_option ((#) (take n s)) (regex_match r (drop n s)))
                (rev [0..<Suc (length (takeWhile is_dot s))]))"

text \<open>\<^verbatim>\<open>(.*)_(.*)_(.*)\<close>\<close>

definition app_id_regex :: "rx list" where
  "app_id_regex = [Dots, Lit CHR ''_'', Dots, Lit CHR ''_'', Dots]"

definition index_package :: nat where "index_package = 1"
definition index_app :: nat where "index_app = 2"

text \<open>Group \<open>i\<close> of a match, counted from \<open>1\<close> as in \<^verbatim>\<open>std::smatch\<close>.\<close>

definition format_app_id :: "string \<Rightarrow> string" where
  "format_app_id s = (case regex_match app_id_regex s of
       Some groups \<Rightarrow> groups ! (index_package - 1) @ ''_'' @ groups ! (index_app - 1)
     | None \<Rightarrow> s)"

definition AppIdFormattingTrustAgent_new :: "'w agent option \<Rightarrow> ('w, 'w agent) act" where
  "AppIdFormattingTrustAgent_new impl = (case impl of
       None \<Rightarrow> throwE (runtime_error ''Missing agent implementation.'')
     | Some a \<Rightarrow> returnE a)"

definition AppIdFormattingTrustAgent_authenticate :: "'w agent \<Rightarrow> 'w agent" where
  "AppIdFormattingTrustAgent_authenticate impl incoming =
     impl (incoming\<lparr>app_id := format_app_id (app_id incoming)\<rparr>)"

section \<open>TerminalAgent\<close>

text \<open>
  Processes belong to the library \<^verbatim>\<open>process-cpp\<close>: the environment, standard output, \<^verbatim>\<open>exec\<close> and
  \<^verbatim>\<open>wait_for\<close> are parameters. An exit status is the eight-bit status of the child.
\<close>

datatype wait_status = wait_undefined | wait_no_state_change | wait_exited | wait_signaled | wait_stopped | wait_continued

record wait_result =
  wr_status :: wait_status
  wr_exit_status :: byte

definition exit_success :: byte where "exit_success = 0"
definition exit_failure :: byte where "exit_failure = 1"

record ('w, 'p) process_api =
  px_environ :: "'w \<Rightarrow> (string \<times> string) list"
  px_cout :: "string \<Rightarrow> 'w \<Rightarrow> 'w"
  px_exec :: "string \<Rightarrow> string list \<Rightarrow> (string \<rightharpoonup> string) \<Rightarrow> ('w, 'p) act"
  px_wait_for :: "'p \<Rightarrow> ('w, wait_result) act"

text \<open>\<^verbatim>\<open>std::map::insert\<close> keeps the value of a key that is there already.\<close>

definition map_insert :: "'k \<times> 'v \<Rightarrow> ('k \<rightharpoonup> 'v) \<Rightarrow> ('k \<rightharpoonup> 'v)" where
  "map_insert kv m = (case kv of (k, v) \<Rightarrow> if m k = None then m(k \<mapsto> v) else m)"

definition TerminalAgent_args :: "string \<Rightarrow> agent_params \<Rightarrow> string list" where
  "TerminalAgent_args service_name parameters =
     [''--title'', ''\"Please audit access to: '' @ service_name @ '' by '' @ app_id parameters @ ''\"'',
      ''--yes-button'', ''Grant'',
      ''--no-button'', ''Deny'',
      ''--yesno'',
      ''\"'' @ app_description parameters @ ''\"'', to_string_nat 10, to_string_nat 70]"

definition TerminalAgent_authenticate :: "('w, 'p) process_api \<Rightarrow> string \<Rightarrow> 'w agent" where
  "TerminalAgent_authenticate px service_name parameters =
     bindE (readE (px_environ px)) (\<lambda>vars.
     let env = fold map_insert vars Map.empty;
         args = TerminalAgent_args service_name parameters in
     bindE (modifyE (px_cout px (concat (map (\<lambda>a. a @ '' '') args)))) (\<lambda>_.
     bindE (px_exec px ''/bin/whiptail'' args env) (\<lambda>whiptail_process.
     bindE (px_wait_for px whiptail_process) (\<lambda>result.
     bindE (throw_if (wait_exited \<noteq> wr_status result)
       (logic_error ''Unable to determine a conclusive answer from the user'')) (\<lambda>_.
     if exit_failure = wr_exit_status result then returnE denied else returnE granted)))))"

section \<open>The pattern of application ids\<close>

lemma first_some_rev_upt:
  "first_some f (rev [0..<Suc n]) =
     (case f n of Some y \<Rightarrow> Some y | None \<Rightarrow> first_some f (rev [0..<n]))"
  by simp

lemma first_some_greatest:
  assumes "k < n" and "f k = Some y" and "\<And>j. k < j \<Longrightarrow> j < n \<Longrightarrow> f j = None"
  shows "first_some f (rev [0..<n]) = Some y"
  using assms
proof (induction n)
  case (Suc n)
  then show ?case by (cases "k = n") (auto simp: less_Suc_eq)
qed simp

lemma first_some_None: "(\<And>x. x \<in> set xs \<Longrightarrow> f x = None) \<Longrightarrow> first_some f xs = None"
  by (induction xs) auto

lemma first_some_SomeD: "first_some f xs = Some y \<Longrightarrow> \<exists>x \<in> set xs. f x = Some y"
  by (induction xs) (auto split: option.splits)

lemma takeWhile_dots: "list_all is_dot s \<Longrightarrow> takeWhile is_dot s = s"
  by (induction s) auto

text \<open>What each tail of the pattern matches.\<close>

lemma match_dots: "list_all is_dot s \<Longrightarrow> regex_match [Dots] s = Some [s]"
  by (simp add: takeWhile_dots del: upt_Suc add: first_some_greatest [of "length s"])

text \<open>A match takes the string apart: the groups and the literals put together give it back.\<close>

fun assemble :: "rx list \<Rightarrow> string list \<Rightarrow> string" where
  "assemble (Lit c # r) gs = c # assemble r gs"
| "assemble (Dots # r) (g # gs) = g @ assemble r gs"
| "assemble _ _ = []"

lemma regex_match_sound:
  "regex_match r s = Some gs \<Longrightarrow>
     assemble r gs = s \<and> length gs = length (filter ((=) Dots) r) \<and> (\<forall>g \<in> set gs. list_all is_dot g)"
proof (induction r arbitrary: s gs)
  case (Cons x r)
  show ?case
  proof (cases x)
    case Dots
    with Cons.prems obtain n gs' where n: "n \<le> length (takeWhile is_dot s)"
      "regex_match r (drop n s) = Some gs'" "gs = take n s # gs'"
      by (auto dest!: first_some_SomeD simp: less_Suc_eq_le simp del: upt_Suc)
    have "take n s = take n (takeWhile is_dot s)"
      using n(1) by (metis takeWhile_eq_take take_take min.absorb1)
    then have "list_all is_dot (take n s)"
      by (metis list_all_iff in_set_takeD set_takeWhileD)
    with Cons.IH [OF n(2)] Dots n(3) show ?thesis by simp
  next
    case (Lit c)
    with Cons.prems Cons.IH show ?thesis by (auto split: list.splits if_splits)
  qed
qed (auto split: if_splits)

lemma count_assemble:
  "length gs = length (filter ((=) Dots) r) \<Longrightarrow>
   length (filter ((=) (Lit c)) r) \<le> count_list (assemble r gs) c"
  by (induction r gs rule: assemble.induct) auto

lemma regex_match_count: "regex_match r s = Some gs \<Longrightarrow> length (filter ((=) (Lit c)) r) \<le> count_list s c"
  using regex_match_sound count_assemble by metis

lemma regex_match_too_few: "count_list s c < length (filter ((=) (Lit c)) r) \<Longrightarrow> regex_match r s = None"
  using regex_match_count by (metis not_less option.exhaust)

text \<open>The first group is as long as the underscores that must follow it allow.\<close>

lemma match_group:
  assumes dots: "list_all is_dot a" and lit: "is_dot c"
    and rest: "regex_match r t = Some gs"
    and few: "\<And>n. count_list (drop n t) c < length (filter ((=) (Lit c)) (Lit c # r))"
  shows "regex_match (Dots # Lit c # r) (a @ c # t) = Some (a # gs)"
proof -
  let ?s = "a @ c # t"
  have len: "length a < Suc (length (takeWhile is_dot ?s))"
    using dots lit by (simp add: takeWhile_append2 list_all_iff)
  have "regex_match (Lit c # r) (drop j ?s) = None" if "length a < j" for j
  proof (rule regex_match_too_few [where c = c])
    have "drop j ?s = drop (j - Suc (length a)) t" using that by (simp add: drop_Cons')
    then show "count_list (drop j ?s) c < length (filter ((=) (Lit c)) (Lit c # r))" using few by simp
  qed
  then show ?thesis
    using first_some_greatest [OF len, of "\<lambda>n. map_option ((#) (take n ?s)) (regex_match (Lit c # r) (drop n ?s))" "a # gs"] rest
    by (simp del: upt_Suc)
qed

lemma count_list_drop: "count_list (drop n s) c \<le> count_list s c"
  by (metis append_take_drop_id count_list_append le_add2)

lemma app_id_match:
  assumes "list_all is_dot (a @ b @ v)" and "CHR ''_'' \<notin> set b" and "CHR ''_'' \<notin> set v"
  shows "regex_match app_id_regex (a @ CHR ''_'' # b @ CHR ''_'' # v) = Some [a, b, v]"
proof -
  have u: "is_dot (CHR ''_'')" by (simp add: is_dot_def)
  have c: "count_list v (CHR ''_'') = 0" "count_list (b @ CHR ''_'' # v) (CHR ''_'') = 1"
    using assms(2,3) by (simp_all add: count_notin)
  have d: "list_all is_dot a" "list_all is_dot b" "list_all is_dot v" using assms(1) by simp_all
  have few: "count_list (drop n v) (CHR ''_'') < length (filter ((=) (Lit CHR ''_'')) [Lit CHR ''_'', Dots])" for n
    using count_list_drop [of n v "CHR ''_''"] c(1) by simp
  have few2: "count_list (drop n (b @ CHR ''_'' # v)) (CHR ''_'')
      < length (filter ((=) (Lit CHR ''_'')) [Lit CHR ''_'', Dots, Lit CHR ''_'', Dots])" for n
    using count_list_drop [of n "b @ CHR ''_'' # v" "CHR ''_''"] c(2) by simp
  show ?thesis
    unfolding app_id_regex_def
    by (rule match_group [OF d(1) u match_group [OF d(2) u match_dots [OF d(3)] few] few2])
qed

text \<open>Fewer than two underscores, or a line terminator anywhere: no match.\<close>

lemma app_id_no_match:
  assumes "count_list s (CHR ''_'') < 2 \<or> \<not> list_all is_dot s"
  shows "regex_match app_id_regex s = None"
proof (rule ccontr)
  assume "regex_match app_id_regex s \<noteq> None"
  then obtain gs where m: "regex_match app_id_regex s = Some gs" by auto
  from regex_match_sound [OF m] obtain a b v where "gs = [a, b, v]"
    by (auto simp: app_id_regex_def length_Suc_conv)
  with regex_match_sound [OF m] have s: "s = a @ CHR ''_'' # b @ CHR ''_'' # v"
    and d: "list_all is_dot a" "list_all is_dot b" "list_all is_dot v"
    by (auto simp: app_id_regex_def)
  have "list_all is_dot s" using d by (simp add: s is_dot_def)
  moreover have "2 \<le> count_list s (CHR ''_'')" by (simp add: s)
  ultimately show False using assms by simp
qed

section \<open>Properties\<close>

text \<open>
  C38. The formatting agent removes the version from an application id and nothing else: of an id
  \<^verbatim>\<open>package_app_version\<close> it keeps \<^verbatim>\<open>package_app\<close>, also when the package name contains underscores,
  so all versions of an application are one application to the store; an id that does not have
  two underscores (or that contains a line terminator) is passed on as it is.
\<close>

theorem format_app_id_drops_version:
  "(list_all is_dot (pkg @ app @ ver) \<and> CHR ''_'' \<notin> set app \<and> CHR ''_'' \<notin> set ver \<longrightarrow>
      format_app_id (pkg @ ''_'' @ app @ ''_'' @ ver) = pkg @ ''_'' @ app) \<and>
   (count_list s (CHR ''_'') < 2 \<or> \<not> list_all is_dot s \<longrightarrow> format_app_id s = s)"
  by (auto simp: format_app_id_def app_id_match app_id_no_match index_package_def index_app_def
      simp del: append_assoc)

theorem format_app_id_drops_version_witness:
  "format_app_id ''com.ubuntu_cam_era_1.2'' = ''com.ubuntu_cam_era'' \<and> format_app_id ''unconfined'' = ''unconfined''"
  using format_app_id_drops_version [of "''com.ubuntu_cam''" "''era''" "''1.2''" "''unconfined''"]
  by (simp add: is_dot_def)

text \<open>The privilege check decides before anything else runs.\<close>

lemma privilege_check:
  "PrivilegeAgent_authenticate pe p w =
     (if pe_uid_functor pe w = app_uid p then pe_impl pe p w else (Inl PrivilegeEscalation, w))"
  by (simp add: PrivilegeAgent_authenticate_def bindE_apply)

text \<open>
  The terminal agent grants on every exit status of the dialog but \<^verbatim>\<open>EXIT_FAILURE\<close>, not only on
  success: a dialog that exits with any status other than \<open>1\<close> (an internal error of
  \<^verbatim>\<open>whiptail\<close>, or 255 for the escape key) counts as the user's consent; a dialog that is killed or
  stopped is an exception.
\<close>

theorem terminal_agent_outcome:
  assumes "px_exec px ''/bin/whiptail'' (TerminalAgent_args name p) (fold map_insert (px_environ px w) Map.empty)
      (px_cout px (concat (map (\<lambda>a. a @ '' '') (TerminalAgent_args name p))) w) = (Inr child, w1)"
    and "px_wait_for px child w1 = (Inr res, w2)"
  shows "TerminalAgent_authenticate px name p w =
     ((if wr_status res \<noteq> wait_exited
       then Inl (logic_error ''Unable to determine a conclusive answer from the user'')
       else if wr_exit_status res = 1 then Inr denied else Inr granted), w2)"
  using assms by (auto simp: TerminalAgent_authenticate_def Let_def bindE_apply exit_failure_def)

definition demo_whiptail :: "byte \<Rightarrow> (unit, nat) process_api" where
  "demo_whiptail status = \<lparr>px_environ = (\<lambda>_. [(''TERM'', ''xterm'')]), px_cout = (\<lambda>_ w. w),
     px_exec = (\<lambda>_ _ _. returnE 7), px_wait_for = (\<lambda>_. returnE \<lparr>wr_status = wait_exited, wr_exit_status = status\<rparr>)\<rparr>"

theorem terminal_agent_outcome_witness:
  "TerminalAgent_authenticate (demo_whiptail 255) ''camera''
     \<lparr>app_uid = Uid 0, app_pid = Pid 1, app_id = ''app'', app_feature = Feature 0, app_description = ''d''\<rparr> () =
     (Inr granted, ())"
  using terminal_agent_outcome [of "demo_whiptail 255" "''camera''"
      "\<lparr>app_uid = Uid 0, app_pid = Pid 1, app_id = ''app'', app_feature = Feature 0, app_description = ''d''\<rparr>" "()" 7 "()"
      "\<lparr>wr_status = wait_exited, wr_exit_status = 255\<rparr>" "()"]
  by (simp add: demo_whiptail_def)

end
