(* ===== verification/Streams.thy ===== *)
theory Streams
  imports Prelude
begin

text \<open>
  Formatted input of the C++ standard library as the program uses it (\<^verbatim>\<open>operator>>\<close> of
  \<^verbatim>\<open>std::istream\<close> in the classic locale): extraction of a word and of a decimal number.
  A stream is the characters that are left and the failure flag. A stream that has failed stays failed and
  every later extraction from it fails.
\<close>

record istream =
  is_rest :: string
  is_fail :: bool

definition stream_of :: "string \<Rightarrow> istream" where
  "stream_of s = \<lparr>is_rest = s, is_fail = False\<rparr>"

definition is_space :: "char \<Rightarrow> bool" where
  "is_space c \<longleftrightarrow> c \<in> {CHR 0x20, CHR 0x09, CHR 0x0A, CHR 0x0B, CHR 0x0C, CHR 0x0D}"

definition is_digit :: "char \<Rightarrow> bool" where
  "is_digit c \<longleftrightarrow> 48 \<le> (of_char c :: nat) \<and> (of_char c :: nat) \<le> 57"

definition skip_spaces :: "string \<Rightarrow> string" where
  "skip_spaces = dropWhile is_space"

text \<open>\<^verbatim>\<open>operator>>(std::string&)\<close>; on failure the string stays empty.\<close>

definition extract_word :: "istream \<Rightarrow> string \<times> istream" where
  "extract_word i = (let s = skip_spaces (is_rest i) in
     if is_fail i \<or> s = [] then ([], \<lparr>is_rest = s, is_fail = True\<rparr>)
     else (takeWhile (Not \<circ> is_space) s, \<lparr>is_rest = dropWhile (Not \<circ> is_space) s, is_fail = False\<rparr>))"

text \<open>
  The digits of a number: an optional sign and the longest run of decimal digits, none of which is a failure. The
  result is whether there was a minus sign, and the magnitude.
\<close>

definition extract_digits :: "istream \<Rightarrow> (bool \<times> nat) option \<times> istream" where
  "extract_digits i = (let s = skip_spaces (is_rest i) in
     if is_fail i \<or> s = [] then (None, \<lparr>is_rest = s, is_fail = True\<rparr>)
     else let t = (if hd s \<in> {CHR ''-'', CHR ''+''} then tl s else s);
              ds = takeWhile is_digit t; rest = dropWhile is_digit t in
       if ds = [] then (None, \<lparr>is_rest = rest, is_fail = True\<rparr>)
       else (Some (hd s = CHR ''-'', digits_value ds), \<lparr>is_rest = rest, is_fail = False\<rparr>))"

text \<open>
  \<^verbatim>\<open>operator>>\<close> for an unsigned type: without digits the value is \<open>0\<close>, out of range it is the largest value, both
  with the failure flag; a minus sign negates modulo the width of the type.
\<close>

definition extract_unsigned :: "istream \<Rightarrow> 'a :: len word \<times> istream" where
  "extract_unsigned i = (case extract_digits i of
       (None, i') \<Rightarrow> (0, i')
     | (Some (neg, v), i') \<Rightarrow>
         if v \<ge> 2 ^ LENGTH('a) then (- 1, i'\<lparr>is_fail := True\<rparr>)
         else (if neg then - of_nat v else of_nat v, i'))"

text \<open>For a signed type, out of range is the nearest value of the type.\<close>

definition extract_signed :: "istream \<Rightarrow> 'a :: len word \<times> istream" where
  "extract_signed i = (case extract_digits i of
       (None, i') \<Rightarrow> (0, i')
     | (Some (neg, v), i') \<Rightarrow>
         if neg \<and> v > 2 ^ (LENGTH('a) - 1) then (2 ^ (LENGTH('a) - 1), i'\<lparr>is_fail := True\<rparr>)
         else if \<not> neg \<and> v \<ge> 2 ^ (LENGTH('a) - 1) then (2 ^ (LENGTH('a) - 1) - 1, i'\<lparr>is_fail := True\<rparr>)
         else (if neg then - of_nat v else of_nat v, i'))"

section \<open>Lemmas\<close>

lemma is_digit_digit: "d < 10 \<Longrightarrow> is_digit (digit d)"
  by (simp add: is_digit_def of_char_digit)

lemma is_space_not_digit: "is_space c \<Longrightarrow> \<not> is_digit c"
  by (auto simp: is_space_def is_digit_def)

lemma to_string_nat_not_Nil [simp]: "to_string_nat n \<noteq> []"
  by (subst to_string_nat.simps) simp

lemma to_string_nat_digits: "c \<in> set (to_string_nat n) \<Longrightarrow> is_digit c"
proof (induction n arbitrary: c rule: to_string_nat.induct)
  case (1 n)
  from "1.prems" show ?case
    by (subst (asm) to_string_nat.simps) (auto split: if_splits simp: is_digit_digit dest: "1.IH")
qed

lemma extract_word_token:
  assumes "list_all is_space ws" and "w \<noteq> []" and "\<forall>c \<in> set w. \<not> is_space c"
    and "rest = [] \<or> is_space (hd rest)"
  shows "extract_word \<lparr>is_rest = ws @ w @ rest, is_fail = False\<rparr> = (w, \<lparr>is_rest = rest, is_fail = False\<rparr>)"
proof -
  have "skip_spaces (ws @ w @ rest) = w @ rest"
    using assms(1-3) by (cases w) (auto simp: skip_spaces_def list_all_iff dropWhile_append2)
  moreover have "takeWhile (Not \<circ> is_space) (w @ rest) = w" "dropWhile (Not \<circ> is_space) (w @ rest) = rest"
    using assms(3,4) by (cases rest; simp add: takeWhile_append dropWhile_append2; fail)+
  ultimately show ?thesis using assms(2) by (simp add: extract_word_def)
qed

lemma extract_digits_printed:
  assumes "list_all is_space ws" and "rest = [] \<or> \<not> is_digit (hd rest)"
  shows "extract_digits \<lparr>is_rest = ws @ to_string_nat n @ rest, is_fail = False\<rparr> =
    (Some (False, n), \<lparr>is_rest = rest, is_fail = False\<rparr>)"
proof -
  obtain c t where ct: "to_string_nat n = c # t" by (cases "to_string_nat n") auto
  have c: "is_digit c" using to_string_nat_digits [of c n] ct by simp
  then have ns: "\<not> is_space c" "c \<noteq> CHR ''-''" "c \<noteq> CHR ''+''"
    using is_space_not_digit by (auto simp: is_digit_def)
  have "skip_spaces (ws @ to_string_nat n @ rest) = to_string_nat n @ rest"
    using assms(1) ns(1) ct by (simp add: skip_spaces_def list_all_iff dropWhile_append2)
  moreover have "takeWhile is_digit (to_string_nat n @ rest) = to_string_nat n"
    "dropWhile is_digit (to_string_nat n @ rest) = rest"
    using assms(2) to_string_nat_digits [of _ n] by (cases rest; simp add: takeWhile_append dropWhile_append2)+
  ultimately show ?thesis
    using ns ct digits_value_to_string_nat [of n] by (simp add: extract_digits_def)
qed

lemma extract_unsigned_printed:
  fixes x :: "'a :: len word"
  assumes "list_all is_space ws" and "rest = [] \<or> \<not> is_digit (hd rest)"
  shows "extract_unsigned \<lparr>is_rest = ws @ to_string_nat (unat x) @ rest, is_fail = False\<rparr> =
    (x, \<lparr>is_rest = rest, is_fail = False\<rparr>)"
proof -
  have "unat x < 2 ^ LENGTH('a)" by (rule unsigned_less)
  then show ?thesis using extract_digits_printed [OF assms, of "unat x"] by (simp add: extract_unsigned_def not_le [symmetric])
qed

lemma extract_digits_failed: "is_fail i \<Longrightarrow> fst (extract_digits i) = None \<and> is_fail (snd (extract_digits i))"
  by (simp add: extract_digits_def Let_def)

lemma extract_word_failed [simp]: "is_fail i \<Longrightarrow> fst (extract_word i) = [] \<and> is_fail (snd (extract_word i))"
  by (simp add: extract_word_def Let_def)

end
