(* ===== verification/Agent_Registry.thy ===== *)
theory Agent_Registry
  imports Dbus_Interface Agent_Filters Remote_Store Streams
begin

text \<open>
  Agents of several users behind one bus name: the registry that maps users to agents
  (\<^verbatim>\<open>dbus/agent_registry.h\<close>), an agent on the bus (\<^verbatim>\<open>dbus/agent.cpp\<close>) and the agent that
  forwards a request to the one registered for the request's user (\<^verbatim>\<open>remote/dbus.cpp\<close>).

  An agent of another process is reached by the unique bus name of its process and an object
  path: the pair is the stub. The bus calls \<open>transact\<close> and \<open>bus_send\<close> are parameters.
\<close>

section \<open>LockingAgentRegistry\<close>

text \<open>
  A \<^verbatim>\<open>std::map\<close> under a mutex that every operation holds for its whole body. \<^verbatim>\<open>operator[]\<close>
  overwrites, \<^verbatim>\<open>at\<close> throws \<^verbatim>\<open>std::out_of_range\<close>.
\<close>

type_synonym 'a registry = "uid \<rightharpoonup> 'a"

definition register_agent_for_user :: "uid \<Rightarrow> 'a \<Rightarrow> 'a registry \<Rightarrow> 'a registry" where
  "register_agent_for_user u a r = r(u \<mapsto> a)"

definition unregister_agent_for_user :: "uid \<Rightarrow> 'a registry \<Rightarrow> 'a registry" where
  "unregister_agent_for_user u r = r(u := None)"

definition has_agent_for_user :: "uid \<Rightarrow> 'a registry \<Rightarrow> bool" where
  "has_agent_for_user u r \<longleftrightarrow> r u \<noteq> None"

definition agent_for_user :: "uid \<Rightarrow> 'a registry \<Rightarrow> exn + 'a" where
  "agent_for_user u r = (case r u of None \<Rightarrow> Inl out_of_range | Some a \<Rightarrow> Inr a)"

text \<open>\<^verbatim>\<open>Agent::Registry\<close>, the abstract class, over a state \<open>'s\<close>.\<close>

record ('s, 'a) registry_vtable =
  rv_register :: "uid \<Rightarrow> 'a \<Rightarrow> ('s, unit) act"
  rv_unregister :: "uid \<Rightarrow> ('s, unit) act"

definition locking_registry :: "('a registry \<times> 'w, 'a) registry_vtable" where
  "locking_registry =
     \<lparr>rv_register = (\<lambda>u a. modifyE (\<lambda>(r, w). (register_agent_for_user u a r, w))),
      rv_unregister = (\<lambda>u. modifyE (\<lambda>(r, w). (unregister_agent_for_user u r, w)))\<rparr>"

section \<open>An agent on the bus\<close>

definition Agent_interface_name :: string where "Agent_interface_name = ''core.trust.dbus.Agent''"

definition default_service_name :: "string \<Rightarrow> string" where
  "default_service_name service = ''core.trust.dbus.Agent.'' @ service"

definition default_object_path :: string where "default_object_path = ''/core/trust/dbus/Agent''"

definition Error_CouldNotDetermineConclusiveAnswer :: string where
  "Error_CouldNotDetermineConclusiveAnswer = ''core.trust.dbus.Agent.Errors.CouldNotDetermineConclusiveAnswer''"

definition Method_AuthenticateRequestWithParameters :: bus_method where
  "Method_AuthenticateRequestWithParameters =
     \<lparr>bm_interface = Agent_interface_name, bm_name = ''AuthenticateRequestWithParameters'', bm_timeout = 120000\<rparr>"

text \<open>
  The handler of the skeleton: what it sends. Any exception of the agent becomes the same error, with
  no description.
\<close>

definition Agent_Skeleton_reply :: "'w agent \<Rightarrow> body \<Rightarrow> ('w, reply) act" where
  "Agent_Skeleton_reply agent msg =
     bindE (read_args decode_params msg) (\<lambda>params.
     catchE (\<lambda>_. True)
       (bindE (agent params) (\<lambda>answer. returnE (method_return (encode_answer answer))))
       (\<lambda>_. returnE (error_reply Error_CouldNotDetermineConclusiveAnswer '''')))"

definition Agent_Skeleton_handler :: "'w agent \<Rightarrow> (reply \<Rightarrow> ('w, unit) act) \<Rightarrow> body \<Rightarrow> ('w, unit) act" where
  "Agent_Skeleton_handler agent bus_send msg = bindE (Agent_Skeleton_reply agent msg) bus_send"

record 'w bus_api =
  bus_transact :: "string \<times> string \<Rightarrow> bus_method \<Rightarrow> body \<Rightarrow> ('w, reply) act"
  bus_print :: "string \<Rightarrow> string \<Rightarrow> string"

definition Agent_Stub_authenticate :: "'w bus_api \<Rightarrow> string \<times> string \<Rightarrow> 'w agent" where
  "Agent_Stub_authenticate bus obj parameters =
     bindE (bus_transact bus obj Method_AuthenticateRequestWithParameters (encode_params parameters)) (\<lambda>result.
     case result of
       error_reply n e \<Rightarrow> throwE (runtime_error (bus_print bus n e))
     | method_return b \<Rightarrow> read_args decode_answer b)"

definition create_per_user_agent_for_bus_connection :: "'w bus_api \<Rightarrow> string \<Rightarrow> 'w agent" where
  "create_per_user_agent_for_bus_connection bus service =
     Agent_Stub_authenticate bus (default_service_name service, default_object_path)"

section \<open>The registry on the bus\<close>

definition Registry_interface_name :: string where "Registry_interface_name = ''core.trust.dbus.AgentRegistry''"

definition Error_CouldNotRegisterAgentForUser :: string where
  "Error_CouldNotRegisterAgentForUser = ''core.trust.dbus.AgentRegistry.CouldNotRegisterAgentForUser''"

definition Method_RegisterAgentForUser :: bus_method where
  "Method_RegisterAgentForUser =
     \<lparr>bm_interface = Registry_interface_name, bm_name = ''RegisterAgentForUser'', bm_timeout = 1000\<rparr>"

definition Method_UnregisterAgentForUser :: bus_method where
  "Method_UnregisterAgentForUser =
     \<lparr>bm_interface = Registry_interface_name, bm_name = ''UnregisterAgentForUser'', bm_timeout = 1000\<rparr>"

definition decode_registration :: "(uid \<times> string) decoder" where
  "decode_registration = bindE decode_uid (\<lambda>u. bindE pop_path (\<lambda>p. returnE (u, p)))"

text \<open>
  The two handlers of the skeleton. The agent registered is the one at the announced path in the
  process that sent the message. A reply that cannot be sent undoes the registration.
\<close>

definition handle_register_agent ::
  "('s, string \<times> string) registry_vtable \<Rightarrow> (reply \<Rightarrow> ('s, unit) act) \<Rightarrow> string \<Rightarrow> body \<Rightarrow> ('s, unit) act"
where
  "handle_register_agent impl bus_send sender msg =
     bindE (read_args decode_registration msg) (\<lambda>(u, path).
     bindE (catchE (\<lambda>_. True)
       (bindE (rv_register impl u (sender, path)) (\<lambda>_. returnE (method_return [])))
       (\<lambda>_. returnE (error_reply Error_CouldNotRegisterAgentForUser '''')))
     (\<lambda>reply. catchE (\<lambda>_. True) (bus_send reply) (\<lambda>_. rv_unregister impl u)))"

definition handle_unregister_agent ::
  "('s, string \<times> string) registry_vtable \<Rightarrow> (reply \<Rightarrow> ('s, unit) act) \<Rightarrow> body \<Rightarrow> ('s, unit) act"
where
  "handle_unregister_agent impl bus_send msg =
     bindE (read_args decode_uid msg) (\<lambda>u. block
       [catchE is_std_exception (rv_unregister impl u) (\<lambda>_. returnE ()),
        bus_send (method_return [])])"

text \<open>
  The stub's side, in the process that owns the agents: the counter of the path generator and the
  skeletons it keeps, each the agent exposed at a path. Adding an object to the service and installing the
  handler on it, the calls of the remote registry and the terminal are parameters.
\<close>

record 'w registry_stub =
  rs_counter :: int32
  rs_registry :: "(string \<times> 'w agent) registry"

record 'w registry_bus =
  rb_expose :: "string \<Rightarrow> 'w agent \<Rightarrow> ('w, unit) act"
  rb_transact_register :: "uid \<Rightarrow> string \<Rightarrow> ('w, reply) act"
  rb_transact_unregister :: "uid \<Rightarrow> ('w, reply) act"
  rb_invoke_register :: "uid \<Rightarrow> string \<Rightarrow> ('w, unit) act"
  rb_print :: "string \<Rightarrow> string \<Rightarrow> string"
  rb_cerr :: "string \<Rightarrow> 'w \<Rightarrow> 'w"
  rb_cout :: "string \<Rightarrow> 'w \<Rightarrow> 'w"

definition counting_object_path :: "int32 \<Rightarrow> string" where
  "counting_object_path n = ''/core/trust/dbus/Agent/'' @ to_string_int (sint n)"

definition counting_object_path_generator :: "('w registry_stub \<times> 'w, string) act" where
  "counting_object_path_generator = (\<lambda>(rs, w).
     (Inr (counting_object_path (rs_counter rs)), (rs\<lparr>rs_counter := rs_counter rs + 1\<rparr>, w)))"

definition stub_registers :: "uid \<Rightarrow> string \<times> 'w agent \<Rightarrow> ('w registry_stub \<times> 'w, unit) act" where
  "stub_registers u skeleton = modifyE (\<lambda>(rs, w). (rs\<lparr>rs_registry := register_agent_for_user u skeleton (rs_registry rs)\<rparr>, w))"

definition Registry_Stub_register :: "'w registry_bus \<Rightarrow> uid \<Rightarrow> 'w agent \<Rightarrow> ('w registry_stub \<times> 'w, unit) act" where
  "Registry_Stub_register rb u impl =
     bindE counting_object_path_generator (\<lambda>path.
     bindE (in_world (rb_expose rb path impl)) (\<lambda>_.
     bindE (in_world (rb_transact_register rb u path)) (\<lambda>result.
     case result of
       error_reply n m \<Rightarrow> throwE (runtime_error (rb_print rb n m))
     | method_return _ \<Rightarrow> stub_registers u (path, impl))))"

text \<open>
  The asynchronous variant: the call, whose result is what the callback captures, and the callback.
\<close>

definition Registry_Stub_register_async ::
  "'w registry_bus \<Rightarrow> uid \<Rightarrow> 'w agent \<Rightarrow> ('w registry_stub \<times> 'w, uid \<times> string \<times> 'w agent) act"
where
  "Registry_Stub_register_async rb u impl =
     bindE counting_object_path_generator (\<lambda>path.
     bindE (in_world (rb_expose rb path impl)) (\<lambda>_.
     bindE (in_world (rb_invoke_register rb u path)) (\<lambda>_. returnE (u, path, impl))))"

definition Registry_Stub_register_callback ::
  "'w registry_bus \<Rightarrow> (('w, unit) act) \<Rightarrow> uid \<times> string \<times> 'w agent \<Rightarrow> reply \<Rightarrow> ('w registry_stub \<times> 'w, unit) act"
where
  "Registry_Stub_register_callback rb and_then captured result = (case captured of (u, path, impl) \<Rightarrow>
     (case result of
        error_reply n m \<Rightarrow> modifyE (\<lambda>(rs, w).
          (rs, rb_cerr rb (''Failed to register agent for user: '' @ rb_print rb n m @ [CHR 0x0A]) w))
      | method_return _ \<Rightarrow> bindE (stub_registers u (path, impl)) (\<lambda>_. in_world and_then)))"

definition Registry_Stub_unregister :: "'w registry_bus \<Rightarrow> uid \<Rightarrow> ('w registry_stub \<times> 'w, unit) act" where
  "Registry_Stub_unregister rb u =
     bindE (in_world (rb_transact_unregister rb u)) (\<lambda>result.
     bindE (modifyE (\<lambda>(rs, w). (rs\<lparr>rs_registry := unregister_agent_for_user u (rs_registry rs)\<rparr>, w))) (\<lambda>_.
     case result of
       error_reply n m \<Rightarrow> throwE (runtime_error (rb_print rb n m))
     | method_return _ \<Rightarrow> returnE ()))"

section \<open>The multi-user agent\<close>

definition remote_dbus_Stub_send :: "'w bus_api \<Rightarrow> (string \<times> string) registry \<Rightarrow> 'w agent" where
  "remote_dbus_Stub_send bus reg parameters =
     (if \<not> has_agent_for_user (app_uid parameters) reg then returnE denied
      else case agent_for_user (app_uid parameters) reg of
        Inl e \<Rightarrow> throwE e
      | Inr obj \<Rightarrow> Agent_Stub_authenticate bus obj parameters)"

definition remote_dbus_Skeleton_authenticate :: "'w agent \<Rightarrow> 'w agent" where
  "remote_dbus_Skeleton_authenticate impl parameters = impl parameters"

text \<open>
  The skeleton registers its agent for the user of its own process when it is constructed, and connects a slot to the signal
  of the watcher that tells that the service of the registry has appeared on the bus; the slot registers the agent
  again. \<open>ds_slots\<close> are the slots connected to the signal of the watcher, which the skeleton owns. What it prints on success is the text of the source.
\<close>

type_synonym 'w registration = "uid \<times> string \<times> 'w agent"

record 'w dbus_skeleton =
  ds_stub :: "'w registry_stub"
  ds_slots :: "('w registry_stub \<times> 'w, 'w registration) act list"

definition service_registered_connect ::
  "('w registry_stub \<times> 'w, 'w registration) act \<Rightarrow> 'w dbus_skeleton \<Rightarrow> 'w dbus_skeleton"
where
  "service_registered_connect slot sk = sk\<lparr>ds_slots := ds_slots sk @ [slot]\<rparr>"

definition remote_dbus_Skeleton_new ::
  "'w registry_bus \<Rightarrow> uid \<Rightarrow> 'w agent \<Rightarrow> ('w, 'w registration \<times> 'w dbus_skeleton) act"
where
  "remote_dbus_Skeleton_new rb getuid impl = (\<lambda>w.
     case Registry_Stub_register_async rb getuid impl (\<lparr>rs_counter = 0, rs_registry = Map.empty\<rparr>, w) of
       (Inl e, (_, w1)) \<Rightarrow> (Inl e, w1)
     | (Inr registration, (rs, w1)) \<Rightarrow>
         (Inr (registration, service_registered_connect (Registry_Stub_register_async rb getuid impl)
            \<lparr>ds_stub = rs, ds_slots = []\<rparr>), w1))"

definition registration_message :: string where
  "registration_message = ''Error registering agent for user.'' @ [CHR 0x0A]"

text \<open>
  The signal of the bus library: its slots are called in the order in which they were connected. \<open>registry_restarts\<close> raises it once in
  each of the given worlds, and gives the outcomes.
\<close>

fun run_slots :: "('s, 'a) act list \<Rightarrow> ('s, 'a list) act" where
  "run_slots [] = returnE []"
| "run_slots (f # fs) = bindE f (\<lambda>x. bindE (run_slots fs) (\<lambda>xs. returnE (x # xs)))"

fun registry_restarts :: "'w dbus_skeleton \<Rightarrow> 'w list \<Rightarrow> ((exn + 'w registration list) \<times> 'w) list" where
  "registry_restarts sk [] = []"
| "registry_restarts sk (w # ws) = (case run_slots (ds_slots sk) (ds_stub sk, w) of
     (x, (rs, w')) \<Rightarrow> (x, w') # registry_restarts (sk\<lparr>ds_stub := rs\<rparr>) ws)"

definition remote_dbus_Skeleton_announced ::
  "'w registry_bus \<Rightarrow> uid \<times> string \<times> 'w agent \<Rightarrow> reply \<Rightarrow> ('w registry_stub \<times> 'w, unit) act"
where
  "remote_dbus_Skeleton_announced rb = Registry_Stub_register_callback rb (modifyE (rb_cout rb registration_message))"

text \<open>The names \<^verbatim>\<open>create_multi_user_agent_for_bus_connection\<close> puts the registry under.\<close>

definition multi_user_service_name :: "string \<Rightarrow> string" where
  "multi_user_service_name service_name = ''core.trust.dbus.Agent'' @ ''.'' @ service_name"

definition default_agent_registry_path :: string where
  "default_agent_registry_path = ''/core/trust/dbus/AgentRegistry''"

section \<open>Properties\<close>

text \<open>What the stubs rely on of the bus: a call runs the agent's handler and returns what it sends.\<close>

definition bus_reaches :: "'w bus_api \<Rightarrow> string \<times> string \<Rightarrow> 'w agent \<Rightarrow> bool" where
  "bus_reaches bus obj agent \<longleftrightarrow> (\<forall>msg w r w'. Agent_Skeleton_reply agent msg w = (Inr r, w') \<longrightarrow>
     bus_transact bus obj Method_AuthenticateRequestWithParameters msg w = (Inr r, w'))"

definition demo_bus :: "'w agent \<Rightarrow> 'w bus_api" where
  "demo_bus agent = \<lparr>bus_transact = (\<lambda>_ _. Agent_Skeleton_reply agent), bus_print = (\<lambda>n e. n @ '': '' @ e)\<rparr>"

lemma demo_bus_reaches: "bus_reaches (demo_bus agent) obj agent"
  by (simp add: bus_reaches_def demo_bus_def)

lemma stub_over_bus:
  assumes "bus_reaches bus obj agent"
  shows "Agent_Stub_authenticate bus obj p w = (case agent p w of
      (Inr a, w') \<Rightarrow> (Inr (scast (ucast a :: byte)), w')
    | (Inl e, w') \<Rightarrow> (Inl (runtime_error (bus_print bus Error_CouldNotDetermineConclusiveAnswer '''')), w'))"
proof -
  obtain x w' where x: "agent p w = (x, w')" by force
  let ?r = "case x of Inr a \<Rightarrow> method_return (encode_answer a) | Inl _ \<Rightarrow> error_reply Error_CouldNotDetermineConclusiveAnswer ''''"
  have "Agent_Skeleton_reply agent (encode_params p) w = (Inr ?r, w')"
    using x decode_encode_params [of p "[]"]
    by (simp add: Agent_Skeleton_reply_def read_args_def bindE_apply catchE_apply split: sum.splits)
  then have "bus_transact bus obj Method_AuthenticateRequestWithParameters (encode_params p) w = (Inr ?r, w')"
    using assms by (simp add: bus_reaches_def)
  then show ?thesis
    by (simp add: Agent_Stub_authenticate_def bindE_apply x read_args_def decode_answer_def encode_answer_def
        split: sum.splits)
qed

lemma decode_registration_ok: "decode_registration (encode_uid u @ [Path path]) = (Inr (u, path), [])"
  using decode_encode_uid [of u "[Path path]"] by (simp add: decode_registration_def bindE_apply)

lemma register_outcome:
  "handle_register_agent locking_registry bus_send sender (encode_uid u @ [Path path]) (reg, w) =
     (case bus_send (method_return []) (reg(u \<mapsto> (sender, path)), w) of
       (Inr x, s) \<Rightarrow> (Inr x, s)
     | (Inl e, (reg', w')) \<Rightarrow> (Inr (), (reg'(u := None), w')))"
  using decode_registration_ok [of u path]
  by (simp add: handle_register_agent_def read_args_def bindE_apply catchE_apply locking_registry_def
      register_agent_for_user_def unregister_agent_for_user_def split: prod.splits sum.splits)

text \<open>
  C33. Registration and routing together: once a process has registered an agent for a user and its
  reply has gone out, a request of that user is answered by that agent, over the bus, and requests of
  other users go where they went before; a user without an agent is denied. Nothing but the user id of
  the message decides, so the agent of the last process to register for a user gets the user's requests.
\<close>

theorem registered_agent_answers:
  assumes "bus_send (method_return []) (reg(u \<mapsto> (sender, path)), w) = (Inr (), (reg(u \<mapsto> (sender, path)), w1))"
    and "handle_register_agent locking_registry bus_send sender (encode_uid u @ [Path path]) (reg, w) = (x, (reg', w'))"
    and "bus_reaches bus (sender, path) agent"
  shows "x = Inr () \<and>
    (app_uid p = u \<longrightarrow> remote_dbus_Stub_send bus reg' p v = (case agent p v of
        (Inr a, v') \<Rightarrow> (Inr (scast (ucast a :: byte)), v')
      | (Inl e, v') \<Rightarrow> (Inl (runtime_error (bus_print bus Error_CouldNotDetermineConclusiveAnswer '''')), v'))) \<and>
    (app_uid p \<noteq> u \<longrightarrow> remote_dbus_Stub_send bus reg' p = remote_dbus_Stub_send bus reg p) \<and>
    (app_uid p \<noteq> u \<and> reg (app_uid p) = None \<longrightarrow> remote_dbus_Stub_send bus reg' p v = (Inr denied, v))"
proof -
  have "x = Inr ()" "reg' = reg(u \<mapsto> (sender, path))"
    using assms(2) by (simp_all add: register_outcome assms(1))
  then show ?thesis
    using stub_over_bus [OF assms(3), of p v]
    by (simp add: remote_dbus_Stub_send_def has_agent_for_user_def agent_for_user_def)
qed

theorem registered_agent_answers_witness:
  "remote_dbus_Stub_send (demo_bus (\<lambda>_. returnE granted))
      (fst (snd (handle_register_agent locking_registry (\<lambda>_. returnE ()) '':1.7'' (encode_uid (Uid 1000) @ [Path ''/a''])
        (Map.empty, ()))))
      \<lparr>app_uid = Uid 1000, app_pid = Pid 1, app_id = ''app'', app_feature = Feature 0, app_description = ''d''\<rparr> () =
    (Inr granted, ())"
proof -
  let ?h = "handle_register_agent locking_registry (\<lambda>_. returnE ()) '':1.7'' (encode_uid (Uid 1000) @ [Path ''/a'']) (Map.empty, ())"
  obtain x reg' w' where h: "?h = (x, (reg', w'))" by (metis surj_pair)
  from registered_agent_answers [OF _ h demo_bus_reaches [of "\<lambda>_. returnE granted"], of "()"
      "\<lparr>app_uid = Uid 1000, app_pid = Pid 1, app_id = ''app'', app_feature = Feature 0, app_description = ''d''\<rparr>" "()"]
  show ?thesis by (simp add: h granted_def)
qed

text \<open>
  C34. A registration whose reply cannot be delivered leaves no agent for the user: the user's requests
  are then denied, also when another agent was registered for the user before.
\<close>

theorem undelivered_registration_is_undone:
  assumes "bus_send (method_return []) (reg(u \<mapsto> (sender, path)), w) = (Inl e, (reg(u \<mapsto> (sender, path)), w1))"
  shows "\<exists>w' reg'. handle_register_agent locking_registry bus_send sender (encode_uid u @ [Path path]) (reg, w) =
      (Inr (), (reg', w')) \<and> reg' = reg(u := None) \<and>
    (app_uid p = u \<longrightarrow> remote_dbus_Stub_send bus reg' p v = (Inr denied, v))"
  by (simp add: register_outcome assms remote_dbus_Stub_send_def has_agent_for_user_def)

theorem undelivered_registration_is_undone_witness:
  "\<exists>w' reg'. handle_register_agent locking_registry (\<lambda>_. throwE other_exception) '':1.7''
      (encode_uid (Uid 1000) @ [Path ''/a'']) ([Uid 1000 \<mapsto> ('':1.2'', ''/b'')], ()) = (Inr (), (reg', w')) \<and>
    reg' = Map.empty"
  using undelivered_registration_is_undone [of "\<lambda>_. throwE other_exception" "[Uid 1000 \<mapsto> ('':1.2'', ''/b'')]"
      "Uid 1000" "'':1.7''" "''/a''" "()" other_exception "()"
      "\<lparr>app_uid = Uid 1, app_pid = Pid 1, app_id = ''app'', app_feature = Feature 0, app_description = ''d''\<rparr>"
      "demo_bus (\<lambda>_. returnE granted)" "()"]
  by auto

text \<open>Printing a signed integer is injective, so no two values of the counter give the same path.\<close>

lemma to_string_int_inject: "to_string_int i = to_string_int j \<longleftrightarrow> i = j"
proof -
  have "to_string_nat n \<noteq> CHR ''-'' # s" for n s
    using to_string_nat_digits [of "CHR ''-''" n] by (auto simp: is_digit_def)
  from this this [symmetric] show ?thesis by (auto simp: to_string_int_def)
qed

lemma counting_object_path_inject [simp]: "counting_object_path m = counting_object_path n \<longleftrightarrow> m = n"
  by (auto simp: counting_object_path_def to_string_int_inject intro: signed_word_eqI)

text \<open>Registering: the path comes from the counter, which goes on whether the bus fails or not.\<close>

lemma register_async_outcome:
  "Registry_Stub_register_async rb u impl (rs, w) = (let path = counting_object_path (rs_counter rs); rs' = rs\<lparr>rs_counter := rs_counter rs + 1\<rparr> in
     case rb_expose rb path impl w of
       (Inl e, v) \<Rightarrow> (Inl e, (rs', v))
     | (Inr _, v) \<Rightarrow> (case rb_invoke_register rb u path v of
         (Inl e, v') \<Rightarrow> (Inl e, (rs', v'))
       | (Inr _, v') \<Rightarrow> (Inr (u, path, impl), (rs', v'))))"
  by (simp add: Registry_Stub_register_async_def counting_object_path_generator_def bindE_apply in_world_def Let_def
      split: prod.split sum.split)

lemma registry_restarts_nth:
  assumes "ds_slots sk = [Registry_Stub_register_async rb u impl]" and "i < length ws"
    and "path = counting_object_path (rs_counter (ds_stub sk) + of_nat i)"
  shows "registry_restarts sk ws ! i = (case rb_expose rb path impl (ws ! i) of
       (Inl e, v) \<Rightarrow> (Inl e, v)
     | (Inr _, v) \<Rightarrow> (case rb_invoke_register rb u path v of
         (Inl e, v') \<Rightarrow> (Inl e, v')
       | (Inr _, v') \<Rightarrow> (Inr [(u, path, impl)], v')))"
  using assms
proof (induction ws arbitrary: sk i)
  case (Cons w ws)
  let ?rs = "(ds_stub sk)\<lparr>rs_counter := rs_counter (ds_stub sk) + 1\<rparr>"
  have r: "registry_restarts sk (w # ws) = (let p = counting_object_path (rs_counter (ds_stub sk)) in
      (case rb_expose rb p impl w of
         (Inl e, v) \<Rightarrow> (Inl e, v)
       | (Inr _, v) \<Rightarrow> (case rb_invoke_register rb u p v of
           (Inl e, v') \<Rightarrow> (Inl e, v')
         | (Inr _, v') \<Rightarrow> (Inr [(u, p, impl)], v')))) # registry_restarts (sk\<lparr>ds_stub := ?rs\<rparr>) ws"
    by (simp add: Cons.prems(1) bindE_apply register_async_outcome Let_def split: prod.split sum.split)
  show ?case
  proof (cases i)
    case 0
    then have p: "path = counting_object_path (rs_counter (ds_stub sk))" using Cons.prems(3) by simp
    show ?thesis unfolding r p by (simp add: 0 Let_def)
  next
    case (Suc k)
    have "registry_restarts sk (w # ws) ! i = registry_restarts (sk\<lparr>ds_stub := ?rs\<rparr>) ws ! k" unfolding r by (simp add: Suc Let_def)
    also have "\<dots> = (case rb_expose rb path impl (ws ! k) of
        (Inl e, v) \<Rightarrow> (Inl e, v)
      | (Inr _, v) \<Rightarrow> (case rb_invoke_register rb u path v of
          (Inl e, v') \<Rightarrow> (Inl e, v')
        | (Inr _, v') \<Rightarrow> (Inr [(u, path, impl)], v')))"
      by (rule Cons.IH) (use Cons.prems Suc in \<open>simp_all add: add.assoc\<close>)
    finally show ?thesis by (simp add: Suc)
  qed
qed simp

lemma counting_object_path_fresh:
  "m < 2 ^ 32 \<Longrightarrow> n < 2 ^ 32 \<Longrightarrow> counting_object_path (of_nat m) = counting_object_path (of_nat n) \<longleftrightarrow> m = n"
  by (simp add: word_of_nat_eq_iff take_bit_nat_eq_self)

text \<open>
  C35. When the service of the registry comes back, however often, the skeleton that was constructed before announces
  its agent each time, at a path it has not used before. If the bus takes the two calls, the registry, which may have come back empty
  or with other agents, then maps the user to that path of the skeleton's process and to nothing else, so that the user's requests get the
  agent's answers again, and the reply to the call makes the skeleton keep the agent at that path; if it refuses one of them, its exception leaves the slot, and the next return of the
  service is announced as before.
\<close>

theorem restarted_registry_relearns_agent:
  assumes new: "remote_dbus_Skeleton_new rb u impl w = (Inr ((u0, path0, impl0), sk), w1)"
    and expose: "\<And>path v v'. rb_expose rb path impl v = (Inr (), v') \<Longrightarrow> registry_of v' = registry_of v"
    and invoke: "\<And>path v v'. rb_invoke_register rb u path v = (Inr (), v') \<Longrightarrow> registry_of v' =
      fst (snd (handle_register_agent locking_registry (\<lambda>_. returnE ()) sender (encode_uid u @ [Path path]) (registry_of v, ())))"
    and i: "i < length ws" "length ws < 2 ^ 31" and path: "path = counting_object_path (of_nat (Suc i))"
  shows "path \<noteq> path0 \<and> (\<forall>j < i. path \<noteq> counting_object_path (of_nat (Suc j))) \<and>
    (case rb_expose rb path impl (ws ! i) of
       (Inl e, v) \<Rightarrow> registry_restarts sk ws ! i = (Inl e, v)
     | (Inr _, v) \<Rightarrow> (case rb_invoke_register rb u path v of
         (Inl e, v') \<Rightarrow> registry_restarts sk ws ! i = (Inl e, v')
       | (Inr _, v') \<Rightarrow> registry_restarts sk ws ! i = (Inr [(u, path, impl)], v') \<and>
           registry_of v' = (registry_of (ws ! i))(u \<mapsto> (sender, path)) \<and>
           (app_uid p = u \<and> bus_reaches bus (sender, path) impl \<longrightarrow> remote_dbus_Stub_send bus (registry_of v') p x = (case impl p x of
              (Inr a, y) \<Rightarrow> (Inr (scast (ucast a :: byte)), y)
            | (Inl e, y) \<Rightarrow> (Inl (runtime_error (bus_print bus Error_CouldNotDetermineConclusiveAnswer '''')), y))))) \<and>
    (\<exists>rs' y'. remote_dbus_Skeleton_announced rb (u, path, impl) (method_return []) (rs, y) = (Inr (), (rs', y')) \<and>
       rs_registry rs' = (rs_registry rs)(u \<mapsto> (path, impl)))"
proof -
  have sk: "ds_slots sk = [Registry_Stub_register_async rb u impl]" "rs_counter (ds_stub sk) = 1" "path0 = counting_object_path 0"
    using new by (auto simp: remote_dbus_Skeleton_new_def register_async_outcome Let_def service_registered_connect_def
        split: prod.splits sum.splits)
  note nth = registry_restarts_nth [OF sk(1) i(1), of path]
  have "path \<noteq> path0" using counting_object_path_fresh [of "Suc i" 0] i by (simp add: path sk(3))
  moreover have "path \<noteq> counting_object_path (of_nat (Suc j))" if "j < i" for j
    using counting_object_path_fresh [of "Suc i" "Suc j"] i that unfolding path by auto
  moreover have "registry_of v' = (registry_of (ws ! i))(u \<mapsto> (sender, path))"
    if "rb_expose rb path impl (ws ! i) = (Inr (), v)" "rb_invoke_register rb u path v = (Inr (), v')" for v v'
    using expose [OF that(1)] invoke [OF that(2)] by (simp add: register_outcome)
  moreover have "\<exists>rs' y'. remote_dbus_Skeleton_announced rb (u, path, impl) (method_return []) (rs, y) = (Inr (), (rs', y')) \<and>
       rs_registry rs' = (rs_registry rs)(u \<mapsto> (path, impl))"
    by (simp add: remote_dbus_Skeleton_announced_def Registry_Stub_register_callback_def stub_registers_def
        register_agent_for_user_def bindE_apply in_world_def)
  ultimately show ?thesis
    using nth stub_over_bus [of bus "(sender, path)" impl p x]
    by (simp add: sk(2) path remote_dbus_Stub_send_def has_agent_for_user_def agent_for_user_def split: prod.splits sum.splits)
qed

text \<open>A registry in the world of the skeleton's process, which the calls of the bus reach.\<close>

definition demo_registry_bus :: "(string \<times> string) registry registry_bus" where
  "demo_registry_bus = \<lparr>rb_expose = (\<lambda>_ _. returnE ()), rb_transact_register = (\<lambda>_ _. returnE (method_return [])),
     rb_transact_unregister = (\<lambda>_. returnE (method_return [])),
     rb_invoke_register = (\<lambda>u path. modifyE (\<lambda>reg. fst (snd (handle_register_agent locking_registry (\<lambda>_. returnE ()) '':1.7''
       (encode_uid u @ [Path path]) (reg, ()))))),
     rb_print = (\<lambda>n m. n @ m), rb_cerr = (\<lambda>_ w. w), rb_cout = (\<lambda>_ w. w)\<rparr>"

theorem restarted_registry_relearns_agent_witness:
  "\<exists>first sk w1. remote_dbus_Skeleton_new demo_registry_bus (Uid 1000) (\<lambda>_. returnE granted) Map.empty = (Inr (first, sk), w1) \<and>
     snd (registry_restarts sk [Map.empty, Map.empty] ! 1) = [Uid 1000 \<mapsto> ('':1.7'', counting_object_path 2)]"
proof -
  let ?impl = "\<lambda>_ :: agent_params. returnE granted :: ((string \<times> string) registry, answer) act"
  obtain u0 path0 impl0 sk w1 where n: "remote_dbus_Skeleton_new demo_registry_bus (Uid 1000) ?impl Map.empty = (Inr ((u0, path0, impl0), sk), w1)"
    by (simp add: remote_dbus_Skeleton_new_def register_async_outcome demo_registry_bus_def Let_def)
  from restarted_registry_relearns_agent [where registry_of = "\<lambda>r. r" and ws = "[Map.empty, Map.empty]" and i = 1 and sender = "'':1.7''", OF n _ _ _ _ refl]
  have "snd (registry_restarts sk [Map.empty, Map.empty] ! 1) = [Uid 1000 \<mapsto> ('':1.7'', counting_object_path 2)]"
    by (simp add: demo_registry_bus_def register_outcome)
  with n show ?thesis by blast
qed

end
