(* ===== verification/Bus_Factory.thy ===== *)
theory Bus_Factory
  imports Streams
begin

text \<open>
  Which bus the daemons talk to (\<^verbatim>\<open>dbus/bus_factory.cpp\<close>): the kinds of buses, their names on the command
  line, and the factory. Connecting to a bus and the environment belong to the bus and process libraries and are
  parameters.
\<close>

section \<open>Model\<close>

datatype bus_type = session | system | session_with_address_from_env | system_with_address_from_env

definition print_bus_type :: "bus_type \<Rightarrow> string" where
  "print_bus_type t = (case t of
       system \<Rightarrow> ''system''
     | session \<Rightarrow> ''session''
     | system_with_address_from_env \<Rightarrow> ''system_with_address_from_env''
     | session_with_address_from_env \<Rightarrow> ''session_with_address_from_env'')"

text \<open>\<^verbatim>\<open>operator>>\<close>: a word that names no type leaves the variable, and the stream, as they are.\<close>

definition parse_bus_type :: "istream \<Rightarrow> bus_type \<Rightarrow> bus_type \<times> istream" where
  "parse_bus_type i type = (case extract_word i of (s, i') \<Rightarrow>
     (if s = ''system'' then system
      else if s = ''session'' then session
      else if s = ''system_with_address_from_env'' then system_with_address_from_env
      else if s = ''session_with_address_from_env'' then session_with_address_from_env
      else type, i'))"

datatype well_known_bus = bus_system | bus_session

record ('w, 'b) bus_library =
  bl_well_known :: "well_known_bus \<Rightarrow> ('w, 'b) act"
  bl_address :: "string \<Rightarrow> ('w, 'b) act"
  bl_getenv :: "string \<Rightarrow> ('w, string) act"
  bl_install_executor :: "'b \<Rightarrow> ('w, unit) act"

definition bus_for_type :: "('w, 'b) bus_library \<Rightarrow> bus_type \<Rightarrow> ('w, 'b) act" where
  "bus_for_type bl type =
     bindE (case type of
         system \<Rightarrow> bl_well_known bl bus_system
       | session \<Rightarrow> bl_well_known bl bus_session
       | system_with_address_from_env \<Rightarrow> bindE (bl_getenv bl ''DBUS_SYSTEM_BUS_ADDRESS'') (bl_address bl)
       | session_with_address_from_env \<Rightarrow> bindE (bl_getenv bl ''DBUS_SESSION_BUS_ADDRESS'') (bl_address bl)) (\<lambda>bus.
     bindE (bl_install_executor bl bus) (\<lambda>_. returnE bus))"

section \<open>Properties\<close>

text \<open>
  The names round-trip: reading the printed name of a type gives the type, whatever the variable held before. The
  reader never fails on another word, however: it leaves the variable as it was and the stream in order, so a
  misspelt name of a bus is not reported as an error.
\<close>

theorem bus_type_names:
  "parse_bus_type (stream_of (print_bus_type t)) u = (t, stream_of []) \<and>
   (s \<noteq> [] \<and> (\<forall>c \<in> set s. \<not> is_space c) \<and> s \<notin> range print_bus_type \<longrightarrow>
      parse_bus_type (stream_of s) u = (u, stream_of []))"
proof -
  have word: "extract_word (stream_of w) = (w, stream_of [])"
    if "w \<noteq> []" "\<forall>c \<in> set w. \<not> is_space c" for w
    using extract_word_token [of "[]" w "[]"] that by (simp add: stream_of_def)
  have "print_bus_type t \<noteq> []" "\<forall>c \<in> set (print_bus_type t). \<not> is_space c"
    by (cases t; simp add: print_bus_type_def is_space_def)+
  note own = word [OF this]
  have "parse_bus_type (stream_of (print_bus_type t)) u = (t, stream_of [])"
    unfolding parse_bus_type_def own by (cases t) (simp_all add: print_bus_type_def)
  moreover have "parse_bus_type (stream_of s) u = (u, stream_of [])"
    if "s \<noteq> []" "\<forall>c \<in> set s. \<not> is_space c" "s \<notin> range print_bus_type"
  proof -
    have "print_bus_type u \<noteq> s" for u using that(3) by blast
    from this [of system] this [of session] this [of system_with_address_from_env] this [of session_with_address_from_env]
    show ?thesis unfolding parse_bus_type_def word [OF that(1,2)] by (auto simp: print_bus_type_def)
  qed
  ultimately show ?thesis by blast
qed

theorem bus_type_names_witness:
  "parse_bus_type (stream_of ''system'') session = (system, stream_of []) \<and>
   parse_bus_type (stream_of ''sytem'') session = (session, stream_of [])"
proof -
  have "''sytem'' \<notin> range print_bus_type" by (auto simp: print_bus_type_def split: bus_type.splits)
  with bus_type_names [of system session "''sytem''"] show ?thesis by (simp add: print_bus_type_def is_space_def)
qed

end
