(* ===== verification/Bus_Endpoints.thy ===== *)
theory Bus_Endpoints
  imports Remote_Store_Laws Agent_Registry Bus_Factory
begin

text \<open>
  The objects that put a store or an agent on the bus and take it off again: the token of an exposed store
  (\<^verbatim>\<open>expose.cpp\<close>), the resolved store (\<^verbatim>\<open>resolve.cpp\<close>), the skeletons of an agent and of the registry
  (\<^verbatim>\<open>dbus/agent.cpp\<close>, \<^verbatim>\<open>dbus/agent_registry.h\<close>) and the multi-user agent (\<^verbatim>\<open>remote/dbus.cpp\<close>). Services,
  objects and their handlers belong to the bus library and are parameters; what a handler does is modelled in \<open>Remote_Store\<close>
  and \<open>Agent_Registry\<close>, here it is which handlers are installed when.
\<close>

section \<open>Model\<close>

text \<open>
  \<open>ol_spawn_run\<close> starts a thread that runs the bus, \<open>ol_joinable\<close> and \<open>ol_join\<close> are those of this thread.
\<close>

record ('w, 'b, 's, 'o) object_library =
  ol_add_service :: "'b \<Rightarrow> string \<Rightarrow> ('w, 's) act"
  ol_use_service :: "'b \<Rightarrow> string \<Rightarrow> ('w, 's) act"
  ol_add_object_for_path :: "'s \<Rightarrow> string \<Rightarrow> ('w, 'o) act"
  ol_object_for_path :: "'s \<Rightarrow> string \<Rightarrow> ('w, 'o) act"
  ol_install :: "'o \<Rightarrow> bus_method \<Rightarrow> ('w, unit) act"
  ol_uninstall :: "'o \<Rightarrow> bus_method \<Rightarrow> ('w, unit) act"
  ol_spawn_run :: "'b \<Rightarrow> ('w, unit) act"
  ol_stop :: "'b \<Rightarrow> ('w, unit) act"
  ol_joinable :: "'b \<Rightarrow> 'w \<Rightarrow> bool"
  ol_join :: "'b \<Rightarrow> ('w, unit) act"

definition session_bus :: "('w, 'b) bus_library \<Rightarrow> ('w, 'b) act" where
  "session_bus bl =
     bindE (bl_well_known bl bus_session) (\<lambda>bus.
     bindE (bl_install_executor bl bus) (\<lambda>_. returnE bus))"

text \<open>\<^verbatim>\<open>bus->stop(); if (worker.joinable()) worker.join();\<close>\<close>

definition stop_and_join :: "('w, 'b, 's, 'o) object_library \<Rightarrow> 'b \<Rightarrow> ('w, unit) act" where
  "stop_and_join ol bus =
     bindE (ol_stop ol bus) (\<lambda>_.
     bindE (readE (ol_joinable ol bus)) (\<lambda>joinable. if joinable then ol_join ol bus else returnE ()))"

subsection \<open>The token\<close>

record ('b, 's, 'o) bus_token =
  tok_bus :: 'b
  tok_service :: 's
  tok_object :: 'o

definition token_methods :: "bus_method list" where
  "token_methods = [Method_Add, Method_RemoveApplication, Method_Reset, Method_AddQuery, Method_RemoveQuery]"

definition Token_new :: "('w, 'b, 's, 'o) object_library \<Rightarrow> string \<Rightarrow> 'b \<Rightarrow> ('w, ('b, 's, 'o) bus_token) act" where
  "Token_new ol service_name bus =
     bindE (ol_add_service ol bus service_name) (\<lambda>service.
     bindE (ol_add_object_for_path ol service root_path) (\<lambda>object.
     bindE (block (map (ol_install ol object) token_methods)) (\<lambda>_.
     bindE (ol_spawn_run ol bus) (\<lambda>_.
     returnE \<lparr>tok_bus = bus, tok_service = service, tok_object = object\<rparr>))))"

definition Token_destroy :: "('w, 'b, 's, 'o) object_library \<Rightarrow> ('b, 's, 'o) bus_token \<Rightarrow> ('w, unit) act" where
  "Token_destroy ol t =
     bindE (block (map (ol_uninstall ol (tok_object t)) token_methods)) (\<lambda>_. stop_and_join ol (tok_bus t))"

definition expose_store_to_bus_with_name ::
  "('w, 'b, 's, 'o) object_library \<Rightarrow> 'b \<Rightarrow> string \<Rightarrow> ('w, ('b, 's, 'o) bus_token) act"
where
  "expose_store_to_bus_with_name ol bus name = bindE (exposed_name name) (\<lambda>service_name. Token_new ol service_name bus)"

definition expose_store_to_session_with_name ::
  "('w, 'b) bus_library \<Rightarrow> ('w, 'b, 's, 'o) object_library \<Rightarrow> string \<Rightarrow> ('w, ('b, 's, 'o) bus_token) act"
where
  "expose_store_to_session_with_name bl ol name = bindE (session_bus bl) (\<lambda>bus. expose_store_to_bus_with_name ol bus name)"

subsection \<open>The resolved store\<close>

text \<open>
  The members in their order: the worker is started before the proxy is asked for. When that throws, the thread, which is
  joinable, is destroyed with the members built so far, and that ends the process: \<open>None\<close>.
\<close>

definition resolved_Store_new ::
  "('w, 'b, 's, 'o) object_library \<Rightarrow> 's \<Rightarrow> 'b \<Rightarrow> 'w \<Rightarrow> ((exn + ('b, 's, 'o) bus_token) \<times> 'w) option"
where
  "resolved_Store_new ol service bus w = (case ol_spawn_run ol bus w of
       (Inl e, w1) \<Rightarrow> Some (Inl e, w1)
     | (Inr _, w1) \<Rightarrow> (case ol_object_for_path ol service root_path w1 of
         (Inl e, w2) \<Rightarrow> if ol_joinable ol bus w2 then None else Some (Inl e, w2)
       | (Inr proxy, w2) \<Rightarrow> Some (Inr \<lparr>tok_bus = bus, tok_service = service, tok_object = proxy\<rparr>, w2)))"

definition resolved_Store_destroy :: "('w, 'b, 's, 'o) object_library \<Rightarrow> ('b, 's, 'o) bus_token \<Rightarrow> ('w, unit) act" where
  "resolved_Store_destroy ol s = stop_and_join ol (tok_bus s)"

definition resolve_store_on_bus_with_name ::
  "('w, 'b, 's, 'o) object_library \<Rightarrow> 'b \<Rightarrow> string \<Rightarrow> 'w \<Rightarrow> ((exn + ('b, 's, 'o) bus_token) \<times> 'w) option"
where
  "resolve_store_on_bus_with_name ol bus name w =
     (case bindE (resolved_name name) (ol_use_service ol bus) w of
       (Inl e, w1) \<Rightarrow> Some (Inl e, w1)
     | (Inr service, w1) \<Rightarrow> resolved_Store_new ol service bus w1)"

definition resolve_store_in_session_with_name ::
  "('w, 'b) bus_library \<Rightarrow> ('w, 'b, 's, 'o) object_library \<Rightarrow> string \<Rightarrow> 'w \<Rightarrow> ((exn + ('b, 's, 'o) bus_token) \<times> 'w) option"
where
  "resolve_store_in_session_with_name bl ol name w = (case session_bus bl w of
       (Inl e, w1) \<Rightarrow> Some (Inl e, w1)
     | (Inr bus, w1) \<Rightarrow> resolve_store_on_bus_with_name ol bus name w1)"

subsection \<open>Skeletons\<close>

definition Agent_Skeleton_new :: "('w, 'b, 's, 'o) object_library \<Rightarrow> 'o \<Rightarrow> ('w, unit) act" where
  "Agent_Skeleton_new ol object = ol_install ol object Method_AuthenticateRequestWithParameters"

definition Registry_Skeleton_new :: "('w, 'b, 's, 'o) object_library \<Rightarrow> 'o \<Rightarrow> ('w, unit) act" where
  "Registry_Skeleton_new ol object =
     block [ol_install ol object Method_RegisterAgentForUser, ol_install ol object Method_UnregisterAgentForUser]"

definition Registry_Skeleton_destroy :: "('w, 'b, 's, 'o) object_library \<Rightarrow> 'o \<Rightarrow> ('w, unit) act" where
  "Registry_Skeleton_destroy ol object =
     block [ol_uninstall ol object Method_RegisterAgentForUser, ol_uninstall ol object Method_UnregisterAgentForUser]"

text \<open>The multi-user agent: a registry without agents, and its skeleton on the object.\<close>

definition remote_dbus_Stub_new :: "('w, 'b, 's, 'o) object_library \<Rightarrow> 'o \<Rightarrow> ('w, (string \<times> string) registry) act" where
  "remote_dbus_Stub_new ol object = bindE (Registry_Skeleton_new ol object) (\<lambda>_. returnE Map.empty)"

definition create_multi_user_agent_for_bus_connection ::
  "('w, 'b, 's, 'o) object_library \<Rightarrow> 'b \<Rightarrow> string \<Rightarrow> ('w, (string \<times> string) registry) act"
where
  "create_multi_user_agent_for_bus_connection ol connection service_name =
     bindE (ol_add_service ol connection (multi_user_service_name service_name)) (\<lambda>service.
     bindE (ol_add_object_for_path ol service default_agent_registry_path) (remote_dbus_Stub_new ol))"

section \<open>Which handlers are installed when\<close>

text \<open>
  What the library keeps: the handlers that are installed, and the buses that a thread runs. The operations used here
  succeed, and change nothing else of the two.
\<close>

locale bus_objects =
  fixes ol :: "('w, 'b, 's, 'o) object_library" and installed :: "'w \<Rightarrow> ('o \<times> bus_method) set" and runs :: "'w \<Rightarrow> 'b set"
  assumes install: "\<exists>w'. ol_install ol x m w = (Inr (), w') \<and> installed w' = insert (x, m) (installed w) \<and> runs w' = runs w"
    and uninstall: "\<exists>w'. ol_uninstall ol x m w = (Inr (), w') \<and> installed w' = installed w - {(x, m)} \<and> runs w' = runs w"
    and spawn: "\<exists>w'. ol_spawn_run ol b w = (Inr (), w') \<and> installed w' = installed w \<and> runs w' = insert b (runs w)"
    and stop: "\<exists>w'. ol_stop ol b w = (Inr (), w') \<and> installed w' = installed w \<and> runs w' = runs w"
    and joinable: "ol_joinable ol b w \<longleftrightarrow> b \<in> runs w"
    and join: "\<exists>w'. ol_join ol b w = (Inr (), w') \<and> installed w' = installed w \<and> runs w' = runs w - {b}"
begin

lemma install_all:
  "\<exists>w'. block (map (ol_install ol x) ms) w = (Inr (), w') \<and> installed w' = installed w \<union> {x} \<times> set ms \<and> runs w' = runs w"
proof (induction ms arbitrary: w)
  case (Cons m ms)
  obtain w1 where 1: "ol_install ol x m w = (Inr (), w1)" "installed w1 = insert (x, m) (installed w)" "runs w1 = runs w"
    using install by blast
  with Cons [of w1] show ?case by (auto simp: bindE_apply)
qed simp

lemma uninstall_all:
  "\<exists>w'. block (map (ol_uninstall ol x) ms) w = (Inr (), w') \<and> installed w' = installed w - {x} \<times> set ms \<and> runs w' = runs w"
proof (induction ms arbitrary: w)
  case (Cons m ms)
  obtain w1 where 1: "ol_uninstall ol x m w = (Inr (), w1)" "installed w1 = installed w - {(x, m)}" "runs w1 = runs w"
    using uninstall by blast
  with Cons [of w1] show ?case by (auto simp: bindE_apply)
qed simp

lemma stops_and_joins:
  "\<exists>w'. stop_and_join ol b w = (Inr (), w') \<and> installed w' = installed w \<and> runs w' = runs w - {b}"
proof -
  obtain w1 where 1: "ol_stop ol b w = (Inr (), w1)" "installed w1 = installed w" "runs w1 = runs w" using stop by blast
  obtain w2 where 2: "ol_join ol b w1 = (Inr (), w2)" "installed w2 = installed w1" "runs w2 = runs w1 - {b}" using join by blast
  show ?thesis using 1 2 joinable [of b w1] by (auto simp: stop_and_join_def bindE_apply)
qed

lemma token_destroyed:
  "\<exists>w'. Token_destroy ol t w = (Inr (), w') \<and> installed w' = installed w - {tok_object t} \<times> set token_methods \<and>
    runs w' = runs w - {tok_bus t}"
proof -
  obtain w1 where 1: "block (map (ol_uninstall ol (tok_object t)) token_methods) w = (Inr (), w1)"
    "installed w1 = installed w - {tok_object t} \<times> set token_methods" "runs w1 = runs w" using uninstall_all by blast
  obtain w2 where 2: "stop_and_join ol (tok_bus t) w1 = (Inr (), w2)" "installed w2 = installed w1" "runs w2 = runs w1 - {tok_bus t}"
    using stops_and_joins by blast
  show ?thesis using 1 2 by (auto simp: Token_destroy_def bindE_apply)
qed

text \<open>
  A token has, from its construction on, exactly the handlers of \<open>root_handlers\<close> on its object, and its bus is run; its
  destructor takes them all away and returns when the bus is run no more.
\<close>

lemma token_life:
  assumes "Token_new ol name bus w = (Inr t, w1)"
    and "\<And>s w w'. ol_add_service ol bus name w = (Inr s, w') \<Longrightarrow> installed w' = installed w \<and> runs w' = runs w"
    and "\<And>s x w w'. ol_add_object_for_path ol s root_path w = (Inr x, w') \<Longrightarrow> installed w' = installed w \<and> runs w' = runs w"
  shows "installed w1 = installed w \<union> {tok_object t} \<times> set (map fst (root_handlers V)) \<and> bus \<in> runs w1 \<and>
    (\<exists>w2. Token_destroy ol t w1 = (Inr (), w2) \<and>
      installed w2 = installed w - {tok_object t} \<times> set (map fst (root_handlers V)) \<and> runs w2 = runs w - {bus})"
proof -
  have ms: "set (map fst (root_handlers V)) = set token_methods" by (auto simp: root_handlers_def token_methods_def)
  from assms(1) obtain s wa x wb wc where
    a: "ol_add_service ol bus name w = (Inr s, wa)" and b: "ol_add_object_for_path ol s root_path wa = (Inr x, wb)"
    and c: "block (map (ol_install ol x) token_methods) wb = (Inr (), wc)" and d: "ol_spawn_run ol bus wc = (Inr (), w1)"
    and t: "t = \<lparr>tok_bus = bus, tok_service = s, tok_object = x\<rparr>"
    by (auto simp: Token_new_def bindE_apply split: prod.splits sum.splits)
  have 1: "installed w1 = installed w \<union> {x} \<times> set token_methods \<and> runs w1 = insert bus (runs w)"
    using assms(2) [OF a] assms(3) [OF b] install_all [of x token_methods wb] c spawn [of bus wc] d by auto
  show ?thesis unfolding ms using 1 token_destroyed [of t w1] t by auto
qed

text \<open>The skeleton of the registry takes away what it has installed.\<close>

lemma registry_skeleton_life:
  "\<exists>w1 w2. Registry_Skeleton_new ol x w = (Inr (), w1) \<and> Registry_Skeleton_destroy ol x w1 = (Inr (), w2) \<and>
     installed w2 = installed w - {x} \<times> {Method_RegisterAgentForUser, Method_UnregisterAgentForUser} \<and> runs w2 = runs w"
proof -
  let ?ms = "[Method_RegisterAgentForUser, Method_UnregisterAgentForUser]"
  have eq: "Registry_Skeleton_new ol x = block (map (ol_install ol x) ?ms)"
    "Registry_Skeleton_destroy ol x = block (map (ol_uninstall ol x) ?ms)"
    by (simp_all only: Registry_Skeleton_new_def Registry_Skeleton_destroy_def list.map)
  obtain w1 where 1: "block (map (ol_install ol x) ?ms) w = (Inr (), w1)" "installed w1 = installed w \<union> {x} \<times> set ?ms"
    "runs w1 = runs w" using install_all by blast
  obtain w2 where 2: "block (map (ol_uninstall ol x) ?ms) w1 = (Inr (), w2)" "installed w2 = installed w1 - {x} \<times> set ?ms"
    "runs w2 = runs w1" using uninstall_all by blast
  show ?thesis unfolding eq using 1 2 by auto
qed

end

text \<open>A bus library that keeps the two sets: a service is a bus and a name, an object a service and a path.\<close>

type_synonym 'b table = "(('b \<times> string) \<times> string \<times> bus_method) set \<times> 'b set"

definition table_library :: "('b table, 'b, 'b \<times> string, ('b \<times> string) \<times> string) object_library" where
  "table_library = \<lparr>ol_add_service = (\<lambda>b n. returnE (b, n)), ol_use_service = (\<lambda>b n. returnE (b, n)),
     ol_add_object_for_path = (\<lambda>s p. returnE (s, p)), ol_object_for_path = (\<lambda>s p. returnE (s, p)),
     ol_install = (\<lambda>(s, p) m. modifyE (\<lambda>(i, r). (insert (s, p, m) i, r))),
     ol_uninstall = (\<lambda>(s, p) m. modifyE (\<lambda>(i, r). (i - {(s, p, m)}, r))),
     ol_spawn_run = (\<lambda>b. modifyE (\<lambda>(i, r). (i, insert b r))), ol_stop = (\<lambda>b. returnE ()),
     ol_joinable = (\<lambda>b (i, r). b \<in> r), ol_join = (\<lambda>b. modifyE (\<lambda>(i, r). (i, r - {b})))\<rparr>"

interpretation table: bus_objects table_library "\<lambda>(i, r). {((s, p), m). (s, p, m) \<in> i}" snd
  by unfold_locales (auto simp: table_library_def)

section \<open>Names and failures\<close>

text \<open>An empty name reaches no bus, except that the variants for the session connect to it first.\<close>

lemma empty_name_is_refused:
  "expose_store_to_bus_with_name ol bus [] w = (Inl ServiceNameMustNotBeEmpty, w)"
  "resolve_store_on_bus_with_name ol bus [] w = Some (Inl ServiceNameMustNotBeEmpty, w)"
  "session_bus bl w = (Inr bus, w1) \<Longrightarrow> expose_store_to_session_with_name bl ol [] w = (Inl ServiceNameMustNotBeEmpty, w1)"
  by (simp_all add: expose_store_to_bus_with_name_def resolve_store_on_bus_with_name_def exposed_name_def resolved_name_def
      expose_store_to_session_with_name_def bindE_apply)

text \<open>Whoever resolves a store finds the service under the name it was exposed with.\<close>

lemma resolved_name_is_exposed_name: "resolved_name name = exposed_name name"
  by (simp add: resolved_name_def exposed_name_def)

text \<open>
  A resolved store whose proxy cannot be made ends the process: its worker runs by then. The token of an exposed store is built
  in the other order and passes every exception on.
\<close>

lemma failing_proxy_ends_process:
  assumes "ol_spawn_run ol bus w = (Inr (), w1)" and "ol_object_for_path ol service root_path w1 = (Inl e, w2)"
    and "ol_joinable ol bus w2"
  shows "resolved_Store_new ol service bus w = None"
  using assms by (simp add: resolved_Store_new_def)

end
