(* ===== verification/Remote_Posix.thy ===== *)
theory Remote_Posix
  imports Agent_Filters
begin

text \<open>
  The remote agent over a unix domain socket (\<^verbatim>\<open>remote/posix.cpp\<close>, \<^verbatim>\<open>remote/agent.cpp\<close>): the
  stub in the trusted helper accepts one connection per user session and sends it the requests
  of that user; the skeleton in the user's session validates a request, resolves the application id of the
  process and asks the local agent.

  Sockets, process start times and AppArmor labels belong to the operating system and are
  parameters. A session is named by a number (its socket); a request travels as the raw bytes
  of the struct, so both ends see the same fields.
\<close>

section \<open>Model\<close>

record posix_request =
  pr_app_uid :: uid
  pr_app_pid :: pid
  pr_feature :: feature
  pr_app_start_time :: int64

text \<open>Error numbers of the asio library's basic errors, by the constants of the platform.\<close>

definition access_denied :: int where "access_denied = 13"
definition broken_pipe :: int where "broken_pipe = 32"
definition connection_aborted :: int where "connection_aborted = 103"
definition connection_reset :: int where "connection_reset = 104"
definition connection_refused :: int where "connection_refused = 111"
definition operation_aborted :: int where "operation_aborted = 125"

text \<open>The end of the stream, of asio's own category.\<close>

definition end_of_file :: int where "end_of_file = 2"

text \<open>
  \<open>ps_write\<close> and \<open>ps_read\<close> give an error code or none. A read that fails leaves the buffer as it was.
\<close>

record 'w posix_system =
  ps_start_time :: "pid \<Rightarrow> ('w, int64) act"
  ps_write :: "nat \<Rightarrow> posix_request \<Rightarrow> 'w \<Rightarrow> int option \<times> 'w"
  ps_read :: "nat \<Rightarrow> 'w \<Rightarrow> (int option \<times> answer) \<times> 'w"
  ps_peer_credentials :: "nat \<Rightarrow> ('w, uid \<times> pid \<times> gid) act"

subsection \<open>Session::Registry\<close>

type_synonym sessions = "uid \<rightharpoonup> nat"

definition has_session_for_uid :: "uid \<Rightarrow> sessions \<Rightarrow> bool" where
  "has_session_for_uid u s \<longleftrightarrow> s u \<noteq> None"

definition add_session_for_uid :: "uid \<Rightarrow> nat option \<Rightarrow> (sessions \<times> 'w, unit) act" where
  "add_session_for_uid u session = (case session of
       None \<Rightarrow> throwE (logic_error ''Cannot add null session to registry.'')
     | Some h \<Rightarrow> modifyE (\<lambda>(s, w). (s(u \<mapsto> h), w)))"

definition remove_session_for_uid :: "uid \<Rightarrow> (sessions \<times> 'w, unit) act" where
  "remove_session_for_uid u = modifyE (\<lambda>(s, w). (s(u := None), w))"

definition resolve_session_for_uid :: "uid \<Rightarrow> (sessions \<times> 'w, nat) act" where
  "resolve_session_for_uid u = (\<lambda>(s, w). case s u of
       None \<Rightarrow> (Inl out_of_range, (s, w))
     | Some h \<Rightarrow> (Inr h, (s, w)))"

subsection \<open>Stub\<close>

definition handle_error_from_socket_operation_for_uid :: "int \<Rightarrow> uid \<Rightarrow> (sessions \<times> 'w, unit) act" where
  "handle_error_from_socket_operation_for_uid ec u =
     bindE (if ec \<in> {access_denied, broken_pipe, connection_aborted, connection_refused, connection_reset}
            then remove_session_for_uid u else returnE ()) (\<lambda>_.
     throwE (system_error ec))"

definition write_request :: "'w posix_system \<Rightarrow> nat \<Rightarrow> posix_request \<Rightarrow> (sessions \<times> 'w, int option) act" where
  "write_request sys h request = (\<lambda>(s, w). case ps_write sys h request w of (ec, w') \<Rightarrow> (Inr ec, (s, w')))"

text \<open>The buffer holds \<^verbatim>\<open>denied\<close> before the read.\<close>

definition read_answer :: "'w posix_system \<Rightarrow> nat \<Rightarrow> (sessions \<times> 'w, int option \<times> answer) act" where
  "read_answer sys h = (\<lambda>(s, w). case ps_read sys h w of
       ((None, a), w') \<Rightarrow> (Inr (None, a), (s, w'))
     | ((Some ec, _), w') \<Rightarrow> (Inr (Some ec, denied), (s, w')))"

definition Stub_send :: "'w posix_system \<Rightarrow> agent_params \<Rightarrow> (sessions \<times> 'w, answer) act" where
  "Stub_send sys parameters =
     bindE (in_world (ps_start_time sys (app_pid parameters))) (\<lambda>start_time_before_query.
     bindE (resolve_session_for_uid (app_uid parameters)) (\<lambda>session.
     bindE (write_request sys session
       \<lparr>pr_app_uid = app_uid parameters, pr_app_pid = app_pid parameters, pr_feature = app_feature parameters,
        pr_app_start_time = start_time_before_query\<rparr>) (\<lambda>ec.
     bindE (case ec of None \<Rightarrow> returnE ()
            | Some e \<Rightarrow> handle_error_from_socket_operation_for_uid e (app_uid parameters)) (\<lambda>_.
     bindE (read_answer sys session) (\<lambda>(ec, answer).
     bindE (case ec of None \<Rightarrow> returnE ()
            | Some e \<Rightarrow> handle_error_from_socket_operation_for_uid e (app_uid parameters)) (\<lambda>_.
     bindE (in_world (ps_start_time sys (app_pid parameters))) (\<lambda>start_time_after_query.
     bindE (throw_if (start_time_before_query \<noteq> start_time_after_query)
       (runtime_error (''Detected a spoofing attempt, process start times before'' @
          ''and after authentication do not match.''))) (\<lambda>_.
     returnE answer))))))))"

text \<open>A completed accept; the result says whether the stub waits for the next connection.\<close>

definition on_new_session :: "'w posix_system \<Rightarrow> int option \<Rightarrow> nat \<Rightarrow> (sessions \<times> 'w, bool) act" where
  "on_new_session sys ec session =
     (if ec = Some operation_aborted then returnE False
      else if ec \<noteq> None then returnE True
      else bindE (in_world (ps_peer_credentials sys session)) (\<lambda>pc.
           bindE (add_session_for_uid (fst pc) (Some session)) (\<lambda>_. returnE True)))"

subsection \<open>Skeleton\<close>

record 'w posix_skeleton =
  sk_impl :: "'w agent"
  sk_start_time :: "pid \<Rightarrow> ('w, int64) act"
  sk_app_id :: "pid \<Rightarrow> ('w, string) act"
  sk_description_pattern :: string
  sk_verify_process_start_time :: bool

text \<open>\<^verbatim>\<open>remote::Agent::Skeleton\<close> hands the request to its implementation.\<close>

definition Skeleton_authenticate :: "'w posix_skeleton \<Rightarrow> 'w agent" where
  "Skeleton_authenticate sk parameters = sk_impl sk parameters"

definition process_incoming_request :: "'w posix_skeleton \<Rightarrow> posix_request \<Rightarrow> ('w, answer) act" where
  "process_incoming_request sk request =
     bindE (if sk_verify_process_start_time sk
       then bindE (sk_start_time sk (pr_app_pid request)) (\<lambda>t.
            throw_if (t \<noteq> pr_app_start_time request)
              (runtime_error ''Potential spoofing detected on incoming request.''))
       else returnE ()) (\<lambda>_.
     bindE (sk_app_id sk (pr_app_pid request)) (\<lambda>app.
     Skeleton_authenticate sk
       \<lparr>app_uid = pr_app_uid request, app_pid = pr_app_pid request, app_id = app,
        app_feature = pr_feature request, app_description = sk_description_pattern sk\<rparr>))"

text \<open>The size of the request struct: two 32-bit and two 64-bit fields.\<close>

definition sizeof_request :: nat where "sizeof_request = 24"

text \<open>A completed read; the result says whether another read was started.\<close>

definition on_read_finished ::
  "'w posix_skeleton \<Rightarrow> (answer \<Rightarrow> ('w, unit) act) \<Rightarrow> int option \<Rightarrow> nat \<Rightarrow> posix_request \<Rightarrow> ('w, bool) act"
where
  "on_read_finished sk write_back ec bytes request =
     (if ec = Some operation_aborted then returnE False
      else if ec \<noteq> None then returnE True
      else if bytes \<noteq> sizeof_request then returnE False
      else bindE (process_incoming_request sk request) (\<lambda>answer.
           bindE (write_back answer) (\<lambda>_. returnE True)))"

section \<open>The stub\<close>

text \<open>The errors that mean that the peer has gone away.\<close>

lemma handle_error_outcome:
  "handle_error_from_socket_operation_for_uid ec u (s, w) =
     (Inl (system_error ec),
      ((if ec \<in> {access_denied, broken_pipe, connection_aborted, connection_refused, connection_reset}
        then s(u := None) else s), w))"
  by (simp add: handle_error_from_socket_operation_for_uid_def bindE_apply remove_session_for_uid_def)

definition sessions_after :: "int \<Rightarrow> uid \<Rightarrow> sessions \<Rightarrow> sessions" where
  "sessions_after ec u s =
     (if ec \<in> {access_denied, broken_pipe, connection_aborted, connection_refused, connection_reset}
      then s(u := None) else s)"

lemma Stub_send_cases:
  "Stub_send sys p (s, w) = (case ps_start_time sys (app_pid p) w of
       (Inl e, w1) \<Rightarrow> (Inl e, (s, w1))
     | (Inr t, w1) \<Rightarrow> (case s (app_uid p) of
         None \<Rightarrow> (Inl out_of_range, (s, w1))
       | Some h \<Rightarrow> (case ps_write sys h \<lparr>pr_app_uid = app_uid p, pr_app_pid = app_pid p,
             pr_feature = app_feature p, pr_app_start_time = t\<rparr> w1 of
           (Some ec, w2) \<Rightarrow> (Inl (system_error ec), (sessions_after ec (app_uid p) s, w2))
         | (None, w2) \<Rightarrow> (case ps_read sys h w2 of
             ((Some ec, _), w3) \<Rightarrow> (Inl (system_error ec), (sessions_after ec (app_uid p) s, w3))
           | ((None, a), w3) \<Rightarrow> (case ps_start_time sys (app_pid p) w3 of
               (Inl e, w4) \<Rightarrow> (Inl e, (s, w4))
             | (Inr t', w4) \<Rightarrow> (if t \<noteq> t' then Inl (runtime_error (''Detected a spoofing attempt, process start times before'' @
                    ''and after authentication do not match.'')) else Inr a, (s, w4)))))))"
  by (simp add: Stub_send_def bindE_apply resolve_session_for_uid_def write_request_def read_answer_def
      handle_error_outcome sessions_after_def split: option.split prod.split sum.split)

text \<open>
  C24. The stub never makes up an answer. It returns one only when the start time of the process
  could be read before and after and is the same, there is a session for the request's user, the
  request was written to that session completely and the answer was read from it completely; then it
  returns what was read. In every other case it throws.
\<close>

theorem stub_answer_is_the_session_answer:
  assumes "Stub_send sys p (s, w) = (Inr a, (s', w'))"
  shows "\<exists>h t w1 w2 w3. s (app_uid p) = Some h \<and>
     ps_start_time sys (app_pid p) w = (Inr t, w1) \<and>
     ps_write sys h \<lparr>pr_app_uid = app_uid p, pr_app_pid = app_pid p, pr_feature = app_feature p,
       pr_app_start_time = t\<rparr> w1 = (None, w2) \<and>
     ps_read sys h w2 = ((None, a), w3) \<and>
     ps_start_time sys (app_pid p) w3 = (Inr t, w') \<and> s' = s"
  using assms by (auto simp: Stub_send_cases split: option.splits prod.splits sum.splits if_splits)

theorem stub_answer_is_the_session_answer_witness:
  "fst (Stub_send \<lparr>ps_start_time = (\<lambda>_. returnE 7), ps_write = (\<lambda>_ _ w. (None, w)),
      ps_read = (\<lambda>_ w. ((None, granted), w)), ps_peer_credentials = (\<lambda>_. throwE other_exception)\<rparr>
      \<lparr>app_uid = Uid 1000, app_pid = Pid 1, app_id = ''app'', app_feature = Feature 0, app_description = ''d''\<rparr>
      ([Uid 1000 \<mapsto> 4], ())) = Inr granted \<and> [Uid 1000 \<mapsto> (4 :: nat)] (Uid 1000) = Some 4"
proof -
  let ?sys = "\<lparr>ps_start_time = (\<lambda>_. returnE 7), ps_write = (\<lambda>_ _ w. (None, w)),
      ps_read = (\<lambda>_ w. ((None, granted), w)), ps_peer_credentials = (\<lambda>_. throwE other_exception)\<rparr> :: unit posix_system"
  let ?p = "\<lparr>app_uid = Uid 1000, app_pid = Pid 1, app_id = ''app'', app_feature = Feature 0, app_description = ''d''\<rparr>"
  have send: "Stub_send ?sys ?p ([Uid 1000 \<mapsto> 4], ()) = (Inr granted, ([Uid 1000 \<mapsto> 4], ()))"
    by (simp add: Stub_send_cases)
  from stub_answer_is_the_session_answer [OF send] show ?thesis by (simp add: send)
qed

text \<open>The error of the socket in a send, if there is one: of the write of the request, or else of the read of the answer.\<close>

definition socket_error :: "'w posix_system \<Rightarrow> agent_params \<Rightarrow> sessions \<Rightarrow> 'w \<Rightarrow> int option" where
  "socket_error sys p s w = (case ps_start_time sys (app_pid p) w of
       (Inl e, w1) \<Rightarrow> None
     | (Inr t, w1) \<Rightarrow> (case s (app_uid p) of
         None \<Rightarrow> None
       | Some h \<Rightarrow> (case ps_write sys h \<lparr>pr_app_uid = app_uid p, pr_app_pid = app_pid p,
             pr_feature = app_feature p, pr_app_start_time = t\<rparr> w1 of
           (Some ec, w2) \<Rightarrow> Some ec
         | (None, w2) \<Rightarrow> fst (fst (ps_read sys h w2)))))"

definition peer_gone :: "int set" where
  "peer_gone = {access_denied, broken_pipe, connection_aborted, connection_refused, connection_reset}"

lemma eof_not_gone: "end_of_file \<notin> peer_gone"
  by (simp add: peer_gone_def access_denied_def broken_pipe_def connection_aborted_def connection_refused_def
      connection_reset_def end_of_file_def)

lemma send_socket_cases:
  assumes "Stub_send sys p (s, w) = (x, (s', w'))"
  shows "s' = (case socket_error sys p s w of Some ec \<Rightarrow> if ec \<in> peer_gone then s(app_uid p := None) else s | None \<Rightarrow> s) \<and>
    (socket_error sys p s w = Some ec \<longrightarrow> x = Inl (system_error ec))"
proof -
  note defs = Stub_send_cases socket_error_def sessions_after_def peer_gone_def [symmetric]
  obtain r w1 where r: "ps_start_time sys (app_pid p) w = (r, w1)" by (metis surj_pair)
  show ?thesis
  proof (cases "\<exists>t h. r = Inr t \<and> s (app_uid p) = Some h")
    case False
    then show ?thesis using assms r by (auto simp: defs split: sum.splits option.splits)
  next
    case True
    then obtain t h where t: "r = Inr t" "s (app_uid p) = Some h" by blast
    let ?r = "\<lparr>pr_app_uid = app_uid p, pr_app_pid = app_pid p, pr_feature = app_feature p, pr_app_start_time = t\<rparr>"
    obtain y w2 where y: "ps_write sys h ?r w1 = (y, w2)" by (metis surj_pair)
    obtain z a w3 where z: "ps_read sys h w2 = ((z, a), w3)" by (metis surj_pair)
    obtain r' w4 where r': "ps_start_time sys (app_pid p) w3 = (r', w4)" by (metis surj_pair)
    show ?thesis using assms [symmetric] r r'
      by (cases y; cases z; cases r') (simp_all add: defs t y z split: if_splits)
  qed
qed

text \<open>
  C26. What a send leaves of the sessions. The user's session is dropped exactly when the write or the read failed
  with an error that says that the peer is gone; in every other case, and for every other user, the sessions stay as they are. An error of the socket
  is thrown as it is, and a user without a session gets \<^verbatim>\<open>out_of_range\<close>.
  The end of the stream is not among the errors, so the session of a peer that has closed its end is kept and
  the user's next request fails on it again.
\<close>

theorem failed_send_keeps_or_drops_session:
  assumes "Stub_send sys p (s, w) = (x, (s', w'))"
  shows "s' = (case socket_error sys p s w of
       Some ec \<Rightarrow> if ec \<in> peer_gone then s(app_uid p := None) else s
     | None \<Rightarrow> s) \<and>
    (socket_error sys p s w = Some ec \<longrightarrow> x = Inl (system_error ec)) \<and>
    (s (app_uid p) = None \<and> ps_start_time sys (app_pid p) w = (Inr t, w1) \<longrightarrow> x = Inl out_of_range) \<and>
    (socket_error sys p s w = Some end_of_file \<longrightarrow> s' = s)"
proof -
  have "s' = (case socket_error sys p s w of Some ec \<Rightarrow> if ec \<in> peer_gone then s(app_uid p := None) else s | None \<Rightarrow> s) \<and>
      (socket_error sys p s w = Some ec \<longrightarrow> x = Inl (system_error ec))"
    using assms by (rule send_socket_cases)
  moreover have "s (app_uid p) = None \<and> ps_start_time sys (app_pid p) w = (Inr t, w1) \<longrightarrow> x = Inl out_of_range"
    using assms by (auto simp: Stub_send_cases)
  ultimately show ?thesis by (simp add: eof_not_gone)
qed

definition demo_failing_system :: "int \<Rightarrow> unit posix_system" where
  "demo_failing_system ec = \<lparr>ps_start_time = (\<lambda>_. returnE 7), ps_write = (\<lambda>_ _ w. (None, w)),
     ps_read = (\<lambda>_ w. ((Some ec, granted), w)), ps_peer_credentials = (\<lambda>_. throwE other_exception)\<rparr>"

theorem failed_send_keeps_or_drops_session_witness:
  "\<exists>p. Stub_send (demo_failing_system end_of_file) p ([Uid 1000 \<mapsto> 4], ()) = (Inl (system_error end_of_file), ([Uid 1000 \<mapsto> 4], ())) \<and>
     Stub_send (demo_failing_system broken_pipe) p ([Uid 1000 \<mapsto> 4], ()) = (Inl (system_error broken_pipe), (Map.empty, ()))"
proof (intro exI conjI)
  let ?p = "\<lparr>app_uid = Uid 1000, app_pid = Pid 1, app_id = ''app'', app_feature = Feature 0, app_description = ''d''\<rparr>"
  let ?s = "[Uid 1000 \<mapsto> 4] :: sessions"
  have e: "socket_error (demo_failing_system ec) ?p ?s () = Some ec" for ec
    by (simp add: socket_error_def demo_failing_system_def)
  obtain x s' w' where send: "Stub_send (demo_failing_system end_of_file) ?p (?s, ()) = (x, (s', w'))" by (metis surj_pair)
  from failed_send_keeps_or_drops_session [OF send, where ec = end_of_file]
  show "Stub_send (demo_failing_system end_of_file) ?p (?s, ()) = (Inl (system_error end_of_file), (?s, ()))" by (simp add: send e eof_not_gone)
  obtain x s' w' where send: "Stub_send (demo_failing_system broken_pipe) ?p (?s, ()) = (x, (s', w'))" by (metis surj_pair)
  from failed_send_keeps_or_drops_session [OF send, where ec = broken_pipe]
  show "Stub_send (demo_failing_system broken_pipe) ?p (?s, ()) = (Inl (system_error broken_pipe), (Map.empty, ()))"
    by (simp add: send e peer_gone_def)
qed

section \<open>The skeleton\<close>

lemma process_incoming_request_cases:
  "process_incoming_request sk r w =
     (case (if sk_verify_process_start_time sk then sk_start_time sk (pr_app_pid r) w else (Inr (pr_app_start_time r), w)) of
       (Inl e, w1) \<Rightarrow> (Inl e, w1)
     | (Inr t, w1) \<Rightarrow>
         if t \<noteq> pr_app_start_time r then (Inl (runtime_error ''Potential spoofing detected on incoming request.''), w1)
         else (case sk_app_id sk (pr_app_pid r) w1 of
             (Inl e, w2) \<Rightarrow> (Inl e, w2)
           | (Inr app, w2) \<Rightarrow> sk_impl sk \<lparr>app_uid = pr_app_uid r, app_pid = pr_app_pid r, app_id = app,
               app_feature = pr_feature r, app_description = sk_description_pattern sk\<rparr> w2))"
  by (simp add: process_incoming_request_def bindE_apply Skeleton_authenticate_def split: prod.split sum.split)

text \<open>
  The skeleton reads again after every answer it has sent, after every error of the read but an
  abort, and in no other case. An exception of the validation or of the agent propagates with nothing written
  and no further read started, so one request that cannot be answered ends the service of the connection.
\<close>

theorem skeleton_continues_iff_answered:
  "(\<exists>w'. on_read_finished sk write_back ec n r w = (Inr True, w')) \<longleftrightarrow>
     (ec \<noteq> None \<and> ec \<noteq> Some operation_aborted) \<or>
     (ec = None \<and> n = sizeof_request \<and>
        (\<exists>a w1 w2. process_incoming_request sk r w = (Inr a, w1) \<and> write_back a w1 = (Inr (), w2)))"
  by (auto simp: on_read_finished_def bindE_returns_iff)

section \<open>Both ends together\<close>

text \<open>
  The connection between a stub and a skeleton: with no request on its way, a request written to the
  session \<open>h\<close> is processed by the skeleton at its other end, whose answer is the next thing the stub reads; a request that
  the skeleton does not answer leaves nothing to read. \<open>idle\<close> adds an
  idle connection to the world of the skeleton's side; process start times are seen alike at both ends. Nothing is
  said of other sessions.
\<close>

locale posix_link =
  fixes sys :: "'v posix_system" and sk :: "'w posix_skeleton" and h :: nat and idle :: "'w \<Rightarrow> 'v"
  assumes link_answers: "process_incoming_request sk r w = (Inr a, w') \<Longrightarrow>
      \<exists>v. ps_write sys h r (idle w) = (None, v) \<and> ps_read sys h v = ((None, a), idle w')"
    and link_refuses: "process_incoming_request sk r w = (Inl e, w') \<Longrightarrow> ps_write sys h r (idle w) = (None, v) \<Longrightarrow>
      fst (fst (ps_read sys h v)) \<noteq> None"
    and link_start_time: "ps_start_time sys p (idle w) = (case sk_start_time sk p w of (x, w') \<Rightarrow> (x, idle w'))"
begin

lemma send_reaches_agent:
  assumes session: "s (app_uid p) = Some h"
    and start: "\<And>w. sk_start_time sk (app_pid p) w = (Inr t, w)"
    and app: "sk_app_id sk (app_pid p) w = (Inr i, w1)"
    and agent: "sk_impl sk (p\<lparr>app_id := i, app_description := sk_description_pattern sk\<rparr>) w1 = (Inr a, w2)"
  shows "Stub_send sys p (s, idle w) = (Inr a, (s, idle w2))"
proof -
  let ?r = "\<lparr>pr_app_uid = app_uid p, pr_app_pid = app_pid p, pr_feature = app_feature p, pr_app_start_time = t\<rparr>"
  have eq: "\<lparr>app_uid = app_uid p, app_pid = app_pid p, app_id = i, app_feature = app_feature p,
      app_description = sk_description_pattern sk\<rparr> = p\<lparr>app_id := i, app_description := sk_description_pattern sk\<rparr>"
    by simp
  have "process_incoming_request sk ?r w = (Inr a, w2)"
    by (simp add: process_incoming_request_cases start app eq agent)
  from link_answers [OF this] obtain v where
    "ps_write sys h ?r (idle w) = (None, v)" "ps_read sys h v = ((None, a), idle w2)" by blast
  then show ?thesis by (simp add: Stub_send_cases session link_start_time start)
qed

lemma answer_comes_from_agent:
  assumes session: "s (app_uid p) = Some h"
    and start: "\<And>w. sk_start_time sk (app_pid p) w = (Inr t, w)"
    and app: "sk_app_id sk (app_pid p) w = (Inr i, w1)"
    and sent: "Stub_send sys p (s, idle w) = (Inr a, after)"
  shows "\<exists>w2. sk_impl sk (p\<lparr>app_id := i, app_description := sk_description_pattern sk\<rparr>) w1 = (Inr a, w2) \<and> after = (s, idle w2)"
proof -
  obtain r w2 where r: "sk_impl sk (p\<lparr>app_id := i, app_description := sk_description_pattern sk\<rparr>) w1 = (r, w2)" by force
  show ?thesis
  proof (cases r)
    case (Inl e)
    let ?r = "\<lparr>pr_app_uid = app_uid p, pr_app_pid = app_pid p, pr_feature = app_feature p, pr_app_start_time = t\<rparr>"
    have eq: "\<lparr>app_uid = app_uid p, app_pid = app_pid p, app_id = i, app_feature = app_feature p,
        app_description = sk_description_pattern sk\<rparr> = p\<lparr>app_id := i, app_description := sk_description_pattern sk\<rparr>" by simp
    have "process_incoming_request sk ?r w = (Inl e, w2)"
      by (simp add: process_incoming_request_cases start app eq r Inl)
    moreover obtain v where "ps_write sys h ?r (idle w) = (None, v)" "fst (fst (ps_read sys h v)) = None"
      using sent by (auto simp: Stub_send_cases session link_start_time start split: option.splits prod.splits)
    ultimately show ?thesis using link_refuses by blast
  next
    case (Inr b)
    with send_reaches_agent [where s = s and p = p and t = t and w = w and i = i and ?w1.0 = w1 and a = b and ?w2.0 = w2, OF session start app] r sent
    show ?thesis by simp
  qed
qed

end

text \<open>
  An instance that shows that this can hold, a connection in memory with the one session \<open>h0\<close>: the request written last
  waits in front of the world; reading runs the
  skeleton's completion handler on it, which stores its answer; a skeleton that throws leaves the peer closed.
\<close>

definition loopback_read :: "'w posix_skeleton \<Rightarrow> posix_request option \<times> 'w \<Rightarrow> (int option \<times> answer) \<times> (posix_request option \<times> 'w)" where
  "loopback_read sk = (\<lambda>(pending, w). case pending of
       None \<Rightarrow> ((Some end_of_file, denied), (None, w))
     | Some r \<Rightarrow> (case on_read_finished
           \<lparr>sk_impl = (\<lambda>p (x, w). case sk_impl sk p w of (y, w') \<Rightarrow> (y, (x, w'))),
            sk_start_time = (\<lambda>p (x, w). case sk_start_time sk p w of (y, w') \<Rightarrow> (y, (x, w'))),
            sk_app_id = (\<lambda>p (x, w). case sk_app_id sk p w of (y, w') \<Rightarrow> (y, (x, w'))),
            sk_description_pattern = sk_description_pattern sk,
            sk_verify_process_start_time = sk_verify_process_start_time sk\<rparr>
           (\<lambda>a. modifyE (\<lambda>(_, w). (Some a, w))) None sizeof_request r (None, w) of
         (Inr True, (Some a, w')) \<Rightarrow> ((None, a), (None, w'))
       | (_, (_, w')) \<Rightarrow> ((Some end_of_file, denied), (None, w'))))"

definition loopback :: "nat \<Rightarrow> 'w posix_skeleton \<Rightarrow> (posix_request option \<times> 'w) posix_system" where
  "loopback h0 sk = \<lparr>ps_start_time = (\<lambda>p (x, w). case sk_start_time sk p w of (y, w') \<Rightarrow> (y, (x, w'))),
     ps_write = (\<lambda>h r (x, w). if h = h0 then (None, (Some r, w)) else (Some broken_pipe, (x, w))),
     ps_read = (\<lambda>h w. if h = h0 then loopback_read sk w else ((Some broken_pipe, denied), w)),
     ps_peer_credentials = (\<lambda>_. throwE other_exception)\<rparr>"

interpretation loop: posix_link "loopback h sk" sk h "Pair None"
proof unfold_locales
  fix r w a w'
  assume "process_incoming_request sk r w = (Inr a, w')"
  then show "\<exists>v. ps_write (loopback h sk) h r (None, w) = (None, v) \<and> ps_read (loopback h sk) h v = ((None, a), (None, w'))"
    by (auto simp: loopback_def loopback_read_def on_read_finished_def bindE_apply process_incoming_request_cases
        split: prod.splits sum.splits if_splits)
next
  fix r w e w' v
  assume "process_incoming_request sk r w = (Inl e, w')" and "ps_write (loopback h sk) h r (None, w) = (None, v)"
  then show "fst (fst (ps_read (loopback h sk) h v)) \<noteq> None"
    by (auto simp: loopback_def loopback_read_def on_read_finished_def bindE_apply process_incoming_request_cases
        split: prod.splits sum.splits if_splits)
qed (simp add: loopback_def split: prod.split)

text \<open>
  A request sent by the stub to a connected skeleton comes back with the answer of the skeleton's local
  agent, which sees the request's user, process and feature, the application id that the skeleton
  resolves from the process (not the one the helper sent), and the skeleton's description pattern.
\<close>

theorem stub_and_skeleton_reach_local_agent:
  assumes "s (app_uid p) = Some h"
    and "\<And>w. sk_start_time sk (app_pid p) w = (Inr t, w)"
    and "sk_app_id sk (app_pid p) w = (Inr i, w1)"
    and "sk_impl sk (p\<lparr>app_id := i, app_description := sk_description_pattern sk\<rparr>) w1 = (Inr a, w2)"
  shows "Stub_send (loopback h sk) p (s, (None, w)) = (Inr a, (s, (None, w2)))"
  using assms by (rule loop.send_reaches_agent)

theorem stub_and_skeleton_reach_local_agent_witness:
  "Stub_send (loopback 4 \<lparr>sk_impl = (\<lambda>p. returnE (if app_id p = ''app'' then granted else denied)),
      sk_start_time = (\<lambda>_. returnE 7), sk_app_id = (\<lambda>_. returnE ''app''),
      sk_description_pattern = ''d'', sk_verify_process_start_time = True\<rparr>)
      \<lparr>app_uid = Uid 1000, app_pid = Pid 1, app_id = ''forged'', app_feature = Feature 0, app_description = ''e''\<rparr>
      ([Uid 1000 \<mapsto> 4], (None, ())) = (Inr granted, ([Uid 1000 \<mapsto> 4], (None, ())))"
  by (rule stub_and_skeleton_reach_local_agent) simp_all

end
