(* ===== verification/Remote_Posix_Threads.thy ===== *)
theory Remote_Posix_Threads
  imports Remote_Posix
begin

text \<open>
  Several threads of the trusted helper in \<^verbatim>\<open>Stub::send\<close> for the same user at once
  (\<^verbatim>\<open>remote/posix.cpp\<close>). They share the session's socket, on which \<^verbatim>\<open>send\<close> first writes its
  request and then reads an answer; the skeleton answers in the order of arrival. The mutex
  \<^verbatim>\<open>Session::lock\<close> (``We have to synchronize requests per session'') is declared in
  \<^verbatim>\<open>posix.h\<close> but taken nowhere, so the operations of different threads interleave freely.

  The threads are numbered; thread \<open>i\<close> sends \<open>req i\<close>, with the start time that it reads for the process. The skeleton's answer to a request is
  \<open>answer_of\<close>; when it throws, nothing reads from the connection any more. The state is that of one session: its socket, and whether the
  registry still knows it.

  A write puts its 24 bytes on the socket at once or fails and puts none, and a read takes the 4 bytes of an answer at once or fails and
  takes none. The start times, and the errors of the resolver and of the socket, are whatever the system gives.
\<close>

section \<open>Step relation\<close>

text \<open>How far a thread is in \<^verbatim>\<open>send\<close>, with the local variables that are live: the start time read first, the answer.\<close>

datatype send_phase =
    Called
  | Started int64
  | Resolved int64
  | is_Written: Written int64
  | Answered_at int64 answer
  | Returned answer
  | Threw exn

record link_state =
  on_wire :: "posix_request list"
  wire_answers :: "answer list"
  serving :: bool
  session_known :: bool
  thread_phase :: "nat \<Rightarrow> send_phase"
  writers :: "(nat \<times> posix_request) list"
  readers :: "(nat \<times> answer) list"
  failed_reads :: "nat list"

definition link_idle :: link_state where
  "link_idle = \<lparr>on_wire = [], wire_answers = [], serving = True, session_known = True, thread_phase = (\<lambda>_. Called),
     writers = [], readers = [], failed_reads = []\<rparr>"

definition thread_moves :: "nat \<Rightarrow> send_phase \<Rightarrow> link_state \<Rightarrow> link_state" where
  "thread_moves i ph st = st\<lparr>thread_phase := (thread_phase st)(i := ph)\<rparr>"

text \<open>The start time before the query, as the resolver gives it or throws.\<close>

definition thread_starts :: "nat \<Rightarrow> exn + int64 \<Rightarrow> link_state \<Rightarrow> link_state" where
  "thread_starts i r = thread_moves i (case r of Inl e \<Rightarrow> Threw e | Inr t \<Rightarrow> Started t)"

definition thread_resolves :: "nat \<Rightarrow> int64 \<Rightarrow> link_state \<Rightarrow> link_state" where
  "thread_resolves i t st = thread_moves i (if session_known st then Resolved t else Threw out_of_range) st"

definition thread_writes :: "(nat \<Rightarrow> posix_request) \<Rightarrow> nat \<Rightarrow> int64 \<Rightarrow> link_state \<Rightarrow> link_state" where
  "thread_writes req i t st = (let r = (req i)\<lparr>pr_app_start_time := t\<rparr> in
     thread_moves i (Written t) (st\<lparr>on_wire := on_wire st @ [r], writers := writers st @ [(i, r)]\<rparr>))"

definition thread_reads :: "nat \<Rightarrow> int64 \<Rightarrow> link_state \<Rightarrow> link_state" where
  "thread_reads i t st = thread_moves i (Answered_at t (hd (wire_answers st)))
     (st\<lparr>wire_answers := tl (wire_answers st), readers := readers st @ [(i, hd (wire_answers st))]\<rparr>)"

text \<open>The handler for an error of the socket: it may drop the session, and throws.\<close>

definition thread_socket_fails :: "nat \<Rightarrow> int \<Rightarrow> link_state \<Rightarrow> link_state" where
  "thread_socket_fails i ec st = thread_moves i (Threw (system_error ec))
     (st\<lparr>session_known := (session_known st \<and> ec \<notin> peer_gone)\<rparr>)"

definition thread_read_fails :: "nat \<Rightarrow> int \<Rightarrow> link_state \<Rightarrow> link_state" where
  "thread_read_fails i ec st = thread_socket_fails i ec (st\<lparr>failed_reads := failed_reads st @ [i]\<rparr>)"

text \<open>The start time after the query, and its comparison with the one before.\<close>

definition thread_ends :: "nat \<Rightarrow> int64 \<Rightarrow> answer \<Rightarrow> exn + int64 \<Rightarrow> link_state \<Rightarrow> link_state" where
  "thread_ends i t a r = thread_moves i (case r of
       Inl e \<Rightarrow> Threw e
     | Inr t' \<Rightarrow> if t \<noteq> t' then Threw (runtime_error (''Detected a spoofing attempt, process start times before'' @
          ''and after authentication do not match.'')) else Returned a)"

definition skeleton_answers :: "(posix_request \<Rightarrow> answer) \<Rightarrow> link_state \<Rightarrow> link_state" where
  "skeleton_answers answer_of st =
     st\<lparr>on_wire := tl (on_wire st), wire_answers := wire_answers st @ [answer_of (hd (on_wire st))]\<rparr>"

definition skeleton_stops :: "link_state \<Rightarrow> link_state" where
  "skeleton_stops st = st\<lparr>serving := False\<rparr>"

text \<open>
  With \<open>locked\<close> a thread writes only when no other thread is between its write and its read, which is what
  taking the session's mutex around the two operations gives; the code as it is has \<open>locked = False\<close>.
\<close>

inductive link_step ::
  "bool \<Rightarrow> (posix_request \<Rightarrow> answer) \<Rightarrow> (nat \<Rightarrow> posix_request) \<Rightarrow> link_state \<Rightarrow> link_state \<Rightarrow> bool"
  for locked answer_of req
where
  thread_start: "thread_phase st i = Called \<Longrightarrow> link_step locked answer_of req st (thread_starts i r st)"
| thread_resolve: "thread_phase st i = Started t \<Longrightarrow> link_step locked answer_of req st (thread_resolves i t st)"
| thread_write: "thread_phase st i = Resolved t \<Longrightarrow> (locked \<Longrightarrow> \<forall>j. \<not> is_Written (thread_phase st j)) \<Longrightarrow>
            link_step locked answer_of req st (thread_writes req i t st)"
| thread_write_error: "thread_phase st i = Resolved t \<Longrightarrow> link_step locked answer_of req st (thread_socket_fails i ec st)"
| skeleton_serve: "on_wire st \<noteq> [] \<Longrightarrow> serving st \<Longrightarrow> link_step locked answer_of req st (skeleton_answers answer_of st)"
| skeleton_throw: "on_wire st \<noteq> [] \<Longrightarrow> link_step locked answer_of req st (skeleton_stops st)"
| thread_read: "thread_phase st i = Written t \<Longrightarrow> wire_answers st \<noteq> [] \<Longrightarrow>
            link_step locked answer_of req st (thread_reads i t st)"
| thread_read_error: "thread_phase st i = Written t \<Longrightarrow> link_step locked answer_of req st (thread_read_fails i ec st)"
| thread_end: "thread_phase st i = Answered_at t a \<Longrightarrow> link_step locked answer_of req st (thread_ends i t a r st)"

inductive link_reachable ::
  "bool \<Rightarrow> (posix_request \<Rightarrow> answer) \<Rightarrow> (nat \<Rightarrow> posix_request) \<Rightarrow> link_state \<Rightarrow> bool"
  for locked answer_of req
where
  start: "link_reachable locked answer_of req link_idle"
| step: "link_reachable locked answer_of req st \<Longrightarrow> link_step locked answer_of req st st' \<Longrightarrow>
           link_reachable locked answer_of req st'"

inductive_cases link_stepE: "link_step locked answer_of req st st'"

lemmas link_updates = thread_moves_def thread_starts_def thread_resolves_def thread_writes_def thread_reads_def thread_socket_fails_def
  thread_read_fails_def thread_ends_def skeleton_answers_def skeleton_stops_def link_idle_def Let_def

section \<open>One send alone takes these steps\<close>

text \<open>
  On a connection that is at rest, \<^verbatim>\<open>Stub::send\<close> with nothing in between is a run of one thread, in each of its branches: the
  thread ends as the function does, and the session is known after it if it is in the registry.
\<close>

lemma send_is_steps:
  assumes run: "Stub_send sys p (s, w) = (x, (s', w'))"
    and st: "thread_phase st i = Called" "session_known st \<longleftrightarrow> s (app_uid p) \<noteq> None" "serving st" "on_wire st = []" "wire_answers st = []"
      "\<And>j. \<not> is_Written (thread_phase st j)"
    and req: "\<And>t. (req i)\<lparr>pr_app_start_time := t\<rparr> =
      \<lparr>pr_app_uid = app_uid p, pr_app_pid = app_pid p, pr_feature = app_feature p, pr_app_start_time = t\<rparr>"
    and ans: "\<And>t h v v2 a v3. ps_write sys h ((req i)\<lparr>pr_app_start_time := t\<rparr>) v = (None, v2) \<Longrightarrow>
      ps_read sys h v2 = ((None, a), v3) \<Longrightarrow> answer_of ((req i)\<lparr>pr_app_start_time := t\<rparr>) = a"
  shows "\<exists>st'. (link_step locked answer_of req)\<^sup>*\<^sup>* st st' \<and>
    thread_phase st' i = (case x of Inl e \<Rightarrow> Threw e | Inr a \<Rightarrow> Returned a) \<and>
    (session_known st' \<longleftrightarrow> s' (app_uid p) \<noteq> None)"
proof -
  let ?step = "link_step locked answer_of req"
  note trans = rtranclp.rtrancl_into_rtrancl
  obtain r w1 where r: "ps_start_time sys (app_pid p) w = (r, w1)" by (metis surj_pair)
  have 1: "?step\<^sup>*\<^sup>* st (thread_starts i r st)" using thread_start [OF st(1)] by blast
  show ?thesis
  proof (cases r)
    case (Inl e)
    then show ?thesis using run r 1 st(2) by (intro exI [of _ "thread_starts i r st"]) (auto simp: Stub_send_cases link_updates)
  next
    case (Inr t)
    let ?s2 = "thread_resolves i t (thread_starts i r st)" and ?r = "(req i)\<lparr>pr_app_start_time := t\<rparr>"
    have 2: "?step\<^sup>*\<^sup>* st ?s2" by (rule trans [OF 1 thread_resolve]) (simp add: Inr link_updates)
    show ?thesis
    proof (cases "s (app_uid p)")
      case None
      then show ?thesis using run r 2 st(2) by (intro exI [of _ ?s2]) (auto simp: Stub_send_cases link_updates Inr)
    next
      case (Some h)
      have ph: "thread_phase ?s2 i = Resolved t" using st(2) Some by (simp add: link_updates)
      obtain y w2 where y: "ps_write sys h ?r w1 = (y, w2)" by (metis surj_pair)
      note run' = run [unfolded Stub_send_cases r Inr, simplified, unfolded Some, simplified, folded req, unfolded y, simplified]
      show ?thesis
      proof (cases y)
        case (Some ec)
        have "?step\<^sup>*\<^sup>* st (thread_socket_fails i ec ?s2)" by (rule trans [OF 2 thread_write_error [OF ph]])
        then show ?thesis using run' Some \<open>s (app_uid p) = Some h\<close> st(2)
          by (intro exI [of _ "thread_socket_fails i ec ?s2"]) (auto simp: link_updates sessions_after_def peer_gone_def)
      next
        case None
        obtain z a w3 where z: "ps_read sys h w2 = ((z, a), w3)" by (metis surj_pair)
        let ?s3 = "thread_writes req i t ?s2"
        have 3: "?step\<^sup>*\<^sup>* st ?s3" by (rule trans [OF 2 thread_write [OF ph]]) (use st(6) in \<open>simp add: link_updates Inr\<close>)
        show ?thesis
        proof (cases z)
          case (Some ec)
          have "?step\<^sup>*\<^sup>* st (thread_read_fails i ec ?s3)" by (rule trans [OF 3 thread_read_error]) (simp add: link_updates)
          then show ?thesis using run' None z Some \<open>s (app_uid p) = Some h\<close> st(2)
            by (intro exI [of _ "thread_read_fails i ec ?s3"]) (auto simp: link_updates sessions_after_def peer_gone_def)
        next
          case None
          obtain r' w4 where r': "ps_start_time sys (app_pid p) w3 = (r', w4)" by (metis surj_pair)
          let ?s4 = "skeleton_answers answer_of ?s3"
          let ?s5 = "thread_reads i t ?s4"
          have a: "answer_of ?r = a" using ans [of h t w1 w2 a w3] y z \<open>y = None\<close> None by simp
          have 4: "?step\<^sup>*\<^sup>* st ?s4" by (rule trans [OF 3 skeleton_serve]) (use st(3) in \<open>simp_all add: link_updates\<close>)
          have 5: "?step\<^sup>*\<^sup>* st ?s5" by (rule trans [OF 4 thread_read]) (simp_all add: link_updates)
          have 6: "?step\<^sup>*\<^sup>* st (thread_ends i t a r' ?s5)"
            by (rule trans [OF 5 thread_end]) (use st(4,5) a in \<open>simp add: link_updates\<close>)
          then show ?thesis using run' \<open>y = None\<close> z None r' \<open>s (app_uid p) = Some h\<close> st(2)
            by (intro exI [of _ "thread_ends i t a r' ?s5"]) (auto simp: link_updates split: sum.splits if_splits)
        qed
      qed
    qed
  qed
qed

section \<open>Answers come back in the order of the requests\<close>

definition link_fifo :: "(posix_request \<Rightarrow> answer) \<Rightarrow> link_state \<Rightarrow> bool" where
  "link_fifo answer_of st \<longleftrightarrow>
     map snd (readers st) @ wire_answers st @ map answer_of (on_wire st) = map (\<lambda>(i, r). answer_of r) (writers st)"

lemma link_fifo_reachable: "link_reachable locked answer_of req st \<Longrightarrow> link_fifo answer_of st"
proof (induction rule: link_reachable.induct)
  case start
  show ?case by (simp add: link_fifo_def link_idle_def)
next
  case (step st st')
  from step.hyps(2) step.IH show ?case
  proof (cases rule: link_step.cases)
    case skeleton_serve
    with step.IH show ?thesis by (cases "on_wire st") (auto simp: link_fifo_def link_updates)
  next
    case (thread_read i t)
    with step.IH show ?thesis by (cases "wire_answers st") (auto simp: link_fifo_def link_updates)
  qed (auto simp: link_fifo_def link_updates)
qed

text \<open>Who has written and who has read, by the phase of the thread.\<close>

fun phase_ok :: "(posix_request list) \<Rightarrow> (answer list) \<Rightarrow> posix_request \<Rightarrow> send_phase \<Rightarrow> bool" where
  "phase_ok rs as r (Written t) \<longleftrightarrow> rs = [r\<lparr>pr_app_start_time := t\<rparr>] \<and> as = []"
| "phase_ok rs as r (Answered_at t a) \<longleftrightarrow> rs = [r\<lparr>pr_app_start_time := t\<rparr>] \<and> as = [a]"
| "phase_ok rs as r (Returned a) \<longleftrightarrow> (\<exists>t. rs = [r\<lparr>pr_app_start_time := t\<rparr>]) \<and> as = [a]"
| "phase_ok rs as r (Threw e) \<longleftrightarrow> (rs = [] \<and> as = []) \<or> (\<exists>t. rs = [r\<lparr>pr_app_start_time := t\<rparr>] \<and> length as \<le> 1)"
| "phase_ok rs as r _ \<longleftrightarrow> rs = [] \<and> as = []"

definition own :: "nat \<Rightarrow> (nat \<times> 'a) list \<Rightarrow> 'a list" where
  "own i xs = map snd (filter (\<lambda>x. fst x = i) xs)"

lemma own_simps [simp]:
  "own i [] = []" "own i (xs @ ys) = own i xs @ own i ys" "own i [(j, x)] = (if j = i then [x] else [])"
  by (simp_all add: own_def)

definition link_phases :: "(nat \<Rightarrow> posix_request) \<Rightarrow> link_state \<Rightarrow> bool" where
  "link_phases req st \<longleftrightarrow> (\<forall>i. phase_ok (own i (writers st)) (own i (readers st)) (req i) (thread_phase st i))"

lemma link_phases_reachable: "link_reachable locked answer_of req st \<Longrightarrow> link_phases req st"
proof (induction rule: link_reachable.induct)
  case start
  show ?case by (simp add: link_phases_def link_idle_def)
next
  case (step st st')
  have ok: "phase_ok (own i (writers st)) (own i (readers st)) (req i) (thread_phase st i)" for i
    using step.IH by (simp add: link_phases_def)
  from step.hyps(2) show ?case
  proof (cases rule: link_step.cases)
    case (thread_start i r)
    with ok [of i] ok show ?thesis by (cases r) (auto simp: link_phases_def link_updates)
  next
    case (thread_end i t a r)
    with ok [of i] ok show ?thesis by (cases r) (auto simp: link_phases_def link_updates)
  next
    case (thread_resolve i t)
    with ok [of i] ok show ?thesis by (auto simp: link_phases_def link_updates)
  next
    case (thread_write i t)
    with ok [of i] ok show ?thesis by (auto simp: link_phases_def link_updates)
  next
    case (thread_write_error i t ec)
    with ok [of i] ok show ?thesis by (auto simp: link_phases_def link_updates)
  next
    case (thread_read i t)
    with ok [of i] ok show ?thesis by (auto simp: link_phases_def link_updates)
  next
    case (thread_read_error i t ec)
    with ok [of i] ok show ?thesis by (auto simp: link_phases_def link_updates)
  qed (use ok in \<open>auto simp: link_phases_def link_updates\<close>)
qed

lemma own_member: "own i xs = [x] \<Longrightarrow> (i, x) \<in> set xs"
  by (force simp: own_def filter_eq_Cons_iff)

lemma own_nth: "k < length xs \<Longrightarrow> snd (xs ! k) \<in> set (own (fst (xs ! k)) xs)"
  by (force simp: own_def)

text \<open>
  With the lock, and as long as no read has failed, at most the last writer has not yet read, and the readers are the writers in their
  order.
\<close>

definition link_serial :: "link_state \<Rightarrow> bool" where
  "link_serial st \<longleftrightarrow> (failed_reads st = [] \<longrightarrow> (\<exists>is. length is \<le> 1 \<and>
     map fst (writers st) = map fst (readers st) @ is \<and> (\<forall>j. is_Written (thread_phase st j) \<longleftrightarrow> j \<in> set is)))"

lemma link_serial_keep:
  assumes "link_serial st" and "failed_reads st' = failed_reads st" and "writers st' = writers st" and "readers st' = readers st"
    and "\<And>j. is_Written (thread_phase st' j) = is_Written (thread_phase st j)"
  shows "link_serial st'"
  using assms by (simp add: link_serial_def)

lemma link_serial_reachable: "link_reachable True answer_of req st \<Longrightarrow> link_serial st"
proof (induction rule: link_reachable.induct)
  case start
  show ?case by (simp add: link_serial_def link_idle_def)
next
  case (step st st')
  from step.hyps(2) show ?case
  proof (cases rule: link_step.cases)
    case (thread_start i r)
    then show ?thesis by (intro link_serial_keep [OF step.IH]) (cases r; auto simp: link_updates)+
  next
    case (thread_end i t a r)
    then show ?thesis by (intro link_serial_keep [OF step.IH]) (cases r; auto simp: link_updates)+
  next
    case (thread_resolve i t)
    then show ?thesis by (intro link_serial_keep [OF step.IH]) (auto simp: link_updates)
  next
    case (thread_write_error i t ec)
    then show ?thesis by (intro link_serial_keep [OF step.IH]) (auto simp: link_updates)
  next
    case (thread_write i t)
    have "\<exists>is. length is \<le> 1 \<and> map fst (writers st) = map fst (readers st) @ is \<and> set is = {}" if "failed_reads st = []"
      using step.IH that thread_write(3) by (fastforce simp: link_serial_def)
    then show ?thesis using thread_write by (auto simp: link_serial_def link_updates intro!: exI [of _ "[i]"])
  next
    case (thread_read i t)
    have "map fst (writers st) = map fst (readers st) @ [i] \<and> (\<forall>j. is_Written (thread_phase st j) \<longleftrightarrow> j = i)" if "failed_reads st = []"
    proof -
      obtain js where js: "length js \<le> 1" "map fst (writers st) = map fst (readers st) @ js"
        "\<forall>j. is_Written (thread_phase st j) \<longleftrightarrow> j \<in> set js" using step.IH \<open>failed_reads st = []\<close> by (auto simp: link_serial_def)
      moreover have "is_Written (thread_phase st i)" using thread_read(2) by simp
      ultimately have "i \<in> set js" by blast
      with js show ?thesis by (cases js) auto
    qed
    then show ?thesis using thread_read(1) by (simp add: link_serial_def link_updates)
  next
    case (thread_read_error i t ec)
    then show ?thesis by (simp add: link_serial_def link_updates)
  qed (use step.IH in \<open>auto simp: link_serial_def link_updates\<close>)
qed

lemma serial_reader_index:
  assumes "link_fifo answer_of st" and "link_serial st" and "failed_reads st = []" and "k < length (readers st)"
  shows "fst (readers st ! k) = fst (writers st ! k) \<and> snd (readers st ! k) = answer_of (snd (writers st ! k))"
proof -
  from assms(2,3) obtain xs where w: "map fst (writers st) = map fst (readers st) @ xs"
    unfolding link_serial_def by blast
  from arg_cong [OF w, of length] assms(4) have len: "k < length (writers st)" by simp
  from arg_cong [OF w, of "\<lambda>l. l ! k"] assms(4) len have "fst (readers st ! k) = fst (writers st ! k)" by (simp add: nth_append)
  moreover have "(map snd (readers st) @ wire_answers st @ map answer_of (on_wire st)) ! k =
      map (\<lambda>(i, r). answer_of r) (writers st) ! k"
    using assms(1) by (simp add: link_fifo_def)
  ultimately show ?thesis using assms(4) len by (simp add: nth_append split: prod.splits)
qed

section \<open>Properties\<close>

text \<open>
  C31. Whatever the interleaving, and whatever fails, the answers come back in the order in which the requests went out:
  the \<open>k\<close>-th thread to read gets the answer to the \<open>k\<close>-th request written. A thread writes one request at most, its own with the start time it has read, and reads
  one answer at most; what it returns is the answer it read. So a read that fails shifts the answers: the one it has not taken goes
  to the next reader.
\<close>

theorem kth_read_is_answer_to_kth_write:
  assumes "link_reachable locked answer_of req st" and "k < length (readers st)"
  shows "k < length (writers st) \<and> snd (readers st ! k) = answer_of (snd (writers st ! k)) \<and>
    (\<exists>t. snd (writers st ! k) = (req (fst (writers st ! k)))\<lparr>pr_app_start_time := t\<rparr>) \<and>
    length (own i (writers st)) \<le> 1 \<and> length (own i (readers st)) \<le> length (own i (writers st)) \<and>
    (thread_phase st i = Returned a \<longrightarrow> (i, a) \<in> set (readers st))"
proof -
  from link_fifo_reachable [OF assms(1)] have
    fifo: "map snd (readers st) @ wire_answers st @ map answer_of (on_wire st) = map (\<lambda>(i, r). answer_of r) (writers st)"
    by (simp add: link_fifo_def)
  have ok: "phase_ok (own i (writers st)) (own i (readers st)) (req i) (thread_phase st i)" for i
    using link_phases_reachable [OF assms(1)] by (simp add: link_phases_def)
  have len: "k < length (writers st)" using arg_cong [OF fifo, of length] assms(2) by simp
  have "snd (readers st ! k) = answer_of (snd (writers st ! k))"
    using arg_cong [OF fifo, of "\<lambda>l. l ! k"] assms(2) len by (simp add: nth_append split: prod.splits)
  moreover have "\<exists>t. snd (writers st ! k) = (req (fst (writers st ! k)))\<lparr>pr_app_start_time := t\<rparr>"
    using ok [of "fst (writers st ! k)"] own_nth [OF len] by (cases "thread_phase st (fst (writers st ! k))") auto
  moreover have "length (own i (writers st)) \<le> 1 \<and> length (own i (readers st)) \<le> length (own i (writers st))"
    using ok [of i] by (cases "thread_phase st i") auto
  moreover have "thread_phase st i = Returned a \<longrightarrow> (i, a) \<in> set (readers st)" using ok [of i] by (auto intro: own_member)
  ultimately show ?thesis using len by blast
qed

definition demo_posix_request :: "nat \<Rightarrow> posix_request" where
  "demo_posix_request i =
     \<lparr>pr_app_uid = Uid 1000, pr_app_pid = Pid (of_nat i), pr_feature = Feature 0, pr_app_start_time = 0\<rparr>"

definition demo_link_answer :: "posix_request \<Rightarrow> answer" where
  "demo_link_answer r = (if pr_app_pid r = Pid 0 then denied else granted)"

text \<open>A thread alone up to its write, and a thread that has written from its read to its end; the start time is always \<open>0\<close>.\<close>

definition demo_writes :: "nat \<Rightarrow> link_state \<Rightarrow> link_state" where
  "demo_writes i st = thread_writes demo_posix_request i 0 (thread_resolves i 0 (thread_starts i (Inr 0) st))"

definition demo_reads :: "nat \<Rightarrow> link_state \<Rightarrow> link_state" where
  "demo_reads i st = thread_ends i 0 (hd (wire_answers st)) (Inr 0) (thread_reads i 0 st)"

lemma demo_writes_reachable:
  assumes "link_reachable locked demo_link_answer demo_posix_request st" and "thread_phase st i = Called" and "session_known st"
    and "locked \<Longrightarrow> \<forall>j. \<not> is_Written (thread_phase st j)"
  shows "link_reachable locked demo_link_answer demo_posix_request (demo_writes i st)"
  unfolding demo_writes_def
  by (rule link_reachable.step [OF link_reachable.step [OF link_reachable.step [OF assms(1) thread_start] thread_resolve] thread_write])
    (use assms in \<open>simp_all add: link_updates\<close>)

lemma demo_reads_reachable:
  assumes "link_reachable locked demo_link_answer demo_posix_request st" and "thread_phase st i = Written 0" and "wire_answers st \<noteq> []"
  shows "link_reachable locked demo_link_answer demo_posix_request (demo_reads i st)"
  unfolding demo_reads_def
  by (rule link_reachable.step [OF link_reachable.step [OF assms(1) thread_read] thread_end])
    (use assms in \<open>simp_all add: link_updates\<close>)

lemmas demo_link_updates = demo_writes_def demo_reads_def link_updates

lemma demo_link_one:
  "link_reachable locked demo_link_answer demo_posix_request (demo_reads 0 (skeleton_answers demo_link_answer (demo_writes 0 link_idle)))"
  by (rule demo_reads_reachable [OF link_reachable.step [OF demo_writes_reachable [OF link_reachable.start] link_step.skeleton_serve]])
    (simp_all add: demo_link_updates)

text \<open>Thread 0 writes and its read fails; thread 1 then reads the answer to thread 0.\<close>

lemma demo_link_shifted:
  "link_reachable locked demo_link_answer demo_posix_request
     (demo_reads 1 (demo_writes 1 (thread_read_fails 0 end_of_file (skeleton_answers demo_link_answer (demo_writes 0 link_idle)))))"
  by (rule demo_reads_reachable [OF demo_writes_reachable [OF link_reachable.step [OF link_reachable.step
        [OF demo_writes_reachable [OF link_reachable.start] link_step.skeleton_serve] link_step.thread_read_error]]])
    (simp_all add: demo_link_updates eof_not_gone)

theorem kth_read_is_answer_to_kth_write_witness:
  "\<exists>st :: link_state. readers st = [(1, denied)] \<and> map fst (writers st) = [0, 1] \<and> thread_phase st 1 = Returned denied \<and>
     thread_phase st 0 = Threw (system_error end_of_file) \<and> snd (readers st ! 0) = demo_link_answer (snd (writers st ! 0))"
proof -
  let ?st = "demo_reads 1 (demo_writes 1 (thread_read_fails 0 end_of_file (skeleton_answers demo_link_answer (demo_writes 0 link_idle))))"
  have r: "readers ?st = [(1, denied)]" "map fst (writers ?st) = [0, 1]" "thread_phase ?st 1 = Returned denied"
    "thread_phase ?st 0 = Threw (system_error end_of_file)"
    by (simp_all add: demo_link_updates demo_link_answer_def demo_posix_request_def)
  from kth_read_is_answer_to_kth_write [OF demo_link_shifted, of 0] r(1)
  have "snd (readers ?st ! 0) = demo_link_answer (snd (writers ?st ! 0))" by simp
  then show ?thesis by (intro exI [of _ ?st] conjI r)
qed

text \<open>
  C32. Without the lock, which is the code as it is, a thread can be handed the answer to another
  thread's request: an application whose request is denied is reported as granted. Nothing has to fail for it.
\<close>

theorem unlocked_sends_swap_answers:
  "\<exists>st. link_reachable False demo_link_answer demo_posix_request st \<and> failed_reads st = [] \<and>
     demo_link_answer (demo_posix_request 0) = denied \<and> thread_phase st 0 = Returned granted \<and>
     demo_link_answer (demo_posix_request 1) = granted \<and> thread_phase st 1 = Returned denied"
proof -
  let ?s2 = "demo_writes 1 (demo_writes 0 link_idle)"
  let ?s3 = "skeleton_answers demo_link_answer ?s2"
  let ?s4 = "demo_reads 1 ?s3"
  let ?s5 = "skeleton_answers demo_link_answer ?s4"
  let ?s6 = "demo_reads 0 ?s5"
  have s2: "link_reachable False demo_link_answer demo_posix_request ?s2"
    by (intro demo_writes_reachable link_reachable.start) (simp_all add: demo_link_updates)
  have s4: "link_reachable False demo_link_answer demo_posix_request ?s4"
    by (rule demo_reads_reachable [OF link_reachable.step [OF s2 link_step.skeleton_serve]]) (simp_all add: demo_link_updates)
  have "link_reachable False demo_link_answer demo_posix_request ?s6"
    by (rule demo_reads_reachable [OF link_reachable.step [OF s4 link_step.skeleton_serve]]) (simp_all add: demo_link_updates)
  then show ?thesis
    by (intro exI [of _ ?s6]) (simp add: demo_link_updates demo_link_answer_def demo_posix_request_def)
qed

text \<open>
  When the sends of a session are serialised, as the comment at \<^verbatim>\<open>Session::lock\<close> asks, every thread
  gets the answer to its own request, as long as no read has failed.
\<close>

theorem locked_sends_get_own_answer:
  assumes "link_reachable True answer_of req st" and "failed_reads st = []" and "thread_phase st i = Returned a"
  shows "\<exists>t. a = answer_of ((req i)\<lparr>pr_app_start_time := t\<rparr>)"
proof -
  have ok: "phase_ok (own i (writers st)) (own i (readers st)) (req i) (Returned a)"
    using link_phases_reachable [OF assms(1)] assms(3) by (metis link_phases_def)
  then have "(i, a) \<in> set (readers st)" by (auto intro: own_member)
  then obtain k where k: "k < length (readers st)" "readers st ! k = (i, a)" by (metis in_set_conv_nth)
  from serial_reader_index [OF link_fifo_reachable [OF assms(1)] link_serial_reachable [OF assms(1)] assms(2) k(1)] k(2)
  have w: "fst (writers st ! k) = i" "a = answer_of (snd (writers st ! k))" by simp_all
  have "k < length (writers st)"
    using arg_cong [OF link_fifo_reachable [OF assms(1), unfolded link_fifo_def], of length] k(1) by simp
  from own_nth [OF this] ok w show ?thesis by auto
qed

theorem locked_sends_get_own_answer_witness:
  "\<exists>t. denied = demo_link_answer ((demo_posix_request 0)\<lparr>pr_app_start_time := t\<rparr>)"
  by (rule locked_sends_get_own_answer [OF demo_link_one, where i = 0])
    (simp_all add: demo_link_updates demo_link_answer_def demo_posix_request_def)

end
