(* ===== verification/Runtime_Services.thy ===== *)
theory Runtime_Services
  imports Trust_Types
begin

text \<open>
  The services of the process that the agents and daemons run on: what is asked of the system about another process
  (\<^verbatim>\<open>remote/helpers.cpp\<close>, and the resolvers of \<^verbatim>\<open>remote/posix.cpp\<close> and \<^verbatim>\<open>mir/agent.cpp\<close>), the text domain of the
  translations (\<^verbatim>\<open>i18n.cpp\<close>) and the workers that run the event loop (\<^verbatim>\<open>runtime.cpp\<close>). The process library, AppArmor,
  gettext and the event loop itself are parameters.
\<close>

section \<open>Questions about a process\<close>

text \<open>What the process library reads from \<^verbatim>\<open>/proc/PID/stat\<close>.\<close>

record proc_stat =
  stat_parent :: int32
  stat_start_time :: int64

definition proc_stat_start_time_resolver :: "(int32 \<Rightarrow> ('w, proc_stat) act) \<Rightarrow> pid \<Rightarrow> ('w, int64) act" where
  "proc_stat_start_time_resolver read_stat p = bindE (read_stat (pid_value p)) (\<lambda>stat. returnE (stat_start_time stat))"

definition get_parent_pid_resolver :: "(int32 \<Rightarrow> ('w, proc_stat) act) \<Rightarrow> pid \<Rightarrow> ('w, pid) act" where
  "get_parent_pid_resolver read_stat p = bindE (read_stat (pid_value p)) (\<lambda>stat. returnE (Pid (stat_parent stat)))"

text \<open>
  \<^verbatim>\<open>aa_gettaskcon\<close> returns a code and may leave a string the caller has to free; the string is freed when the function is
  left, also by the exception.
\<close>

record 'w apparmor =
  aa_gettaskcon :: "int32 \<Rightarrow> 'w \<Rightarrow> (int32 \<times> string option) \<times> 'w"
  aa_errno :: "'w \<Rightarrow> int"
  aa_free :: "string \<Rightarrow> 'w \<Rightarrow> 'w"

definition app_armor_error :: int32 where "app_armor_error = - 1"

definition aa_get_task_con_app_id_resolver :: "'w apparmor \<Rightarrow> pid \<Rightarrow> ('w, string) act" where
  "aa_get_task_con_app_id_resolver aa p = (\<lambda>w. case aa_gettaskcon aa (pid_value p) w of ((rc, con), w1) \<Rightarrow>
     finallyE
       (if rc = app_armor_error then bindE (readE (aa_errno aa)) (\<lambda>errno. throwE (system_error errno))
        else returnE (case con of Some c \<Rightarrow> c | None \<Rightarrow> []))
       (modifyE (case con of Some c \<Rightarrow> aa_free aa c | None \<Rightarrow> (\<lambda>w. w))) w1)"

record ucred =
  cred_pid :: int32
  cred_uid :: uint32
  cred_gid :: uint32

text \<open>\<open>getsockopt\<close> is the call for \<^verbatim>\<open>SO_PEERCRED\<close>: its result and the credentials it has filled in.\<close>

definition get_sock_opt_credentials_resolver ::
  "(int \<Rightarrow> ucred \<Rightarrow> 'w \<Rightarrow> (int32 \<times> ucred) \<times> 'w) \<Rightarrow> ('w \<Rightarrow> int) \<Rightarrow> int \<Rightarrow> ('w, uid \<times> pid \<times> gid) act"
where
  "get_sock_opt_credentials_resolver getsockopt errno socket = (\<lambda>w.
     case getsockopt socket \<lparr>cred_pid = 0, cred_uid = 0, cred_gid = 0\<rparr> w of ((rc, cred), w1) \<Rightarrow>
       if rc = - 1 then (Inl (system_error (errno w1)), w1)
       else (Inr (Uid (cred_uid cred), Pid (cred_pid cred), Gid (cred_gid cred)), w1))"

section \<open>Translations\<close>

text \<open>The static variables of \<^verbatim>\<open>i18n.cpp\<close>, and gettext.\<close>

record i18n_state =
  i18n_initialized :: bool
  i18n_service_text_domain :: string

record 'w gettext_api =
  gt_setlocale :: "'w \<Rightarrow> 'w"
  gt_bindtextdomain :: "string \<Rightarrow> 'w \<Rightarrow> 'w"
  gt_textdomain :: "string \<Rightarrow> 'w \<Rightarrow> 'w"
  gt_gettext :: "string \<Rightarrow> 'w \<Rightarrow> string"
  gt_dgettext :: "string \<Rightarrow> string \<Rightarrow> 'w \<Rightarrow> string"

definition this_text_domain :: string where "this_text_domain = ''trust-store''"

definition i18n_start :: i18n_state where
  "i18n_start = \<lparr>i18n_initialized = False, i18n_service_text_domain = this_text_domain\<rparr>"

definition i18n_init :: "'w gettext_api \<Rightarrow> ('w, bool) act" where
  "i18n_init gt = bindE (modifyE (gt_setlocale gt)) (\<lambda>_.
     bindE (modifyE (gt_bindtextdomain gt this_text_domain)) (\<lambda>_.
     bindE (modifyE (gt_textdomain gt this_text_domain)) (\<lambda>_. returnE True)))"

text \<open>A static local variable: the initializer runs at the first call only.\<close>

definition is_initialized :: "'w gettext_api \<Rightarrow> (i18n_state \<times> 'w, bool) act" where
  "is_initialized gt = (\<lambda>(s, w). if i18n_initialized s then (Inr True, (s, w))
     else case i18n_init gt w of (r, w1) \<Rightarrow> (r, (s\<lparr>i18n_initialized := True\<rparr>, w1)))"

definition default_text_domain :: "'w gettext_api \<Rightarrow> (i18n_state \<times> 'w, string) act" where
  "default_text_domain gt = bindE (is_initialized gt) (\<lambda>ok. returnE (if \<not> ok then [] else this_text_domain))"

definition service_text_domain :: "(i18n_state \<times> 'w, string) act" where
  "service_text_domain = readE (\<lambda>(s, w). i18n_service_text_domain s)"

definition set_service_text_domain :: "string \<Rightarrow> (i18n_state \<times> 'w, unit) act" where
  "set_service_text_domain domain = modifyE (\<lambda>(s, w). (s\<lparr>i18n_service_text_domain := domain\<rparr>, w))"

definition i18n_tr :: "'w gettext_api \<Rightarrow> string \<Rightarrow> (i18n_state \<times> 'w, string) act" where
  "i18n_tr gt s = bindE (is_initialized gt) (\<lambda>ok. if \<not> ok then returnE s else readE (\<lambda>(_, w). gt_gettext gt s w))"

definition i18n_tr_domain :: "'w gettext_api \<Rightarrow> string \<Rightarrow> string \<Rightarrow> (i18n_state \<times> 'w, string) act" where
  "i18n_tr_domain gt s domain =
     bindE (is_initialized gt) (\<lambda>ok. if \<not> ok then returnE s else readE (\<lambda>(_, w). gt_dgettext gt domain s w))"

section \<open>Workers\<close>

definition concurrency_hint :: nat where "concurrency_hint = 2"

text \<open>
  A worker runs the event loop until it returns; an exception of a handler is printed and the loop is run again. \<open>fn\<close> is
  \<^verbatim>\<open>__PRETTY_FUNCTION__\<close>. A worker whose loop throws forever does not return: \<open>None\<close>.
\<close>

definition worker_message :: "string \<Rightarrow> exn \<Rightarrow> string" where
  "worker_message fn e = fn @ '': '' @ (if is_std_exception e then what e else ''unknown exception'') @ [CHR 0x0A]"

partial_function (option) execute_and_never_throw ::
  "string \<Rightarrow> ('w, unit) act \<Rightarrow> (string \<Rightarrow> 'w \<Rightarrow> 'w) \<Rightarrow> 'w \<Rightarrow> 'w option"
where
  "execute_and_never_throw fn run cerr w = (case run w of
       (Inr _, w') \<Rightarrow> Some w'
     | (Inl e, w') \<Rightarrow> execute_and_never_throw fn run cerr (cerr (worker_message fn e) w'))"

section \<open>Properties\<close>

text \<open>A label that AppArmor hands out is freed on every path; the id is the label.\<close>

lemma app_id_resolver_frees:
  assumes "aa_gettaskcon aa (pid_value p) w = ((rc, Some c), w1)"
  shows "aa_get_task_con_app_id_resolver aa p w =
    (if rc = - 1 then Inl (system_error (aa_errno aa w1)) else Inr c, aa_free aa c w1)"
  using assms by (simp add: aa_get_task_con_app_id_resolver_def app_armor_error_def act_simps)

text \<open>Gettext is set up before its first use and once only.\<close>

lemma is_initialized_once:
  "bindE (is_initialized gt) (\<lambda>_. is_initialized gt) = is_initialized gt"
  by (rule ext) (auto simp: is_initialized_def i18n_init_def act_simps split: prod.split)

lemma tr_in_service_domain:
  "bindE (set_service_text_domain d) (\<lambda>_. bindE service_text_domain (i18n_tr_domain gt s)) (i18n_start, w) =
     (Inr (gt_dgettext gt d s (snd (i18n_init gt w))),
      (\<lparr>i18n_initialized = True, i18n_service_text_domain = d\<rparr>, snd (i18n_init gt w)))"
  by (simp add: set_service_text_domain_def service_text_domain_def i18n_tr_domain_def is_initialized_def i18n_init_def
      i18n_start_def act_simps)

text \<open>The world after \<open>n\<close> runs of the loop that have all thrown, if they do.\<close>

primrec after_throws :: "string \<Rightarrow> ('w, unit) act \<Rightarrow> (string \<Rightarrow> 'w \<Rightarrow> 'w) \<Rightarrow> nat \<Rightarrow> 'w \<Rightarrow> 'w option" where
  "after_throws fn run cerr 0 w = Some w"
| "after_throws fn run cerr (Suc n) w = (case run w of
       (Inr _, _) \<Rightarrow> None
     | (Inl e, w') \<Rightarrow> after_throws fn run cerr n (cerr (worker_message fn e) w'))"

lemma execute_after_throws:
  "after_throws fn run cerr n w = Some v \<Longrightarrow> run v = (Inr x, w') \<Longrightarrow> execute_and_never_throw fn run cerr w = Some w'"
  by (induction n arbitrary: w; subst execute_and_never_throw.simps) (auto split: prod.splits sum.splits)

lemma execute_returns_after_throws:
  assumes "execute_and_never_throw fn run cerr w = Some w'"
  shows "\<exists>n v. after_throws fn run cerr n w = Some v \<and> run v = (Inr (), w')"
proof -
  let ?P = "\<lambda>f r c u u'. f = fn \<longrightarrow> r = run \<longrightarrow> c = cerr \<longrightarrow>
    (\<exists>n v. after_throws fn run cerr n u = Some v \<and> run v = (Inr (), u'))"
  have "?P fn run cerr w w'"
  proof (rule execute_and_never_throw.raw_induct [where P = ?P, OF _ assms])
    fix g f r c u u'
    assume IH: "\<And>f r c u u'. g f r c u = Some u' \<Longrightarrow> ?P f r c u u'"
      and eq: "(case r u of (Inl e, w') \<Rightarrow> g f r c (c (worker_message f e) w') | (Inr _, w') \<Rightarrow> Some w') = Some u'"
    show "?P f r c u u'"
    proof (intro impI)
      assume a: "f = fn" "r = run" "c = cerr"
      obtain y u1 where y: "run u = (y, u1)" by force
      show "\<exists>n v. after_throws fn run cerr n u = Some v \<and> run v = (Inr (), u')"
      proof (cases y)
        case (Inr x)
        with y eq a show ?thesis by (intro exI [of _ 0] exI [of _ u]) simp
      next
        case (Inl e)
        with y eq a IH obtain n v where "after_throws fn run cerr n (cerr (worker_message fn e) u1) = Some v"
          "run v = (Inr (), u')" by fastforce
        with y Inl show ?thesis by (intro exI [of _ "Suc n"] exI [of _ v]) simp
      qed
    qed
  qed
  then show ?thesis by simp
qed

lemma after_throws_stops:
  "after_throws fn run cerr n w = None \<longleftrightarrow>
     (\<exists>m < n. \<exists>v w'. after_throws fn run cerr m w = Some v \<and> run v = (Inr (), w'))"
proof (induction n arbitrary: w)
  case (Suc n)
  obtain y u where y: "run w = (y, u)" by force
  show ?case
  proof (cases y)
    case (Inr x)
    with y show ?thesis by (auto intro!: exI [of _ 0])
  next
    case (Inl e)
    let ?w = "cerr (worker_message fn e) u"
    have "(\<exists>m < Suc n. \<exists>v w'. after_throws fn run cerr m w = Some v \<and> run v = (Inr (), w')) \<longleftrightarrow>
        (\<exists>m < n. \<exists>v w'. after_throws fn run cerr m ?w = Some v \<and> run v = (Inr (), w'))"
      unfolding Ex_less_Suc2 using y Inl by simp
    with Suc y Inl show ?thesis by simp
  qed
qed simp

text \<open>
  A worker outlives every exception of a handler: it ends exactly when, after some number of runs of the event loop that
  threw and were reported, a run returns; it never passes an exception on, and it goes on forever only if every run throws.
\<close>

theorem worker_survives_exceptions:
  "(execute_and_never_throw fn run cerr w = Some w' \<longleftrightarrow>
     (\<exists>n v. after_throws fn run cerr n w = Some v \<and> run v = (Inr (), w'))) \<and>
   (execute_and_never_throw fn run cerr w = None \<longleftrightarrow> (\<forall>n. after_throws fn run cerr n w \<noteq> None))"
proof
  have returns: "execute_and_never_throw fn run cerr w = Some w' \<longleftrightarrow>
     (\<exists>n v. after_throws fn run cerr n w = Some v \<and> run v = (Inr (), w'))" for w'
    using execute_after_throws [of fn run cerr] execute_returns_after_throws [of fn run cerr] by blast
  show "execute_and_never_throw fn run cerr w = Some w' \<longleftrightarrow>
     (\<exists>n v. after_throws fn run cerr n w = Some v \<and> run v = (Inr (), w'))" by (rule returns)
  show "execute_and_never_throw fn run cerr w = None \<longleftrightarrow> (\<forall>n. after_throws fn run cerr n w \<noteq> None)"
    unfolding after_throws_stops using returns by (metis lessI not_Some_eq)
qed

end
