(* ===== verification/Runtime_Pool.thy ===== *)
theory Runtime_Pool
  imports Runtime_Services
begin

text \<open>
  The life of \<^verbatim>\<open>core::trust::Runtime\<close> (\<^verbatim>\<open>runtime.h\<close>, \<^verbatim>\<open>runtime.cpp\<close>): the constructor traps the signals and starts the pool,
  \<^verbatim>\<open>run\<close> blocks in the trap until \<^verbatim>\<open>stop\<close> is called or a signal arrives, the destructor stops the event loop and joins the
  workers. The threads interleave: the main thread, the workers, and whoever posts handlers or raises signals.

  Of the libraries the step relation uses what they document. A thread in \<^verbatim>\<open>io_service::run\<close> executes handlers that are ready;
  a handler's exception leaves \<^verbatim>\<open>run\<close> in the thread that executed it, and nothing else changes; while there is a
  \<^verbatim>\<open>work\<close> object, \<^verbatim>\<open>run\<close> returns only after \<^verbatim>\<open>stop\<close>, which lets handlers in progress finish and starts no other. A thread
  inherits the signal mask of the thread that starts it. The trap blocks its signals in the thread that makes it; its \<^verbatim>\<open>run\<close>
  takes the blocked signals that arrive, calls what is connected to \<^verbatim>\<open>signal_raised\<close>, and returns after \<^verbatim>\<open>stop\<close>.
\<close>

section \<open>State\<close>

datatype signal = sig_term | sig_int | other_signal nat

text \<open>
  Where a worker stands in \<^verbatim>\<open>execute_and_never_throw\<close>: before \<^verbatim>\<open>ios.run()\<close>, in it without a handler, in it
  executing a handler, in the \<^verbatim>\<open>catch\<close> block with an exception, after the loop; and when it has been joined.
\<close>

datatype worker_at = Before_run | In_run | In_handler nat | In_catch exn | Ended | Joined

record worker =
  wk_mask :: "signal set"
  wk_at :: worker_at

text \<open>
  Where the main thread stands: before the first call of \<^verbatim>\<open>instance\<close>, in the constructor's loop, after the constructor, in
  \<^verbatim>\<open>run\<close>, after it, in the destructor's loop at the worker of this index, and after the destructor.
\<close>

datatype main_at = Boot | Starting | Ready | Running | Returned | Joining nat | Destroyed

record runtime =
  rt_main :: main_at
  rt_mask :: "signal set"
  rt_connected :: bool
  rt_trap_stopped :: bool
  rt_pending :: "signal set"
  rt_stopped :: bool
  rt_queue :: "nat list"
  rt_pool :: "worker list"
  rt_cerr :: string

definition rt_boot :: runtime where
  "rt_boot = \<lparr>rt_main = Boot, rt_mask = {}, rt_connected = False, rt_trap_stopped = False, rt_pending = {},
     rt_stopped = False, rt_queue = [], rt_pool = [], rt_cerr = []\<rparr>"

section \<open>The program's steps\<close>

text \<open>The constructor: the trap is the first member, then the loop over the pool, then the connection.\<close>

definition Runtime_trap :: "runtime \<Rightarrow> runtime" where
  "Runtime_trap s = s\<lparr>rt_main := Starting, rt_mask := rt_mask s \<union> {sig_term, sig_int}\<rparr>"

definition Runtime_emplace_worker :: "runtime \<Rightarrow> runtime" where
  "Runtime_emplace_worker s = s\<lparr>rt_pool := rt_pool s @ [\<lparr>wk_mask = rt_mask s, wk_at = Before_run\<rparr>]\<rparr>"

definition Runtime_connect :: "runtime \<Rightarrow> runtime" where
  "Runtime_connect s = s\<lparr>rt_main := Ready, rt_connected := True\<rparr>"

definition Runtime_run :: "runtime \<Rightarrow> runtime" where
  "Runtime_run s = s\<lparr>rt_main := Running\<rparr>"

definition Runtime_stop :: "runtime \<Rightarrow> runtime" where
  "Runtime_stop s = s\<lparr>rt_trap_stopped := True\<rparr>"

text \<open>The trap has taken a signal: the slot that the constructor connected calls \<^verbatim>\<open>stop\<close>.\<close>

definition Runtime_signal_raised :: "signal \<Rightarrow> runtime \<Rightarrow> runtime" where
  "Runtime_signal_raised g s = (let s' = s\<lparr>rt_pending := rt_pending s - {g}\<rparr> in
     if rt_connected s then Runtime_stop s' else s')"

definition Runtime_destroy :: "runtime \<Rightarrow> runtime" where
  "Runtime_destroy s = s\<lparr>rt_main := Joining 0, rt_stopped := True\<rparr>"

definition move_worker :: "nat \<Rightarrow> worker_at \<Rightarrow> runtime \<Rightarrow> runtime" where
  "move_worker i a s = s\<lparr>rt_pool := (rt_pool s)[i := (rt_pool s ! i)\<lparr>wk_at := a\<rparr>]\<rparr>"

definition Runtime_join :: "nat \<Rightarrow> runtime \<Rightarrow> runtime" where
  "Runtime_join i s = (move_worker i Joined s)\<lparr>rt_main := Joining (Suc i)\<rparr>"

text \<open>A worker prints the exception it has caught and goes back to the head of its loop.\<close>

definition worker_reports :: "string \<Rightarrow> nat \<Rightarrow> exn \<Rightarrow> runtime \<Rightarrow> runtime" where
  "worker_reports fn i e s = (move_worker i Before_run s)\<lparr>rt_cerr := rt_cerr s @ worker_message fn e\<rparr>"

definition worker_is :: "runtime \<Rightarrow> nat \<Rightarrow> worker_at \<Rightarrow> bool" where
  "worker_is s i a \<longleftrightarrow> i < length (rt_pool s) \<and> wk_at (rt_pool s ! i) = a"

text \<open>
  The steps of the threads of the program. \<open>fn\<close> is \<^verbatim>\<open>__PRETTY_FUNCTION__\<close>. What a handler does is arbitrary: it may
  post handlers, call \<^verbatim>\<open>stop\<close>, return or throw.
\<close>

inductive rt_step :: "string \<Rightarrow> runtime \<Rightarrow> runtime \<Rightarrow> bool" for fn where
  trap: "rt_main s = Boot \<Longrightarrow> rt_step fn s (Runtime_trap s)"
| emplace: "rt_main s = Starting \<Longrightarrow> length (rt_pool s) < concurrency_hint \<Longrightarrow> rt_step fn s (Runtime_emplace_worker s)"
| connect: "rt_main s = Starting \<Longrightarrow> \<not> length (rt_pool s) < concurrency_hint \<Longrightarrow> rt_step fn s (Runtime_connect s)"
| run: "rt_main s = Ready \<Longrightarrow> rt_step fn s (Runtime_run s)"
| signal: "rt_main s = Running \<Longrightarrow> g \<in> rt_pending s \<Longrightarrow> rt_step fn s (Runtime_signal_raised g s)"
| returns: "rt_main s = Running \<Longrightarrow> rt_trap_stopped s \<Longrightarrow> rt_step fn s (s\<lparr>rt_main := Returned\<rparr>)"
| destroy: "rt_main s = Ready \<or> rt_main s = Returned \<Longrightarrow> rt_step fn s (Runtime_destroy s)"
| join: "rt_main s = Joining i \<Longrightarrow> worker_is s i Ended \<Longrightarrow> rt_step fn s (Runtime_join i s)"
| destroyed: "rt_main s = Joining i \<Longrightarrow> \<not> i < length (rt_pool s) \<Longrightarrow> rt_step fn s (s\<lparr>rt_main := Destroyed\<rparr>)"
| enter: "worker_is s i Before_run \<Longrightarrow> rt_step fn s (move_worker i In_run s)"
| execute: "worker_is s i In_run \<Longrightarrow> \<not> rt_stopped s \<Longrightarrow> rt_queue s = h # hs \<Longrightarrow>
    rt_step fn s ((move_worker i (In_handler h) s)\<lparr>rt_queue := hs\<rparr>)"
| handler_returns: "worker_is s i (In_handler h) \<Longrightarrow> rt_step fn s (move_worker i In_run s)"
| handler_throws: "worker_is s i (In_handler h) \<Longrightarrow> rt_step fn s (move_worker i (In_catch e) s)"
| report: "worker_is s i (In_catch e) \<Longrightarrow> rt_step fn s (worker_reports fn i e s)"
| leave: "worker_is s i In_run \<Longrightarrow> rt_stopped s \<Longrightarrow> rt_step fn s (move_worker i Ended s)"

text \<open>
  The surroundings: handlers are posted (through \<^verbatim>\<open>service()\<close> or the executor of a bus), \<^verbatim>\<open>stop\<close> is called, and one of the
  trapped signals arrives. A signal that arrives before the trap is set has its default effect, the end of the process.
\<close>

inductive rt_env :: "runtime \<Rightarrow> runtime \<Rightarrow> bool" where
  post: "rt_main s \<noteq> Boot \<Longrightarrow> rt_env s (s\<lparr>rt_queue := rt_queue s @ [h]\<rparr>)"
| stop: "rt_main s \<noteq> Boot \<Longrightarrow> rt_main s \<noteq> Starting \<Longrightarrow> rt_env s (Runtime_stop s)"
| raise: "rt_main s \<noteq> Boot \<Longrightarrow> g \<in> {sig_term, sig_int} \<Longrightarrow> rt_env s (s\<lparr>rt_pending := insert g (rt_pending s)\<rparr>)"

inductive rt_reachable :: "string \<Rightarrow> runtime \<Rightarrow> bool" for fn where
  start: "rt_reachable fn rt_boot"
| step: "rt_reachable fn s \<Longrightarrow> rt_step fn s s' \<Longrightarrow> rt_reachable fn s'"
| env: "rt_reachable fn s \<Longrightarrow> rt_env s s' \<Longrightarrow> rt_reachable fn s'"

inductive_cases rt_envE: "rt_env s s'"

section \<open>The invariant\<close>

fun in_destructor :: "main_at \<Rightarrow> bool" where
  "in_destructor (Joining _) = True"
| "in_destructor Destroyed = True"
| "in_destructor _ = False"

text \<open>How many workers there are, and how many of them have been joined, in order.\<close>

fun pool_size_ok :: "main_at \<Rightarrow> nat \<Rightarrow> bool" where
  "pool_size_ok Boot n = (n = 0)"
| "pool_size_ok Starting n = (n \<le> concurrency_hint)"
| "pool_size_ok (Joining k) n = (n = concurrency_hint \<and> k \<le> n)"
| "pool_size_ok _ n = (n = concurrency_hint)"

fun joined_before :: "main_at \<Rightarrow> nat \<Rightarrow> bool" where
  "joined_before (Joining n) i = (i < n)"
| "joined_before Destroyed i = True"
| "joined_before _ i = False"

definition worker_ok :: "runtime \<Rightarrow> nat \<Rightarrow> bool" where
  "worker_ok s i \<longleftrightarrow> {sig_term, sig_int} \<subseteq> wk_mask (rt_pool s ! i) \<and>
     (wk_at (rt_pool s ! i) = Joined \<longleftrightarrow> joined_before (rt_main s) i) \<and>
     (wk_at (rt_pool s ! i) = Ended \<longrightarrow> rt_stopped s)"

definition rt_inv :: "runtime \<Rightarrow> bool" where
  "rt_inv s \<longleftrightarrow> pool_size_ok (rt_main s) (length (rt_pool s)) \<and> (\<forall>i < length (rt_pool s). worker_ok s i) \<and>
     (rt_main s \<noteq> Boot \<longrightarrow> {sig_term, sig_int} \<subseteq> rt_mask s) \<and> (rt_stopped s \<longleftrightarrow> in_destructor (rt_main s)) \<and>
     (rt_main s = Returned \<longrightarrow> rt_trap_stopped s) \<and>
     (rt_connected s \<longleftrightarrow> rt_main s \<noteq> Boot \<and> rt_main s \<noteq> Starting)"

lemmas runtime_defs =
  Runtime_trap_def Runtime_emplace_worker_def Runtime_connect_def Runtime_run_def Runtime_stop_def Runtime_signal_raised_def
  Runtime_destroy_def Runtime_join_def move_worker_def worker_reports_def worker_is_def

text \<open>A worker that moves from one place before the end of its loop to another.\<close>

lemma rt_inv_move:
  assumes "rt_inv s" and "worker_is s i a" and "a \<noteq> Joined" and "b \<noteq> Joined" and "b = Ended \<longrightarrow> rt_stopped s"
  shows "rt_inv (move_worker i b s)"
  using assms unfolding rt_inv_def worker_ok_def move_worker_def worker_is_def
  by (auto simp: nth_list_update)

lemma rt_inv_queue: "rt_inv s \<Longrightarrow> rt_inv (s\<lparr>rt_queue := hs\<rparr>)" "rt_inv s \<Longrightarrow> rt_inv (s\<lparr>rt_cerr := o'\<rparr>)"
  "rt_inv s \<Longrightarrow> rt_inv (s\<lparr>rt_pending := gs\<rparr>)" "rt_inv s \<Longrightarrow> rt_inv (Runtime_stop s)"
  by (auto simp add: rt_inv_def worker_ok_def Runtime_stop_def)

lemma rt_inv_join:
  assumes "rt_inv s" and "rt_main s = Joining i" and "worker_is s i Ended"
  shows "rt_inv (Runtime_join i s)"
  using assms unfolding rt_inv_def worker_ok_def Runtime_join_def move_worker_def worker_is_def
  by (auto simp: nth_list_update less_Suc_eq)

lemma rt_inv_emplace:
  assumes "rt_inv s" and "rt_main s = Starting" and "length (rt_pool s) < concurrency_hint"
  shows "rt_inv (Runtime_emplace_worker s)"
  using assms unfolding rt_inv_def worker_ok_def Runtime_emplace_worker_def
  by (auto simp: nth_append less_Suc_eq)

text \<open>The main thread moves on and the pool stays as it is.\<close>

lemma rt_inv_main:
  assumes "rt_inv s"
  shows "rt_main s = Boot \<Longrightarrow> rt_inv (Runtime_trap s)"
    and "rt_main s = Starting \<Longrightarrow> \<not> length (rt_pool s) < concurrency_hint \<Longrightarrow> rt_inv (Runtime_connect s)"
    and "rt_main s = Ready \<Longrightarrow> rt_inv (Runtime_run s)"
    and "rt_main s = Running \<Longrightarrow> rt_trap_stopped s \<Longrightarrow> rt_inv (s\<lparr>rt_main := Returned\<rparr>)"
    and "rt_main s = Ready \<or> rt_main s = Returned \<Longrightarrow> rt_inv (Runtime_destroy s)"
    and "rt_main s = Joining i \<Longrightarrow> \<not> i < length (rt_pool s) \<Longrightarrow> rt_inv (s\<lparr>rt_main := Destroyed\<rparr>)"
  using assms
  by (auto simp add: rt_inv_def worker_ok_def Runtime_trap_def Runtime_connect_def Runtime_run_def Runtime_destroy_def)

lemma rt_inv_step:
  assumes "rt_step fn s s'" and "rt_inv s"
  shows "rt_inv s'"
  using assms(1)
proof (cases rule: rt_step.cases)
  case (execute i h hs)
  then show ?thesis using rt_inv_queue(1) [OF rt_inv_move [OF assms(2)]] by simp
next
  case (report i e)
  then show ?thesis using rt_inv_queue(2) [OF rt_inv_move [OF assms(2)]] by (simp add: worker_reports_def)
next
  case (signal g)
  then show ?thesis using rt_inv_queue(3) [OF assms(2)] rt_inv_queue(4) by (simp add: Runtime_signal_raised_def Let_def)
qed (use rt_inv_move [OF assms(2)] rt_inv_join [OF assms(2)] rt_inv_emplace [OF assms(2)] rt_inv_main [OF assms(2)] in simp_all)

lemma rt_inv_env: "rt_env s s' \<Longrightarrow> rt_inv s \<Longrightarrow> rt_inv s'"
  by (erule rt_envE) (auto intro: rt_inv_queue)

lemma rt_inv_reachable: "rt_reachable fn s \<Longrightarrow> rt_inv s"
proof (induction rule: rt_reachable.induct)
  case start
  show ?case by (simp add: rt_inv_def rt_boot_def)
qed (auto intro: rt_inv_step rt_inv_env)

section \<open>Shutting down\<close>

fun worker_rank :: "worker_at \<Rightarrow> nat" where
  "worker_rank Joined = 0"
| "worker_rank Ended = 1"
| "worker_rank In_run = 2"
| "worker_rank Before_run = 3"
| "worker_rank (In_catch _) = 4"
| "worker_rank (In_handler _) = 5"

definition rt_rank :: "runtime \<Rightarrow> nat" where
  "rt_rank s = sum_list (map (worker_rank \<circ> wk_at) (rt_pool s)) + (if rt_main s = Destroyed then 0 else 1)"

lemma rank_move:
  assumes "worker_is s i a" and "worker_rank b < worker_rank a"
  shows "sum_list (map (worker_rank \<circ> wk_at) (rt_pool (move_worker i b s))) < sum_list (map (worker_rank \<circ> wk_at) (rt_pool s))"
proof -
  have "worker_rank a \<le> sum_list (map (worker_rank \<circ> wk_at) (rt_pool s))"
    using assms(1) member_le_sum_list [of "worker_rank a" "map (worker_rank \<circ> wk_at) (rt_pool s)"]
    by (force simp: worker_is_def in_set_conv_nth)
  then show ?thesis using assms by (auto simp: move_worker_def worker_is_def map_update sum_list_update)
qed

lemma move_worker_main [simp]: "rt_main (move_worker i b s) = rt_main s"
  by (simp add: move_worker_def)

lemma rank_step:
  assumes "rt_step fn s s'" and "rt_inv s" and d: "in_destructor (rt_main s)"
  shows "rt_rank s' < rt_rank s"
  using assms(1)
proof (cases rule: rt_step.cases)
  case (join i)
  then show ?thesis using rank_move [OF join(3), of Joined] by (simp add: rt_rank_def Runtime_join_def)
next
  case (report i e)
  then show ?thesis using rank_move [OF report(2), of Before_run] by (simp add: rt_rank_def worker_reports_def)
next
  case (execute i h hs)
  then show ?thesis using assms(2) d by (simp add: rt_inv_def)
qed (use d rank_move [of s] in \<open>auto simp: rt_rank_def Runtime_trap_def Runtime_destroy_def\<close>)

lemma rank_env: "rt_env s s' \<Longrightarrow> rt_rank s' = rt_rank s \<and> rt_main s' = rt_main s"
  by (erule rt_envE) (simp_all add: rt_rank_def Runtime_stop_def)

lemma destructor_progress:
  assumes "rt_inv s" and "rt_main s = Joining n"
  shows "\<exists>s'. rt_step fn s s'"
proof (cases "n < length (rt_pool s)")
  case True
  have "rt_stopped s" "wk_at (rt_pool s ! n) \<noteq> Joined" using assms True by (auto simp: rt_inv_def worker_ok_def)
  moreover have "worker_is s n (wk_at (rt_pool s ! n))" using True by (simp add: worker_is_def)
  ultimately show ?thesis
    using assms(2) by (cases "wk_at (rt_pool s ! n)") (auto intro: rt_step.intros)
next
  case False
  then show ?thesis using rt_step.destroyed [OF assms(2)] by blast
qed

text \<open>A runtime whose first worker has caught an exception of a handler; and the same one when a signal has ended \<^verbatim>\<open>run\<close>.\<close>

definition demo_ready :: runtime where
  "demo_ready = Runtime_connect (Runtime_emplace_worker (Runtime_emplace_worker (Runtime_trap rt_boot)))"

definition demo_caught :: runtime where
  "demo_caught = (let s = move_worker 0 In_run ((Runtime_run demo_ready)\<lparr>rt_queue := [7]\<rparr>) in
     move_worker 0 (In_catch other_exception) ((move_worker 0 (In_handler 7) s)\<lparr>rt_queue := []\<rparr>))"

definition demo_dying :: runtime where
  "demo_dying = Runtime_destroy ((Runtime_signal_raised sig_term (demo_caught\<lparr>rt_pending := {sig_term}\<rparr>))\<lparr>rt_main := Returned\<rparr>)"

lemma demo_ready_reachable: "rt_reachable fn demo_ready" "rt_main demo_ready = Ready" "rt_queue demo_ready = []"
proof -
  let ?s1 = "Runtime_trap rt_boot"
  let ?s3 = "Runtime_emplace_worker (Runtime_emplace_worker ?s1)"
  have "rt_reachable fn ?s1" by (rule rt_reachable.step [OF start trap]) (simp add: rt_boot_def)
  from rt_reachable.step [OF this emplace] have "rt_reachable fn (Runtime_emplace_worker ?s1)"
    by (simp add: runtime_defs rt_boot_def concurrency_hint_def)
  from rt_reachable.step [OF this emplace] have "rt_reachable fn ?s3"
    by (simp add: runtime_defs rt_boot_def concurrency_hint_def)
  from rt_reachable.step [OF this connect] show "rt_reachable fn demo_ready"
    by (simp add: demo_ready_def runtime_defs rt_boot_def concurrency_hint_def)
  show "rt_main demo_ready = Ready" "rt_queue demo_ready = []" by (simp_all add: demo_ready_def runtime_defs rt_boot_def)
qed

lemma demo_caught_reachable: "rt_reachable fn demo_caught"
proof -
  let ?s = "(Runtime_run demo_ready)\<lparr>rt_queue := [7]\<rparr>"
  have w: "length (rt_pool demo_ready) = 2" "wk_at (rt_pool demo_ready ! 0) = Before_run" "rt_stopped demo_ready = False"
    by (simp_all add: demo_ready_def runtime_defs rt_boot_def)
  from rt_reachable.step [OF demo_ready_reachable(1) run] have "rt_reachable fn (Runtime_run demo_ready)"
    by (simp add: demo_ready_reachable)
  from rt_reachable.env [OF this post [of _ 7]] have "rt_reachable fn ?s"
    by (simp add: demo_ready_reachable Runtime_run_def)
  from rt_reachable.step [OF this enter [of _ 0]] have 1: "rt_reachable fn (move_worker 0 In_run ?s)"
    using w by (simp add: worker_is_def Runtime_run_def)
  from rt_reachable.step [OF 1 execute [of _ 0 7 "[]"]]
  have 2: "rt_reachable fn ((move_worker 0 (In_handler 7) (move_worker 0 In_run ?s))\<lparr>rt_queue := []\<rparr>)"
    using w by (simp add: worker_is_def move_worker_def Runtime_run_def)
  from rt_reachable.step [OF 2 handler_throws [of _ 0 7 _ other_exception]] show ?thesis
    using w by (simp add: demo_caught_def Let_def worker_is_def move_worker_def Runtime_run_def)
qed

lemma demo_dying_reachable: "rt_reachable fn demo_dying" "rt_main demo_dying = Joining 0"
proof -
  let ?s1 = "demo_caught\<lparr>rt_pending := {sig_term}\<rparr>"
  have c: "rt_main demo_caught = Running" "rt_connected demo_caught" "rt_pending demo_caught = {}"
    by (simp_all add: demo_caught_def demo_ready_def runtime_defs rt_boot_def Let_def)
  from rt_reachable.env [OF demo_caught_reachable [of fn] raise [of _ sig_term]] have 1: "rt_reachable fn ?s1" using c by simp
  from rt_reachable.step [OF 1 signal [of _ sig_term]] have 2: "rt_reachable fn (Runtime_signal_raised sig_term ?s1)"
    using c by simp
  from rt_reachable.step [OF 2 returns]
  have 3: "rt_reachable fn ((Runtime_signal_raised sig_term ?s1)\<lparr>rt_main := Returned\<rparr>)"
    using c by (simp add: Runtime_signal_raised_def Runtime_stop_def Let_def)
  from rt_reachable.step [OF 3 destroy] show "rt_reachable fn demo_dying" by (simp add: demo_dying_def)
  show "rt_main demo_dying = Joining 0" by (simp add: demo_dying_def Runtime_destroy_def)
qed

text \<open>
  C29. The pool stays whole. Whatever handlers are posted and however many of them throw, from the constructor to the destructor
  there are \<open>concurrency_hint\<close> workers and none of them has left its loop, so posted handlers go on being executed; every
  worker blocks the two signals that the trap waits for, because the trap is made before the first of them; \<^verbatim>\<open>run\<close> has returned
  only if a stop was asked for; and after the destructor every worker has been joined, so no handler is running.
\<close>

theorem runtime_pool_stays_whole:
  assumes "rt_reachable fn s"
  shows "(rt_main s \<in> {Ready, Running, Returned} \<longrightarrow> length (rt_pool s) = concurrency_hint \<and>
      (\<forall>w \<in> set (rt_pool s). wk_at w \<noteq> Ended \<and> wk_at w \<noteq> Joined)) \<and>
    (\<forall>w \<in> set (rt_pool s). {sig_term, sig_int} \<subseteq> wk_mask w) \<and>
    (rt_main s = Returned \<longrightarrow> rt_trap_stopped s) \<and>
    (rt_main s = Destroyed \<longrightarrow> length (rt_pool s) = concurrency_hint \<and> (\<forall>w \<in> set (rt_pool s). wk_at w = Joined))"
proof -
  note inv = rt_inv_reachable [OF assms, unfolded rt_inv_def worker_ok_def]
  have w: "{sig_term, sig_int} \<subseteq> wk_mask w \<and> (wk_at w = Ended \<longrightarrow> rt_stopped s) \<and>
      (\<exists>i. wk_at w = Joined \<longleftrightarrow> joined_before (rt_main s) i)" if "w \<in> set (rt_pool s)" for w
    using inv that unfolding in_set_conv_nth by blast
  then show ?thesis using inv by fastforce
qed

theorem runtime_pool_stays_whole_witness:
  "map wk_at (rt_pool demo_caught) = [In_catch other_exception, Before_run] \<and> rt_main demo_caught = Running \<and>
   list_all (\<lambda>w. wk_at w \<noteq> Ended \<and> sig_int \<in> wk_mask w) (rt_pool demo_caught)"
proof (intro conjI)
  show "map wk_at (rt_pool demo_caught) = [In_catch other_exception, Before_run]"
    by (simp add: demo_caught_def demo_ready_def runtime_defs rt_boot_def Let_def)
  show m: "rt_main demo_caught = Running"
    by (simp add: demo_caught_def demo_ready_def runtime_defs rt_boot_def Let_def)
  show "list_all (\<lambda>w. wk_at w \<noteq> Ended \<and> sig_int \<in> wk_mask w) (rt_pool demo_caught)"
    using runtime_pool_stays_whole [OF demo_caught_reachable] m unfolding list_all_iff by blast
qed

text \<open>
  C30. The destructor ends. Once it has begun, every step of any thread, in any interleaving, brings the end nearer by the measure
  \<open>rt_rank\<close>, a handler in progress being allowed to return or throw; new handlers and signals do not move it; and as long as the
  destructor is not over some thread can take a step. So every execution in which handlers end comes to the end of the destructor.
\<close>

theorem runtime_shutdown_ends:
  assumes "rt_reachable fn s" and "in_destructor (rt_main s)"
  shows "(\<forall>s'. rt_step fn s s' \<longrightarrow> rt_rank s' < rt_rank s \<and> in_destructor (rt_main s')) \<and>
    (\<forall>s'. rt_env s s' \<longrightarrow> rt_rank s' = rt_rank s \<and> in_destructor (rt_main s')) \<and>
    (rt_main s = Destroyed \<or> (\<exists>s'. rt_step fn s s'))"
proof (intro conjI allI impI)
  note inv = rt_inv_reachable [OF assms(1)]
  fix s' assume st: "rt_step fn s s'"
  show "rt_rank s' < rt_rank s" by (rule rank_step [OF st inv assms(2)])
  have "rt_stopped s'" using st inv assms(2)
    by (cases rule: rt_step.cases) (auto simp: rt_inv_def runtime_defs Let_def)
  then show "in_destructor (rt_main s')" using rt_inv_step [OF st inv] by (simp add: rt_inv_def)
next
  fix s' assume "rt_env s s'"
  then show "rt_rank s' = rt_rank s" "in_destructor (rt_main s')" using rank_env assms(2) by force+
next
  show "rt_main s = Destroyed \<or> (\<exists>s'. rt_step fn s s')"
    using assms destructor_progress [OF rt_inv_reachable [OF assms(1)]] by (cases "rt_main s") auto
qed

theorem runtime_shutdown_ends_witness:
  "in_destructor (rt_main demo_dying) \<and> (\<exists>s'. rt_step ''execute'' demo_dying s' \<and> rt_rank s' < rt_rank demo_dying)"
  using runtime_shutdown_ends [OF demo_dying_reachable(1) [of "''execute''"]] demo_dying_reachable(2) by auto

end
