(* ===== verification/Mir_Agent.thy ===== *)
theory Mir_Agent
  imports Agent_Filters Runtime_Services "HOL-Library.Multiset" "HOL-Library.Sublist"
begin

text \<open>
  The agent that prompts the user on the screen (\<^verbatim>\<open>mir/agent.cpp\<close>): it opens a prompt session for the
  application with the display server Mir, starts the prompt provider with a pre-authenticated file
  descriptor, waits for it and translates its exit status. When Mir knows no session for the process the
  agent tries the parent process, and so on up to the init process.

  The client library of Mir, the calls on file descriptors and the process library are parameters. The search for a
  session may run forever when the parent relation has a cycle, so it is a partial function; not
  returning is \<open>None\<close>.
\<close>

section \<open>Model\<close>

record app_info =
  ai_icon :: string
  ai_name :: string
  ai_id :: string

record invocation_arguments =
  ia_fd :: int
  ia_app_info :: app_info
  ia_description :: string

definition app_info_eq :: "app_info \<Rightarrow> app_info \<Rightarrow> bool" where
  "app_info_eq lhs rhs \<longleftrightarrow> ai_icon lhs = ai_icon rhs \<and> ai_id lhs = ai_id rhs \<and> ai_name lhs = ai_name rhs"

definition invocation_arguments_eq :: "invocation_arguments \<Rightarrow> invocation_arguments \<Rightarrow> bool" where
  "invocation_arguments_eq lhs rhs \<longleftrightarrow>
     app_info_eq (ia_app_info lhs) (ia_app_info rhs) \<and> ia_description lhs = ia_description rhs \<and> ia_fd lhs = ia_fd rhs"

record ('w, 'c, 's) mir_api =
  mir_connect_sync :: "string \<Rightarrow> string \<Rightarrow> 'w \<Rightarrow> 'c \<times> 'w"
  mir_connection_is_valid :: "'c \<Rightarrow> 'w \<Rightarrow> bool"
  mir_create_prompt_session :: "'c \<Rightarrow> pid \<Rightarrow> 'w \<Rightarrow> 's option \<times> 'w"
  mir_error_message :: "'s \<Rightarrow> 'w \<Rightarrow> string"
  mir_new_fd :: "'s \<Rightarrow> 'w \<Rightarrow> int \<times> 'w"
  mir_release :: "'s \<Rightarrow> 'w \<Rightarrow> 'w"
  fd_clear_flags :: "int \<Rightarrow> 'w \<Rightarrow> int option \<times> 'w"
  fd_close :: "int \<Rightarrow> 'w \<Rightarrow> int option \<times> 'w"
  print_close_error :: "int \<Rightarrow> 'w \<Rightarrow> 'w"

definition PromptSession_new :: "'s option \<Rightarrow> ('w, 's) act" where
  "PromptSession_new session = (case session of
       None \<Rightarrow> throwE (runtime_error ''Cannot create instance for null prompt_session'')
     | Some s \<Rightarrow> returnE s)"

definition invalid_fd :: int where "invalid_fd = - 1"

definition new_fd_for_prompt_provider :: "('w, 'c, 's) mir_api \<Rightarrow> 's \<Rightarrow> ('w, int) act" where
  "new_fd_for_prompt_provider api s = (\<lambda>w. case mir_new_fd api s w of (fd, w1) \<Rightarrow>
     if fd = invalid_fd
     then (Inl (runtime_error ''Could not acquire pre-authenticated file descriptors for Mir prompt session.''), w1)
     else case fd_clear_flags api fd w1 of
       (Some errno, w2) \<Rightarrow> (Inl (system_error errno), w2)
     | (None, w2) \<Rightarrow> (Inr fd, w2))"

definition Connection_new :: "('w, 'c, 's) mir_api \<Rightarrow> 'c \<Rightarrow> ('w, 'c) act" where
  "Connection_new api c = bindE (readE (mir_connection_is_valid api c)) (\<lambda>valid.
     bindE (throw_if (\<not> valid) (InvalidMirConnection ''Cannot create instance for invalid connection to Mir.'')) (\<lambda>_.
     returnE c))"

definition create_prompt_session_sync :: "('w, 'c, 's) mir_api \<Rightarrow> 'c \<Rightarrow> pid \<Rightarrow> ('w, 's) act" where
  "create_prompt_session_sync api c p = (\<lambda>w. case mir_create_prompt_session api c p w of (s, w1) \<Rightarrow> PromptSession_new s w1)"

subsection \<open>The prompt provider\<close>

text \<open>\<open>tr\<close> translates a text in a text domain (\<^verbatim>\<open>i18n::tr\<close>).\<close>

definition prompt_provider_argv :: "(string \<Rightarrow> string) \<Rightarrow> invocation_arguments \<Rightarrow> string list" where
  "prompt_provider_argv tr args =
     [''--'' @ ''mir_server_socket'', ''fd://'' @ to_string_int (ia_fd args),
      ''--'' @ ''icon'', ai_icon (ia_app_info args),
      ''--'' @ ''name'', ai_name (ia_app_info args),
      ''--'' @ ''id'', ai_id (ia_app_info args),
      ''--'' @ ''description'', tr (ia_description args)]"

definition exec_prompt_provider_with_arguments ::
  "('w, 'p) process_api \<Rightarrow> string \<Rightarrow> ('w \<Rightarrow> string \<Rightarrow> string) \<Rightarrow> invocation_arguments \<Rightarrow> ('w, 'p) act"
where
  "exec_prompt_provider_with_arguments px path tr args =
     bindE (readE tr) (\<lambda>translate.
     bindE (readE (px_environ px)) (\<lambda>vars.
     px_exec px path (prompt_provider_argv translate args) (fold map_insert vars Map.empty)))"

datatype prompt_session_state = session_stopped | session_started | session_suspended

text \<open>The callback of the session: \<open>context\<close> is the process in the callback context, if there is a context.\<close>

definition on_trust_session_changed_state ::
  "('p \<Rightarrow> 'w \<Rightarrow> 'w) \<Rightarrow> prompt_session_state \<Rightarrow> 'p option \<Rightarrow> 'w \<Rightarrow> 'w"
where
  "on_trust_session_changed_state send_sig_kill state context w =
     (if session_stopped \<noteq> state then w
      else case context of None \<Rightarrow> w | Some process \<Rightarrow> send_sig_kill process w)"

definition translator_only_accepting_exit_status_success :: "wait_result \<Rightarrow> exn + answer" where
  "translator_only_accepting_exit_status_success res =
     (if wait_exited \<noteq> wr_status res
      then Inl (logic_error (''The prompt provider process was signaled or stopped, '' @
             ''unable to determine a conclusive answer from the user''))
      else if exit_failure = wr_exit_status res then Inr denied
      else Inr granted)"

subsection \<open>The agent\<close>

record ('w, 'c, 'p) mir_configuration =
  mc_connection :: 'c
  mc_exec :: "invocation_arguments \<Rightarrow> ('w, 'p) act"
  mc_wait_for :: "'p \<Rightarrow> ('w, wait_result) act"
  mc_translator :: "wait_result \<Rightarrow> exn + answer"
  mc_app_info :: "string \<Rightarrow> ('w, app_info) act"
  mc_parent_pid :: "pid \<Rightarrow> ('w, pid) act"

definition error_no_session :: string where
  "error_no_session = ''Error processing request: Could not identify application session'' @ [CHR 0x0A]"

text \<open>
  One turn of the search: it ends with a session or an exception, or goes on with the parent process, keeping
  the session it got until the next one replaces it. Whoever leaves the function by an exception releases the
  session held.
\<close>

datatype ('w, 's) attempt = Stop "exn + 's" 'w | Again 's pid 'w

definition release_held :: "('w, 'c, 's) mir_api \<Rightarrow> 's option \<Rightarrow> 'w \<Rightarrow> 'w" where
  "release_held api held w = (case held of None \<Rightarrow> w | Some s \<Rightarrow> mir_release api s w)"

definition session_attempt ::
  "('w, 'c, 's) mir_api \<Rightarrow> ('w, 'c, 'p) mir_configuration \<Rightarrow> pid \<Rightarrow> 's option \<Rightarrow> pid \<Rightarrow> 'w \<Rightarrow> ('w, 's) attempt"
where
  "session_attempt api cfg requested held p w =
     (case create_prompt_session_sync api (mc_connection cfg) p w of
        (Inl e, w1) \<Rightarrow> Stop (Inl e) (release_held api held w1)
      | (Inr s, w1) \<Rightarrow>
          (let w2 = release_held api held w1; error = mir_error_message api s w2 in
           if error = [] then Stop (Inr s) w2
           else if \<not> prefix error_no_session error
           then Stop (Inl (runtime_error (''Unable to create a prompt session: '' @ error))) (mir_release api s w2)
           else (case mc_parent_pid cfg p w2 of
               (Inl e, w3) \<Rightarrow> Stop (Inl e) (mir_release api s w3)
             | (Inr parent, w3) \<Rightarrow>
                 if sint (pid_value parent) \<le> 1
                 then Stop (Inl (runtime_error (''Could not identify Mir session associated with pid '' @
                        to_string_int (sint (pid_value requested))))) (mir_release api s w3)
                 else Again s parent w3)))"

partial_function (option) find_session ::
  "('w, 'c, 's) mir_api \<Rightarrow> ('w, 'c, 'p) mir_configuration \<Rightarrow> pid \<Rightarrow> 's option \<Rightarrow> pid \<Rightarrow> 'w \<Rightarrow>
     ((exn + 's) \<times> 'w) option"
where
  "find_session api cfg requested held p w =
     (case session_attempt api cfg requested held p w of
        Stop x w' \<Rightarrow> Some (x, w')
      | Again s parent w' \<Rightarrow> find_session api cfg requested (Some s) parent w')"

definition close_fd :: "('w, 'c, 's) mir_api \<Rightarrow> int \<Rightarrow> ('w, unit) act" where
  "close_fd api fd = modifyE (\<lambda>w. if fd = - 1 then w else (case fd_close api fd w of
       (None, w') \<Rightarrow> w'
     | (Some errno, w') \<Rightarrow> print_close_error api errno w'))"

definition run_prompt_provider ::
  "('w, 'c, 'p) mir_configuration \<Rightarrow> agent_params \<Rightarrow> int \<Rightarrow> ('w, answer) act"
where
  "run_prompt_provider cfg parameters fd =
     bindE (mc_app_info cfg (app_id parameters)) (\<lambda>info.
     bindE (mc_exec cfg \<lparr>ia_fd = fd, ia_app_info = info, ia_description = app_description parameters\<rparr>) (\<lambda>process.
     bindE (mc_wait_for cfg process) (\<lambda>res.
     case mc_translator cfg res of Inl e \<Rightarrow> throwE e | Inr a \<Rightarrow> returnE a)))"

definition prompt_in_session ::
  "('w, 'c, 's) mir_api \<Rightarrow> ('w, 'c, 'p) mir_configuration \<Rightarrow> agent_params \<Rightarrow> 's \<Rightarrow> ('w, answer) act"
where
  "prompt_in_session api cfg parameters s =
     bindE (new_fd_for_prompt_provider api s) (\<lambda>fd.
     finallyE (run_prompt_provider cfg parameters fd) (close_fd api fd))"

definition Mir_authenticate ::
  "('w, 'c, 's) mir_api \<Rightarrow> ('w, 'c, 'p) mir_configuration \<Rightarrow> agent_params \<Rightarrow> 'w \<Rightarrow> ((exn + answer) \<times> 'w) option"
where
  "Mir_authenticate api cfg parameters w =
     (case find_session api cfg (app_pid parameters) None (app_pid parameters) w of
        None \<Rightarrow> None
      | Some (Inl e, w1) \<Rightarrow> Some (Inl e, w1)
      | Some (Inr s, w1) \<Rightarrow>
          Some (finallyE (prompt_in_session api cfg parameters s) (modifyE (mir_release api s)) w1))"

definition create_agent_for_mir_connection ::
  "('w, 'c, 's) mir_api \<Rightarrow> ('w, 'p) process_api \<Rightarrow> ('w \<Rightarrow> string \<Rightarrow> string) \<Rightarrow> (string \<Rightarrow> ('w, app_info) act) \<Rightarrow>
     (pid \<Rightarrow> ('w, pid) act) \<Rightarrow> string \<Rightarrow> 'c \<Rightarrow> ('w, ('w, 'c, 'p) mir_configuration) act"
where
  "create_agent_for_mir_connection api px tr resolve parent_pid trust_prompt_executable connection =
     bindE (Connection_new api connection) (\<lambda>c.
     returnE \<lparr>mc_connection = c, mc_exec = exec_prompt_provider_with_arguments px trust_prompt_executable tr,
       mc_wait_for = px_wait_for px, mc_translator = translator_only_accepting_exit_status_success,
       mc_app_info = resolve, mc_parent_pid = parent_pid\<rparr>)"

section \<open>Sessions and file descriptors\<close>

text \<open>
  What the agent relies on of the libraries, with \<open>sessions\<close> the prompt sessions that are open and \<open>fds\<close> the
  file descriptors handed out by Mir that are open: a session is opened by creating it and closed by
  releasing it, a descriptor is opened by asking for it and closed by \<^verbatim>\<open>close\<close>, nothing else opens or closes any.
\<close>

definition mir_accounts ::
  "('w, 'c, 's) mir_api \<Rightarrow> ('w, 'c, 'p) mir_configuration \<Rightarrow> ('w \<Rightarrow> 's multiset) \<Rightarrow> ('w \<Rightarrow> int multiset) \<Rightarrow> bool"
where
  "mir_accounts api cfg sessions fds \<longleftrightarrow>
     (\<forall>c p w s w'. mir_create_prompt_session api c p w = (s, w') \<longrightarrow>
        sessions w' = (case s of None \<Rightarrow> sessions w | Some x \<Rightarrow> add_mset x (sessions w)) \<and> fds w' = fds w) \<and>
     (\<forall>s w. sessions (mir_release api s w) = sessions w - {#s#} \<and> fds (mir_release api s w) = fds w) \<and>
     (\<forall>s w fd w'. mir_new_fd api s w = (fd, w') \<longrightarrow> sessions w' = sessions w \<and>
        fds w' = (if fd = invalid_fd then fds w else add_mset fd (fds w))) \<and>
     (\<forall>fd w ec w'. fd_clear_flags api fd w = (ec, w') \<longrightarrow> sessions w' = sessions w \<and> fds w' = fds w) \<and>
     (\<forall>fd w ec w'. fd_close api fd w = (ec, w') \<longrightarrow> sessions w' = sessions w \<and> fds w' = fds w - {#fd#}) \<and>
     (\<forall>e w. sessions (print_close_error api e w) = sessions w \<and> fds (print_close_error api e w) = fds w) \<and>
     (\<forall>i w x w'. mc_app_info cfg i w = (x, w') \<longrightarrow> sessions w' = sessions w \<and> fds w' = fds w) \<and>
     (\<forall>p w x w'. mc_parent_pid cfg p w = (x, w') \<longrightarrow> sessions w' = sessions w \<and> fds w' = fds w) \<and>
     (\<forall>a w x w'. mc_exec cfg a w = (x, w') \<longrightarrow> sessions w' = sessions w \<and> fds w' = fds w) \<and>
     (\<forall>p w x w'. mc_wait_for cfg p w = (x, w') \<longrightarrow> sessions w' = sessions w \<and> fds w' = fds w)"

definition held_sessions :: "'s option \<Rightarrow> 's multiset" where
  "held_sessions held = (case held of None \<Rightarrow> {#} | Some s \<Rightarrow> {#s#})"

lemma accountsD:
  assumes "mir_accounts api cfg sessions fds"
  shows "mir_create_prompt_session api c p w = (s, w') \<Longrightarrow>
      sessions w' = (case s of None \<Rightarrow> sessions w | Some x \<Rightarrow> add_mset x (sessions w))"
    and "mir_create_prompt_session api c p w = (s, w') \<Longrightarrow> fds w' = fds w"
    and "sessions (mir_release api x w) = sessions w - {#x#}" and "fds (mir_release api x w) = fds w"
    and "mir_new_fd api x w = (fd, w') \<Longrightarrow> sessions w' = sessions w"
    and "mir_new_fd api x w = (fd, w') \<Longrightarrow> fds w' = (if fd = invalid_fd then fds w else add_mset fd (fds w))"
    and "fd_clear_flags api fd w = (ec, w') \<Longrightarrow> sessions w' = sessions w \<and> fds w' = fds w"
    and "fd_close api fd w = (ec, w') \<Longrightarrow> sessions w' = sessions w"
    and "fd_close api fd w = (ec, w') \<Longrightarrow> fds w' = fds w - {#fd#}"
    and "sessions (print_close_error api e w) = sessions w" and "fds (print_close_error api e w) = fds w"
    and "mc_parent_pid cfg p w = (parent, w') \<Longrightarrow> sessions w' = sessions w"
    and "mc_parent_pid cfg p w = (parent, w') \<Longrightarrow> fds w' = fds w"
  using assms by (auto simp: mir_accounts_def)

lemma accounts_keep:
  assumes "mir_accounts api cfg sessions fds"
  shows "keeps (\<lambda>w. (sessions w, fds w)) (mc_app_info cfg i)"
    and "keeps (\<lambda>w. (sessions w, fds w)) (mc_exec cfg a)"
    and "keeps (\<lambda>w. (sessions w, fds w)) (mc_wait_for cfg q)"
  using assms by (simp_all add: mir_accounts_def keeps_def) (metis prod.collapse)+

lemma session_attempt_accounts:
  assumes acc: "mir_accounts api cfg sessions fds" and held: "sessions w = base + held_sessions held"
  shows "case session_attempt api cfg requested held p w of
      Stop (Inl e) w' \<Rightarrow> sessions w' = base \<and> fds w' = fds w
    | Stop (Inr s) w' \<Rightarrow> sessions w' = add_mset s base \<and> fds w' = fds w
    | Again s parent w' \<Rightarrow> sessions w' = add_mset s base \<and> fds w' = fds w"
proof -
  obtain s w1 where c: "mir_create_prompt_session api (mc_connection cfg) p w = (s, w1)" by (metis surj_pair)
  have w1: "sessions w1 = (case s of None \<Rightarrow> sessions w | Some x \<Rightarrow> add_mset x (sessions w))" "fds w1 = fds w"
    using accountsD(1,2) [OF acc c] by simp_all
  have rel: "sessions (mir_release api x v) = sessions v - {#x#}" "fds (mir_release api x v) = fds v" for x v
    using accountsD(3,4) [OF acc] by simp_all
  let ?w2 = "release_held api held w1"
  have w2: "sessions ?w2 = (case s of None \<Rightarrow> base | Some x \<Rightarrow> add_mset x base)" "fds ?w2 = fds w"
    using w1 held rel by (auto simp: release_held_def held_sessions_def split: option.split)
  obtain y w3 where p: "mc_parent_pid cfg p ?w2 = (y, w3)" by (metis surj_pair)
  have w3: "sessions w3 = sessions ?w2" "fds w3 = fds ?w2" using accountsD(12,13) [OF acc p] by simp_all
  show ?thesis
    using w2 w3 by (auto simp: session_attempt_def create_prompt_session_sync_def c PromptSession_new_def Let_def p rel
        split: option.split sum.split)
qed

text \<open>What holds when the search starts and is kept by every turn holds when it ends.\<close>

lemma find_session_rule:
  assumes ret: "find_session api cfg requested held p w = Some (x, w')"
    and init: "I held p w"
    and turn: "\<And>h q v s q' v'. I h q v \<Longrightarrow> session_attempt api cfg requested h q v = Again s q' v' \<Longrightarrow> I (Some s) q' v'"
    and stop: "\<And>h q v y v'. I h q v \<Longrightarrow> session_attempt api cfg requested h q v = Stop y v' \<Longrightarrow> Q y v'"
  shows "Q x w'"
proof -
  let ?P = "\<lambda>a c r h q v y. a = api \<longrightarrow> c = cfg \<longrightarrow> r = requested \<longrightarrow> I h q v \<longrightarrow> Q (fst y) (snd y)"
  have "?P api cfg requested held p w (x, w')"
  proof (rule find_session.raw_induct [where P = ?P, OF _ ret])
    fix f a c r h q v y
    assume IH: "\<And>a c r h q v y. f a c r h q v = Some y \<Longrightarrow> ?P a c r h q v y"
      and eq: "(case session_attempt a c r h q v of Stop x w' \<Rightarrow> Some (x, w')
        | Again s parent w' \<Rightarrow> f a c r (Some s) parent w') = Some y"
    show "?P a c r h q v y"
    proof (intro impI)
      assume "a = api" "c = cfg" "r = requested" "I h q v"
      with eq IH turn stop show "Q (fst y) (snd y)"
        by (cases "session_attempt api cfg requested h q v") auto
    qed
  qed
  then show ?thesis using init by simp
qed

lemma find_session_accounts:
  assumes ret: "find_session api cfg requested None p w = Some (x, w')"
    and acc: "mir_accounts api cfg sessions fds"
  shows "(case x of Inl e \<Rightarrow> sessions w' = sessions w | Inr s \<Rightarrow> sessions w' = add_mset s (sessions w)) \<and> fds w' = fds w"
proof (rule find_session_rule [OF ret, where I = "\<lambda>h q v. sessions v = sessions w + held_sessions h \<and> fds v = fds w"])
  show "sessions w = sessions w + held_sessions None \<and> fds w = fds w" by (simp add: held_sessions_def)
next
  fix h q v s q' v'
  assume "sessions v = sessions w + held_sessions h \<and> fds v = fds w" "session_attempt api cfg requested h q v = Again s q' v'"
  then show "sessions v' = sessions w + held_sessions (Some s) \<and> fds v' = fds w"
    using session_attempt_accounts [OF acc, of v "sessions w" h requested q] by (simp add: held_sessions_def)
next
  fix h q v y v'
  assume "sessions v = sessions w + held_sessions h \<and> fds v = fds w" "session_attempt api cfg requested h q v = Stop y v'"
  then show "(case y of Inl e \<Rightarrow> sessions v' = sessions w | Inr s \<Rightarrow> sessions v' = add_mset s (sessions w)) \<and> fds v' = fds w"
    using session_attempt_accounts [OF acc, of v "sessions w" h requested q] by (simp split: sum.splits)
qed

lemma close_fd_accounts:
  assumes "mir_accounts api cfg sessions fds"
  shows "sessions (snd (close_fd api fd w)) = sessions w"
    and "fd \<noteq> - 1 \<Longrightarrow> fds (snd (close_fd api fd w)) = fds w - {#fd#}"
proof -
  obtain ec w' where c: "fd_close api fd w = (ec, w')" by (metis surj_pair)
  show "sessions (snd (close_fd api fd w)) = sessions w"
    and "fd \<noteq> - 1 \<Longrightarrow> fds (snd (close_fd api fd w)) = fds w - {#fd#}"
    using accountsD(8,9) [OF assms c] accountsD(10,11) [OF assms]
    by (auto simp: close_fd_def c split: option.split)
qed

lemma prompt_in_session_accounts:
  assumes acc: "mir_accounts api cfg sessions fds" and ret: "prompt_in_session api cfg p s w = (x, w')"
  shows "sessions w' = sessions w \<and>
    (fds w' = fds w \<or> (\<exists>s fd errno v1 v2 v3. mir_new_fd api s v1 = (fd, v2) \<and> fd_clear_flags api fd v2 = (Some errno, v3) \<and>
       x = Inl (system_error errno) \<and> fds w' = add_mset fd (fds w)))"
proof -
  obtain fd w1 where fd: "mir_new_fd api s w = (fd, w1)" by (metis surj_pair)
  obtain ec w2 where fl: "fd_clear_flags api fd w1 = (ec, w2)" by (metis surj_pair)
  note w1 = accountsD(5,6) [OF acc fd] and w2 = accountsD(7) [OF acc fl]
  show ?thesis
  proof (cases "fd = invalid_fd \<or> ec \<noteq> None")
    case True
    then consider "fd = invalid_fd" | e where "fd \<noteq> invalid_fd" "ec = Some e" by auto
    then show ?thesis
    proof cases
      case 1
      with ret w1 show ?thesis by (simp add: prompt_in_session_def bindE_apply new_fd_for_prompt_provider_def fd)
    next
      case 2
      with ret w1 w2 fl have "sessions w' = sessions w" "x = Inl (system_error e)" "fds w' = add_mset fd (fds w)"
        by (auto simp: prompt_in_session_def bindE_apply new_fd_for_prompt_provider_def fd)
      with fd fl 2(2) show ?thesis by blast
    qed
  next
    case False
    obtain y w3 where run: "run_prompt_provider cfg p fd w2 = (y, w3)" by (metis surj_pair)
    have "sessions w3 = sessions w2 \<and> fds w3 = fds w2"
    proof -
      have "keeps (\<lambda>w. (sessions w, fds w)) (run_prompt_provider cfg p fd)"
        unfolding run_prompt_provider_def by (intro keeps_bind accounts_keep [OF acc]) (simp split: sum.split)
      from keepsD [OF this run] show ?thesis by simp
    qed
    moreover have "w' = snd (close_fd api fd w3)"
    proof -
      have "new_fd_for_prompt_provider api s w = (Inr fd, w2)"
        using False fl by (simp add: new_fd_for_prompt_provider_def fd)
      from ret [unfolded prompt_in_session_def bindE_Inr [where m = "new_fd_for_prompt_provider api s", OF this]]
      show ?thesis by (simp add: finallyE_apply run)
    qed
    ultimately show ?thesis using close_fd_accounts [OF acc] w1 w2 False by (simp add: invalid_fd_def)
  qed
qed

text \<open>
  C22. Every way out of the agent, return or exception, releases what it acquired: no prompt session stays
  open, also when several were opened on the way up the process tree, and no file descriptor stays open,
  except that the descriptor is leaked when clearing its flags fails, which is then the error thrown.
\<close>

theorem mir_agent_releases_resources:
  assumes "mir_accounts api cfg sessions fds" and "Mir_authenticate api cfg p w = Some (x, w')"
  shows "sessions w' = sessions w \<and>
    (fds w' = fds w \<or> (\<exists>s fd errno v1 v2 v3. mir_new_fd api s v1 = (fd, v2) \<and> fd_clear_flags api fd v2 = (Some errno, v3) \<and>
       x = Inl (system_error errno) \<and> fds w' = add_mset fd (fds w)))"
proof -
  from assms(2) obtain y w1 where f: "find_session api cfg (app_pid p) None (app_pid p) w = Some (y, w1)"
    by (auto simp: Mir_authenticate_def split: option.splits)
  show ?thesis
  proof (cases y)
    case (Inl e)
    with find_session_accounts [OF f assms(1)] assms(2) f show ?thesis by (simp add: Mir_authenticate_def)
  next
    case (Inr s)
    obtain z w2 where z: "prompt_in_session api cfg p s w1 = (z, w2)" by (metis surj_pair)
    have "x = z" "w' = mir_release api s w2"
      using assms(2) f Inr z by (simp_all add: Mir_authenticate_def finallyE_apply)
    with find_session_accounts [OF f assms(1)] prompt_in_session_accounts [OF assms(1) z] Inr accountsD(3,4) [OF assms(1)]
    show ?thesis by auto
  qed
qed

text \<open>
  A process with the number 42 that has no session of its own, and its parent 41, which has one. The world
  records the open sessions and descriptors.
\<close>

definition demo_mir :: "(pid multiset \<times> int multiset, unit, pid) mir_api" where
  "demo_mir = \<lparr>mir_connect_sync = (\<lambda>_ _ w. ((), w)), mir_connection_is_valid = (\<lambda>_ _. True),
     mir_create_prompt_session = (\<lambda>_ p (ss, fs). (Some p, (add_mset p ss, fs))),
     mir_error_message = (\<lambda>s _. if s = Pid 42 then error_no_session else []),
     mir_new_fd = (\<lambda>_ (ss, fs). (9, (ss, add_mset 9 fs))), mir_release = (\<lambda>s (ss, fs). (ss - {#s#}, fs)),
     fd_clear_flags = (\<lambda>_ w. (None, w)), fd_close = (\<lambda>fd (ss, fs). (None, (ss, fs - {#fd#}))),
     print_close_error = (\<lambda>_ w. w)\<rparr>"

definition demo_mir_configuration :: "byte \<Rightarrow> (pid multiset \<times> int multiset, unit, nat) mir_configuration" where
  "demo_mir_configuration status = \<lparr>mc_connection = (), mc_exec = (\<lambda>_. returnE 7),
     mc_wait_for = (\<lambda>_. returnE \<lparr>wr_status = wait_exited, wr_exit_status = status\<rparr>),
     mc_translator = translator_only_accepting_exit_status_success,
     mc_app_info = (\<lambda>i. returnE \<lparr>ai_icon = ''icon'', ai_name = ''name'', ai_id = i\<rparr>),
     mc_parent_pid = (\<lambda>p. returnE (Pid (pid_value p - 1)))\<rparr>"

definition demo_mir_params :: agent_params where
  "demo_mir_params = \<lparr>app_uid = Uid 1000, app_pid = Pid 42, app_id = ''app'', app_feature = Feature 0,
     app_description = ''d''\<rparr>"

lemmas demo_mir_defs = demo_mir_def demo_mir_configuration_def demo_mir_params_def

lemma demo_mir_find:
  "find_session demo_mir (demo_mir_configuration st) (Pid 42) None (Pid 42) ({#}, {#}) =
     Some (Inr (Pid 41), ({#Pid 41#}, {#}))"
  by (subst find_session.simps, simp add: session_attempt_def create_prompt_session_sync_def PromptSession_new_def
      demo_mir_defs release_held_def Let_def error_no_session_def,
      subst find_session.simps, simp add: session_attempt_def create_prompt_session_sync_def PromptSession_new_def
      demo_mir_defs release_held_def Let_def error_no_session_def)

lemma demo_mir_run:
  "Mir_authenticate demo_mir (demo_mir_configuration st) demo_mir_params ({#}, {#}) =
     Some (if st = 1 then Inr denied else Inr granted, ({#}, {#}))"
proof -
  have "app_pid demo_mir_params = Pid 42" by (simp add: demo_mir_params_def)
  then show ?thesis
    by (simp add: Mir_authenticate_def demo_mir_find finallyE_apply prompt_in_session_def bindE_apply
        new_fd_for_prompt_provider_def invalid_fd_def close_fd_def translator_only_accepting_exit_status_success_def
        exit_failure_def run_prompt_provider_def) (simp add: finallyE_apply demo_mir_defs translator_only_accepting_exit_status_success_def exit_failure_def)
qed

lemma demo_mir_accounts: "mir_accounts demo_mir (demo_mir_configuration st) fst snd"
  by (auto simp: mir_accounts_def demo_mir_defs invalid_fd_def)

theorem mir_agent_releases_resources_witness:
  "\<exists>x w'. Mir_authenticate demo_mir (demo_mir_configuration 0) demo_mir_params ({#}, {#}) = Some (x, w') \<and> fst w' = {#}"
  using mir_agent_releases_resources [OF demo_mir_accounts demo_mir_run] demo_mir_run by auto

section \<open>Termination and the answer\<close>

text \<open>The search goes on only with the parent of the process it tried, and never with init.\<close>

lemma session_attempt_Again:
  assumes "session_attempt api cfg requested held p w = Again s q v"
  shows "\<exists>v1. mc_parent_pid cfg p v1 = (Inr q, v) \<and> 1 < sint (pid_value q)"
  using assms by (auto simp: session_attempt_def Let_def not_le split: prod.splits sum.splits if_splits)

lemma session_attempt_Stop:
  assumes "session_attempt api cfg requested held p w = Stop (Inr s) v"
  shows "\<exists>v1. mir_create_prompt_session api (mc_connection cfg) p w = (Some s, v1) \<and> v = release_held api held v1 \<and>
    mir_error_message api s v = []"
  using assms by (auto simp: session_attempt_def create_prompt_session_sync_def PromptSession_new_def Let_def
      split: prod.splits sum.splits if_splits option.splits)

lemma find_session_returns:
  assumes up: "\<And>q v q' v'. mc_parent_pid cfg q v = (Inr q', v') \<Longrightarrow> 1 < sint (pid_value q') \<Longrightarrow> rank q' < (rank q :: nat)"
  shows "\<exists>y. find_session api cfg requested held p w = Some y"
proof (induction "rank p" arbitrary: p held w rule: less_induct)
  case less
  show ?case
  proof (cases "session_attempt api cfg requested held p w")
    case (Again s q v)
    with session_attempt_Again [OF this] up have "rank q < rank p" by blast
    from less [OF this, of "Some s" v] Again show ?thesis by (simp add: find_session.simps [of _ _ _ held])
  qed (simp add: find_session.simps)
qed

text \<open>
  C21. The agent returns or throws, it does not search forever. Its parent pids are those it reads from \<^verbatim>\<open>/proc\<close>, at
  whatever time, and the reading may fail; it is enough that there is a rank (the order in which the processes were started, say)
  that goes down whenever a parent other than init is found.
\<close>

theorem mir_agent_returns:
  assumes "mc_parent_pid cfg = get_parent_pid_resolver read_stat"
    and "\<And>q v stat v'. read_stat q v = (Inr stat, v') \<Longrightarrow> 1 < sint (stat_parent stat) \<Longrightarrow> rank (stat_parent stat) < (rank q :: nat)"
  shows "\<exists>x w'. Mir_authenticate api cfg p w = Some (x, w')"
proof -
  have "\<exists>y. find_session api cfg (app_pid p) None (app_pid p) w = Some y"
    by (rule find_session_returns [where rank = "\<lambda>q. rank (pid_value q)"])
      (auto simp: assms(1) get_parent_pid_resolver_def bindE_returns_iff intro: assms(2))
  then show ?thesis by (auto simp: Mir_authenticate_def split: prod.splits sum.splits)
qed

text \<open>A process table with two processes only.\<close>

definition demo_read_stat :: "int32 \<Rightarrow> ('w, proc_stat) act" where
  "demo_read_stat p = (if p = 43 then returnE \<lparr>stat_parent = 42, stat_start_time = 9\<rparr>
     else if p = 42 then returnE \<lparr>stat_parent = 1, stat_start_time = 8\<rparr>
     else throwE (runtime_error ''Could not open file''))"

theorem mir_agent_returns_witness:
  "\<exists>x w'. Mir_authenticate demo_mir ((demo_mir_configuration 0)\<lparr>mc_parent_pid := get_parent_pid_resolver demo_read_stat\<rparr>)
     (demo_mir_params\<lparr>app_pid := Pid 42\<rparr>) ({#}, {#}) = Some (x, w')"
  by (rule mir_agent_returns [where rank = "\<lambda>q. unat q" and read_stat = demo_read_stat])
    (auto simp: demo_read_stat_def split: if_splits)

lemma lifted_returns:
  "(case t of Inl e \<Rightarrow> throwE e | Inr x \<Rightarrow> returnE x) w = (Inr a, w') \<longleftrightarrow> t = Inr a \<and> w' = w"
  by (cases t) auto

text \<open>One step up the process tree.\<close>

definition steps_up :: "('w, 'c, 'p) mir_configuration \<Rightarrow> pid \<Rightarrow> pid \<Rightarrow> bool" where
  "steps_up cfg p q \<longleftrightarrow> (\<exists>v v'. mc_parent_pid cfg p v = (Inr q, v')) \<and> 1 < sint (pid_value q)"

text \<open>
  The session \<open>s\<close> was opened by Mir for \<open>p\<close> or an ancestor, and is without error in the world \<open>w\<close>, to which the search
  returns, once the session held before has been released.
\<close>

definition session_found ::
  "('w, 'c, 's) mir_api \<Rightarrow> ('w, 'c, 'p) mir_configuration \<Rightarrow> pid \<Rightarrow> 's \<Rightarrow> 'w \<Rightarrow> bool"
where
  "session_found api cfg p s w \<longleftrightarrow> (\<exists>q v v' held. (steps_up cfg)\<^sup>*\<^sup>* p q \<and>
     mir_create_prompt_session api (mc_connection cfg) q v = (Some s, v') \<and> w = release_held api held v' \<and>
     mir_error_message api s w = [])"

lemma find_session_found:
  fixes api :: "('w, 'c, 's) mir_api"
  assumes "find_session api cfg requested None p w = Some (Inr s, w')"
  shows "session_found api cfg p s w'"
proof -
  let ?Q = "\<lambda>(x :: exn + 's) w'. \<forall>s. x = Inr s \<longrightarrow> session_found api cfg p s w'"
  have "?Q (Inr s) w'"
  proof (rule find_session_rule [where I = "\<lambda>h q v. (steps_up cfg)\<^sup>*\<^sup>* p q" and Q = ?Q, OF assms])
    fix h q v s q' v'
    assume "(steps_up cfg)\<^sup>*\<^sup>* p q" and "session_attempt api cfg requested h q v = Again s q' v'"
    then show "(steps_up cfg)\<^sup>*\<^sup>* p q'"
      using session_attempt_Again [of api cfg requested h q v s q' v']
      by (metis rtranclp.rtrancl_into_rtrancl steps_up_def)
  next
    fix h q v y v'
    assume "(steps_up cfg)\<^sup>*\<^sup>* p q" and "session_attempt api cfg requested h q v = Stop y v'"
    then show "?Q y v'" using session_attempt_Stop [of api cfg requested h q v _ v'] unfolding session_found_def by blast
  qed simp
  then show ?thesis by simp
qed

text \<open>An answer of the agent is the answer of a run of the prompt provider in the session that was found.\<close>

lemma mir_answer_runs_provider:
  assumes "Mir_authenticate api cfg p w = Some (Inr a, w')"
  shows "\<exists>s w1 fd w2 w3 w4. find_session api cfg (app_pid p) None (app_pid p) w = Some (Inr s, w1) \<and>
    mir_new_fd api s w1 = (fd, w2) \<and> fd \<noteq> invalid_fd \<and> fd_clear_flags api fd w2 = (None, w3) \<and>
    run_prompt_provider cfg p fd w3 = (Inr a, w4) \<and> w' = mir_release api s (snd (close_fd api fd w4))"
proof -
  from assms obtain s w1 where f: "find_session api cfg (app_pid p) None (app_pid p) w = Some (Inr s, w1)"
    and r: "fst (prompt_in_session api cfg p s w1) = Inr a"
    and w': "w' = mir_release api s (snd (prompt_in_session api cfg p s w1))"
    by (auto simp: Mir_authenticate_def finallyE_apply split: option.splits sum.splits prod.splits)
  from r obtain fd w3 where fd: "new_fd_for_prompt_provider api s w1 = (Inr fd, w3)"
    and p: "prompt_in_session api cfg p s w1 = finallyE (run_prompt_provider cfg p fd) (close_fd api fd) w3"
    by (auto simp: prompt_in_session_def bindE_apply split: prod.splits sum.splits)
  obtain w4 where "run_prompt_provider cfg p fd w3 = (Inr a, w4)" "w' = mir_release api s (snd (close_fd api fd w4))"
    using r w' unfolding p by (auto simp: finallyE_apply close_fd_def split: prod.splits sum.splits)
  moreover have "\<exists>w2. mir_new_fd api s w1 = (fd, w2) \<and> fd \<noteq> invalid_fd \<and> fd_clear_flags api fd w2 = (None, w3)"
    using fd by (auto simp: new_fd_for_prompt_provider_def split: prod.splits if_splits option.splits)
  ultimately show ?thesis using f by blast
qed

lemma run_prompt_provider_returns:
  assumes "mc_translator cfg = translator_only_accepting_exit_status_success"
    and "run_prompt_provider cfg p fd w = (Inr a, w')"
  shows "\<exists>info v5 child v6 res. mc_app_info cfg (app_id p) w = (Inr info, v5) \<and>
    mc_exec cfg \<lparr>ia_fd = fd, ia_app_info = info, ia_description = app_description p\<rparr> v5 = (Inr child, v6) \<and>
    mc_wait_for cfg child v6 = (Inr res, w') \<and> wr_status res = wait_exited \<and>
    a = (if wr_exit_status res = 1 then denied else granted)"
proof -
  from assms(2) obtain info v5 child v6 res where "mc_app_info cfg (app_id p) w = (Inr info, v5)"
    "mc_exec cfg \<lparr>ia_fd = fd, ia_app_info = info, ia_description = app_description p\<rparr> v5 = (Inr child, v6)"
    "mc_wait_for cfg child v6 = (Inr res, w')" "translator_only_accepting_exit_status_success res = Inr a"
    by (auto simp: run_prompt_provider_def bindE_returns_iff assms(1) lifted_returns)
  moreover from this(4) have "wr_status res = wait_exited" "a = (if wr_exit_status res = 1 then denied else granted)"
    by (auto simp: translator_only_accepting_exit_status_success_def exit_failure_def split: if_splits)
  ultimately show ?thesis by blast
qed

text \<open>
  C19. The agent answers only after a prompt provider has run to its end in a session of the requesting process: Mir opened the
  session, without error, for that process or for one of its ancestors below init; the descriptor handed to the provider is one that Mir
  gave for this session, with its flags cleared; the provider was shown what is known of the application id and the
  description of the request, and it exited by itself. The answer is denied for the exit status
  \<^verbatim>\<open>EXIT_FAILURE\<close> and granted for every other one; then the descriptor is closed and the session released.
\<close>

theorem mir_answer_comes_from_prompt:
  assumes "mc_translator cfg = translator_only_accepting_exit_status_success"
    and "Mir_authenticate api cfg p w = Some (Inr a, w')"
  shows "\<exists>s v1 fd v2 v3 info v4 child v5 res v6.
    session_found api cfg (app_pid p) s v1 \<and> mir_new_fd api s v1 = (fd, v2) \<and> fd \<noteq> invalid_fd \<and>
    fd_clear_flags api fd v2 = (None, v3) \<and> mc_app_info cfg (app_id p) v3 = (Inr info, v4) \<and>
    mc_exec cfg \<lparr>ia_fd = fd, ia_app_info = info, ia_description = app_description p\<rparr> v4 = (Inr child, v5) \<and>
    mc_wait_for cfg child v5 = (Inr res, v6) \<and> wr_status res = wait_exited \<and>
    a = (if wr_exit_status res = 1 then denied else granted) \<and> w' = mir_release api s (snd (close_fd api fd v6))"
proof -
  from mir_answer_runs_provider [OF assms(2)] obtain s w1 fd w2 w3 w4 where
    f: "find_session api cfg (app_pid p) None (app_pid p) w = Some (Inr s, w1)"
    and fd: "mir_new_fd api s w1 = (fd, w2)" "fd \<noteq> invalid_fd" "fd_clear_flags api fd w2 = (None, w3)"
    and r: "run_prompt_provider cfg p fd w3 = (Inr a, w4)" "w' = mir_release api s (snd (close_fd api fd w4))" by blast
  show ?thesis
    using find_session_found [OF f] fd run_prompt_provider_returns [OF assms(1) r(1)] r(2) by blast
qed

theorem mir_answer_comes_from_prompt_witness:
  "\<exists>s v1 fd v2 child v5 res v6. session_found demo_mir (demo_mir_configuration 255) (Pid 42) s v1 \<and>
    mir_new_fd demo_mir s v1 = (fd, v2) \<and> mc_wait_for (demo_mir_configuration 255) child v5 = (Inr res, v6) \<and>
    wr_status res = wait_exited \<and> granted = (if wr_exit_status res = 1 then denied else granted)"
proof -
  have t: "mc_translator (demo_mir_configuration 255) = translator_only_accepting_exit_status_success"
    by (simp add: demo_mir_configuration_def)
  have "Mir_authenticate demo_mir (demo_mir_configuration 255) demo_mir_params ({#}, {#}) = Some (Inr granted, ({#}, {#}))"
    by (simp add: demo_mir_run)
  from mir_answer_comes_from_prompt [OF t this] have "\<exists>s v1 fd v2 child v5 res v6.
      session_found demo_mir (demo_mir_configuration 255) (app_pid demo_mir_params) s v1 \<and>
      mir_new_fd demo_mir s v1 = (fd, v2) \<and> mc_wait_for (demo_mir_configuration 255) child v5 = (Inr res, v6) \<and>
      wr_status res = wait_exited \<and> granted = (if wr_exit_status res = 1 then denied else granted)" by blast
  then show ?thesis by (simp only: demo_mir_params_def agent_params.simps)
qed

end
