(* ===== verification/Async_Loop.thy ===== *)
theory Async_Loop
  imports Prelude
begin

text \<open>
  Objects that keep one asynchronous operation going: the stub that accepts connections, the skeleton that reads requests
  (\<^verbatim>\<open>remote/posix.cpp\<close>) and the shell that reads lines (\<^verbatim>\<open>daemon.cpp\<close>). All three are built the same way: the object is held
  by shared pointers; the operation's handler holds one of them (\<^verbatim>\<open>shared_from_this\<close>); the handler may start the operation
  again; the destructor cancels an operation that is outstanding.

  What the handler does with a completion is the parameter \<open>handler\<close>: \<open>Inr True\<close> means that it has started the next
  operation. Of the event loop it is assumed, as documented, that a handler is called once per operation, that it is dropped
  when it returns or throws, and that its exception reaches nobody but the worker.
\<close>

record 's async_object =
  ao_state :: 's
  ao_pending :: bool
  ao_owners :: nat
  ao_destroyed :: bool
  ao_cancelled :: bool

text \<open>An object as its creator returns it: one owner, the operation started.\<close>

definition ao_create :: "'s \<Rightarrow> 's async_object" where
  "ao_create s = \<lparr>ao_state = s, ao_pending = True, ao_owners = 1, ao_destroyed = False, ao_cancelled = False\<rparr>"

definition ao_destroy :: "'s async_object \<Rightarrow> 's async_object" where
  "ao_destroy x = x\<lparr>ao_destroyed := True, ao_cancelled := ao_pending x\<rparr>"

text \<open>A shared pointer has been dropped: the last one runs the destructor.\<close>

definition ao_unref :: "'s async_object \<Rightarrow> 's async_object" where
  "ao_unref x = (if ao_owners x = 0 \<and> \<not> ao_pending x \<and> \<not> ao_destroyed x then ao_destroy x else x)"

datatype 'e async_event = Completed 'e | Owner_left

fun ao_event :: "('e \<Rightarrow> ('s, bool) act) \<Rightarrow> 'e async_event \<Rightarrow> 's async_object \<Rightarrow> 's async_object" where
  "ao_event handler (Completed e) x =
     (if ao_pending x then case handler e (ao_state x) of (r, s) \<Rightarrow> ao_unref (x\<lparr>ao_state := s, ao_pending := (r = Inr True)\<rparr>)
      else x)"
| "ao_event handler Owner_left x = (if ao_owners x = 0 then x else ao_unref (x\<lparr>ao_owners := ao_owners x - 1\<rparr>))"

definition ao_run :: "('e \<Rightarrow> ('s, bool) act) \<Rightarrow> 'e async_event list \<Rightarrow> 's async_object \<Rightarrow> 's async_object" where
  "ao_run handler es = fold (ao_event handler) es"

lemma ao_run_simps [simp]:
  "ao_run handler [] x = x" "ao_run handler (e # es) x = ao_run handler es (ao_event handler e x)"
  by (simp_all add: ao_run_def)

text \<open>The destructor finds nothing to cancel: an operation that is outstanding keeps the object alive.\<close>

definition ao_inv :: "'s async_object \<Rightarrow> bool" where
  "ao_inv x \<longleftrightarrow> \<not> ao_cancelled x \<and> (ao_destroyed x \<longleftrightarrow> ao_owners x = 0 \<and> \<not> ao_pending x)"

lemma ao_inv_create: "ao_inv (ao_create s)"
  by (simp add: ao_inv_def ao_create_def)

lemma ao_inv_event: "ao_inv x \<Longrightarrow> ao_inv (ao_event handler e x)"
  by (cases e) (auto simp: ao_inv_def ao_unref_def ao_destroy_def split: prod.split)

lemma ao_inv_run: "ao_inv x \<Longrightarrow> ao_inv (ao_run handler es x)"
  by (induction es arbitrary: x) (simp_all add: ao_inv_event)

text \<open>The events up to which every handler has started the next operation.\<close>

fun keeps_on :: "('e \<Rightarrow> ('s, bool) act) \<Rightarrow> 'e async_event list \<Rightarrow> 's \<Rightarrow> bool" where
  "keeps_on handler [] s = True"
| "keeps_on handler (Completed e # es) s = (case handler e s of (r, s') \<Rightarrow> r = Inr True \<and> keeps_on handler es s')"
| "keeps_on handler (Owner_left # es) s = keeps_on handler es s"

lemma ao_unref_simps [simp]: "ao_pending (ao_unref x) = ao_pending x" "ao_state (ao_unref x) = ao_state x"
  by (simp_all add: ao_unref_def ao_destroy_def)

lemma ao_idle: "\<not> ao_pending x \<Longrightarrow> \<not> ao_pending (ao_run handler es x) \<and> ao_state (ao_run handler es x) = ao_state x"
proof (induction es arbitrary: x)
  case (Cons e es)
  then show ?case by (cases e) (simp_all add: ao_run_simps)
qed simp

lemma ao_pending_iff: "ao_pending x \<Longrightarrow> ao_pending (ao_run handler es x) \<longleftrightarrow> keeps_on handler es (ao_state x)"
proof (induction es arbitrary: x)
  case (Cons e es)
  show ?case
  proof (cases e)
    case (Completed c)
    obtain r s where h: "handler c (ao_state x) = (r, s)" by force
    show ?thesis
    proof (cases "r = Inr True")
      case True
      with Completed h Cons show ?thesis by simp
    next
      case False
      with Completed h Cons.prems ao_idle [of "ao_unref (x\<lparr>ao_state := s, ao_pending := False\<rparr>)" handler es] show ?thesis by simp
    qed
  qed (use Cons in simp)
qed simp

section \<open>Error codes\<close>

text \<open>
  What the three handlers have in common: an aborted operation is not started again; any other error is answered by starting
  it again, and by what \<open>again\<close> says.
\<close>

locale retrying_handler =
  fixes handler :: "'e \<Rightarrow> ('s, bool) act" and aborted failed :: "'e \<Rightarrow> bool" and again :: "'s \<Rightarrow> 's"
  assumes aborts: "aborted e \<Longrightarrow> handler e s = (Inr False, s)"
    and retries: "failed e \<Longrightarrow> handler e s = (Inr True, again s)"
begin

text \<open>An operation that fails from now on is started again and again, whoever still holds the object.\<close>

lemma failing_forever:
  assumes "ao_pending x" and "\<forall>e \<in> set es. failed e"
  shows "ao_run handler (map Completed es) x = x\<lparr>ao_state := (again ^^ length es) (ao_state x)\<rparr>"
  using assms
proof (induction es arbitrary: x)
  case (Cons e es)
  then have "ao_event handler (Completed e) x = x\<lparr>ao_state := again (ao_state x)\<rparr>" by (simp add: retries ao_unref_def)
  with Cons show ?case by (simp add: funpow_swap1)
qed simp

text \<open>An abort ends it, and nothing the object is told afterwards changes it.\<close>

lemma abort_ends:
  assumes "aborted e" and "ao_pending x"
  shows "\<not> ao_pending (ao_run handler (Completed e # es) x)"
    and "ao_state (ao_run handler (Completed e # es) x) = ao_state x"
  using ao_idle [of "ao_event handler (Completed e) x" handler es] assms by (simp_all add: aborts)

end

end
