(* ===== verification/Remote_Posix_Life.thy ===== *)
theory Remote_Posix_Life
  imports Remote_Posix Async_Loop
begin

text \<open>
  The life of the two ends of the remote agent over a socket (\<^verbatim>\<open>remote/posix.cpp\<close>): how a stub and a skeleton are created,
  how the stub keeps accepting connections and the skeleton keeps reading requests, and what ends them. Both are
  objects with one asynchronous operation; the handlers are those of \<open>Remote_Posix\<close>.

  A session is the number of its socket: \<^verbatim>\<open>start_accept\<close> makes a new one for each operation.
\<close>

section \<open>The stub\<close>

text \<open>The session that is waiting for its connection, the registry, and the world.\<close>

type_synonym 'w stub_state = "nat \<times> sessions \<times> 'w"

definition Stub_start_accept :: "('w stub_state, unit) act" where
  "Stub_start_accept = modifyE (\<lambda>(n, s, w). (Suc n, s, w))"

text \<open>\<open>listen\<close> opens the acceptor on the endpoint, or throws.\<close>

definition Stub_new :: "(string \<Rightarrow> ('w, unit) act) \<Rightarrow> string \<Rightarrow> ('w, unit) act" where
  "Stub_new listen endpoint = listen endpoint"

definition create_stub_for_configuration ::
  "(string \<Rightarrow> ('w, unit) act) \<Rightarrow> string \<Rightarrow> sessions \<Rightarrow> 'w \<Rightarrow> exn \<times> 'w + 'w stub_state async_object"
where
  "create_stub_for_configuration listen endpoint session_registry w = (case Stub_new listen endpoint w of
       (Inl e, w') \<Rightarrow> Inl (e, w')
     | (Inr _, w') \<Rightarrow> Inr (ao_create (snd (Stub_start_accept (0, session_registry, w')))))"

text \<open>The handler of the accept: \<^verbatim>\<open>on_new_session\<close>, and \<^verbatim>\<open>start_accept\<close> where it calls it.\<close>

definition Stub_accepted :: "'w posix_system \<Rightarrow> int option \<Rightarrow> ('w stub_state, bool) act" where
  "Stub_accepted sys ec = (\<lambda>(n, s, w). case on_new_session sys ec n (s, w) of (r, (s', w')) \<Rightarrow>
     if r = Inr True then (Inr True, snd (Stub_start_accept (n, s', w'))) else (r, (n, s', w')))"

section \<open>The skeleton\<close>

text \<open>\<open>boost\<close> says which exceptions are of class \<^verbatim>\<open>boost::exception\<close>.\<close>

definition Skeleton_new :: "(exn \<Rightarrow> bool) \<Rightarrow> (string \<Rightarrow> ('w, unit) act) \<Rightarrow> string \<Rightarrow> ('w, unit) act" where
  "Skeleton_new boost connect endpoint =
     catchE boost (connect endpoint) (\<lambda>_. throwE (runtime_error (''Could not connect to endpoint: '' @ endpoint)))"

definition create_skeleton_for_configuration ::
  "(exn \<Rightarrow> bool) \<Rightarrow> (string \<Rightarrow> ('w, unit) act) \<Rightarrow> string \<Rightarrow> 'w \<Rightarrow> exn \<times> 'w + 'w async_object"
where
  "create_skeleton_for_configuration boost connect endpoint w = (case Skeleton_new boost connect endpoint w of
       (Inl e, w') \<Rightarrow> Inl (e, w')
     | (Inr _, w') \<Rightarrow> Inr (ao_create w'))"

text \<open>The completion of a read: the error code, the bytes read, and the request in the buffer.\<close>

type_synonym read_result = "int option \<times> nat \<times> posix_request"

definition Skeleton_read :: "'w posix_skeleton \<Rightarrow> (answer \<Rightarrow> ('w, unit) act) \<Rightarrow> read_result \<Rightarrow> ('w, bool) act" where
  "Skeleton_read sk write_back = (\<lambda>(ec, n, r). on_read_finished sk write_back ec n r)"

section \<open>Both retry\<close>

lemma Stub_accepted_simps:
  "Stub_accepted sys (Some ec) (n, s, w) =
     (if ec = operation_aborted then (Inr False, (n, s, w)) else (Inr True, (Suc n, s, w)))"
  "Stub_accepted sys None (n, s, w) = (case ps_peer_credentials sys n w of
       (Inl e, w') \<Rightarrow> (Inl e, (n, s, w'))
     | (Inr pc, w') \<Rightarrow> (Inr True, (Suc n, s(fst pc \<mapsto> n), w')))"
  by (simp_all add: Stub_accepted_def on_new_session_def Stub_start_accept_def bindE_apply add_session_for_uid_def
      split: prod.split sum.split)

interpretation accepting: retrying_handler "Stub_accepted sys" "\<lambda>ec. ec = Some operation_aborted"
  "\<lambda>ec. ec \<noteq> None \<and> ec \<noteq> Some operation_aborted" "\<lambda>(n, s). (Suc n, s)"
proof
  show "Stub_accepted sys ec s = (Inr False, s)" if "ec = Some operation_aborted" for ec s
    using that by (cases s) (simp add: Stub_accepted_simps)
  show "Stub_accepted sys ec st = (Inr True, case st of (n, s) \<Rightarrow> (Suc n, s))" if "ec \<noteq> None \<and> ec \<noteq> Some operation_aborted" for ec st
    using that by (cases st; cases ec) (simp_all add: Stub_accepted_simps)
qed

interpretation reading: retrying_handler "Skeleton_read sk write_back" "\<lambda>r. fst r = Some operation_aborted"
  "\<lambda>r. fst r \<noteq> None \<and> fst r \<noteq> Some operation_aborted" "\<lambda>w. w"
  by unfold_locales (auto simp: Skeleton_read_def on_read_finished_def)

section \<open>Which sessions get which requests\<close>

text \<open>What happens to a stub: an accept completes, or a request is sent, in any order.\<close>

datatype stub_event = Accept_completed "int option" | Request_sent agent_params

fun stub_happens :: "'w posix_system \<Rightarrow> stub_event \<Rightarrow> 'w stub_state \<Rightarrow> 'w stub_state" where
  "stub_happens sys (Accept_completed ec) st = snd (Stub_accepted sys ec st)"
| "stub_happens sys (Request_sent p) (n, s, w) = (n, snd (Stub_send sys p (s, w)))"

text \<open>The operating system reports for a socket the user its peer runs as.\<close>

definition reports_peer :: "'w posix_system \<Rightarrow> (nat \<Rightarrow> uid) \<Rightarrow> bool" where
  "reports_peer sys peer \<longleftrightarrow> (\<forall>h w pc w'. ps_peer_credentials sys h w = (Inr pc, w') \<longrightarrow> fst pc = peer h)"

definition own_sessions :: "(nat \<Rightarrow> uid) \<Rightarrow> sessions \<Rightarrow> bool" where
  "own_sessions peer s \<longleftrightarrow> (\<forall>u h. s u = Some h \<longrightarrow> peer h = u)"

lemma own_sessions_accepted:
  assumes "reports_peer sys peer" and "own_sessions peer s" and "Stub_accepted sys ec (n, s, w) = (r, (n', s', w'))"
  shows "own_sessions peer s'"
proof (cases ec)
  case None
  obtain x v where x: "ps_peer_credentials sys n w = (x, v)" by force
  have "fst pc = peer n" if "x = Inr pc" for pc using assms(1) x that unfolding reports_peer_def by blast
  with x assms(2,3) None show ?thesis
    by (cases x) (auto simp: Stub_accepted_simps own_sessions_def split: if_splits)
qed (use assms in \<open>auto simp: Stub_accepted_simps split: if_splits\<close>)

lemma Stub_send_sessions: "Stub_send sys p (s, w) = (r, (s', w')) \<Longrightarrow> s' = s \<or> s' = s(app_uid p := None)"
  by (auto simp: Stub_send_cases sessions_after_def split: prod.splits sum.splits option.splits if_splits)

lemma own_sessions_run:
  assumes "reports_peer sys peer" and "own_sessions peer (fst (snd st))"
  shows "own_sessions peer (fst (snd (fold (stub_happens sys) evs st)))"
  using assms(2)
proof (induction evs arbitrary: st)
  case (Cons ev evs)
  obtain n s w where st: "st = (n, s, w)" by (cases st)
  have "own_sessions peer (fst (snd (stub_happens sys ev st)))"
  proof (cases ev)
    case (Accept_completed ec)
    obtain r n' s' w' where a: "Stub_accepted sys ec (n, s, w) = (r, (n', s', w'))" by (metis prod_cases4)
    with own_sessions_accepted [OF assms(1) _ a] Cons.prems st Accept_completed show ?thesis by simp
  next
    case (Request_sent p)
    obtain r s' w' where a: "Stub_send sys p (s, w) = (r, (s', w'))" by (metis prod_cases3)
    with Stub_send_sessions [OF a] Cons.prems st Request_sent show ?thesis
      by (auto simp: own_sessions_def split: if_splits)
  qed
  from Cons.IH [OF this] show ?case by simp
qed simp

text \<open>
  C23. A request goes to its own user only. Whatever connections have come in and whatever requests have been sent and have
  failed, in any order, every session of the registry belongs to the user it is registered for, as the operating system reports
  the peer of its socket. So an answer that the stub returns was read from a process of the user of the request.
\<close>

theorem requests_reach_only_their_user:
  assumes "reports_peer sys peer" and "fold (stub_happens sys) evs (1, Map.empty, w) = (n, s, w1)"
  shows "(s u = Some h \<longrightarrow> peer h = u) \<and>
    (Stub_send sys p (s, w1) = (Inr a, (s', w2)) \<longrightarrow>
       (\<exists>h v v'. peer h = app_uid p \<and> s (app_uid p) = Some h \<and> ps_read sys h v = ((None, a), v')))"
proof -
  have "own_sessions peer s"
    using own_sessions_run [OF assms(1), of "(1, Map.empty, w)" evs] assms(2) by (simp add: own_sessions_def)
  then show ?thesis
    by (auto simp: own_sessions_def Stub_send_cases split: option.splits prod.splits sum.splits if_splits)
qed

text \<open>A system with two users: the peers of the first three sockets run as user 1000, the others as user 1001.\<close>

definition demo_peer :: "nat \<Rightarrow> uid" where
  "demo_peer h = (if h < 4 then Uid 1000 else Uid 1001)"

definition demo_posix :: "unit posix_system" where
  "demo_posix = \<lparr>ps_start_time = (\<lambda>_. returnE 7), ps_write = (\<lambda>_ _ w. (None, w)),
     ps_read = (\<lambda>h w. ((None, if demo_peer h = Uid 1000 then granted else denied), w)),
     ps_peer_credentials = (\<lambda>h. returnE (demo_peer h, Pid 5, Gid 5))\<rparr>"

lemma demo_posix_reports: "reports_peer demo_posix demo_peer"
  by (simp add: reports_peer_def demo_posix_def)

theorem requests_reach_only_their_user_witness:
  "case fold (stub_happens demo_posix) [Accept_completed None, Accept_completed (Some 24), Accept_completed None, Accept_completed None]
      (1, Map.empty, ()) of (n, s, w) \<Rightarrow> s (Uid 1000) = Some 3 \<and> demo_peer 3 = Uid 1000 \<and> n = 5"
proof -
  let ?evs = "[Accept_completed None, Accept_completed (Some 24), Accept_completed None, Accept_completed None]"
  have run: "fold (stub_happens demo_posix) ?evs (1, Map.empty, ()) =
      (5, [Uid 1000 \<mapsto> 1, Uid 1000 \<mapsto> 3, Uid 1001 \<mapsto> 4], ())"
    by (simp add: Stub_accepted_simps demo_posix_def demo_peer_def operation_aborted_def del: One_nat_def)
  from requests_reach_only_their_user [OF demo_posix_reports run, of "Uid 1000" 3] show ?thesis
    unfolding run by simp
qed

section \<open>What ends the two loops\<close>

lemma Stub_accepted_continues:
  "fst (Stub_accepted sys ec (n, s, w)) = Inr True \<longleftrightarrow>
     ec \<noteq> Some operation_aborted \<and> (ec = None \<longrightarrow> (\<exists>pc w'. ps_peer_credentials sys n w = (Inr pc, w')))"
  by (cases ec) (auto simp: Stub_accepted_simps split: prod.split sum.split)

text \<open>
  C27. How long a stub accepts connections. After any completions of its accepts and any of its owners leaving: an accept is
  followed by the next one, whatever error it had, unless it was aborted or the credentials of the peer could not be had, and
  then the stub is deaf for good, although it may still be in use. The destructor, which is to cancel an accept that is
  outstanding, never finds one: the handler of the accept owns the stub, so the stub lives as long as it accepts.
\<close>

theorem stub_accepts_until_abort_or_unknown_peer:
  assumes x: "x = ao_run (Stub_accepted sys) es (ao_create st)"
  shows "(\<not> ao_cancelled x \<and> (ao_destroyed x \<longleftrightarrow> ao_owners x = 0 \<and> \<not> ao_pending x)) \<and>
    (ao_pending x \<and> ao_state x = (n, s, w) \<longrightarrow> (ao_pending (ao_event (Stub_accepted sys) (Completed ec) x) \<longleftrightarrow>
       ec \<noteq> Some operation_aborted \<and> (ec = None \<longrightarrow> (\<exists>pc w'. ps_peer_credentials sys n w = (Inr pc, w'))))) \<and>
    (\<not> ao_pending x \<longrightarrow> ao_state (ao_run (Stub_accepted sys) later x) = ao_state x)"
proof (intro conjI impI)
  have "ao_inv x" unfolding x by (rule ao_inv_run [OF ao_inv_create])
  then show "\<not> ao_cancelled x" "ao_destroyed x \<longleftrightarrow> ao_owners x = 0 \<and> \<not> ao_pending x" by (simp_all add: ao_inv_def)
next
  assume "ao_pending x \<and> ao_state x = (n, s, w)"
  then show "ao_pending (ao_event (Stub_accepted sys) (Completed ec) x) \<longleftrightarrow>
       ec \<noteq> Some operation_aborted \<and> (ec = None \<longrightarrow> (\<exists>pc w'. ps_peer_credentials sys n w = (Inr pc, w')))"
    using Stub_accepted_continues [of sys ec n s w] by (cases "Stub_accepted sys ec (n, s, w)") simp
next
  assume "\<not> ao_pending x"
  then show "ao_state (ao_run (Stub_accepted sys) later x) = ao_state x" using ao_idle by blast
qed

text \<open>A system that cannot tell the credentials of the first peer: the second connection, which it could tell, is not taken.\<close>

definition demo_unknown :: "unit posix_system" where
  "demo_unknown = demo_posix\<lparr>ps_peer_credentials := (\<lambda>h. if h = 1 then throwE (system_error 107) else returnE (Uid 1000, Pid 5, Gid 5))\<rparr>"

theorem stub_accepts_until_abort_or_unknown_peer_witness:
  "case ao_run (Stub_accepted demo_unknown) [Completed None, Completed None] (ao_create (1, Map.empty, ())) of
     x \<Rightarrow> \<not> ao_pending x \<and> \<not> ao_destroyed x \<and> ao_state x = (1, Map.empty, ())"
proof -
  let ?x = "ao_run (Stub_accepted demo_unknown) [Completed None] (ao_create (1, Map.empty, ()))"
  have x: "\<not> ao_pending ?x" "ao_owners ?x = 1" "ao_state ?x = (1, Map.empty, ())"
    by (simp_all add: ao_create_def ao_unref_def Stub_accepted_simps demo_unknown_def)
  have "ao_state (ao_run (Stub_accepted demo_unknown) [Completed None] ?x) = (1, Map.empty, ())"
    using stub_accepts_until_abort_or_unknown_peer [OF refl, where sys = demo_unknown and es = "[Completed None]"
        and st = "(1, Map.empty, ())" and later = "[Completed None]"] x by simp
  then show ?thesis
    by (simp add: ao_create_def ao_unref_def Stub_accepted_simps demo_unknown_def)
qed

lemma funpow_same [simp]: "((\<lambda>x. x) ^^ n) = (\<lambda>x. x)"
  by (induction n) (simp_all add: fun_eq_iff)

text \<open>
  C28. A skeleton whose peer is gone reads forever. Any error of a read but an abort, the end of the stream among them, is
  answered by the next read, which fails in the same way at once; after any number of such reads the skeleton is where it was:
  nothing has been asked of the agent and nothing written. And since the read owns the skeleton, it goes on like that also
  when all others have let go of it.
\<close>

theorem closed_connection_is_read_forever:
  assumes "\<forall>r \<in> set rs. fst r \<noteq> None \<and> fst r \<noteq> Some operation_aborted"
  shows "ao_run (Skeleton_read sk write_back) (map Completed rs) (ao_create w) = ao_create w \<and>
    ao_run (Skeleton_read sk write_back) (Owner_left # map Completed rs) (ao_create w) = (ao_create w)\<lparr>ao_owners := 0\<rparr>"
proof
  have again: "ao_run (Skeleton_read sk write_back) (map Completed rs) x = x" if "ao_pending x" for x
    using reading.failing_forever [OF that assms] by simp
  show "ao_run (Skeleton_read sk write_back) (map Completed rs) (ao_create w) = ao_create w"
    by (rule again) (simp add: ao_create_def)
  have "ao_event (Skeleton_read sk write_back) Owner_left (ao_create w) = (ao_create w)\<lparr>ao_owners := 0\<rparr>"
    by (simp add: ao_create_def ao_unref_def)
  then show "ao_run (Skeleton_read sk write_back) (Owner_left # map Completed rs) (ao_create w) = (ao_create w)\<lparr>ao_owners := 0\<rparr>"
    using again [of "(ao_create w)\<lparr>ao_owners := 0\<rparr>"] by (simp add: ao_create_def)
qed

definition demo_skeleton :: "unit posix_skeleton" where
  "demo_skeleton = \<lparr>sk_impl = (\<lambda>_. throwE other_exception), sk_start_time = (\<lambda>_. returnE 7), sk_app_id = (\<lambda>_. returnE ''app''),
     sk_description_pattern = ''d'', sk_verify_process_start_time = True\<rparr>"

definition demo_eof :: read_result where
  "demo_eof = (Some end_of_file, 0, \<lparr>pr_app_uid = Uid 1, pr_app_pid = Pid 1, pr_feature = Feature 0, pr_app_start_time = 0\<rparr>)"

theorem closed_connection_is_read_forever_witness:
  "ao_pending (ao_run (Skeleton_read demo_skeleton (\<lambda>_. returnE ())) (Owner_left # map Completed (replicate 100 demo_eof)) (ao_create ()))"
proof -
  have "\<forall>r \<in> set (replicate 100 demo_eof). fst r \<noteq> None \<and> fst r \<noteq> Some operation_aborted"
    by (simp add: demo_eof_def end_of_file_def operation_aborted_def)
  from closed_connection_is_read_forever [OF this, of demo_skeleton "\<lambda>_. returnE ()" "()"]
  show ?thesis by (simp add: ao_create_def del: ao_run_simps)
qed

end
