(* ===== verification/Daemon.thy ===== *)
theory Daemon
  imports Bus_Factory Mir_Agent Remote_Posix_Life Agent_Registry Cached_Agent
begin

text \<open>
  The two daemons (\<^verbatim>\<open>daemon.h\<close>, \<^verbatim>\<open>daemon.cpp\<close>): the skeleton, which runs in the user's session and puts together the
  store, the local agent and the agents around it, and the stub with its small shell, which stands for a trusted
  helper. Modelled are the dictionary of options, the tables of agent factories, the wiring done by
  \<^verbatim>\<open>from_command_line\<close> and the shell.

  Boost's parser of the command line is a parameter: it gives the values of the known options and the list of the
  unrecognised ones, or its diagnostic message. The bus library, Mir, the sockets, the translations
  and the opening of the store are parameters as well.
\<close>

section \<open>Options\<close>

type_synonym dictionary = "string \<rightharpoonup> string"

text \<open>One turn of the loop of \<^verbatim>\<open>fill_dictionary_from_unrecognized_options\<close>.\<close>

definition fill_dictionary_element :: "string \<Rightarrow> dictionary \<Rightarrow> dictionary" where
  "fill_dictionary_element element dict =
     (if \<not> prefix ''--'' element then dict
      else if CHR ''='' \<notin> set element then dict
      else let idx = length (takeWhile (\<lambda>c. c \<noteq> CHR ''='') element) in
        dict(drop 2 (take idx element) \<mapsto> drop (idx + 1) element))"

definition fill_dictionary_from_unrecognized_options :: "string list \<Rightarrow> dictionary" where
  "fill_dictionary_from_unrecognized_options unrecognized = fold fill_dictionary_element unrecognized Map.empty"

definition MirAgent_name :: string where "MirAgent_name = ''MirAgent''"
definition TerminalAgent_name :: string where "TerminalAgent_name = ''TerminalAgent''"
definition UnixDomainSocketRemoteAgent_name :: string where
  "UnixDomainSocketRemoteAgent_name = ''UnixDomainSocketRemoteAgent''"
definition SystemServiceDBusRemoteAgent_name :: string where "SystemServiceDBusRemoteAgent_name = ''DBusRemoteAgent''"
definition SessionServiceDBusRemoteAgent_name :: string where
  "SessionServiceDBusRemoteAgent_name = ''SessionServiceDBusRemoteAgent''"

section \<open>Local agents\<close>

definition DummyAgent_authenticate :: "answer \<Rightarrow> 'w agent" where
  "DummyAgent_authenticate canned_answer parameters = returnE canned_answer"

datatype ('w, 'c, 'p) local_agent =
    Mir_Local "('w, 'c, 'p) mir_configuration"
  | Terminal_Local string
  | Dummy_Local answer

fun is_InvalidMirConnection :: "exn \<Rightarrow> bool" where
  "is_InvalidMirConnection (InvalidMirConnection _) = True"
| "is_InvalidMirConnection _ = False"

text \<open>
  The loop around the connection to Mir: \<open>attempt\<close> connects and makes the agent, \<open>pause\<close> sleeps for a
  second and prints. With \<open>n\<close> retries left, an invalid connection is tried again; with none left it is thrown on.
\<close>

primrec connect_with_retries :: "('w, 'a) act \<Rightarrow> ('w, unit) act \<Rightarrow> nat \<Rightarrow> ('w, 'a) act" where
  "connect_with_retries attempt pause 0 = attempt"
| "connect_with_retries attempt pause (Suc n) =
     catchE is_InvalidMirConnection attempt (\<lambda>_. bindE pause (\<lambda>_. connect_with_retries attempt pause n))"

text \<open>The counter starts at \<open>5\<close> and the loop throws when decrementing it gives \<open>0\<close>.\<close>

definition connection_attempts :: nat where "connection_attempts = 5"

text \<open>\<open>connect\<close> is \<^verbatim>\<open>create_agent_for_mir_connection(mir::connect(endpoint, name))\<close>.\<close>

definition local_factory_mir ::
  "(string \<Rightarrow> string \<Rightarrow> ('w, ('w, 'c, 'p) mir_configuration) act) \<Rightarrow> ('w, unit) act \<Rightarrow> string \<Rightarrow> dictionary \<Rightarrow>
     ('w, ('w, 'c, 'p) local_agent) act"
where
  "local_factory_mir connect pause service_name dict = (case dict ''trusted-mir-socket'' of
       None \<Rightarrow> throwE (runtime_error (''Missing endpoint specification for accessing Mir'' @ [CHR 0x27] @ ''s trusted socket.''))
     | Some trusted_mir_socket \<Rightarrow>
         bindE (connect_with_retries (connect trusted_mir_socket service_name) pause (connection_attempts - 1)) (\<lambda>c.
         returnE (Mir_Local c)))"

definition local_factory_terminal :: "string \<Rightarrow> dictionary \<Rightarrow> ('w, ('w, 'c, 'p) local_agent) act" where
  "local_factory_terminal service_name dict = returnE (Terminal_Local service_name)"

definition local_factory_denying :: "string \<Rightarrow> dictionary \<Rightarrow> ('w, ('w, 'c, 'p) local_agent) act" where
  "local_factory_denying service_name dict = returnE (Dummy_Local denied)"

section \<open>The surroundings of the daemons\<close>

text \<open>
  What the daemons use of the system and of other libraries. \<open>de_mir_call\<close> is a call of the agent for Mir in a
  world in which it returns; \<open>de_connect_socket\<close> connects a skeleton's socket to an endpoint or throws, \<open>de_listen_socket\<close> opens a stub's acceptor or throws;
  \<open>de_is_boost_exception\<close> says which exceptions are of class \<^verbatim>\<open>boost::exception\<close>;
  \<open>de_cast_bus_type\<close> is \<^verbatim>\<open>boost::lexical_cast\<close> to the type of a bus.
\<close>

record ('w, 'c, 'p, 'q, 'b) daemon_env =
  de_set_service_text_domain :: "string \<Rightarrow> 'w \<Rightarrow> 'w"
  de_tr :: "string \<Rightarrow> 'w \<Rightarrow> string"
  de_create_default_store :: "string \<Rightarrow> ('w, ('w, 'q) store_vtable) act"
  de_mir_connect :: "string \<Rightarrow> string \<Rightarrow> ('w, ('w, 'c, 'p) mir_configuration) act"
  de_pause :: "('w, unit) act"
  de_mir_call :: "('w, 'c, 'p) mir_configuration \<Rightarrow> 'w agent"
  de_processes :: "('w, 'p) process_api"
  de_syslog :: "string \<Rightarrow> 'w \<Rightarrow> 'w"
  de_now :: "'w \<Rightarrow> timestamp"
  de_getuid :: "'w \<Rightarrow> uid"
  de_start_time :: "pid \<Rightarrow> ('w, int64) act"
  de_app_id :: "pid \<Rightarrow> ('w, string) act"
  de_is_boost_exception :: "exn \<Rightarrow> bool"
  de_connect_socket :: "string \<Rightarrow> ('w, unit) act"
  de_listen_socket :: "string \<Rightarrow> ('w, unit) act"
  de_buses :: "('w, 'b) bus_library"
  de_cast_bus_type :: "string \<Rightarrow> exn + bus_type"
  de_announce :: "'b \<Rightarrow> string \<Rightarrow> string \<Rightarrow> ('w, unit) act"

definition local_call :: "('w, 'c, 'p, 'q, 'b) daemon_env \<Rightarrow> ('w, 'c, 'p) local_agent \<Rightarrow> 'w agent" where
  "local_call env la = (case la of
       Mir_Local c \<Rightarrow> de_mir_call env c
     | Terminal_Local service_name \<Rightarrow> TerminalAgent_authenticate (de_processes env) service_name
     | Dummy_Local a \<Rightarrow> DummyAgent_authenticate a)"

definition known_local_agent_factories ::
  "('w, 'c, 'p, 'q, 'b) daemon_env \<Rightarrow> string \<rightharpoonup> (string \<Rightarrow> dictionary \<Rightarrow> ('w, ('w, 'c, 'p) local_agent) act)"
where
  "known_local_agent_factories env =
     [MirAgent_name \<mapsto> local_factory_mir (de_mir_connect env) (de_pause env),
      TerminalAgent_name \<mapsto> local_factory_terminal,
      ''TheAlwaysDenyingLocalAgent'' \<mapsto> local_factory_denying]"

text \<open>\<^verbatim>\<open>CachedAgentGlogReporter\<close> (\<^verbatim>\<open>cached_agent_glog_reporter.cpp\<close>): one line of the system log per decision.\<close>

definition print_pid :: "pid \<Rightarrow> string" where "print_pid p = to_string_int (sint (pid_value p))"
definition print_uid :: "uid \<Rightarrow> string" where "print_uid u = to_string_nat (unat (uid_value u))"

definition glog_application :: "agent_params \<Rightarrow> string" where
  "glog_application params =
     '' Application pid: '' @ print_pid (app_pid params) @
     '' Application uid: '' @ print_uid (app_uid params) @
     '' Application id:  '' @ app_id params"

definition glog_reporter :: "(string \<Rightarrow> 'w \<Rightarrow> 'w) \<Rightarrow> 'w reporter" where
  "glog_reporter syslog =
     \<lparr>report_cached_answer_found = (\<lambda>params r. modifyE (syslog
        (''CachedAgent::authenticate_request_with_parameters:'' @ glog_application params @
         '' Cached request:   '' @ print_request r))),
      report_user_prompted_for_trust = (\<lambda>params a. modifyE (syslog
        (''CachedAgent::authenticate_request_with_parameters: No cached answer, prompted user for trust:'' @
         glog_application params @ '' User'' @ [CHR 0x27] @ ''s answer:   '' @ print_answer a)))\<rparr>"

section \<open>The skeleton daemon\<close>

subsection \<open>Remote agents\<close>

datatype ('w, 'b) remote_agent =
    Posix_Remote string "'w posix_skeleton"
  | System_DBus_Remote 'b string "'w agent"
  | Session_DBus_Remote 'b string string "'w agent"

text \<open>What a remote agent does with a request that has arrived: over the socket only some fields arrive.\<close>

definition remote_receives :: "('w, 'b) remote_agent \<Rightarrow> int64 \<Rightarrow> 'w agent" where
  "remote_receives r start_time p = (case r of
       Posix_Remote _ sk \<Rightarrow> process_incoming_request sk
         \<lparr>pr_app_uid = app_uid p, pr_app_pid = app_pid p, pr_feature = app_feature p, pr_app_start_time = start_time\<rparr>
     | System_DBus_Remote _ _ impl \<Rightarrow> remote_dbus_Skeleton_authenticate impl p
     | Session_DBus_Remote _ _ _ impl \<Rightarrow> impl p)"

definition remote_factory_posix ::
  "('w, 'c, 'p, 'q, 'b) daemon_env \<Rightarrow> string \<Rightarrow> 'w agent \<Rightarrow> dictionary \<Rightarrow> ('w, ('w, 'b) remote_agent) act"
where
  "remote_factory_posix env service_name agent dict = (case dict ''endpoint'' of
       None \<Rightarrow> throwE (runtime_error ''Missing endpoint specification for UnixDomainSocketRemoteAgent.'')
     | Some endpoint \<Rightarrow>
         bindE (case dict ''description-pattern'' of
             Some d \<Rightarrow> returnE d
           | None \<Rightarrow> readE (\<lambda>w. de_tr env ''is trying to access'' w @ '' '' @ service_name @ ''.'')) (\<lambda>description.
         bindE (Skeleton_new (de_is_boost_exception env) (de_connect_socket env) endpoint) (\<lambda>_.
         returnE (Posix_Remote endpoint
           \<lparr>sk_impl = agent, sk_start_time = de_start_time env, sk_app_id = de_app_id env,
            sk_description_pattern = description,
            sk_verify_process_start_time = (dict ''verify-process-timestamp'' \<noteq> None)\<rparr>))))"

definition bus_from_dictionary :: "('w, 'c, 'p, 'q, 'b) daemon_env \<Rightarrow> string \<Rightarrow> ('w, 'b) act" where
  "bus_from_dictionary env name = (case de_cast_bus_type env name of
       Inl e \<Rightarrow> throwE e
     | Inr t \<Rightarrow> bus_for_type (de_buses env) t)"

definition missing_bus :: exn where
  "missing_bus = runtime_error ''Missing bus specifier, please choose from {system, session}.''"

definition remote_factory_system ::
  "('w, 'c, 'p, 'q, 'b) daemon_env \<Rightarrow> string \<Rightarrow> 'w agent \<Rightarrow> dictionary \<Rightarrow> ('w, ('w, 'b) remote_agent) act"
where
  "remote_factory_system env service_name agent dict = (case dict ''bus'' of
       None \<Rightarrow> throwE missing_bus
     | Some name \<Rightarrow>
         bindE (bus_from_dictionary env name) (\<lambda>bus.
         bindE (de_announce env bus (multi_user_service_name service_name) default_agent_registry_path) (\<lambda>_.
         returnE (System_DBus_Remote bus (multi_user_service_name service_name) agent))))"

definition remote_factory_session ::
  "('w, 'c, 'p, 'q, 'b) daemon_env \<Rightarrow> string \<Rightarrow> 'w agent \<Rightarrow> dictionary \<Rightarrow> ('w, ('w, 'b) remote_agent) act"
where
  "remote_factory_session env service_name agent dict = (case dict ''bus'' of
       None \<Rightarrow> throwE missing_bus
     | Some name \<Rightarrow>
         bindE (bus_from_dictionary env name) (\<lambda>bus.
         bindE (de_announce env bus (default_service_name service_name) default_object_path) (\<lambda>_.
         returnE (Session_DBus_Remote bus (default_service_name service_name) default_object_path agent))))"

definition known_remote_agent_factories ::
  "('w, 'c, 'p, 'q, 'b) daemon_env \<Rightarrow>
     string \<rightharpoonup> (string \<Rightarrow> 'w agent \<Rightarrow> dictionary \<Rightarrow> ('w, ('w, 'b) remote_agent) act)"
where
  "known_remote_agent_factories env =
     [UnixDomainSocketRemoteAgent_name \<mapsto> remote_factory_posix env,
      SystemServiceDBusRemoteAgent_name \<mapsto> remote_factory_system env,
      SessionServiceDBusRemoteAgent_name \<mapsto> remote_factory_session env]"

subsection \<open>Wiring\<close>

record skeleton_options =
  so_for_service :: string
  so_with_text_domain :: "string option"
  so_store_bus :: bus_type
  so_local_agent :: string
  so_remote_agent :: string
  so_unrecognized :: "string list"

record ('w, 'q, 'b) skeleton_configuration =
  sc_service_name :: string
  sc_bus :: 'b
  sc_local_store :: "('w, 'q) store_vtable"
  sc_local_agent :: "'w agent"
  sc_remote_agent :: "('w, 'b) remote_agent"

definition white_list_predicate :: "dictionary \<Rightarrow> agent_params \<Rightarrow> bool" where
  "white_list_predicate dict params \<longleftrightarrow>
     always_grant_for_unconfined params \<or>
     (\<not> dict ''disable-whitelisting'' \<noteq> None \<and> app_id params = ''com.ubuntu.camera_camera'')"

text \<open>\<^verbatim>\<open>std::map::at\<close>\<close>

definition map_at :: "('k \<rightharpoonup> 'v) \<Rightarrow> 'k \<Rightarrow> ('w, 'v) act" where
  "map_at m k = (case m k of None \<Rightarrow> throwE out_of_range | Some v \<Rightarrow> returnE v)"

definition Skeleton_from_command_line ::
  "('w, 'c, 'p, 'q, 'b) daemon_env \<Rightarrow> string + skeleton_options \<Rightarrow> ('w, ('w, 'q, 'b) skeleton_configuration) act"
where
  "Skeleton_from_command_line env parsed = (case parsed of
       Inl diagnostic \<Rightarrow> throwE (runtime_error (''Error parsing command line: '' @ diagnostic))
     | Inr vm \<Rightarrow>
         (let dict = fill_dictionary_from_unrecognized_options (so_unrecognized vm);
              service_name = so_for_service vm;
              service_text_domain = (case so_with_text_domain vm of None \<Rightarrow> service_name | Some d \<Rightarrow> d) in
          bindE (modifyE (de_set_service_text_domain env service_text_domain)) (\<lambda>_.
          bindE (map_at (known_local_agent_factories env) (so_local_agent vm)) (\<lambda>local_agent_factory.
          bindE (map_at (known_remote_agent_factories env) (so_remote_agent vm)) (\<lambda>remote_agent_factory.
          bindE (de_create_default_store env service_name) (\<lambda>local_store.
          bindE (local_agent_factory service_name dict) (\<lambda>local_agent.
          bindE (CachedAgent_new \<lparr>cc_agent = Some (local_call env local_agent), cc_store = Some local_store,
            cc_reporter = glog_reporter (de_syslog env)\<rparr>) (\<lambda>cached_agent.
          bindE (WhiteListingAgent_new (white_list_predicate dict)
            (Some (CachedAgent_authenticate cached_agent (de_now env)))) (\<lambda>whitelisting_agent.
          bindE (AppIdFormattingTrustAgent_new (Some (WhiteListingAgent_authenticate whitelisting_agent))) (\<lambda>inner.
          let formatting_agent = AppIdFormattingTrustAgent_authenticate inner in
          bindE (PrivilegeAgent_new (de_getuid env) (Some formatting_agent)) (\<lambda>privilege_escalation_prevention_agent.
          bindE (remote_agent_factory service_name formatting_agent dict) (\<lambda>remote_agent.
          bindE (bus_for_type (de_buses env) (so_store_bus vm)) (\<lambda>bus.
          returnE \<lparr>sc_service_name = service_name, sc_bus = bus, sc_local_store = local_store,
            sc_local_agent = PrivilegeAgent_authenticate privilege_escalation_prevention_agent,
            sc_remote_agent = remote_agent\<rparr>)))))))))))))"

section \<open>The stub daemon\<close>

text \<open>The stub waits at a socket or exposes a registry of agents.\<close>

datatype 'b stub_remote = Posix_Stub string | DBus_Stub 'b string string

record stub_options =
  to_for_service :: string
  to_remote_agent :: string
  to_unrecognized :: "string list"

record 'b stub_configuration =
  tc_service_name :: string
  tc_remote_agent :: "'b stub_remote"

definition stub_factory_posix ::
  "('w, 'c, 'p, 'q, 'b) daemon_env \<Rightarrow> string \<Rightarrow> dictionary \<Rightarrow> ('w, 'b stub_remote) act"
where
  "stub_factory_posix env service_name dict = (case dict ''endpoint'' of
       None \<Rightarrow> throwE (runtime_error ''Missing endpoint specification for UnixDomainSocketRemoteAgent.'')
     | Some endpoint \<Rightarrow> bindE (Stub_new (de_listen_socket env) endpoint) (\<lambda>_. returnE (Posix_Stub endpoint)))"

definition stub_factory_system ::
  "('w, 'c, 'p, 'q, 'b) daemon_env \<Rightarrow> string \<Rightarrow> dictionary \<Rightarrow> ('w, 'b stub_remote) act"
where
  "stub_factory_system env service_name dict =
     bindE (map_at dict ''bus'') (\<lambda>name.
     bindE (bus_from_dictionary env name) (\<lambda>bus.
     bindE (de_announce env bus (multi_user_service_name service_name) default_agent_registry_path) (\<lambda>_.
     returnE (DBus_Stub bus (multi_user_service_name service_name) default_agent_registry_path))))"

definition known_stub_factories ::
  "('w, 'c, 'p, 'q, 'b) daemon_env \<Rightarrow> string \<rightharpoonup> (string \<Rightarrow> dictionary \<Rightarrow> ('w, 'b stub_remote) act)"
where
  "known_stub_factories env =
     [UnixDomainSocketRemoteAgent_name \<mapsto> stub_factory_posix env,
      SystemServiceDBusRemoteAgent_name \<mapsto> stub_factory_system env]"

definition Stub_from_command_line ::
  "('w, 'c, 'p, 'q, 'b) daemon_env \<Rightarrow> string + stub_options \<Rightarrow> ('w, 'b stub_configuration) act"
where
  "Stub_from_command_line env parsed = (case parsed of
       Inl diagnostic \<Rightarrow> throwE (runtime_error (''Error parsing command line: '' @ diagnostic))
     | Inr vm \<Rightarrow>
         (let dict = fill_dictionary_from_unrecognized_options (to_unrecognized vm) in
          bindE (map_at (known_stub_factories env) (to_remote_agent vm)) (\<lambda>remote_agent_factory.
          bindE (remote_agent_factory (to_for_service vm) dict) (\<lambda>remote_agent.
          returnE \<lparr>tc_service_name = to_for_service vm, tc_remote_agent = remote_agent\<rparr>))))"

subsection \<open>The shell\<close>

text \<open>
  A line of the shell, \<^verbatim>\<open>pid uid feature\<close>. The variables start at zero and a number that cannot be read leaves those
  after it at zero; the failure flag is not looked at. The description stays empty.
\<close>

definition shell_parse :: "string \<Rightarrow> agent_params" where
  "shell_parse line =
     (case extract_signed (stream_of line) of (p, i1) \<Rightarrow>
      case extract_unsigned i1 of (u, i2) \<Rightarrow>
      case extract_unsigned i2 of (f, _) \<Rightarrow>
        \<lparr>app_uid = Uid u, app_pid = Pid p, app_id = [], app_feature = Feature f, app_description = []\<rparr>)"

text \<open>A completed read of the shell; the result says whether another read is started.\<close>

definition shell_read_finished ::
  "(pid \<Rightarrow> ('w, string) act) \<Rightarrow> 'w agent \<Rightarrow> (string \<Rightarrow> 'w \<Rightarrow> 'w) \<Rightarrow> int option \<Rightarrow> string \<Rightarrow> ('w, bool) act"
where
  "shell_read_finished app_id_resolver agent cout ec line =
     (if ec = Some operation_aborted then returnE False
      else if ec \<noteq> None then returnE True
      else let params = shell_parse line in
        bindE (app_id_resolver (app_pid params)) (\<lambda>i.
        bindE (agent (params\<lparr>app_id := i\<rparr>)) (\<lambda>a.
        bindE (modifyE (cout (print_answer a @ [CHR 0x0A]))) (\<lambda>_.
        returnE True))))"

end
