(* ===== verification/Daemon_Properties.thy ===== *)
theory Daemon_Properties
  imports Daemon Store_Properties
begin

text \<open>
  What the daemons do as a whole: how options reach the agents, what a request goes through before the user is
  asked, what start-up does when an option is missing or Mir is not there yet.
\<close>

section \<open>The dictionary of options\<close>

lemma fill_element_same:
  "CHR ''='' \<notin> set k \<Longrightarrow> fill_dictionary_element (''--'' @ k @ ''='' @ v) d k = Some v"
  by (simp add: fill_dictionary_element_def takeWhile_append)

lemma option_text_decompose:
  assumes "prefix ''--'' e" and "CHR ''='' \<in> set e" and "idx = length (takeWhile (\<lambda>c. c \<noteq> CHR ''='') e)"
  shows "e = ''--'' @ drop 2 (take idx e) @ ''='' @ drop (idx + 1) e"
proof -
  obtain r where r: "e = ''--'' @ r" using assms(1) by (auto elim: prefixE)
  let ?t = "takeWhile (\<lambda>c. c \<noteq> CHR ''='') r" and ?d = "dropWhile (\<lambda>c. c \<noteq> CHR ''='') r"
  have "?d \<noteq> []" using assms(2) r by (auto simp: dropWhile_eq_Nil_conv)
  then have d: "?d = CHR ''='' # tl ?d" using hd_dropWhile [of "\<lambda>c. c \<noteq> CHR ''=''" r] by (cases ?d) auto
  have idx: "idx = Suc (Suc (length ?t))" using assms(3) r by simp
  have "take (length ?t) r = ?t" "drop (Suc (length ?t)) r = tl ?d"
    by (metis takeWhile_eq_take, metis drop_Suc dropWhile_eq_drop tl_drop)
  then show ?thesis using d takeWhile_dropWhile_id [of "\<lambda>c. c \<noteq> CHR ''=''" r] by (simp add: r idx)
qed

lemma fill_element_other:
  assumes "\<And>v. e \<noteq> ''--'' @ k @ ''='' @ v"
  shows "fill_dictionary_element e d k = d k"
  using assms option_text_decompose [of e] by (auto simp: fill_dictionary_element_def Let_def simp del: append_Cons)

lemma fill_element_key:
  assumes "CHR ''='' \<in> set k"
  shows "fill_dictionary_element e d k = d k"
proof -
  have "CHR ''='' \<notin> set (drop 2 (take (length (takeWhile (\<lambda>c. c \<noteq> CHR ''='') e)) e))"
    by (metis in_set_dropD set_takeWhileD takeWhile_eq_take)
  with assms show ?thesis by (auto simp: fill_dictionary_element_def Let_def)
qed

text \<open>The last element that matters, after one more element.\<close>

lemma last_match_snoc:
  "(\<exists>xs e ys. opts @ [e0] = xs @ e # ys \<and> A e \<and> (\<forall>y \<in> set ys. \<not> B y)) \<longleftrightarrow>
     A e0 \<or> (\<not> B e0 \<and> (\<exists>xs e ys. opts = xs @ e # ys \<and> A e \<and> (\<forall>y \<in> set ys. \<not> B y)))"
  (is "?l \<longleftrightarrow> _ \<or> _ \<and> ?r")
proof
  assume ?l
  then obtain xs e ys where x: "opts @ [e0] = xs @ e # ys" "A e" "\<forall>y \<in> set ys. \<not> B y" by blast
  then show "A e0 \<or> (\<not> B e0 \<and> ?r)" by (cases ys rule: rev_cases) auto
next
  assume "A e0 \<or> (\<not> B e0 \<and> ?r)"
  then show ?l
  proof
    assume "A e0" then show ?l by (intro exI [of _ opts] exI [of _ e0] exI [of _ "[]"]) simp
  next
    assume "\<not> B e0 \<and> ?r"
    then obtain xs e ys where "opts = xs @ e # ys" "A e" "\<forall>y \<in> set ys. \<not> B y" "\<not> B e0" by blast
    then show ?l by (intro exI [of _ xs] exI [of _ e] exI [of _ "ys @ [e0]"]) auto
  qed
qed

definition sets_option :: "string \<Rightarrow> string \<Rightarrow> string \<Rightarrow> bool" where
  "sets_option k v e \<longleftrightarrow> e = ''--'' @ k @ ''='' @ v"

text \<open>
  The dictionary holds exactly the options written \<^verbatim>\<open>--key=value\<close>: the value of a key is the text after the first
  equals sign of the last such option with that key, it may itself contain equals signs, and nothing else (an
  option without a value, a word without dashes) has any effect.
\<close>

theorem dictionary_holds_last_value:
  "fill_dictionary_from_unrecognized_options opts k = Some v \<longleftrightarrow>
     CHR ''='' \<notin> set k \<and> (\<exists>xs e ys. opts = xs @ e # ys \<and> sets_option k v e \<and> (\<forall>y \<in> set ys. \<not> (\<exists>u. sets_option k u y)))"
proof (induction opts rule: rev_induct)
  case Nil
  show ?case by (simp add: fill_dictionary_from_unrecognized_options_def)
next
  case (snoc e opts)
  let ?d = "fill_dictionary_from_unrecognized_options opts"
  have fill: "fill_dictionary_from_unrecognized_options (opts @ [e]) = fill_dictionary_element e ?d"
    by (simp add: fill_dictionary_from_unrecognized_options_def)
  show ?case
  proof (cases "CHR ''='' \<in> set k")
    case True
    with snoc fill fill_element_key show ?thesis by simp
  next
    case False
    show ?thesis
    proof (cases "\<exists>u. sets_option k u e")
      case True
      then obtain u where u: "sets_option k u e" by blast
      then have "fill_dictionary_element e ?d k = Some u"
        using fill_element_same [OF False] by (simp add: sets_option_def)
      moreover have "sets_option k v e \<longleftrightarrow> v = u" using u by (auto simp: sets_option_def)
      ultimately show ?thesis unfolding fill last_match_snoc using False u by auto
    next
      case other: False
      then have "fill_dictionary_element e ?d k = ?d k"
        by (intro fill_element_other) (auto simp: sets_option_def)
      then show ?thesis unfolding fill last_match_snoc using snoc False other by auto
    qed
  qed
qed

theorem dictionary_holds_last_value_witness:
  "fill_dictionary_from_unrecognized_options [''--bus=session'', ''--bus=system=x'', ''--verify'', ''bus''] ''bus'' =
     Some ''system=x''"
proof -
  have "\<exists>xs e ys. [''--bus=session'', ''--bus=system=x'', ''--verify'', ''bus''] = xs @ e # ys \<and>
      sets_option ''bus'' ''system=x'' e \<and> (\<forall>y \<in> set ys. \<not> (\<exists>u. sets_option ''bus'' u y))"
    by (intro exI [of _ "[''--bus=session'']"] exI [of _ "''--bus=system=x''"] exI [of _ "[''--verify'', ''bus'']"])
      (simp add: sets_option_def)
  then show ?thesis unfolding dictionary_holds_last_value by simp
qed

section \<open>What a request goes through\<close>

text \<open>
  The specification of the daemon's answers, with \<open>cached\<close> the caching agent in the middle: an unconfined
  process, and the camera application unless that is disabled, are granted; everything else is decided by the
  store or the user under the application id without its version.
\<close>

definition daemon_answers :: "dictionary \<Rightarrow> 'w agent \<Rightarrow> 'w agent" where
  "daemon_answers dict cached p =
     (let i = format_app_id (app_id p) in
      if i = ''unconfined'' \<or> (dict ''disable-whitelisting'' = None \<and> i = ''com.ubuntu.camera_camera'')
      then returnE granted else cached (p\<lparr>app_id := i\<rparr>))"

definition remote_impl :: "('w, 'b) remote_agent \<Rightarrow> 'w agent" where
  "remote_impl r = (case r of
       Posix_Remote _ sk \<Rightarrow> sk_impl sk
     | System_DBus_Remote _ _ impl \<Rightarrow> impl
     | Session_DBus_Remote _ _ _ impl \<Rightarrow> impl)"

lemma map_at_returns: "map_at m k w = (Inr v, w') \<longleftrightarrow> m k = Some v \<and> w' = w"
  by (auto simp: map_at_def split: option.splits)

lemma remote_factory_impl:
  assumes "known_remote_agent_factories env name = Some factory" and "factory service agent dict w = (Inr r, w')"
  shows "remote_impl r = agent"
  using assms
  by (auto simp: known_remote_agent_factories_def remote_factory_posix_def remote_factory_system_def
      remote_factory_session_def bindE_returns_iff remote_impl_def split: if_splits option.splits)

lemma formatting_whitelisting:
  "AppIdFormattingTrustAgent_authenticate (WhiteListingAgent_authenticate
     \<lparr>wl_predicate = white_list_predicate dict, wl_impl = cached\<rparr>) p = daemon_answers dict cached p"
  by (simp add: AppIdFormattingTrustAgent_authenticate_def WhiteListingAgent_authenticate_def white_list_predicate_def
      always_grant_for_unconfined_def daemon_answers_def Let_def returnE_def)

lemma remote_factory_bus:
  assumes "known_remote_agent_factories env name = Some factory" and "factory service agent dict w = (Inr r, w')"
    and "name \<noteq> UnixDomainSocketRemoteAgent_name"
  shows "\<nexists>e sk. r = Posix_Remote e sk"
  using assms
  by (auto simp: known_remote_agent_factories_def remote_factory_system_def remote_factory_session_def
      bindE_returns_iff split: if_splits option.splits)

lemma remote_is_bus_agent:
  assumes "Skeleton_from_command_line env (Inr vm) w = (Inr cfg, w')"
    and "so_remote_agent vm \<noteq> UnixDomainSocketRemoteAgent_name"
  shows "\<nexists>e sk. sc_remote_agent cfg = Posix_Remote e sk"
  using assms remote_factory_bus [of env "so_remote_agent vm"]
  by (auto simp: Skeleton_from_command_line_def bindE_returns_iff map_at_returns Let_def)

text \<open>A start-up that succeeds, taken apart.\<close>

lemma skeleton_started:
  assumes "Skeleton_from_command_line env (Inr vm) w = (Inr cfg, w')"
  defines "dict \<equiv> fill_dictionary_from_unrecognized_options (so_unrecognized vm)"
  shows "\<exists>la w0 w1 w2. de_create_default_store env (so_for_service vm) w0 = (Inr (sc_local_store cfg), w1) \<and>
    (\<exists>factory. known_local_agent_factories env (so_local_agent vm) = Some factory \<and>
       factory (so_for_service vm) dict w1 = (Inr la, w2)) \<and>
    (let agent = daemon_answers dict (CachedAgent_authenticate \<lparr>ca_agent = local_call env la,
         ca_store = sc_local_store cfg, ca_reporter = glog_reporter (de_syslog env)\<rparr> (de_now env)) in
     remote_impl (sc_remote_agent cfg) = agent \<and>
     sc_local_agent cfg = PrivilegeAgent_authenticate \<lparr>pe_uid_functor = de_getuid env, pe_impl = agent\<rparr>)"
  using assms(1)
  unfolding Skeleton_from_command_line_def dict_def [symmetric] Let_def sum.case
  by (auto simp: bindE_returns_iff map_at_returns CachedAgent_new_def WhiteListingAgent_new_def
      AppIdFormattingTrustAgent_new_def PrivilegeAgent_new_def formatting_whitelisting [abs_def] dict_def [symmetric])
    (metis remote_factory_impl)

text \<open>
  C17. What the daemon makes of a request. Once it has started, a request that arrives at its remote agent is
  answered by the store and the local agent named on the command line, behind the white list and under the
  application id without its version; the agent it keeps for itself answers the same, but only the daemon's own user.
\<close>

theorem daemon_request_path:
  assumes "Skeleton_from_command_line env (Inr vm) w = (Inr cfg, w')"
  defines "dict \<equiv> fill_dictionary_from_unrecognized_options (so_unrecognized vm)"
  shows "\<exists>la factory w0 w1 w2.
      de_create_default_store env (so_for_service vm) w0 = (Inr (sc_local_store cfg), w1) \<and>
      known_local_agent_factories env (so_local_agent vm) = Some factory \<and>
      factory (so_for_service vm) dict w1 = (Inr la, w2) \<and>
      (let agent = daemon_answers dict
        (CachedAgent_authenticate \<lparr>ca_agent = local_call env la, ca_store = sc_local_store cfg,
           ca_reporter = glog_reporter (de_syslog env)\<rparr> (de_now env)) in
      remote_impl (sc_remote_agent cfg) = agent \<and>
      sc_local_agent cfg p v =
        (if de_getuid env v = app_uid p then agent p v else (Inl PrivilegeEscalation, v)))"
  using skeleton_started [OF assms(1)] unfolding dict_def Let_def privilege_check
  by (elim exE conjE, intro exI conjI) (assumption | simp add: privilege_check)+

text \<open>A daemon over the reference engine, with every other facility of the system in its simplest form.\<close>

definition demo_buses :: "(ref_engine, unit) bus_library" where
  "demo_buses = \<lparr>bl_well_known = (\<lambda>_. returnE ()), bl_address = (\<lambda>_. returnE ()),
     bl_getenv = (\<lambda>_. throwE (runtime_error ''no such variable'')), bl_install_executor = (\<lambda>_. returnE ())\<rparr>"

definition demo_env :: "(ref_engine, unit, nat, query, unit) daemon_env" where
  "demo_env = \<lparr>de_set_service_text_domain = (\<lambda>_ w. w), de_tr = (\<lambda>s _. s),
     de_create_default_store = (\<lambda>name. bindE (create_for_service ref_sqlite demo_fs demo_home name)
       (\<lambda>st. returnE (sqlite_vtable ref_sqlite st))),
     de_mir_connect = (\<lambda>_ _. throwE (InvalidMirConnection ''no Mir'')), de_pause = returnE (),
     de_mir_call = (\<lambda>_ _. throwE other_exception),
     de_processes = \<lparr>px_environ = (\<lambda>_. []), px_cout = (\<lambda>_ w. w), px_exec = (\<lambda>_ _ _. throwE other_exception),
       px_wait_for = (\<lambda>_. throwE other_exception)\<rparr>,
     de_syslog = (\<lambda>_ w. w), de_now = (\<lambda>_. 7), de_getuid = (\<lambda>_. Uid 1000),
     de_start_time = (\<lambda>_. returnE 0), de_app_id = (\<lambda>_. returnE ''app''), de_is_boost_exception = (\<lambda>_. False), de_connect_socket = (\<lambda>_. returnE ()),
     de_listen_socket = (\<lambda>_. returnE ()), de_buses = demo_buses, de_cast_bus_type = (\<lambda>_. Inr system),
     de_announce = (\<lambda>_ _ _. returnE ())\<rparr>"

lemma demo_env_select:
  "de_set_service_text_domain demo_env = (\<lambda>_ w. w)"
  "de_create_default_store demo_env name = bindE (create_for_service ref_sqlite demo_fs demo_home name)
       (\<lambda>st. returnE (sqlite_vtable ref_sqlite st))"
  "de_syslog demo_env = (\<lambda>_ w. w)" "de_now demo_env = (\<lambda>_. 7)" "de_getuid demo_env = (\<lambda>_. Uid 1000)"
  "de_buses demo_env = demo_buses" "de_cast_bus_type demo_env n = Inr system" "de_announce demo_env b s o' = returnE ()"
  by (simp_all add: demo_env_def)

lemma demo_bus: "bus_for_type demo_buses t w = (case t of
    session \<Rightarrow> (Inr (), w) | system \<Rightarrow> (Inr (), w) | _ \<Rightarrow> (Inl (runtime_error ''no such variable''), w))"
  by (simp add: bus_for_type_def demo_buses_def bindE_apply split: bus_type.split)

definition demo_options :: skeleton_options where
  "demo_options = \<lparr>so_for_service = ''camera'', so_with_text_domain = None, so_store_bus = session,
     so_local_agent = ''TheAlwaysDenyingLocalAgent'', so_remote_agent = ''DBusRemoteAgent'',
     so_unrecognized = [''--bus=system'']\<rparr>"

definition demo_daemon_agent :: "ref_engine agent" where
  "demo_daemon_agent = daemon_answers [''bus'' \<mapsto> ''system''] (CachedAgent_authenticate
     \<lparr>ca_agent = DummyAgent_authenticate denied, ca_store = sqlite_vtable ref_sqlite demo_store,
      ca_reporter = glog_reporter (\<lambda>_ w. w)\<rparr> (\<lambda>_. 7))"

definition demo_daemon :: "(ref_engine, query, unit) skeleton_configuration" where
  "demo_daemon = \<lparr>sc_service_name = ''camera'', sc_bus = (), sc_local_store = sqlite_vtable ref_sqlite demo_store,
     sc_local_agent = PrivilegeAgent_authenticate \<lparr>pe_uid_functor = (\<lambda>_. Uid 1000), pe_impl = demo_daemon_agent\<rparr>,
     sc_remote_agent = System_DBus_Remote () ''core.trust.dbus.Agent.camera'' demo_daemon_agent\<rparr>"

lemma demo_dictionary: "fill_dictionary_from_unrecognized_options [''--bus=system''] = [''bus'' \<mapsto> ''system'']"
  by (simp add: fill_dictionary_from_unrecognized_options_def fill_dictionary_element_def)

lemma demo_start: "Skeleton_from_command_line demo_env (Inr demo_options) ref_empty = (Inr demo_daemon, demo_engine)"
proof -
  have factories: "known_local_agent_factories demo_env ''TheAlwaysDenyingLocalAgent'' = Some local_factory_denying"
    "known_remote_agent_factories demo_env ''DBusRemoteAgent'' = Some (remote_factory_system demo_env)"
    by (simp_all add: known_local_agent_factories_def known_remote_agent_factories_def
        SystemServiceDBusRemoteAgent_name_def SessionServiceDBusRemoteAgent_name_def)
  have remote: "remote_factory_system demo_env ''camera'' agent [''bus'' \<mapsto> ''system''] w =
      (Inr (System_DBus_Remote () ''core.trust.dbus.Agent.camera'' agent), w)" for agent w
    by (simp add: remote_factory_system_def bus_from_dictionary_def demo_env_select demo_bus bindE_apply
        multi_user_service_name_def)
  show ?thesis
    by (simp add: Skeleton_from_command_line_def demo_options_def demo_dictionary bindE_apply map_at_def
        local_factory_denying_def CachedAgent_new_def WhiteListingAgent_new_def AppIdFormattingTrustAgent_new_def
        PrivilegeAgent_new_def formatting_whitelisting [abs_def] local_call_def demo_daemon_def demo_daemon_agent_def
        factories remote demo_env_select demo_open demo_bus Let_def)
qed

theorem daemon_request_path_witness:
  "(\<exists>w0 w1. de_create_default_store demo_env ''camera'' w0 = (Inr (sc_local_store demo_daemon), w1)) \<and>
     sc_local_agent demo_daemon demo_params demo_engine =
       remote_impl (sc_remote_agent demo_daemon) demo_params demo_engine \<and>
     sc_local_agent demo_daemon (demo_params\<lparr>app_uid := Uid 0\<rparr>) demo_engine = (Inl PrivilegeEscalation, demo_engine)"
proof -
  have uid: "app_uid demo_params = Uid 1000" and service: "so_for_service demo_options = ''camera''"
    by (simp_all add: demo_params_def demo_options_def)
  show ?thesis
    using daemon_request_path [OF demo_start, of demo_params demo_engine]
      daemon_request_path [OF demo_start, of "demo_params\<lparr>app_uid := Uid 0\<rparr>" demo_engine]
    unfolding Let_def demo_env_select(8) service
    by (auto simp: uid demo_env_select)
qed

text \<open>
  C18. The check against privilege escalation does not protect the way by which requests come in: the remote agent over the
  bus is given the agent without the check, so a request that carries another user's id, which the daemon's own
  agent refuses, is answered when it arrives over the bus.
\<close>

theorem privilege_check_is_bypassed:
  assumes "Skeleton_from_command_line env (Inr vm) w = (Inr cfg, w')"
    and "so_remote_agent vm \<noteq> UnixDomainSocketRemoteAgent_name" and "app_uid p \<noteq> de_getuid env v"
  shows "sc_local_agent cfg p v = (Inl PrivilegeEscalation, v) \<and>
    (\<exists>la. remote_receives (sc_remote_agent cfg) t p v =
       daemon_answers (fill_dictionary_from_unrecognized_options (so_unrecognized vm))
        (CachedAgent_authenticate \<lparr>ca_agent = local_call env la, ca_store = sc_local_store cfg,
           ca_reporter = glog_reporter (de_syslog env)\<rparr> (de_now env)) p v) \<and>
    (app_id p = ''unconfined'' \<longrightarrow> remote_receives (sc_remote_agent cfg) t p v = (Inr granted, v))"
proof -
  have "\<nexists>e sk. sc_remote_agent cfg = Posix_Remote e sk"
    using assms(1,2) by (rule remote_is_bus_agent)
  then have remote: "remote_receives (sc_remote_agent cfg) t p v = remote_impl (sc_remote_agent cfg) p v"
    by (cases "sc_remote_agent cfg")
      (simp_all add: remote_receives_def remote_impl_def remote_dbus_Skeleton_authenticate_def)
  have "format_app_id ''unconfined'' = ''unconfined''"
    by (simp add: format_app_id_def app_id_no_match)
  then show ?thesis
    using skeleton_started [OF assms(1)] assms(3) unfolding remote
    by (auto simp: Let_def privilege_check daemon_answers_def)
qed

theorem privilege_check_is_bypassed_witness:
  "sc_local_agent demo_daemon (demo_params\<lparr>app_uid := Uid 0, app_id := ''unconfined''\<rparr>) demo_engine =
     (Inl PrivilegeEscalation, demo_engine) \<and>
   remote_receives (sc_remote_agent demo_daemon) 0 (demo_params\<lparr>app_uid := Uid 0, app_id := ''unconfined''\<rparr>) demo_engine =
     (Inr granted, demo_engine)"
  using privilege_check_is_bypassed [OF demo_start, of "demo_params\<lparr>app_uid := Uid 0, app_id := ''unconfined''\<rparr>" demo_engine 0]
  by (simp add: demo_options_def UnixDomainSocketRemoteAgent_name_def demo_env_select demo_params_def)

section \<open>Versions of an application\<close>

lemma quiet_glog: "(\<And>s w. view (syslog s w) = view w) \<Longrightarrow> quiet_reporter view (glog_reporter syslog)"
  by (simp add: quiet_reporter_def glog_reporter_def)

lemma format_versioned:
  assumes "list_all is_dot (pkg @ app @ ver)" and "CHR ''_'' \<notin> set app" and "CHR ''_'' \<notin> set ver"
  shows "format_app_id (pkg @ ''_'' @ app @ ''_'' @ ver) = pkg @ ''_'' @ app"
  using app_id_match [OF assms] by (simp add: format_app_id_def index_package_def index_app_def)

text \<open>
  The user decides once for all versions of an application: after the daemon has answered a request of one version,
  it gives every other version the same answer for the same feature and leaves the store as it is, whatever
  agent would be asked now.
\<close>

theorem versions_share_the_answer:
  assumes "sqlite3_reliable sq view" and "leaves_database view agent" and "\<And>s w. view (syslog s w) = view w"
    and "store_ok st (view w)" and "store_room 1 (view w)" and "small_feature (app_feature p)"
    and "clean_id (pkg @ ''_'' @ app)" and "list_all is_dot (pkg @ app @ v1 @ v2)"
    and "CHR ''_'' \<notin> set (app @ v1 @ v2)"
    and "app_id p = pkg @ ''_'' @ app @ ''_'' @ v1" and "app_id p' = pkg @ ''_'' @ app @ ''_'' @ v2"
    and "app_feature p' = app_feature p"
    and "\<not> decided (pkg @ ''_'' @ app) (app_feature p) (store_contents (view w))"
    and "daemon_answers dict (CachedAgent_authenticate (caching agent sq st (glog_reporter syslog)) now) p w = (Inr a, w')"
  shows "\<exists>w''. daemon_answers dict (CachedAgent_authenticate (caching agent' sq st (glog_reporter syslog)) now) p' w' =
      (Inr a, w'') \<and> store_contents (view w'') = store_contents (view w')"
proof -
  let ?i = "pkg @ ''_'' @ app"
  have quiet: "quiet_reporter view (glog_reporter syslog)" using assms(3) by (rule quiet_glog)
  have ids: "format_app_id (app_id p) = ?i" "format_app_id (app_id p') = ?i"
    using assms(8,9) format_versioned [of pkg app v1] format_versioned [of pkg app v2] assms(10,11) by simp_all
  show ?thesis
  proof (cases "?i = ''unconfined'' \<or> (dict ''disable-whitelisting'' = None \<and> ?i = ''com.ubuntu.camera_camera'')")
    case True
    with assms(14) show ?thesis unfolding daemon_answers_def Let_def ids by auto
  next
    case False
    with assms(14) have "CachedAgent_authenticate (caching agent sq st (glog_reporter syslog)) now (p\<lparr>app_id := ?i\<rparr>) w = (Inr a, w')"
      unfolding daemon_answers_def Let_def ids by (simp only: if_False)
    from sqlite_consulting.over_sqlite_again [OF sqlite_consultingI [OF assms(1,2) quiet]
        assms(4) assms(5) [unfolded One_nat_def] TrueI TrueI _ _ _ this, of "p'\<lparr>app_id := ?i\<rparr>" agent'] assms(6,7,12,13)
    have "\<exists>w''. CachedAgent_authenticate (caching agent' sq st (glog_reporter syslog)) now (p'\<lparr>app_id := ?i\<rparr>) w' =
        (Inr a, w'') \<and> store_contents (view w'') = store_contents (view w')"
      by simp
    with False show ?thesis unfolding daemon_answers_def Let_def ids by (simp only: if_False)
  qed
qed

definition demo_v1 :: agent_params where
  "demo_v1 = demo_params\<lparr>app_id := ''pkg_app_1''\<rparr>"

definition demo_v1_denied :: ref_engine where
  "demo_v1_denied = snd (CachedAgent_authenticate (caching (\<lambda>_. returnE denied) ref_sqlite demo_store
     (glog_reporter (\<lambda>_ w. w))) (\<lambda>_. 7) (demo_params\<lparr>app_id := ''pkg_app''\<rparr>) demo_engine)"

lemma demo_v1_denied:
  "daemon_answers Map.empty (CachedAgent_authenticate (caching (\<lambda>_. returnE denied) ref_sqlite demo_store
     (glog_reporter (\<lambda>_ w. w))) (\<lambda>_. 7)) demo_v1 demo_engine = (Inr denied, demo_v1_denied)"
proof -
  have env: "sqlite_consulting ref_sqlite ref_view (\<lambda>_. returnE denied) (glog_reporter (\<lambda>_ w. w))"
    by (intro sqlite_consultingI ref_reliable leaves_database_const quiet_glog) simp
  have c: "clean_id (app_id (demo_params\<lparr>app_id := ''pkg_app''\<rparr>))" by (simp add: clean_id_def)
  have "CachedAgent_authenticate (caching (\<lambda>_. returnE denied) ref_sqlite demo_store (glog_reporter (\<lambda>_ w. w)))
      (\<lambda>_. 7) (demo_params\<lparr>app_id := ''pkg_app''\<rparr>) demo_engine = (Inr denied, demo_v1_denied)"
    using sqlite_consulting.over_sqlite_undecided [OF env demo_store_ok(1) TrueI c demo_undecided demo_store_ok(2) [unfolded One_nat_def], of "\<lambda>_. 7"]
    by (auto simp: demo_v1_denied_def)
  moreover have "format_app_id ''pkg_app_1'' = ''pkg_app''"
    using format_versioned [of "''pkg''" "''app''" "''1''"] by (simp add: is_dot_def)
  ultimately show ?thesis by (simp add: daemon_answers_def demo_v1_def)
qed

theorem versions_share_the_answer_witness:
  "\<exists>w''. daemon_answers Map.empty (CachedAgent_authenticate (caching (\<lambda>_. returnE granted) ref_sqlite demo_store
      (glog_reporter (\<lambda>_ w. w))) (\<lambda>_. 7)) (demo_params\<lparr>app_id := ''pkg_app_2''\<rparr>) demo_v1_denied = (Inr denied, w'') \<and>
    store_contents (ref_view w'') = store_contents (ref_view demo_v1_denied)"
  by (rule versions_share_the_answer [OF ref_reliable leaves_database_const(1) _ demo_store_ok(1,2) _ _ _ _ _ _ _
        demo_undecided demo_v1_denied, where pkg = "''pkg''" and app = "''app''" and ?v1.0 = "''1''" and ?v2.0 = "''2''"])
    (simp_all add: demo_v1_def demo_params_def small_feature_def clean_id_def is_dot_def)

section \<open>Start-up\<close>

text \<open>The loop around the connection to Mir stops at the first attempt that is not an invalid connection, or at the last one.\<close>

lemma connect_with_retries_run:
  assumes "k \<le> n"
    and "\<And>i. i < k \<Longrightarrow> attempt (ws i) = (Inl (InvalidMirConnection (m i)), vs i) \<and> pause (vs i) = (Inr (), ws (Suc i))"
    and "k = n \<or> (\<nexists>e. fst (attempt (ws k)) = Inl (InvalidMirConnection e))"
  shows "connect_with_retries attempt pause n (ws 0) = attempt (ws k)"
  using assms
proof (induction n arbitrary: k ws vs m)
  case (Suc n)
  show ?case
  proof (cases k)
    case 0
    then have "\<nexists>e. fst (attempt (ws 0)) = Inl (InvalidMirConnection e)" using Suc.prems(3) by simp
    then have "fst (attempt (ws 0)) \<noteq> Inl e" if "is_InvalidMirConnection e" for e using that by (cases e) auto
    then show ?thesis using 0 by (cases "attempt (ws 0)") (auto simp: catchE_apply split: sum.split)
  next
    case (Suc k')
    have "connect_with_retries attempt pause n (ws (Suc 0)) = attempt (ws (Suc k'))"
      using Suc.IH [of k' "\<lambda>i. ws (Suc i)" "\<lambda>i. m (Suc i)" "\<lambda>i. vs (Suc i)"] Suc.prems Suc by simp
    with Suc.prems(2) [of 0] Suc show ?thesis by (simp add: catchE_apply bindE_apply)
  qed
qed simp

text \<open>
  The agent for Mir is made with at most five attempts to connect, a pause between any two: with \<open>k\<close> invalid
  connections first, \<open>k \<le> 4\<close>, the outcome is that of attempt \<open>k + 1\<close> when this is not an invalid connection, or
  when it is the fifth. Any other exception ends the attempts at once.
\<close>

theorem mir_connection_is_retried:
  assumes "dict ''trusted-mir-socket'' = Some sock" and "k \<le> 4"
    and "\<And>i. i < k \<Longrightarrow> connect sock service (ws i) = (Inl (InvalidMirConnection (m i)), vs i) \<and>
      pause (vs i) = (Inr (), ws (Suc i))"
    and "k = 4 \<or> (\<nexists>e. fst (connect sock service (ws k)) = Inl (InvalidMirConnection e))"
  shows "local_factory_mir connect pause service dict (ws 0) =
    (case connect sock service (ws k) of (Inl e, w') \<Rightarrow> (Inl e, w') | (Inr c, w') \<Rightarrow> (Inr (Mir_Local c), w'))"
  using connect_with_retries_run [of k 4 "connect sock service" ws m vs pause, OF assms(2-4)] assms(1)
  by (simp add: local_factory_mir_def connection_attempts_def bindE_apply split: prod.split sum.split)

text \<open>A connection that becomes valid at the third attempt; the world counts the attempts.\<close>

definition demo_connect :: "string \<Rightarrow> string \<Rightarrow> (nat, (nat, unit, nat) mir_configuration) act" where
  "demo_connect sock service = (\<lambda>n. if n < 2 then (Inl (InvalidMirConnection ''invalid''), Suc n)
     else (Inr \<lparr>mc_connection = (), mc_exec = (\<lambda>_. throwE other_exception), mc_wait_for = (\<lambda>_. throwE other_exception),
        mc_translator = translator_only_accepting_exit_status_success, mc_app_info = (\<lambda>_. throwE other_exception),
        mc_parent_pid = (\<lambda>_. throwE other_exception)\<rparr>, Suc n))"

theorem mir_connection_is_retried_witness:
  "snd (local_factory_mir demo_connect (returnE ()) ''camera'' [''trusted-mir-socket'' \<mapsto> ''/run/mir''] 0) = 3"
  using mir_connection_is_retried [of "[''trusted-mir-socket'' \<mapsto> ''/run/mir'']" "''/run/mir''" 2 demo_connect "''camera''"
      "\<lambda>i. i" "\<lambda>_. ''invalid''" Suc "returnE ()"]
  by (simp add: demo_connect_def)

text \<open>
  A daemon that cannot start says why and touches nothing: a command line that does not parse, an unknown local agent
  and an unknown remote agent end the start-up before the store is opened; a remote agent without the option it
  needs (the endpoint, the bus) is refused before it connects to anything.
\<close>

theorem failed_startup_opens_nothing:
  "Skeleton_from_command_line env (Inl d) w = (Inl (runtime_error (''Error parsing command line: '' @ d)), w) \<and>
   (known_local_agent_factories env (so_local_agent vm) = None \<or> known_remote_agent_factories env (so_remote_agent vm) = None \<longrightarrow>
      Skeleton_from_command_line env (Inr vm) w = (Inl out_of_range, de_set_service_text_domain env
        (case so_with_text_domain vm of None \<Rightarrow> so_for_service vm | Some t \<Rightarrow> t) w)) \<and>
   (dict ''endpoint'' = None \<longrightarrow> remote_factory_posix env service agent dict w =
      (Inl (runtime_error ''Missing endpoint specification for UnixDomainSocketRemoteAgent.''), w)) \<and>
   (dict ''bus'' = None \<longrightarrow> remote_factory_system env service agent dict w = (Inl missing_bus, w) \<and>
      remote_factory_session env service agent dict w = (Inl missing_bus, w) \<and>
      stub_factory_system env service dict w = (Inl out_of_range, w))"
  by (auto simp: Skeleton_from_command_line_def bindE_apply map_at_def remote_factory_posix_def remote_factory_system_def
      remote_factory_session_def stub_factory_system_def Let_def split: option.split)

theorem failed_startup_opens_nothing_witness:
  "Skeleton_from_command_line demo_env (Inr (demo_options\<lparr>so_local_agent := ''NoSuchAgent''\<rparr>)) ref_empty =
     (Inl out_of_range, ref_empty)"
proof -
  have "known_local_agent_factories demo_env ''NoSuchAgent'' = None"
    by (simp add: known_local_agent_factories_def MirAgent_name_def TerminalAgent_name_def)
  with failed_startup_opens_nothing [of demo_env "[]" ref_empty "demo_options\<lparr>so_local_agent := ''NoSuchAgent''\<rparr>"
      Map.empty "[]" "\<lambda>_. returnE denied"]
  show ?thesis by (simp add: demo_env_select)
qed

end
