(* ===== verification/Xdg.thy ===== *)
theory Xdg
  imports Prelude
begin

text \<open>
  The base directories of the XDG specification (\<^verbatim>\<open>3rd_party/xdg/xdg.cpp\<close>), where the store keeps its database and
  the desktop entries are looked up. The environment is read through \<^verbatim>\<open>std::getenv\<close>; Boost's paths and its
  \<^verbatim>\<open>split\<close> are parameters.
\<close>

record path_library =
  pl_join :: "string \<Rightarrow> string \<Rightarrow> string"
  pl_filename :: "string \<Rightarrow> string"
  pl_is_absolute :: "string \<Rightarrow> bool"
  pl_has_root_directory :: "string \<Rightarrow> bool"
  pl_split :: "string \<Rightarrow> string \<Rightarrow> string list"

type_synonym 'w getenv = "string \<Rightarrow> 'w \<Rightarrow> string option"

definition throw_if_not_absolute :: "path_library \<Rightarrow> string \<Rightarrow> ('w, string) act" where
  "throw_if_not_absolute pl p =
     (if pl_has_root_directory pl p then returnE p else throwE (runtime_error ''Directores MUST be absolute.''))"

definition env_get :: "'w getenv \<Rightarrow> string \<Rightarrow> string \<Rightarrow> ('w, string) act" where
  "env_get getenv key default_value = readE (\<lambda>w. case getenv key w of Some v \<Rightarrow> v | None \<Rightarrow> default_value)"

definition env_get_or_throw :: "'w getenv \<Rightarrow> string \<Rightarrow> ('w, string) act" where
  "env_get_or_throw getenv key = bindE (readE (getenv key)) (\<lambda>value. case value of
       Some v \<Rightarrow> returnE v
     | None \<Rightarrow> throwE (runtime_error (key @ '' not set in environment'')))"

definition xdg_data_home :: string where "xdg_data_home = ''XDG_DATA_HOME''"
definition xdg_data_dirs :: string where "xdg_data_dirs = ''XDG_DATA_DIRS''"
definition xdg_config_home :: string where "xdg_config_home = ''XDG_CONFIG_HOME''"
definition xdg_config_dirs :: string where "xdg_config_dirs = ''XDG_CONFIG_DIRS''"
definition xdg_cache_home :: string where "xdg_cache_home = ''XDG_CACHE_HOME''"
definition xdg_runtime_dir :: string where "xdg_runtime_dir = ''XDG_RUNTIME_DIR''"

text \<open>The loop over the tokens of a list of directories: the first one that is not absolute throws.\<close>

fun absolute_tokens :: "path_library \<Rightarrow> string list \<Rightarrow> ('w, string list) act" where
  "absolute_tokens pl [] = returnE []"
| "absolute_tokens pl (token # tokens) =
     bindE (throw_if_not_absolute pl token) (\<lambda>p.
     bindE (absolute_tokens pl tokens) (\<lambda>ps. returnE (p # ps)))"

definition Data_home :: "path_library \<Rightarrow> 'w getenv \<Rightarrow> ('w, string) act" where
  "Data_home pl getenv = bindE (env_get getenv xdg_data_home []) (\<lambda>v.
     if v = []
     then bindE (env_get_or_throw getenv ''HOME'') (\<lambda>home.
       throw_if_not_absolute pl (pl_join pl (pl_join pl home ''.local'') ''share''))
     else throw_if_not_absolute pl v)"

definition Data_dirs :: "path_library \<Rightarrow> 'w getenv \<Rightarrow> ('w, string list) act" where
  "Data_dirs pl getenv = bindE (env_get getenv xdg_data_dirs []) (\<lambda>v.
     if v = [] then returnE [''/usr/local/share'', ''/usr/share'']
     else absolute_tokens pl (pl_split pl v '':''))"

definition Config_home :: "path_library \<Rightarrow> 'w getenv \<Rightarrow> ('w, string) act" where
  "Config_home pl getenv = bindE (env_get getenv xdg_config_home []) (\<lambda>v.
     if v = []
     then bindE (env_get_or_throw getenv ''HOME'') (\<lambda>home. throw_if_not_absolute pl (pl_join pl home ''.config''))
     else throw_if_not_absolute pl v)"

definition Config_dirs :: "path_library \<Rightarrow> 'w getenv \<Rightarrow> ('w, string list) act" where
  "Config_dirs pl getenv = bindE (env_get getenv xdg_config_dirs []) (\<lambda>v.
     if v = [] then returnE [''/etc/xdg'']
     else absolute_tokens pl (pl_split pl v '':''))"

definition Cache_home :: "path_library \<Rightarrow> 'w getenv \<Rightarrow> ('w, string) act" where
  "Cache_home pl getenv = bindE (env_get getenv xdg_cache_home []) (\<lambda>v.
     if v = []
     then bindE (env_get_or_throw getenv ''HOME'') (\<lambda>home. throw_if_not_absolute pl (pl_join pl home ''.cache''))
     else throw_if_not_absolute pl v)"

definition Runtime_dir :: "path_library \<Rightarrow> 'w getenv \<Rightarrow> ('w, string) act" where
  "Runtime_dir pl getenv = bindE (env_get getenv xdg_runtime_dir []) (\<lambda>v.
     if v = [] then throwE (runtime_error ''Runtime directory not set'')
     else throw_if_not_absolute pl v)"

section \<open>Lemmas\<close>

lemmas xdg_defs = throw_if_not_absolute_def env_get_def env_get_or_throw_def

text \<open>Looking up a directory only reads, and every directory that is returned is absolute.\<close>

lemma throw_if_not_absolute_apply [act_simps]:
  "throw_if_not_absolute pl p w =
     (if pl_has_root_directory pl p then Inr p else Inl (runtime_error ''Directores MUST be absolute.''), w)"
  by (simp add: throw_if_not_absolute_def)

lemma absolute_tokens_apply [act_simps]:
  "absolute_tokens pl ts w =
     (if list_all (pl_has_root_directory pl) ts then Inr ts else Inl (runtime_error ''Directores MUST be absolute.''), w)"
  by (induction ts) (auto simp: act_simps)

lemma Data_home_reads: "snd (Data_home pl getenv w) = w"
  by (simp add: Data_home_def xdg_defs act_simps split: option.split)

lemma Data_dirs_reads: "snd (Data_dirs pl getenv w) = w"
  by (simp add: Data_dirs_def xdg_defs act_simps split: option.split)

lemma Data_home_absolute: "Data_home pl getenv w = (Inr p, w') \<Longrightarrow> pl_has_root_directory pl p \<and> w' = w"
  by (auto simp: Data_home_def xdg_defs act_simps split: option.splits if_splits)

lemma Data_dirs_absolute:
  assumes "pl_has_root_directory pl ''/usr/local/share''" and "pl_has_root_directory pl ''/usr/share''"
    and "Data_dirs pl getenv w = (Inr ps, w')"
  shows "list_all (pl_has_root_directory pl) ps"
  using assms by (auto simp: Data_dirs_def env_get_def act_simps split: option.splits if_splits)

end
