(* ===== verification/Desktop_Entries.thy ===== *)
theory Desktop_Entries
  imports Mir_Agent Xdg
begin

text \<open>
  What the prompt says about an application comes from its desktop entry
  (\<^verbatim>\<open>mir/click_desktop_entry_app_info_resolver.cpp\<close>): the entry is looked up in the data directories, its name and icon
  are read as a key file.

  The file system (through Boost) and the key files of GLib are parameters. A directory is opened, which may throw, and
  then yields paths up to its end or up to an exception of the iterator. A key file that cannot be loaded, or a key that
  cannot be read, gives the message of the \<^verbatim>\<open>GError\<close>.
\<close>

section \<open>Model\<close>

record ('w, 'k) desktop_api =
  dt_paths :: path_library
  dt_getenv :: "'w getenv"
  dt_is_regular_file :: "string \<Rightarrow> ('w, bool) act"
  dt_directory :: "string \<Rightarrow> ('w, string list \<times> exn option) act"
  dt_key_file_load :: "string \<Rightarrow> 'w \<Rightarrow> (string + 'k) \<times> 'w"
  dt_locale_string :: "'k \<Rightarrow> string \<Rightarrow> string \<Rightarrow> 'w \<Rightarrow> string + string"

definition desktop_entry_in :: "path_library \<Rightarrow> string \<Rightarrow> string \<Rightarrow> string" where
  "desktop_entry_in pl dir aid = pl_join pl (pl_join pl dir ''applications'') (aid @ ''.desktop'')"

text \<open>The loop over the entries of the user's directory, \<open>fin\<close> being how the iteration ends.\<close>

fun scan_entries :: "path_library \<Rightarrow> string \<Rightarrow> exn option \<Rightarrow> string list \<Rightarrow> ('w, string option) act" where
  "scan_entries pl aid fin [] = (case fin of None \<Rightarrow> returnE None | Some e \<Rightarrow> throwE e)"
| "scan_entries pl aid fin (p # ps) =
     (if prefix aid (pl_filename pl p) then returnE (Some p) else scan_entries pl aid fin ps)"

text \<open>The loop over the other data directories.\<close>

fun scan_dirs :: "('w, 'k) desktop_api \<Rightarrow> string \<Rightarrow> string list \<Rightarrow> ('w, string option) act" where
  "scan_dirs api aid [] = returnE None"
| "scan_dirs api aid (dir # dirs) =
     (let p = desktop_entry_in (dt_paths api) dir aid in
      bindE (dt_is_regular_file api p) (\<lambda>regular.
      if regular then returnE (Some p) else scan_dirs api aid dirs))"

definition resolve_desktop_entry_or_throw :: "('w, 'k) desktop_api \<Rightarrow> string \<Rightarrow> ('w, string) act" where
  "resolve_desktop_entry_or_throw api aid = (let pl = dt_paths api in
     bindE (Data_home pl (dt_getenv api)) (\<lambda>home.
     let p = desktop_entry_in pl home aid in
     bindE (dt_is_regular_file api p) (\<lambda>regular.
     if regular then returnE p
     else
       bindE (Data_home pl (dt_getenv api)) (\<lambda>home'.
       bindE (dt_directory api (pl_join pl home' ''applications'')) (\<lambda>(entries, fin).
       bindE (scan_entries pl aid fin entries) (\<lambda>found. case found of
         Some p' \<Rightarrow> returnE p'
       | None \<Rightarrow>
           bindE (Data_dirs pl (dt_getenv api)) (\<lambda>dirs.
           bindE (scan_dirs api aid dirs) (\<lambda>found'. case found' of
             Some p' \<Rightarrow> returnE p'
           | None \<Rightarrow> throwE (runtime_error (''Could not resolve desktop entry for '' @ aid))))))))))"

definition G_KEY_FILE_DESKTOP_GROUP :: string where "G_KEY_FILE_DESKTOP_GROUP = ''Desktop Entry''"
definition G_KEY_FILE_DESKTOP_KEY_NAME :: string where "G_KEY_FILE_DESKTOP_KEY_NAME = ''Name''"
definition G_KEY_FILE_DESKTOP_KEY_ICON :: string where "G_KEY_FILE_DESKTOP_KEY_ICON = ''Icon''"

definition name_from_desktop_entry_or_throw :: "('w, 'k) desktop_api \<Rightarrow> string \<Rightarrow> ('w, string) act" where
  "name_from_desktop_entry_or_throw api fn = (\<lambda>w. case dt_key_file_load api fn w of
       (Inl message, w1) \<Rightarrow> (Inl (runtime_error (''Failed to load desktop entry ['' @ message @ '']'')), w1)
     | (Inr key_file, w1) \<Rightarrow>
         (case dt_locale_string api key_file G_KEY_FILE_DESKTOP_GROUP G_KEY_FILE_DESKTOP_KEY_NAME w1 of
            Inl message \<Rightarrow> (Inl (runtime_error (''Failed to query localized name ['' @ message @ '']'')), w1)
          | Inr app_name \<Rightarrow> (Inr app_name, w1)))"

definition icon_from_desktop_entry_or_throw :: "('w, 'k) desktop_api \<Rightarrow> string \<Rightarrow> ('w, string) act" where
  "icon_from_desktop_entry_or_throw api fn = (\<lambda>w. case dt_key_file_load api fn w of
       (Inl message, w1) \<Rightarrow> (Inl (runtime_error (''Failed to load desktop entry ['' @ message @ '']'')), w1)
     | (Inr key_file, w1) \<Rightarrow>
         (case dt_locale_string api key_file G_KEY_FILE_DESKTOP_GROUP G_KEY_FILE_DESKTOP_KEY_ICON w1 of
            Inl message \<Rightarrow> (Inl (runtime_error (''Failed to query icon ['' @ message @ '']'')), w1)
          | Inr app_icon \<Rightarrow>
              bindE (if pl_is_absolute (dt_paths api) app_icon then dt_is_regular_file api app_icon else returnE False)
                (\<lambda>ok. if ok then returnE app_icon
                   else throwE (runtime_error (''Icon path is either not absolute or not pointing to a regular file ['' @
                          app_icon @ '']''))) w1))"

definition ClickDesktopEntryAppInfoResolver_resolve :: "('w, 'k) desktop_api \<Rightarrow> string \<Rightarrow> ('w, app_info) act" where
  "ClickDesktopEntryAppInfoResolver_resolve api aid =
     bindE (resolve_desktop_entry_or_throw api aid) (\<lambda>de.
     bindE (icon_from_desktop_entry_or_throw api de) (\<lambda>icon.
     bindE (name_from_desktop_entry_or_throw api de) (\<lambda>name.
     returnE \<lparr>ai_icon = icon, ai_name = name, ai_id = aid\<rparr>)))"

section \<open>Which entry is found\<close>

lemma scan_entries_apply [act_simps]:
  "scan_entries pl aid fin ps w =
     (case find (\<lambda>p. prefix aid (pl_filename pl p)) ps of
        Some p \<Rightarrow> Inr (Some p)
      | None \<Rightarrow> (case fin of None \<Rightarrow> Inr None | Some e \<Rightarrow> Inl e), w)"
  by (induction ps) (auto split: option.split)

lemma scan_dirs_apply:
  assumes "\<And>p. dt_is_regular_file api p w = (Inr (regular p), w)"
  shows "scan_dirs api aid dirs w =
    (Inr (find regular (map (\<lambda>dir. desktop_entry_in (dt_paths api) dir aid) dirs)), w)"
  by (induction dirs) (auto simp: bindE_apply assms Let_def)

text \<open>
  The lookup on a file system that answers every query: the entry of that very name in the user's directory, the first
  file of the user's directory whose name begins with the application id, the entry of that very name in the first of the
  other data directories that has one.
\<close>

lemma resolve_desktop_entry_lookup:
  assumes "\<And>p. dt_is_regular_file api p w = (Inr (regular p), w)"
    and "Data_home (dt_paths api) (dt_getenv api) w = (Inr home, w)"
    and "dt_directory api (pl_join (dt_paths api) home ''applications'') w = (opened, w)"
  shows "resolve_desktop_entry_or_throw api aid w =
    (if regular (desktop_entry_in (dt_paths api) home aid) then Inr (desktop_entry_in (dt_paths api) home aid)
     else case opened of
       Inl e \<Rightarrow> Inl e
     | Inr (entries, fin) \<Rightarrow> (case find (\<lambda>p. prefix aid (pl_filename (dt_paths api) p)) entries of
         Some p \<Rightarrow> Inr p
       | None \<Rightarrow> (case fin of
           Some e \<Rightarrow> Inl e
         | None \<Rightarrow> (case fst (Data_dirs (dt_paths api) (dt_getenv api) w) of
             Inl e \<Rightarrow> Inl e
           | Inr dirs \<Rightarrow>
               (case find regular (map (\<lambda>dir. desktop_entry_in (dt_paths api) dir aid) dirs) of
                  Some p \<Rightarrow> Inr p
                | None \<Rightarrow> Inl (runtime_error (''Could not resolve desktop entry for '' @ aid)))))), w)"
proof -
  obtain d where d: "Data_dirs (dt_paths api) (dt_getenv api) w = (d, w)"
    by (metis Data_dirs_reads prod.exhaust_sel)
  show ?thesis
    by (simp add: resolve_desktop_entry_or_throw_def act_simps assms d scan_dirs_apply [OF assms(1)] Let_def
        split: sum.split option.split)
qed

text \<open>
  Whatever the file system does meanwhile, the information that is returned carries the id asked for, an icon that is
  an absolute path to a regular file, and the icon and name of key files loaded from the one path that was resolved.
\<close>

lemma resolved_information:
  assumes "ClickDesktopEntryAppInfoResolver_resolve api aid w = (Inr info, w')"
  shows "ai_id info = aid \<and> pl_is_absolute (dt_paths api) (ai_icon info) \<and>
    (\<exists>v v'. dt_is_regular_file api (ai_icon info) v = (Inr True, v')) \<and>
    (\<exists>de v. resolve_desktop_entry_or_throw api aid w = (Inr de, v) \<and>
      (\<exists>k v1 v2. dt_key_file_load api de v1 = (Inr k, v2) \<and>
        dt_locale_string api k ''Desktop Entry'' ''Icon'' v2 = Inr (ai_icon info)) \<and>
      (\<exists>k v1 v2. dt_key_file_load api de v1 = (Inr k, v2) \<and>
        dt_locale_string api k ''Desktop Entry'' ''Name'' v2 = Inr (ai_name info)))"
proof -
  from assms obtain de icon name v1 v2 where
    de: "resolve_desktop_entry_or_throw api aid w = (Inr de, v1)" and
    icon: "icon_from_desktop_entry_or_throw api de v1 = (Inr icon, v2)" and
    name: "name_from_desktop_entry_or_throw api de v2 = (Inr name, w')" and
    info: "info = \<lparr>ai_icon = icon, ai_name = name, ai_id = aid\<rparr>"
    by (auto simp: ClickDesktopEntryAppInfoResolver_resolve_def bindE_returns_iff)
  from icon obtain k v where "dt_key_file_load api de v1 = (Inr k, v)"
    "dt_locale_string api k ''Desktop Entry'' ''Icon'' v = Inr icon" "pl_is_absolute (dt_paths api) icon"
    "dt_is_regular_file api icon v = (Inr True, v2)"
    by (auto simp: icon_from_desktop_entry_or_throw_def bindE_returns_iff G_KEY_FILE_DESKTOP_GROUP_def
        G_KEY_FILE_DESKTOP_KEY_ICON_def split: prod.splits sum.splits if_splits)
  moreover from name obtain k' v' where "dt_key_file_load api de v2 = (Inr k', v')"
    "dt_locale_string api k' ''Desktop Entry'' ''Name'' v' = Inr name"
    by (auto simp: name_from_desktop_entry_or_throw_def G_KEY_FILE_DESKTOP_GROUP_def
        G_KEY_FILE_DESKTOP_KEY_NAME_def split: prod.splits sum.splits)
  ultimately show ?thesis using de info by auto
qed

section \<open>Properties\<close>

lemma find_first: "\<forall>x \<in> set xs. \<not> P x \<Longrightarrow> P y \<Longrightarrow> find P (xs @ y # ys) = Some y"
  by (induction xs) auto

text \<open>
  C39. A prompt can show another application. When the user's directory has no entry named after the application id alone
  (the ids are looked up without their version, the entries of packages are named with it), the first file whose name
  begins with the id is taken. If that file is the entry of an application whose id is longer, the prompt for the short id
  shows the name and the icon of the other application: the result is that of the other one but for the id.
\<close>

theorem prompt_shows_another_application:
  assumes "\<And>p. dt_is_regular_file api p w = (Inr (regular p), w)"
    and "Data_home (dt_paths api) (dt_getenv api) w = (Inr home, w)"
    and "dt_directory api (pl_join (dt_paths api) home ''applications'') w =
      (Inr (before @ desktop_entry_in (dt_paths api) home other # after, fin), w)"
    and "\<And>d. pl_filename (dt_paths api) (pl_join (dt_paths api) d (other @ ''.desktop'')) = other @ ''.desktop''"
    and "strict_prefix aid other" and "\<forall>p \<in> set before. \<not> prefix aid (pl_filename (dt_paths api) p)"
    and "\<not> regular (desktop_entry_in (dt_paths api) home aid)"
    and "regular (desktop_entry_in (dt_paths api) home other)"
  shows "ClickDesktopEntryAppInfoResolver_resolve api aid w =
    (case ClickDesktopEntryAppInfoResolver_resolve api other w of
       (Inr info, w') \<Rightarrow> (Inr (info\<lparr>ai_id := aid\<rparr>), w')
     | (Inl e, w') \<Rightarrow> (Inl e, w'))"
proof -
  have "prefix aid (pl_filename (dt_paths api) (desktop_entry_in (dt_paths api) home other))"
    using assms(4,5) by (auto simp: desktop_entry_in_def strict_prefix_def)
  then have "resolve_desktop_entry_or_throw api aid w = (Inr (desktop_entry_in (dt_paths api) home other), w)"
    using assms(6,7) by (simp add: resolve_desktop_entry_lookup [OF assms(1-3)] find_first)
  moreover have "resolve_desktop_entry_or_throw api other w = (Inr (desktop_entry_in (dt_paths api) home other), w)"
    using assms(8) by (simp add: resolve_desktop_entry_lookup [OF assms(1-3)])
  ultimately show ?thesis
    by (auto simp: ClickDesktopEntryAppInfoResolver_resolve_def bindE_apply split: prod.splits sum.splits)
qed

text \<open>A small file system: one application is installed for the user, with an icon.\<close>

fun demo_split :: "string \<Rightarrow> string \<Rightarrow> string list" where
  "demo_split [] seps = [[]]"
| "demo_split (c # cs) seps = (if c \<in> set seps then [] # demo_split cs seps
     else (case demo_split cs seps of [] \<Rightarrow> [[c]] | t # ts \<Rightarrow> (c # t) # ts))"

definition demo_paths :: path_library where
  "demo_paths = \<lparr>pl_join = (\<lambda>a b. a @ ''/'' @ b),
     pl_filename = (\<lambda>p. rev (takeWhile (\<lambda>c. c \<noteq> CHR ''/'') (rev p))),
     pl_is_absolute = prefix ''/'', pl_has_root_directory = prefix ''/'', pl_split = demo_split\<rparr>"

definition demo_desktop :: "string list \<Rightarrow> (string \<Rightarrow> exn + string list) \<Rightarrow> ('w, string) desktop_api" where
  "demo_desktop files listing = \<lparr>dt_paths = demo_paths,
     dt_getenv = (\<lambda>key _. if key = ''XDG_DATA_HOME'' then Some ''/u'' else None),
     dt_is_regular_file = (\<lambda>p. returnE (p \<in> set files)),
     dt_directory = (\<lambda>d w. (case listing d of Inl e \<Rightarrow> Inl e | Inr ps \<Rightarrow> Inr (ps, None), w)),
     dt_key_file_load = (\<lambda>p w. (Inr p, w)),
     dt_locale_string = (\<lambda>k _ key _. if key = ''Icon'' then Inr ''/icon.png'' else Inr k)\<rparr>"

lemma demo_desktop_select:
  "dt_paths (demo_desktop files listing) = demo_paths"
  "dt_is_regular_file (demo_desktop files listing) p = returnE (p \<in> set files)"
  "dt_directory (demo_desktop files listing) d w =
     (case listing d of Inl e \<Rightarrow> Inl e | Inr ps \<Rightarrow> Inr (ps, None), w)"
  "dt_key_file_load (demo_desktop files listing) p w = (Inr p, w)"
  "dt_locale_string (demo_desktop files listing) k g key w = (if key = ''Icon'' then Inr ''/icon.png'' else Inr k)"
  "pl_is_absolute demo_paths = prefix ''/''"
  by (simp_all add: demo_desktop_def demo_paths_def)

lemma demo_desktop_home: "Data_home demo_paths (dt_getenv (demo_desktop files listing)) w = (Inr ''/u'', w)"
  by (simp add: Data_home_def xdg_defs xdg_data_home_def demo_desktop_def demo_paths_def act_simps)

theorem prompt_shows_another_application_witness:
  "ClickDesktopEntryAppInfoResolver_resolve
     (demo_desktop [''/u/applications/cam_pro.desktop'', ''/icon.png''] (\<lambda>_. Inr [''/u/applications/cam_pro.desktop'']))
     ''cam'' () =
   (Inr \<lparr>ai_icon = ''/icon.png'', ai_name = ''/u/applications/cam_pro.desktop'', ai_id = ''cam''\<rparr>, ())"
proof -
  let ?d = "demo_desktop [''/u/applications/cam_pro.desktop'', ''/icon.png''] (\<lambda>_. Inr [''/u/applications/cam_pro.desktop''])"
  have e: "desktop_entry_in demo_paths ''/u'' ''cam_pro'' = ''/u/applications/cam_pro.desktop''"
    "desktop_entry_in demo_paths ''/u'' ''cam'' = ''/u/applications/cam.desktop''"
    by (simp_all add: desktop_entry_in_def demo_paths_def)
  have "ClickDesktopEntryAppInfoResolver_resolve ?d ''cam_pro'' () =
      (Inr \<lparr>ai_icon = ''/icon.png'', ai_name = ''/u/applications/cam_pro.desktop'', ai_id = ''cam_pro''\<rparr>, ())"
    by (simp add: ClickDesktopEntryAppInfoResolver_resolve_def act_simps resolve_desktop_entry_or_throw_def
        demo_desktop_select demo_desktop_home e icon_from_desktop_entry_or_throw_def name_from_desktop_entry_or_throw_def
        Let_def G_KEY_FILE_DESKTOP_KEY_NAME_def G_KEY_FILE_DESKTOP_KEY_ICON_def)
  with prompt_shows_another_application [of ?d "()" "\<lambda>p. p \<in> set [''/u/applications/cam_pro.desktop'', ''/icon.png'']"
      "''/u''" "[]" "''cam_pro''" "[]" None "''cam''"]
  show ?thesis
    by (simp add: demo_desktop_select demo_desktop_home e) (simp add: demo_paths_def)
qed

text \<open>
  Without a directory of entries of the user, the entries of the system are not found: opening the directory throws,
  and the exception ends the lookup before the other data directories are looked at. An empty directory is enough for the
  same entry to be found.
\<close>

theorem missing_user_directory_hides_system_entries:
  assumes "\<And>p. dt_is_regular_file api p w = (Inr (regular p), w)"
    and "Data_home (dt_paths api) (dt_getenv api) w = (Inr home, w)"
    and "dt_directory api (pl_join (dt_paths api) home ''applications'') w = (opened, w)"
    and "Data_dirs (dt_paths api) (dt_getenv api) w = (Inr dirs, w)"
    and "\<not> regular (desktop_entry_in (dt_paths api) home aid)"
    and "dir \<in> set dirs" and "regular (desktop_entry_in (dt_paths api) dir aid)"
  shows "(\<forall>e. opened = Inl e \<longrightarrow> resolve_desktop_entry_or_throw api aid w = (Inl e, w)) \<and>
    (opened = Inr ([], None) \<longrightarrow> (\<exists>dir' \<in> set dirs. regular (desktop_entry_in (dt_paths api) dir' aid) \<and>
       resolve_desktop_entry_or_throw api aid w = (Inr (desktop_entry_in (dt_paths api) dir' aid), w)))"
proof -
  let ?ps = "map (\<lambda>dir. desktop_entry_in (dt_paths api) dir aid) dirs"
  obtain p where p: "find regular ?ps = Some p" using assms(6,7) by (cases "find regular ?ps") (auto simp: find_None_iff)
  then have "p \<in> set ?ps" "regular p" by (auto simp: find_Some_iff simp del: set_map) (metis length_map nth_map nth_mem)
  then show ?thesis using assms(4,5) p by (auto simp: resolve_desktop_entry_lookup [OF assms(1-3)])
qed

theorem missing_user_directory_hides_system_entries_witness:
  "resolve_desktop_entry_or_throw
     (demo_desktop [''/usr/share/applications/cam.desktop''] (\<lambda>_. Inl (runtime_error ''no such directory''))) ''cam'' () =
   (Inl (runtime_error ''no such directory''), ())"
proof -
  let ?files = "[''/usr/share/applications/cam.desktop'']"
  let ?d = "demo_desktop ?files (\<lambda>_. Inl (runtime_error ''no such directory''))"
  have "Data_dirs demo_paths (dt_getenv ?d) () = (Inr [''/usr/local/share'', ''/usr/share''], ())"
    by (simp add: Data_dirs_def env_get_def xdg_data_dirs_def demo_desktop_def act_simps)
  then show ?thesis
    using missing_user_directory_hides_system_entries [of ?d "()" "\<lambda>p. p \<in> set ?files" "''/u''"
        "Inl (runtime_error ''no such directory'')" "[''/usr/local/share'', ''/usr/share'']" "''cam''" "''/usr/share''"]
    by (simp add: demo_desktop_select demo_desktop_home) (simp add: desktop_entry_in_def demo_paths_def)
qed

end
