(* ===== verification/Prompt_Provider.thy ===== *)
theory Prompt_Provider
  imports Desktop_Entries Runtime_Services
begin

text \<open>
  The program that shows the prompt (\<^verbatim>\<open>mir/prompt_main.cpp\<close>): it takes what to show from its command line and
  environment, hands it to the user interface and exits with the code the user interface ends with. Together with
  the agent that starts it this closes the way from a request to the button the user clicks.

  Boost's parsers, the environment, Qt and its view are parameters. A view shows the context properties it is given and
  ends with a code: the two buttons of \<^verbatim>\<open>prompt_main.qml\<close> end it with \<open>0\<close> (allow) and \<open>1\<close> (do not allow).
\<close>

section \<open>Model\<close>

definition env_option_mir_socket :: string where "env_option_mir_socket = ''MIR_SOCKET''"
definition env_option_testability :: string where "env_option_testability = ''QT_LOAD_TESTABILITY''"
definition option_server_socket :: string where "option_server_socket = ''mir_server_socket''"
definition option_icon :: string where "option_icon = ''icon''"
definition option_name :: string where "option_name = ''name''"
definition option_id :: string where "option_id = ''id''"
definition option_description :: string where "option_description = ''description''"
definition option_testing :: string where "option_testing = ''testing''"
definition option_testability :: string where "option_testability = ''testability''"

lemmas option_defs = env_option_mir_socket_def env_option_testability_def option_server_socket_def option_icon_def
  option_name_def option_id_def option_description_def option_testing_def option_testability_def

type_synonym variables_map = "string \<rightharpoonup> string"

text \<open>
  \<open>pp_load_testability\<close> loads the library \<^verbatim>\<open>qttestability\<close>; \<open>pp_resolve_testability\<close> looks up its function, which
  \<open>pp_run_testability\<close> calls.
\<close>

record 'w prompt_libraries =
  pp_parse_command_line :: "string list \<Rightarrow> exn + variables_map"
  pp_parse_environment :: "string \<Rightarrow> 'w \<Rightarrow> exn + variables_map"
  pp_unset_env :: "string \<Rightarrow> ('w, unit) act"
  pp_set_env :: "string \<Rightarrow> string \<Rightarrow> ('w, unit) act"
  pp_get_env :: "string \<Rightarrow> 'w \<Rightarrow> string option"
  pp_application :: "('w, unit) act"
  pp_load_testability :: "('w, bool) act"
  pp_resolve_testability :: "('w, bool) act"
  pp_run_testability :: "('w, unit) act"
  pp_critical :: "string \<Rightarrow> 'w \<Rightarrow> 'w"
  pp_view_exec :: "(string \<times> string) list \<Rightarrow> ('w, int32) act"

definition validate_command_line_arguments :: "variables_map \<Rightarrow> ('w, unit) act" where
  "validate_command_line_arguments vm = block
     [throw_if (vm option_icon = None) (logic_error ''Missing option icon.''),
      throw_if (vm option_name = None) (logic_error ''Missing option name.''),
      throw_if (vm option_id = None) (logic_error ''Missing option id.''),
      throw_if (vm option_description = None) (logic_error ''Missing option description''),
      (case vm option_server_socket of
         None \<Rightarrow> returnE ()
       | Some s \<Rightarrow> throw_if (\<not> prefix ''fd://'' s) (logic_error ''mir_server_socket does not being with fd://''))]"

definition lift_result :: "exn + 'a \<Rightarrow> ('w, 'a) act" where
  "lift_result r = (case r of Inl e \<Rightarrow> throwE e | Inr x \<Rightarrow> returnE x)"

definition load_testability :: "'w prompt_libraries \<Rightarrow> ('w, unit) act" where
  "load_testability lib =
     bindE (pp_load_testability lib) (\<lambda>loaded.
     if loaded
     then bindE (pp_resolve_testability lib) (\<lambda>found.
       if found then pp_run_testability lib
       else modifyE (pp_critical lib ''Library qttestability resolve failed!''))
     else modifyE (pp_critical lib ''Library qttestability load failed!''))"

text \<open>The part of \<^verbatim>\<open>main\<close> after the options have been validated, which makes sure that the four texts are there.\<close>

definition prompt_show :: "'w prompt_libraries \<Rightarrow> 'w gettext_api \<Rightarrow> variables_map \<Rightarrow> (i18n_state \<times> 'w, int32) act" where
  "prompt_show lib gt vm =
     (let icon = the (vm option_icon); name = the (vm option_name);
          id = map (\<lambda>c. if c = CHR ''_'' then CHR ''/'' else c) (the (vm option_id));
          description = the (vm option_description) in
      bindE (case vm option_server_socket of
          None \<Rightarrow> returnE ()
        | Some s \<Rightarrow> in_world (bindE (pp_unset_env lib env_option_mir_socket) (\<lambda>_. pp_set_env lib env_option_mir_socket s))) (\<lambda>_.
      bindE (default_text_domain gt) (\<lambda>_.
      bindE (in_world (pp_application lib)) (\<lambda>_.
      bindE (in_world (readE (pp_get_env lib env_option_testability))) (\<lambda>requested.
      bindE (if vm option_testability \<noteq> None \<or> (case requested of Some v \<Rightarrow> v | None \<Rightarrow> ''0'') = ''1''
         then in_world (load_testability lib) else returnE ()) (\<lambda>_.
      in_world (pp_view_exec lib
        [(option_icon, icon), (option_name, name), (option_id, id), (option_description, description)])))))))"

text \<open>
  \<^verbatim>\<open>boost::program_options::store\<close> leaves an option alone that has a value already, so the command line goes before the
  environment.
\<close>

definition prompt_main :: "'w prompt_libraries \<Rightarrow> 'w gettext_api \<Rightarrow> string list \<Rightarrow> (i18n_state \<times> 'w, int32) act" where
  "prompt_main lib gt argv =
     bindE (lift_result (pp_parse_command_line lib argv)) (\<lambda>command_line.
     bindE (in_world (readE (pp_parse_environment lib ''CORE_TRUST_MIR_PROMPT_''))) (\<lambda>parsed.
     bindE (lift_result parsed) (\<lambda>environment.
     let vm = environment ++ command_line in
     bindE (validate_command_line_arguments vm) (\<lambda>_.
     if vm option_testing \<noteq> None then returnE 0 else prompt_show lib gt vm))))"

text \<open>
  How the process ends: with the low eight bits of what \<^verbatim>\<open>main\<close> returns, or, on an exception that nobody catches, by the
  signal of \<^verbatim>\<open>abort\<close>.
\<close>

definition provider_exit :: "exn + int32 \<Rightarrow> wait_result" where
  "provider_exit r = (case r of
       Inl _ \<Rightarrow> \<lparr>wr_status = wait_signaled, wr_exit_status = 0\<rparr>
     | Inr code \<Rightarrow> \<lparr>wr_status = wait_exited, wr_exit_status = ucast code\<rparr>)"

section \<open>What a run shows\<close>

lemma lift_result_returns [simp]: "lift_result r w = (Inr x, w') \<longleftrightarrow> r = Inr x \<and> w' = w"
  by (auto simp: lift_result_def split: sum.split)

lemma in_world_returns: "in_world m sw = (Inr x, sw') \<longleftrightarrow> m (snd sw) = (Inr x, snd sw') \<and> fst sw' = fst sw"
  by (cases sw; cases sw') (auto simp: in_world_def split: prod.splits)

definition shown_properties :: "string \<Rightarrow> string \<Rightarrow> string \<Rightarrow> string \<Rightarrow> (string \<times> string) list" where
  "shown_properties icon name aid description =
     [(''icon'', icon), (''name'', name), (''id'', map (\<lambda>c. if c = CHR ''_'' then CHR ''/'' else c) aid),
      (''description'', description)]"

lemma prompt_show_returns:
  assumes "prompt_show lib gt vm su = (Inr code, su')"
  shows "\<exists>v. pp_view_exec lib (shown_properties (the (vm ''icon'')) (the (vm ''name'')) (the (vm ''id''))
    (the (vm ''description''))) v = (Inr code, snd su')"
  using assms unfolding prompt_show_def Let_def bindE_returns_iff in_world_returns
  by (auto simp: shown_properties_def option_defs)

lemma prompt_main_returns:
  assumes "prompt_main lib gt argv (s, u) = (Inr code, su')"
  obtains cl en where "pp_parse_command_line lib argv = Inr cl"
    and "pp_parse_environment lib ''CORE_TRUST_MIR_PROMPT_'' u = Inr en"
    and "(en ++ cl) ''testing'' \<noteq> None \<and> code = 0 \<or> (\<exists>su. prompt_show lib gt (en ++ cl) su = (Inr code, su'))"
  using assms unfolding prompt_main_def bindE_returns_iff in_world_returns Let_def
  by (auto simp: option_testing_def split: if_splits) blast+

section \<open>From the request to the button\<close>

text \<open>
  What the composition relies on: when waiting for a process started from the executable tells that it has exited, it gives the end of some
  run of \<^verbatim>\<open>main\<close> on the arguments it was started with, in a process of its own. \<open>start vars u\<close> says that such a process may
  start in the world \<open>u\<close> when it is given the environment \<open>vars\<close>; the worlds differ in all else, the user among it. A
  process that is killed or stopped may give any result that tells so. The
  command line parser, when it succeeds, assigns to the options of \<^verbatim>\<open>--option value\<close> their values.
\<close>

definition runs_prompt_provider ::
  "('w, 'p) process_api \<Rightarrow> string \<Rightarrow> 'v prompt_libraries \<Rightarrow> 'v gettext_api \<Rightarrow> ((string \<rightharpoonup> string) \<Rightarrow> 'v \<Rightarrow> bool) \<Rightarrow> bool"
where
  "runs_prompt_provider px exe lib gt start \<longleftrightarrow>
     (\<forall>argv vars v child v' res v''. px_exec px exe argv vars v = (Inr child, v') \<longrightarrow>
        px_wait_for px child v' = (Inr res, v'') \<longrightarrow>
        wr_status res = wait_exited \<longrightarrow>
        (\<exists>u. start vars u \<and> res = provider_exit (fst (prompt_main lib gt argv (i18n_start, u)))))"

definition flatten_options :: "(string \<times> string) list \<Rightarrow> string list" where
  "flatten_options opts = concat (map (\<lambda>(k, v). [''--'' @ k, v]) opts)"

definition parses_options :: "'v prompt_libraries \<Rightarrow> bool" where
  "parses_options lib \<longleftrightarrow> (\<forall>opts m. distinct (map fst opts) \<longrightarrow>
     set (map fst opts) \<subseteq> {''mir_server_socket'', ''icon'', ''name'', ''id'', ''description''} \<longrightarrow>
     pp_parse_command_line lib (flatten_options opts) = Inr m \<longrightarrow> m = map_of opts)"

lemma prompt_provider_argv_flat:
  "prompt_provider_argv t args = flatten_options
     [(''mir_server_socket'', ''fd://'' @ to_string_int (ia_fd args)), (''icon'', ai_icon (ia_app_info args)),
      (''name'', ai_name (ia_app_info args)), (''id'', ai_id (ia_app_info args)), (''description'', t (ia_description args))]"
  by (simp add: prompt_provider_argv_def flatten_options_def)

text \<open>A run of the provider on the arguments of the agent.\<close>

lemma provider_run:
  assumes "parses_options lib"
    and "prompt_main lib gt (prompt_provider_argv t args) (i18n_start, u) = (Inr code, su')"
  shows "(\<exists>en. pp_parse_environment lib ''CORE_TRUST_MIR_PROMPT_'' u = Inr en \<and> en ''testing'' \<noteq> None \<and> code = 0) \<or>
    (\<exists>v. pp_view_exec lib (shown_properties (ai_icon (ia_app_info args)) (ai_name (ia_app_info args))
       (ai_id (ia_app_info args)) (t (ia_description args))) v = (Inr code, snd su'))"
proof -
  let ?opts = "[(''mir_server_socket'', ''fd://'' @ to_string_int (ia_fd args)), (''icon'', ai_icon (ia_app_info args)),
    (''name'', ai_name (ia_app_info args)), (''id'', ai_id (ia_app_info args)), (''description'', t (ia_description args))]"
  obtain cl en where cl: "pp_parse_command_line lib (prompt_provider_argv t args) = Inr cl"
    and en: "pp_parse_environment lib ''CORE_TRUST_MIR_PROMPT_'' u = Inr en"
    and run: "(en ++ cl) ''testing'' \<noteq> None \<and> code = 0 \<or> (\<exists>su. prompt_show lib gt (en ++ cl) su = (Inr code, su'))"
    using assms(2) by (rule prompt_main_returns)
  have "cl = map_of ?opts"
    by (rule assms(1) [unfolded parses_options_def, rule_format, OF _ _ cl [unfolded prompt_provider_argv_flat]]) simp_all
  then have v: "(en ++ cl) ''testing'' = en ''testing''" "(en ++ cl) ''icon'' = Some (ai_icon (ia_app_info args))"
    "(en ++ cl) ''name'' = Some (ai_name (ia_app_info args))" "(en ++ cl) ''id'' = Some (ai_id (ia_app_info args))"
    "(en ++ cl) ''description'' = Some (t (ia_description args))"
    by (simp_all add: map_add_def)
  from run show ?thesis
  proof
    assume "(en ++ cl) ''testing'' \<noteq> None \<and> code = 0"
    with en v(1) show ?thesis by auto
  next
    assume "\<exists>su. prompt_show lib gt (en ++ cl) su = (Inr code, su')"
    then obtain su where "prompt_show lib gt (en ++ cl) su = (Inr code, su')" by blast
    from prompt_show_returns [OF this] show ?thesis by (intro disjI2) (simp only: v option.sel)
  qed
qed

text \<open>
  C20. From the request to the button. An answer of the agent for Mir, over the desktop entry resolver and the prompt
  provider, comes from one run of the provider's \<^verbatim>\<open>main\<close>, on a command line that names a descriptor Mir gave for the
  session, in the environment of the daemon. That run ended with a view that showed the icon and name of the resolved desktop entry,
  the application id with slashes for underscores, and the translated description of the request, and the code the view ended with is the
  answer: \<open>1\<close> (in its low byte) denies and every other one grants. There is one exception: if the environment of that run, which is
  inherited from the daemon, sets the option \<^verbatim>\<open>testing\<close>, the request is granted and nothing was shown.
\<close>

theorem answer_is_given_at_the_view:
  assumes "create_agent_for_mir_connection api px tr (ClickDesktopEntryAppInfoResolver_resolve dt) parent exe conn w0 =
      (Inr cfg, w0')"
    and "runs_prompt_provider px exe lib gt start" and "parses_options lib"
    and "Mir_authenticate api cfg p w = Some (Inr a, w')"
  shows "\<exists>s v0 fd v1 info v v' args u code su'. session_found api cfg (app_pid p) s v0 \<and> mir_new_fd api s v0 = (fd, v1) \<and>
    ClickDesktopEntryAppInfoResolver_resolve dt (app_id p) v = (Inr info, v') \<and> ai_id info = app_id p \<and>
    args = \<lparr>ia_fd = fd, ia_app_info = info, ia_description = app_description p\<rparr> \<and>
    start (fold map_insert (px_environ px v') Map.empty) u \<and>
    prompt_main lib gt (prompt_provider_argv (tr v') args) (i18n_start, u) = (Inr code, su') \<and>
    a = (if ucast code = (1 :: byte) then denied else granted) \<and>
    ((\<exists>x. pp_view_exec lib (shown_properties (ai_icon info) (ai_name info) (app_id p) (tr v' (app_description p))) x =
        (Inr code, snd su')) \<or>
     (\<exists>en. pp_parse_environment lib ''CORE_TRUST_MIR_PROMPT_'' u = Inr en \<and> en ''testing'' \<noteq> None \<and> code = 0))"
proof -
  have cfg: "mc_translator cfg = translator_only_accepting_exit_status_success"
    "mc_app_info cfg = ClickDesktopEntryAppInfoResolver_resolve dt" "mc_wait_for cfg = px_wait_for px"
    "mc_exec cfg = exec_prompt_provider_with_arguments px exe tr"
    using assms(1) by (auto simp: create_agent_for_mir_connection_def bindE_returns_iff)
  from mir_answer_runs_provider [OF assms(4)] obtain s w1 fd w2 w3 w4 where
    f: "find_session api cfg (app_pid p) None (app_pid p) w = Some (Inr s, w1)" and fd: "mir_new_fd api s w1 = (fd, w2)"
    and r: "run_prompt_provider cfg p fd w3 = (Inr a, w4)" by blast
  from run_prompt_provider_returns [OF cfg(1) r] obtain info v5 child v6 res where
    info: "ClickDesktopEntryAppInfoResolver_resolve dt (app_id p) w3 = (Inr info, v5)" and
    child: "exec_prompt_provider_with_arguments px exe tr
      \<lparr>ia_fd = fd, ia_app_info = info, ia_description = app_description p\<rparr> v5 = (Inr child, v6)" and
    res: "px_wait_for px child v6 = (Inr res, w4)" "wr_status res = wait_exited"
      "a = (if wr_exit_status res = 1 then denied else granted)"
    unfolding cfg by blast
  let ?args = "\<lparr>ia_fd = fd, ia_app_info = info, ia_description = app_description p\<rparr>"
  obtain u where u: "start (fold map_insert (px_environ px v5) Map.empty) u"
    "res = provider_exit (fst (prompt_main lib gt (prompt_provider_argv (tr v5) ?args) (i18n_start, u)))"
    using assms(2) child res(1,2)
    unfolding exec_prompt_provider_with_arguments_def runs_prompt_provider_def by (fastforce simp: act_simps)
  then obtain code su' where
    run: "prompt_main lib gt (prompt_provider_argv (tr v5) ?args) (i18n_start, u) = (Inr code, su')"
    and code: "wr_exit_status res = ucast code"
    using res(2) by (cases "prompt_main lib gt (prompt_provider_argv (tr v5) ?args) (i18n_start, u)")
      (auto simp: provider_exit_def split: sum.splits)
  have i: "ai_id info = app_id p" using resolved_information [OF info] by simp
  have a: "a = (if ucast code = (1 :: byte) then denied else granted)" using res(3) code by simp
  from provider_run [OF assms(3) run] i have
    "(\<exists>x. pp_view_exec lib (shown_properties (ai_icon info) (ai_name info) (app_id p) (tr v5 (app_description p))) x =
        (Inr code, snd su')) \<or>
     (\<exists>en. pp_parse_environment lib ''CORE_TRUST_MIR_PROMPT_'' u = Inr en \<and> en ''testing'' \<noteq> None \<and> code = 0)"
    by auto
  with find_session_found [OF f] fd info i u(1) run a show ?thesis by blast
qed

text \<open>
  A provider in a world that consists of the code the user is going to click, whose user may click anything and clicks
  \<open>1\<close> this time, started by the agent of the small Mir.
\<close>

fun demo_pairs :: "string list \<Rightarrow> (string \<times> string) list" where
  "demo_pairs (k # v # argv) = (drop 2 k, v) # demo_pairs argv"
| "demo_pairs _ = []"

lemma demo_pairs_flatten: "demo_pairs (flatten_options opts) = opts"
  by (induction opts) (auto simp: flatten_options_def)

definition demo_prompt :: "int32 prompt_libraries" where
  "demo_prompt = \<lparr>pp_parse_command_line = (\<lambda>argv. Inr (map_of (demo_pairs argv))),
     pp_parse_environment = (\<lambda>_ _. Inr Map.empty), pp_unset_env = (\<lambda>_. returnE ()), pp_set_env = (\<lambda>_ _. returnE ()),
     pp_get_env = (\<lambda>_ _. None), pp_application = returnE (), pp_load_testability = returnE False,
     pp_resolve_testability = returnE False, pp_run_testability = returnE (), pp_critical = (\<lambda>_ w. w),
     pp_view_exec = (\<lambda>_ u. (Inr u, u))\<rparr>"

definition demo_gettext :: "int32 gettext_api" where
  "demo_gettext = \<lparr>gt_setlocale = (\<lambda>w. w), gt_bindtextdomain = (\<lambda>_ w. w), gt_textdomain = (\<lambda>_ w. w),
     gt_gettext = (\<lambda>s _. s), gt_dgettext = (\<lambda>_ s _. s)\<rparr>"

definition demo_provider_process :: "('w, wait_result) process_api" where
  "demo_provider_process = \<lparr>px_environ = (\<lambda>_. []), px_cout = (\<lambda>_ w. w),
     px_exec = (\<lambda>_ argv _. returnE (provider_exit (fst (prompt_main demo_prompt demo_gettext argv (i18n_start, 1))))),
     px_wait_for = returnE\<rparr>"

definition demo_prompt_desktop :: "('w, string) desktop_api" where
  "demo_prompt_desktop = demo_desktop [''/u/applications/app.desktop'', ''/icon.png''] (\<lambda>_. Inr [])"

definition demo_prompt_configuration :: "(pid multiset \<times> int multiset, unit, wait_result) mir_configuration" where
  "demo_prompt_configuration = \<lparr>mc_connection = (),
     mc_exec = exec_prompt_provider_with_arguments demo_provider_process ''trust-prompt'' (\<lambda>_ s. s),
     mc_wait_for = px_wait_for demo_provider_process, mc_translator = translator_only_accepting_exit_status_success,
     mc_app_info = ClickDesktopEntryAppInfoResolver_resolve demo_prompt_desktop,
     mc_parent_pid = (\<lambda>p. returnE (Pid (pid_value p - 1)))\<rparr>"

lemma demo_prompt_libraries:
  "parses_options demo_prompt" "runs_prompt_provider demo_provider_process exe demo_prompt demo_gettext (\<lambda>_ _. True)"
  by (auto simp: parses_options_def demo_prompt_def demo_pairs_flatten runs_prompt_provider_def demo_provider_process_def)

lemma demo_prompt_created:
  "create_agent_for_mir_connection demo_mir demo_provider_process (\<lambda>_ s. s)
     (ClickDesktopEntryAppInfoResolver_resolve demo_prompt_desktop) (\<lambda>p. returnE (Pid (pid_value p - 1))) ''trust-prompt''
     () w = (Inr demo_prompt_configuration, w)"
  by (simp add: create_agent_for_mir_connection_def Connection_new_def demo_prompt_configuration_def demo_mir_def act_simps)

lemma demo_prompt_resolved:
  "ClickDesktopEntryAppInfoResolver_resolve demo_prompt_desktop ''app'' w =
     (Inr \<lparr>ai_icon = ''/icon.png'', ai_name = ''/u/applications/app.desktop'', ai_id = ''app''\<rparr>, w)"
proof -
  have "desktop_entry_in demo_paths ''/u'' ''app'' = ''/u/applications/app.desktop''"
    by (simp add: desktop_entry_in_def demo_paths_def)
  then show ?thesis
    by (simp add: demo_prompt_desktop_def ClickDesktopEntryAppInfoResolver_resolve_def act_simps
        resolve_desktop_entry_or_throw_def demo_desktop_select demo_desktop_home icon_from_desktop_entry_or_throw_def
        name_from_desktop_entry_or_throw_def Let_def G_KEY_FILE_DESKTOP_KEY_NAME_def G_KEY_FILE_DESKTOP_KEY_ICON_def)
qed

lemma demo_prompt_main:
  "fst (prompt_main demo_prompt demo_gettext (prompt_provider_argv t args) (i18n_start, 1)) = Inr 1"
  unfolding prompt_provider_argv_flat
  by (simp add: prompt_main_def prompt_show_def demo_prompt_def demo_pairs_flatten lift_result_def act_simps Let_def
      validate_command_line_arguments_def option_defs default_text_domain_def is_initialized_def i18n_init_def
      demo_gettext_def i18n_start_def)

lemma demo_prompt_run:
  "\<exists>w'. Mir_authenticate demo_mir demo_prompt_configuration (demo_mir_params\<lparr>app_pid := Pid 41\<rparr>) ({#}, {#}) =
     Some (Inr denied, w')"
  by (simp add: Mir_authenticate_def find_session.simps session_attempt_def create_prompt_session_sync_def
      PromptSession_new_def demo_mir_def demo_mir_params_def demo_prompt_configuration_def demo_prompt_resolved
      release_held_def Let_def finallyE_apply prompt_in_session_def bindE_apply new_fd_for_prompt_provider_def
      invalid_fd_def close_fd_def run_prompt_provider_def exec_prompt_provider_with_arguments_def
      demo_provider_process_def demo_prompt_main provider_exit_def translator_only_accepting_exit_status_success_def
      exit_failure_def)

theorem answer_is_given_at_the_view_witness:
  "\<exists>fd (info :: app_info) u code su'. ai_id info = ''app'' \<and>
     prompt_main demo_prompt demo_gettext (prompt_provider_argv (\<lambda>s. s) \<lparr>ia_fd = fd, ia_app_info = info, ia_description = ''d''\<rparr>)
       (i18n_start, u) = (Inr code, su') \<and> denied = (if ucast code = (1 :: byte) then denied else granted) \<and>
     (\<exists>x. pp_view_exec demo_prompt (shown_properties (ai_icon info) (ai_name info) ''app'' ''d'') x = (Inr code, snd su'))"
proof -
  obtain w' where "Mir_authenticate demo_mir demo_prompt_configuration (demo_mir_params\<lparr>app_pid := Pid 41\<rparr>) ({#}, {#}) =
     Some (Inr denied, w')" using demo_prompt_run by blast
  from answer_is_given_at_the_view [OF demo_prompt_created demo_prompt_libraries(2,1) this]
  have "\<exists>fd (info :: app_info) u code su'. ai_id info = ''app'' \<and>
     prompt_main demo_prompt demo_gettext (prompt_provider_argv (\<lambda>s. s) \<lparr>ia_fd = fd, ia_app_info = info, ia_description = ''d''\<rparr>)
       (i18n_start, u) = (Inr code, su') \<and> denied = (if ucast code = (1 :: byte) then denied else granted) \<and>
     ((\<exists>x. pp_view_exec demo_prompt (shown_properties (ai_icon info) (ai_name info) ''app'' ''d'') x = (Inr code, snd su')) \<or>
      code = 0)"
    by (simp only: demo_mir_params_def agent_params.simps agent_params.update_convs) blast
  moreover have "denied \<noteq> granted" by (simp add: denied_def granted_def)
  ultimately show ?thesis by (metis ucast_0 zero_neq_one)
qed

end
