(* ===== verification/Preseed.thy ===== *)
theory Preseed
  imports Streams Store_Properties
begin

text \<open>
  The helper \<^verbatim>\<open>trust-store-preseed\<close> (\<^verbatim>\<open>preseed.cpp\<close>), which puts answers into the store of a service
  before the user is ever prompted. Each \<^verbatim>\<open>--request\<close> is a line \<^verbatim>\<open>app-id feature answer\<close>. Splitting the
  command line into options belongs to Boost; the model starts from the values of the options. Opening the
  store of the service and the clock are parameters.
\<close>

section \<open>Model\<close>

definition parse_answer :: "istream \<Rightarrow> exn + (answer \<times> istream)" where
  "parse_answer i = (case extract_word i of (s, i') \<Rightarrow>
     if s = ''denied'' then Inr (denied, i')
     else if s = ''granted'' then Inr (granted, i')
     else Inl (logic_error (''Could not parse answer: '' @ s)))"

definition parse_feature :: "istream \<Rightarrow> feature \<times> istream" where
  "parse_feature i = (case extract_unsigned i of (v, i') \<Rightarrow> (Feature v, i'))"

text \<open>One turn of the loop over the requests.\<close>

definition parse_request :: "('w \<Rightarrow> timestamp) \<Rightarrow> string \<Rightarrow> ('w, request) act" where
  "parse_request now line =
     (case extract_word (stream_of line) of (sender, i1) \<Rightarrow>
      case parse_feature i1 of (f, i2) \<Rightarrow>
      case parse_answer i2 of
        Inl e \<Rightarrow> throwE e
      | Inr (a, _) \<Rightarrow> bindE (readE now) (\<lambda>t.
          returnE \<lparr>req_from = sender, req_feature = f, req_when = t, req_answer = a\<rparr>))"

record 's preseed_configuration =
  pc_store :: 's
  pc_requests :: "request list"

fun parse_requests :: "('w \<Rightarrow> timestamp) \<Rightarrow> string list \<Rightarrow> ('w, request list) act" where
  "parse_requests now [] = returnE []"
| "parse_requests now (l # ls) =
     bindE (parse_request now l) (\<lambda>r. bindE (parse_requests now ls) (\<lambda>rs. returnE (r # rs)))"

definition parse_from_command_line ::
  "('w, 's) act \<Rightarrow> ('w \<Rightarrow> timestamp) \<Rightarrow> string list \<Rightarrow> ('w, 's preseed_configuration) act"
where
  "parse_from_command_line create_store now lines =
     bindE create_store (\<lambda>st.
     bindE (parse_requests now lines) (\<lambda>rs. returnE \<lparr>pc_store = st, pc_requests = rs\<rparr>))"

definition Preseed_exit_success :: int where "Preseed_exit_success = 0"

fun add_all :: "('w, 'q) store_vtable \<Rightarrow> request list \<Rightarrow> ('w, unit) act" where
  "add_all V [] = returnE ()"
| "add_all V (r # rs) = bindE (vt_add V r) (\<lambda>_. add_all V rs)"

definition Preseed_main :: "('w, 'q) store_vtable preseed_configuration \<Rightarrow> ('w, int) act" where
  "Preseed_main configuration =
     bindE (add_all (pc_store configuration) (pc_requests configuration)) (\<lambda>_. returnE Preseed_exit_success)"

section \<open>Parsing\<close>

text \<open>A request that parses has an application id, which has no white space, and one of the two answers.\<close>

lemma parse_answer_Inr: "parse_answer i = Inr (a, i') \<Longrightarrow> \<not> is_fail i \<and> a \<in> {denied, granted}"
  by (cases "is_fail i") (auto simp: parse_answer_def extract_word_def Let_def split: prod.splits if_splits)

lemma parse_feature_fail: "is_fail i \<Longrightarrow> is_fail (snd (parse_feature i))"
  using extract_digits_failed [of i] by (cases "extract_digits i") (simp add: parse_feature_def extract_unsigned_def)

lemma extract_word_ok:
  "\<not> is_fail (snd (extract_word i)) \<Longrightarrow> fst (extract_word i) \<noteq> [] \<and> (\<forall>c \<in> set (fst (extract_word i)). \<not> is_space c)"
proof -
  assume "\<not> is_fail (snd (extract_word i))"
  then have s: "skip_spaces (is_rest i) \<noteq> []" and
    w: "fst (extract_word i) = takeWhile (Not \<circ> is_space) (skip_spaces (is_rest i))"
    by (auto simp: extract_word_def Let_def split: if_splits)
  have "\<not> is_space (hd (skip_spaces (is_rest i)))"
    using s by (simp add: skip_spaces_def hd_dropWhile)
  with s w show ?thesis by (cases "skip_spaces (is_rest i)") (auto dest: set_takeWhileD)
qed

lemma parse_request_Inr:
  assumes "parse_request now line w = (Inr r, w')"
  shows "req_from r \<noteq> [] \<and> (\<forall>c \<in> set (req_from r). \<not> is_space c) \<and> req_answer r \<in> {denied, granted} \<and>
    req_when r = now w \<and> w' = w"
proof -
  obtain s i1 where x: "extract_word (stream_of line) = (s, i1)" by (metis surj_pair)
  obtain f i2 where y: "parse_feature i1 = (f, i2)" by (metis surj_pair)
  obtain a i3 where a: "parse_answer i2 = Inr (a, i3)"
    using assms by (cases "parse_answer i2") (auto simp: parse_request_def x y)
  have r: "r = \<lparr>req_from = s, req_feature = f, req_when = now w, req_answer = a\<rparr>" "w' = w"
    using assms by (auto simp: parse_request_def x y a bindE_apply)
  from parse_answer_Inr [OF a] have "\<not> is_fail i2" "a \<in> {denied, granted}" by simp_all
  moreover then have "\<not> is_fail i1" using parse_feature_fail [of i1] y by auto
  ultimately show ?thesis using extract_word_ok [of "stream_of line"] x r by auto
qed

text \<open>
  The line format round-trips: an application id without white space, a feature and an answer,
  printed with any white space between and around them, parse to that request, stamped with the
  time of the call.
\<close>

theorem preseed_line_roundtrip:
  assumes "app \<noteq> []" and "\<forall>c \<in> set app. \<not> is_space c" and "a \<in> {denied, granted}"
    and "list_all is_space (ws0 @ ws1 @ ws2 @ ws3)" and "ws1 \<noteq> []" and "ws2 \<noteq> []"
  shows "parse_request now (ws0 @ app @ ws1 @ print_feature f @ ws2 @ print_answer a @ ws3) w =
    (Inr \<lparr>req_from = app, req_feature = f, req_when = now w, req_answer = a\<rparr>, w)"
proof -
  let ?p = "print_answer a"
  have ws: "list_all is_space ws0" "list_all is_space ws1" "list_all is_space ws2" "list_all is_space ws3"
    using assms(4) by simp_all
  have hd: "is_space (hd (ws1 @ x))" "is_space (hd (ws2 @ x))" "ws3 = [] \<or> is_space (hd ws3)" for x
    using ws assms(5,6) by (cases ws1; cases ws2; cases ws3; simp)+
  have p: "?p \<noteq> []" "\<forall>c \<in> set ?p. \<not> is_space c"
    using assms(3) by (auto simp: print_answer_def is_space_def)
  have w1: "extract_word (stream_of (ws0 @ app @ ws1 @ print_feature f @ ws2 @ ?p @ ws3)) =
      (app, \<lparr>is_rest = ws1 @ print_feature f @ ws2 @ ?p @ ws3, is_fail = False\<rparr>)"
    using extract_word_token [OF ws(1) assms(1,2), of "ws1 @ print_feature f @ ws2 @ ?p @ ws3"] hd(1)
    by (simp add: stream_of_def)
  have w2: "parse_feature \<lparr>is_rest = ws1 @ print_feature f @ ws2 @ ?p @ ws3, is_fail = False\<rparr> =
      (f, \<lparr>is_rest = ws2 @ ?p @ ws3, is_fail = False\<rparr>)"
  proof -
    from extract_unsigned_printed [OF ws(2), of "ws2 @ ?p @ ws3" "feature_value f"] show ?thesis
      using hd(2) [of "?p @ ws3"] is_space_not_digit by (simp add: parse_feature_def print_feature_def)
  qed
  have w3: "parse_answer \<lparr>is_rest = ws2 @ ?p @ ws3, is_fail = False\<rparr> = Inr (a, \<lparr>is_rest = ws3, is_fail = False\<rparr>)"
    using extract_word_token [OF ws(3) p hd(3)] assms(3)
    by (auto simp: parse_answer_def print_answer_def)
  show ?thesis by (simp add: parse_request_def w1 w2 w3 bindE_apply)
qed

lemma print_feature_12: "print_feature (Feature 12) = ''12''"
  by (simp add: print_feature_def to_string_nat.simps digit_def char_of_def bit_0)

theorem preseed_line_roundtrip_witness:
  "parse_request (\<lambda>_. 7) ''does.not.exist.app      12 granted'' () =
    (Inr \<lparr>req_from = ''does.not.exist.app'', req_feature = Feature 12, req_when = 7, req_answer = granted\<rparr>, ())"
  using preseed_line_roundtrip [of "''does.not.exist.app''" granted "[]" "''      ''" "'' ''" "[]" "\<lambda>_. 7" "Feature 12" "()"]
  by (simp add: is_space_def print_answer_def print_feature_12)

section \<open>Seeding\<close>

context sqlite3_reliable
begin

lemma add_all_law:
  assumes "store_ok st (view w)" and "store_room (length rs + n) (view w)" and "\<forall>r \<in> set rs. clean_id (req_from r)"
  shows "\<exists>w'. add_all (sqlite_vtable sq st) rs w = (Inr (), w') \<and> store_ok st (view w') \<and> store_room n (view w') \<and>
     store_contents (view w') =
       mset (map (\<lambda>r. r\<lparr>req_feature := kept_feature (req_feature r)\<rparr>) rs) + store_contents (view w)"
  using assms
proof (induction rs arbitrary: w)
  case (Cons r rs)
  have room: "store_room (Suc (length rs + n)) (view w)" using Cons.prems(2) by simp
  from triple_totalE [OF Store_add_triple [where r = r, OF Cons.prems(1) room] refl] Cons.prems obtain w1 where
    w1: "Store_add sq st r w = (Inr (), w1)" "store_ok st (view w1)" "store_room (length rs + n) (view w1)"
    "store_contents (view w1) = add_mset (r\<lparr>req_feature := kept_feature (req_feature r)\<rparr>) (store_contents (view w))"
    by auto
  from Cons.IH [OF w1(2,3)] Cons.prems(3) w1 show ?case
    by (auto simp: bindE_apply sqlite_vtable_def)
qed simp

end

text \<open>
  Seeding works: the helper stores every request given, and when the seeded requests for an
  application and a feature agree on the answer and the store had no decision on them, a later request is
  answered with it and the user is not prompted.
\<close>

theorem preseeded_answer_is_used:
  assumes "sqlite3_reliable sq view" and "quiet_reporter view rep" and "store_ok st (view w)"
    and "store_room (length rs) (view w)" and "\<forall>r \<in> set rs. clean_id (req_from r) \<and> small_feature (req_feature r)"
    and "\<exists>r \<in> set rs. req_from r = app_id p \<and> req_feature r = app_feature p"
    and "\<forall>r \<in> set rs. req_from r = app_id p \<and> req_feature r = app_feature p \<longrightarrow> req_answer r = a"
    and "\<not> decided (app_id p) (app_feature p) (store_contents (view w))"
  shows "\<exists>w' w''. Preseed_main \<lparr>pc_store = sqlite_vtable sq st, pc_requests = rs\<rparr> w = (Inr Preseed_exit_success, w') \<and>
    store_contents (view w') = mset rs + store_contents (view w) \<and>
    CachedAgent_authenticate (caching agent sq st rep) now p w' = (Inr a, w'') \<and>
    store_contents (view w'') = store_contents (view w')"
proof -
  have "map (\<lambda>r. r\<lparr>req_feature := kept_feature (req_feature r)\<rparr>) rs = rs"
    using assms(5) trust_store.keep [OF sqlite3_reliable.sqlite_store_is_trust_store [OF assms(1)]]
    by (intro map_idI) simp
  with sqlite3_reliable.add_all_law [OF assms(1,3), of rs 0] assms(4,5) obtain w' where
    w': "add_all (sqlite_vtable sq st) rs w = (Inr (), w')" "store_ok st (view w')"
    "store_contents (view w') = mset rs + store_contents (view w)" by auto
  have env: "sqlite_consulting sq view (\<lambda>_. returnE denied) rep"
    using assms(1,2) by (intro sqlite_consultingI leaves_database_const)
  have "clean_id (app_id p)" using assms(5,6) by auto
  moreover have "decided (app_id p) (app_feature p) (store_contents (view w'))"
    using assms(6) w'(3) by (auto simp: decided_def)
  ultimately obtain w'' r where
    w'': "CachedAgent_authenticate (caching agent sq st rep) now p w' = (Inr (req_answer r), w'')"
    "latest (app_id p) (app_feature p) (store_contents (view w')) r"
    "store_contents (view w'') = store_contents (view w')"
    using sqlite_consulting.over_sqlite_decided [OF env w'(2) TrueI, of p agent now] by auto
  have "req_answer r = a" using w''(2) w'(3) assms(7,8) by (auto simp: latest_def decided_def)
  with w' w'' show ?thesis by (auto simp: Preseed_main_def bindE_apply)
qed

theorem preseeded_answer_is_used_witness:
  "\<exists>w' w''. Preseed_main \<lparr>pc_store = sqlite_vtable ref_sqlite demo_store, pc_requests = [demo_request]\<rparr> demo_engine =
      (Inr Preseed_exit_success, w') \<and>
    CachedAgent_authenticate (caching (\<lambda>_. throwE other_exception) ref_sqlite demo_store null_reporter) (\<lambda>_. 7)
      demo_params w' = (Inr granted, w'')"
proof -
  have "store_room (length [demo_request]) (ref_view demo_engine)"
    using demo_store_ok(2) by (simp add: store_room_def)
  from preseeded_answer_is_used [OF ref_reliable quiet_null_reporter demo_store_ok(1) this, of demo_params granted]
    demo_undecided [of "app_id demo_params" "app_feature demo_params"]
  show ?thesis by (force simp: demo_request_def demo_params_def clean_id_def small_feature_def)
qed

end
