(* ===== verification/Daemon_Mains.thy ===== *)
theory Daemon_Mains
  imports Daemon Preseed Xdg
begin

text \<open>
  The programs as they are started: the \<^verbatim>\<open>main\<close> functions of the two daemons and of the preseeding helper, the default
  store in the data directory of the user, and the two functions that stand in for the agent for Mir where Mir is not
  supported. Logging, the event loop, the exposed store and the printing of diagnostics are parameters.
\<close>

section \<open>Model\<close>

definition create_default_store ::
  "'w sqlite3_api \<Rightarrow> 'w filesystem \<Rightarrow> path_library \<Rightarrow> 'w getenv \<Rightarrow> string \<Rightarrow> ('w, sqlite_store) act"
where
  "create_default_store sq fsys pl getenv service_name = create_for_service sq fsys (Data_home pl getenv) service_name"

definition not_supported_connect :: "string \<Rightarrow> string \<Rightarrow> ('w, 'c) act" where
  "not_supported_connect endpoint name = throwE (runtime_error ''Mir is not supported.'')"

definition not_supported_create_agent :: "'c \<Rightarrow> ('w, 'a) act" where
  "not_supported_create_agent connection = throwE (runtime_error ''Mir is not supported.'')"

text \<open>
  \<open>me_expose\<close> gives the token that
  keeps the store on the bus, \<open>me_drop_token\<close> is its destructor.
\<close>

record ('w, 'q, 'b, 't) main_env =
  me_init_logging :: "string \<Rightarrow> 'w \<Rightarrow> 'w"
  me_cerr :: "string \<Rightarrow> 'w \<Rightarrow> 'w"
  me_cout :: "string \<Rightarrow> 'w \<Rightarrow> 'w"
  me_diagnostic_information :: "exn \<Rightarrow> string"
  me_expose :: "('w, 'q) store_vtable \<Rightarrow> 'b \<Rightarrow> string \<Rightarrow> ('w, 't) act"
  me_drop_token :: "'t \<Rightarrow> 'w \<Rightarrow> 'w"
  me_start_read :: "('w, unit) act"
  me_runtime_run :: "('w, unit) act"

definition Daemon_Skeleton_main :: "('w, 'q, 'b, 't) main_env \<Rightarrow> ('w, 'q, 'b) skeleton_configuration \<Rightarrow> ('w, byte) act" where
  "Daemon_Skeleton_main me configuration =
     bindE (me_expose me (sc_local_store configuration) (sc_bus configuration) (sc_service_name configuration)) (\<lambda>token.
     finallyE (bindE (me_runtime_run me) (\<lambda>_. returnE exit_success)) (modifyE (me_drop_token me token)))"

definition endl :: string where "endl = [CHR 0x0A]"

definition Shell_start_read :: "('w, 'q, 'b, 't) main_env \<Rightarrow> ('w, unit) act" where
  "Shell_start_read me = block [modifyE (me_cout me ''> ''), me_start_read me]"

definition Shell_start :: "('w, 'q, 'b, 't) main_env \<Rightarrow> ('w, unit) act" where
  "Shell_start me = block
     [modifyE (me_cout me (''This is the super simple, interactive shell of the trust::store Daemon'' @ endl)),
      modifyE (me_cout me (''The following commands are known:'' @ endl)),
      modifyE (me_cout me (''  Enter a line like '' @ [CHR 0x27] @ ''pid uid feature'' @ [CHR 0x27] @
        '' to issue a query with the given parameters.'' @ endl)),
      Shell_start_read me]"

text \<open>The handler of a read of the shell: the error code and the line; it starts the next read where the code does.\<close>

definition Shell_read ::
  "('w, 'q, 'b, 't) main_env \<Rightarrow> (pid \<Rightarrow> ('w, string) act) \<Rightarrow> 'w agent \<Rightarrow> int option \<times> string \<Rightarrow> ('w, bool) act"
where
  "Shell_read me app_id_resolver agent = (\<lambda>(ec, line).
     bindE (shell_read_finished app_id_resolver agent (me_cout me) ec line) (\<lambda>again.
     if again then bindE (Shell_start_read me) (\<lambda>_. returnE True) else returnE False))"

definition Daemon_Stub_main :: "('w, 'q, 'b, 't) main_env \<Rightarrow> 'b stub_configuration \<Rightarrow> ('w, byte) act" where
  "Daemon_Stub_main me configuration =
     bindE (Shell_start me) (\<lambda>_. bindE (me_runtime_run me) (\<lambda>_. returnE exit_success))"

text \<open>
  \<^verbatim>\<open>int main\<close> of the two daemons. The handler covers only the reading of the command line; what it does not catch, and
  what \<^verbatim>\<open>main\<close> of the daemon throws, ends the process.
\<close>

definition guarded_startup ::
  "('w, 'q, 'b, 't) main_env \<Rightarrow> (exn \<Rightarrow> bool) \<Rightarrow> ('w, 'cfg) act \<Rightarrow> ('cfg \<Rightarrow> ('w, byte) act) \<Rightarrow> ('w, byte) act"
where
  "guarded_startup me caught startup continue =
     bindE (catchE caught (bindE startup (\<lambda>cfg. returnE (Some cfg))) (\<lambda>e.
         bindE (modifyE (me_cerr me (''Error during initialization and startup: '' @ me_diagnostic_information me e @ endl)))
           (\<lambda>_. returnE None)))
       (\<lambda>result. case result of None \<Rightarrow> returnE exit_failure | Some cfg \<Rightarrow> continue cfg)"

definition daemon_skeleton_main ::
  "('w, 'q, 'b, 't) main_env \<Rightarrow> ('w, 'c, 'p, 'q, 'b) daemon_env \<Rightarrow> string + skeleton_options \<Rightarrow> ('w, byte) act"
where
  "daemon_skeleton_main me env parsed =
     bindE (modifyE (me_init_logging me ''core::trust::Daemon::Skeleton'')) (\<lambda>_.
     guarded_startup me is_std_exception (Skeleton_from_command_line env parsed) (Daemon_Skeleton_main me))"

definition daemon_stub_main ::
  "('w, 'q, 'b, 't) main_env \<Rightarrow> ('w, 'c, 'p, 'q, 'b) daemon_env \<Rightarrow> string + stub_options \<Rightarrow> ('w, byte) act"
where
  "daemon_stub_main me env parsed =
     bindE (modifyE (me_init_logging me ''core::trust::Daemon::Stub'')) (\<lambda>_.
     guarded_startup me (de_is_boost_exception env) (Stub_from_command_line env parsed) (Daemon_Stub_main me))"

definition preseed_program :: "('w, ('w, 'q) store_vtable preseed_configuration) act \<Rightarrow> ('w, byte) act" where
  "preseed_program configuration = bindE configuration (\<lambda>cfg. bindE (Preseed_main cfg) (\<lambda>result.
     returnE (if result = Preseed_exit_success then exit_success else exit_failure)))"

section \<open>Lemmas\<close>

lemma guarded_startup_throws:
  assumes "startup w = (Inl e, w')"
  shows "guarded_startup me caught startup continue w =
    (if caught e
     then (Inr exit_failure, me_cerr me (''Error during initialization and startup: '' @ me_diagnostic_information me e @ endl) w')
     else (Inl e, w'))"
  using assms by (simp add: guarded_startup_def act_simps)

text \<open>
  An unknown remote agent on the command line: the skeleton daemon reports it and exits with a failure, the stub
  daemon, which catches only \<^verbatim>\<open>boost::exception\<close>, ends with the exception of \<^verbatim>\<open>std::map::at\<close>.
\<close>

lemma unknown_stub_agent_is_uncaught:
  assumes "known_stub_factories env (to_remote_agent vm) = None" and "\<not> de_is_boost_exception env out_of_range"
  shows "daemon_stub_main me env (Inr vm) w = (Inl out_of_range, me_init_logging me ''core::trust::Daemon::Stub'' w)"
proof -
  have "Stub_from_command_line env (Inr vm) v = (Inl out_of_range, v)" for v
    using assms(1) by (simp add: Stub_from_command_line_def map_at_def act_simps Let_def)
  then show ?thesis
    using assms(2) by (simp add: daemon_stub_main_def act_simps guarded_startup_throws
        [of "Stub_from_command_line env (Inr vm)" "me_init_logging me ''core::trust::Daemon::Stub'' w"])
qed

lemma unknown_local_agent_is_reported:
  assumes "known_local_agent_factories env (so_local_agent vm) = None"
  shows "fst (daemon_skeleton_main me env (Inr vm) w) = Inr exit_failure"
proof -
  have "\<exists>v'. Skeleton_from_command_line env (Inr vm) v = (Inl out_of_range, v')" for v
    using assms by (simp add: Skeleton_from_command_line_def map_at_def act_simps Let_def)
  then obtain v' where "Skeleton_from_command_line env (Inr vm) (me_init_logging me ''core::trust::Daemon::Skeleton'' w) =
    (Inl out_of_range, v')" by blast
  then show ?thesis
    by (simp add: daemon_skeleton_main_def act_simps guarded_startup_throws
        [of "Skeleton_from_command_line env (Inr vm)" "me_init_logging me ''core::trust::Daemon::Skeleton'' w"])
qed

text \<open>
  A shell that has come to the end of its input, as it is when the daemon is started without a terminal, reads on: each read
  fails at once and prints another prompt, and nothing stops it.
\<close>

interpretation shell: retrying_handler "Shell_read (me\<lparr>me_start_read := returnE ()\<rparr>) resolve agent"
  "\<lambda>r. fst r = Some operation_aborted" "\<lambda>r. fst r \<noteq> None \<and> fst r \<noteq> Some operation_aborted" "me_cout me ''> ''" for me
  by unfold_locales (auto simp: Shell_read_def shell_read_finished_def Shell_start_read_def act_simps)

lemma shell_reads_past_the_end:
  assumes "me_start_read me = returnE ()" and "\<forall>r \<in> set rs. fst r \<noteq> None \<and> fst r \<noteq> Some operation_aborted"
  shows "ao_run (Shell_read me resolve agent) (map Completed rs) (ao_create w) = ao_create ((me_cout me ''> '' ^^ length rs) w)"
proof -
  have "me\<lparr>me_start_read := returnE ()\<rparr> = me" using assms(1) by simp
  then show ?thesis using shell.failing_forever [OF _ assms(2), of "ao_create w" me resolve agent] by (simp add: ao_create_def)
qed

text \<open>The token, and with it the store on the bus, is dropped however the event loop ends.\<close>

lemma skeleton_main_drops_token:
  assumes "me_expose me (sc_local_store cfg) (sc_bus cfg) (sc_service_name cfg) w = (Inr token, w1)"
    and "me_runtime_run me w1 = (r, w2)"
  shows "snd (Daemon_Skeleton_main me cfg w) = me_drop_token me token w2"
  using assms by (auto simp: Daemon_Skeleton_main_def act_simps split: sum.split)

text \<open>Without a home directory no store is opened.\<close>

lemma no_home_no_store:
  assumes "getenv ''XDG_DATA_HOME'' w \<in> {None, Some []}" and "getenv ''HOME'' w = None" and "name \<noteq> []"
  shows "create_default_store sq fsys pl getenv name w = (Inl (runtime_error ''HOME not set in environment''), w)"
  using assms by (auto simp: create_default_store_def create_for_service_def Store_new_def Data_home_def xdg_defs
      xdg_data_home_def act_simps)

text \<open>Without support for Mir the local agent for Mir fails at once; nothing is retried.\<close>

lemma not_supported_is_not_retried:
  assumes "dict ''trusted-mir-socket'' = Some s"
  shows "local_factory_mir (\<lambda>e n. bindE (not_supported_connect e n) not_supported_create_agent) pause name dict w =
    (Inl (runtime_error ''Mir is not supported.''), w)"
  using assms by (simp add: local_factory_mir_def connection_attempts_def numeral_eq_Suc not_supported_connect_def act_simps)

end
