(* ===== verification/Command_Lines.thy ===== *)
theory Command_Lines
  imports Daemon_Mains
begin

text \<open>
  The command lines of the two daemons and of the preseeding helper: the options each program declares (\<^verbatim>\<open>daemon.h\<close>,
  \<^verbatim>\<open>preseed.h\<close>), and how the values that Boost's parser finds become the options the models of the programs start from. The
  parser is a parameter; what is used of its documentation is \<open>honours_declarations\<close>.
\<close>

section \<open>Model\<close>

text \<open>What an option is declared with: a text, a list of texts (each occurrence adds one), or the type of a bus.\<close>

datatype option_kind = Text_option | Texts_option | Bus_option

datatype option_value = Text_value string | Texts_value "string list" | Bus_value bus_type

fun kind_of_value :: "option_value \<Rightarrow> option_kind" where
  "kind_of_value (Text_value _) = Text_option"
| "kind_of_value (Texts_value _) = Texts_option"
| "kind_of_value (Bus_value _) = Bus_option"

record option_declaration =
  od_name :: string
  od_kind :: option_kind
  od_required :: bool
  od_description :: string

type_synonym variables = "string \<rightharpoonup> option_value"

text \<open>The parser gives the values of the declared options and the texts of the others, or it throws.\<close>

type_synonym option_parser = "option_declaration list \<Rightarrow> string list \<Rightarrow> exn + (variables \<times> string list)"

text \<open>\<^verbatim>\<open>vm[name].as<T>()\<close>\<close>

definition as_text :: "variables \<Rightarrow> string \<Rightarrow> exn + string" where
  "as_text vm name = (case vm name of Some (Text_value s) \<Rightarrow> Inr s | _ \<Rightarrow> Inl bad_any_cast)"

definition as_texts :: "variables \<Rightarrow> string \<Rightarrow> exn + string list" where
  "as_texts vm name = (case vm name of Some (Texts_value ls) \<Rightarrow> Inr ls | _ \<Rightarrow> Inl bad_any_cast)"

definition as_bus :: "variables \<Rightarrow> string \<Rightarrow> exn + bus_type" where
  "as_bus vm name = (case vm name of Some (Bus_value t) \<Rightarrow> Inr t | _ \<Rightarrow> Inl bad_any_cast)"

subsection \<open>The skeleton daemon\<close>

definition StoreBus :: option_declaration where
  "StoreBus = \<lparr>od_name = ''store-bus'', od_kind = Bus_option, od_required = True,
     od_description = ''The bus that the remote store should be exposed on''\<rparr>"

definition ForService :: option_declaration where
  "ForService = \<lparr>od_name = ''for-service'', od_kind = Text_option, od_required = True,
     od_description = ''The name of the service to handle trust for''\<rparr>"

definition WithTextDomain :: option_declaration where
  "WithTextDomain = \<lparr>od_name = ''with-text-domain'', od_kind = Text_option, od_required = False,
     od_description = ''The text domain that should be used for translations''\<rparr>"

definition LocalAgent :: option_declaration where
  "LocalAgent = \<lparr>od_name = ''local-agent'', od_kind = Text_option, od_required = True,
     od_description = ''The local agent implementation''\<rparr>"

definition RemoteAgent :: option_declaration where
  "RemoteAgent = \<lparr>od_name = ''remote-agent'', od_kind = Text_option, od_required = True,
     od_description = ''The remote agent implementation''\<rparr>"

definition skeleton_declarations :: "option_declaration list" where
  "skeleton_declarations = [ForService, WithTextDomain, StoreBus, LocalAgent, RemoteAgent]"

text \<open>
  \<open>boost\<close> says which exceptions the handler takes, \<open>diagnostic\<close> is \<^verbatim>\<open>boost::diagnostic_information\<close>. What the program
  reads of the values, each where it needs it, is read here at once; \<open>skeleton_values_are_there\<close> shows that none of
  the reads can fail.
\<close>

definition read_skeleton_options :: "variables \<Rightarrow> string list \<Rightarrow> exn + skeleton_options" where
  "read_skeleton_options vm unrecognized =
     (case as_text vm (od_name ForService) of Inl e \<Rightarrow> Inl e | Inr service_name \<Rightarrow>
     (case (if vm (od_name WithTextDomain) = None then Inr None
            else case as_text vm (od_name WithTextDomain) of Inl e \<Rightarrow> Inl e | Inr d \<Rightarrow> Inr (Some d)) of
        Inl e \<Rightarrow> Inl e | Inr text_domain \<Rightarrow>
     (case as_text vm (od_name LocalAgent) of Inl e \<Rightarrow> Inl e | Inr local_agent \<Rightarrow>
     (case as_text vm (od_name RemoteAgent) of Inl e \<Rightarrow> Inl e | Inr remote_agent \<Rightarrow>
     (case as_bus vm (od_name StoreBus) of Inl e \<Rightarrow> Inl e | Inr bus \<Rightarrow>
        Inr \<lparr>so_for_service = service_name, so_with_text_domain = text_domain, so_store_bus = bus,
          so_local_agent = local_agent, so_remote_agent = remote_agent, so_unrecognized = unrecognized\<rparr>)))))"

definition parse_skeleton_command_line ::
  "option_parser \<Rightarrow> (exn \<Rightarrow> bool) \<Rightarrow> (exn \<Rightarrow> string) \<Rightarrow> string list \<Rightarrow> exn + (string + skeleton_options)"
where
  "parse_skeleton_command_line parser boost diagnostic argv = (case parser skeleton_declarations argv of
       Inl e \<Rightarrow> if boost e then Inr (Inl (diagnostic e)) else Inl e
     | Inr (vm, unrecognized) \<Rightarrow> (case read_skeleton_options vm unrecognized of Inl e \<Rightarrow> Inl e | Inr options \<Rightarrow> Inr (Inr options)))"

subsection \<open>The stub daemon\<close>

definition stub_declarations :: "option_declaration list" where
  "stub_declarations = [ForService, RemoteAgent]"

definition read_stub_options :: "variables \<Rightarrow> string list \<Rightarrow> exn + stub_options" where
  "read_stub_options vm unrecognized =
     (case as_text vm (od_name ForService) of Inl e \<Rightarrow> Inl e | Inr service_name \<Rightarrow>
     (case as_text vm (od_name RemoteAgent) of Inl e \<Rightarrow> Inl e | Inr remote_agent \<Rightarrow>
        Inr \<lparr>to_for_service = service_name, to_remote_agent = remote_agent, to_unrecognized = unrecognized\<rparr>))"

definition parse_stub_command_line ::
  "option_parser \<Rightarrow> (exn \<Rightarrow> bool) \<Rightarrow> (exn \<Rightarrow> string) \<Rightarrow> string list \<Rightarrow> exn + (string + stub_options)"
where
  "parse_stub_command_line parser boost diagnostic argv = (case parser stub_declarations argv of
       Inl e \<Rightarrow> if boost e then Inr (Inl (diagnostic e)) else Inl e
     | Inr (vm, unrecognized) \<Rightarrow> (case read_stub_options vm unrecognized of Inl e \<Rightarrow> Inl e | Inr options \<Rightarrow> Inr (Inr options)))"

subsection \<open>The preseeding helper\<close>

definition Preseed_ForService :: option_declaration where
  "Preseed_ForService = \<lparr>od_name = ''for-service'', od_kind = Text_option, od_required = True,
     od_description = ''The name of the service to handle trust for.''\<rparr>"

definition Preseed_Request :: option_declaration where
  "Preseed_Request = \<lparr>od_name = ''request'', od_kind = Texts_option, od_required = False,
     od_description = ''Requests to be seeded into the trust store. Can be specified multiple times.''\<rparr>"

definition preseed_declarations :: "option_declaration list" where
  "preseed_declarations = [Preseed_ForService, Preseed_Request]"

text \<open>The whole of \<^verbatim>\<open>parse_from_command_line\<close>; nothing is caught.\<close>

definition liftE :: "exn + 'a \<Rightarrow> ('w, 'a) act" where
  "liftE r = (case r of Inl e \<Rightarrow> throwE e | Inr x \<Rightarrow> returnE x)"

definition Preseed_parse_command_line ::
  "option_parser \<Rightarrow> (string \<Rightarrow> ('w, 's) act) \<Rightarrow> ('w \<Rightarrow> timestamp) \<Rightarrow> string list \<Rightarrow> ('w, 's preseed_configuration) act"
where
  "Preseed_parse_command_line parser open_store now argv =
     bindE (liftE (parser preseed_declarations argv)) (\<lambda>(vm, _).
     bindE (liftE (as_text vm (od_name Preseed_ForService))) (\<lambda>service_name.
     bindE (liftE (as_texts vm (od_name Preseed_Request))) (\<lambda>requests.
     parse_from_command_line (open_store service_name) now requests)))"

section \<open>Values that are there and values that are not\<close>

text \<open>
  What Boost documents: when the parser returns for options of different names, every required option has a value, and every declared option that has one
  has a value of its kind.
\<close>

definition honours_declarations :: "option_parser \<Rightarrow> bool" where
  "honours_declarations parser \<longleftrightarrow> (\<forall>ds argv vm u. distinct (map od_name ds) \<longrightarrow> parser ds argv = Inr (vm, u) \<longrightarrow>
     (\<forall>d \<in> set ds. (od_required d \<longrightarrow> vm (od_name d) \<noteq> None) \<and>
        (\<forall>v. vm (od_name d) = Some v \<longrightarrow> kind_of_value v = od_kind d)))"

lemmas option_declarations = StoreBus_def ForService_def WithTextDomain_def LocalAgent_def RemoteAgent_def skeleton_declarations_def
  stub_declarations_def Preseed_ForService_def Preseed_Request_def preseed_declarations_def

lemma declared_names_differ:
  "distinct (map od_name skeleton_declarations)" "distinct (map od_name stub_declarations)"
  "distinct (map od_name preseed_declarations)"
  by (simp_all add: option_declarations)

lemma kind_of_value_iff:
  "kind_of_value v = Text_option \<longleftrightarrow> (\<exists>s. v = Text_value s)" "kind_of_value v = Texts_option \<longleftrightarrow> (\<exists>ls. v = Texts_value ls)"
  "kind_of_value v = Bus_option \<longleftrightarrow> (\<exists>t. v = Bus_value t)"
  by (cases v; simp)+

lemma required_text_is_read:
  assumes "honours_declarations parser" and "parser ds argv = Inr (vm, u)" and "distinct (map od_name ds)" and "d \<in> set ds" and "od_required d"
  shows "od_kind d = Text_option \<Longrightarrow> \<exists>s. as_text vm (od_name d) = Inr s"
    and "od_kind d = Bus_option \<Longrightarrow> \<exists>t. as_bus vm (od_name d) = Inr t"
proof -
  obtain v where "vm (od_name d) = Some v" "kind_of_value v = od_kind d"
    using assms unfolding honours_declarations_def by (metis not_None_eq)
  then show "od_kind d = Text_option \<Longrightarrow> \<exists>s. as_text vm (od_name d) = Inr s"
    and "od_kind d = Bus_option \<Longrightarrow> \<exists>t. as_bus vm (od_name d) = Inr t"
    by (auto simp: as_text_def as_bus_def kind_of_value_iff)
qed

text \<open>
  Every value the daemons read is there, so a command line that the parser takes gives options, and one that it refuses with
  an exception of Boost is an error message; no other exception comes from the reading of the values.
\<close>

lemma skeleton_values_are_there:
  assumes "honours_declarations parser" and "parser skeleton_declarations argv = Inr (vm, u)"
  shows "\<exists>options. parse_skeleton_command_line parser boost diagnostic argv = Inr (Inr options) \<and> so_unrecognized options = u"
proof -
  note there = required_text_is_read [OF assms declared_names_differ(1)]
  obtain s l r b where "as_text vm (od_name ForService) = Inr s" "as_text vm (od_name LocalAgent) = Inr l"
    "as_text vm (od_name RemoteAgent) = Inr r" "as_bus vm (od_name StoreBus) = Inr b"
    using there(1) [of ForService] there(1) [of LocalAgent] there(1) [of RemoteAgent] there(2) [of StoreBus]
    by (auto simp: option_declarations)
  moreover have "vm (od_name WithTextDomain) = None \<or> (\<exists>d. as_text vm (od_name WithTextDomain) = Inr d)"
  proof (cases "vm (od_name WithTextDomain)")
    case (Some v)
    have "WithTextDomain \<in> set skeleton_declarations" by (simp add: skeleton_declarations_def)
    with assms Some declared_names_differ(1) have "kind_of_value v = od_kind WithTextDomain" unfolding honours_declarations_def by blast
    then have "\<exists>d. v = Text_value d" by (simp add: WithTextDomain_def kind_of_value_iff)
    with Some show ?thesis by (auto simp: as_text_def)
  qed simp
  ultimately show ?thesis
    using assms(2) by (auto simp: parse_skeleton_command_line_def read_skeleton_options_def)
qed

lemma stub_values_are_there:
  assumes "honours_declarations parser" and "parser stub_declarations argv = Inr (vm, u)"
  shows "\<exists>options. parse_stub_command_line parser boost diagnostic argv = Inr (Inr options) \<and> to_unrecognized options = u"
proof -
  note there = required_text_is_read [OF assms declared_names_differ(2)]
  obtain s r where "as_text vm (od_name ForService) = Inr s" "as_text vm (od_name RemoteAgent) = Inr r"
    using there(1) [of ForService] there(1) [of RemoteAgent] by (auto simp: option_declarations)
  then show ?thesis using assms(2) by (auto simp: parse_stub_command_line_def read_stub_options_def)
qed

text \<open>
  The helper is not so careful: \<^verbatim>\<open>--request\<close> is not required, but its value is read in any case. Without a request the
  helper ends with an exception that nothing catches; no store is opened.
\<close>

lemma preseed_without_requests_throws:
  assumes "honours_declarations parser" and "parser preseed_declarations argv = Inr (vm, u)" and "vm ''request'' = None"
  shows "preseed_program (Preseed_parse_command_line parser open_store now argv) w = (Inl bad_any_cast, w)"
proof -
  obtain s where "as_text vm (od_name Preseed_ForService) = Inr s"
    using required_text_is_read(1) [OF assms(1,2) declared_names_differ(3), of Preseed_ForService] by (auto simp: option_declarations)
  with assms(2,3) show ?thesis
    by (simp add: preseed_program_def Preseed_parse_command_line_def liftE_def act_simps as_texts_def Preseed_Request_def)
qed

lemma preseed_values_are_there:
  assumes "honours_declarations parser" and "parser preseed_declarations argv = Inr (vm, u)" and "vm ''request'' \<noteq> None"
  shows "\<exists>service_name lines. Preseed_parse_command_line parser open_store now argv =
    parse_from_command_line (open_store service_name) now lines"
proof -
  obtain s where s: "as_text vm (od_name Preseed_ForService) = Inr s"
    using required_text_is_read(1) [OF assms(1,2) declared_names_differ(3), of Preseed_ForService] by (auto simp: option_declarations)
  obtain v where v: "vm ''request'' = Some v" using assms(3) by blast
  have "Preseed_Request \<in> set preseed_declarations" "od_name Preseed_Request = ''request''" "od_kind Preseed_Request = Texts_option"
    by (simp_all add: preseed_declarations_def Preseed_Request_def)
  with assms(1,2) v declared_names_differ(3) have "kind_of_value v = Texts_option" unfolding honours_declarations_def by metis
  with v obtain ls where "as_texts vm ''request'' = Inr ls" by (auto simp: as_texts_def kind_of_value_iff)
  with s assms(2) show ?thesis by (auto simp: Preseed_parse_command_line_def liftE_def Preseed_Request_def fun_eq_iff act_simps)
qed

text \<open>A parser of words \<^verbatim>\<open>--name=value\<close> that keeps to the declarations.\<close>

definition given_values :: "string \<Rightarrow> string list \<Rightarrow> string list" where
  "given_values name argv = map (drop (length name + 3)) (filter (prefix (''--'' @ name @ ''='')) argv)"

definition declared_value :: "string list \<Rightarrow> option_declaration \<Rightarrow> option_value option" where
  "declared_value argv d = (case given_values (od_name d) argv of
       [] \<Rightarrow> None
     | vs \<Rightarrow> Some (case od_kind d of
         Text_option \<Rightarrow> Text_value (last vs)
       | Texts_option \<Rightarrow> Texts_value vs
       | Bus_option \<Rightarrow> Bus_value (fst (parse_bus_type (stream_of (last vs)) session))))"

definition word_parser :: option_parser where
  "word_parser ds argv =
     (if list_all (\<lambda>d. od_required d \<longrightarrow> declared_value argv d \<noteq> None) ds
      then Inr (map_of (map (\<lambda>d. (od_name d, the (declared_value argv d))) (filter (\<lambda>d. declared_value argv d \<noteq> None) ds)),
        filter (\<lambda>e. \<not> list_ex (\<lambda>d. prefix (''--'' @ od_name d @ ''='') e) ds) argv)
      else Inl (logic_error ''a required option is missing''))"

lemma word_parser_values:
  assumes "distinct (map od_name ds)" and "word_parser ds argv = Inr (vm, u)" and "d \<in> set ds"
  shows "vm (od_name d) = declared_value argv d"
proof -
  let ?given = "filter (\<lambda>d. declared_value argv d \<noteq> None) ds"
  have vm: "vm = map_of (map (\<lambda>d. (od_name d, the (declared_value argv d))) ?given)"
    using assms(2) by (simp add: word_parser_def split: if_splits)
  have inj: "inj_on od_name (set ds)" using assms(1) by (simp add: distinct_map)
  show ?thesis
  proof (cases "declared_value argv d")
    case None
    have "od_name d \<notin> od_name ` set ?given"
    proof
      assume "od_name d \<in> od_name ` set ?given"
      then obtain d' where d': "d' \<in> set ds" "declared_value argv d' \<noteq> None" "od_name d = od_name d'" by fastforce
      then have "d = d'" using inj_onD [OF inj d'(3) assms(3)] by blast
      with d'(2) None show False by simp
    qed
    then have "od_name d \<notin> fst ` set (map (\<lambda>d. (od_name d, the (declared_value argv d))) ?given)" by force
    then show ?thesis unfolding vm None by (simp only: map_of_eq_None_iff not_False_eq_True)
  next
    case (Some v)
    have "distinct (map od_name ?given)" using assms(1) by (rule distinct_map_filter)
    moreover have "(od_name d, v) \<in> set (map (\<lambda>d. (od_name d, the (declared_value argv d))) ?given)"
      using Some assms(3) by force
    ultimately show ?thesis unfolding vm Some by (intro map_of_is_SomeI) (simp_all add: comp_def)
  qed
qed

lemma word_parser_honours: "honours_declarations word_parser"
proof -
  have "od_required d \<longrightarrow> vm (od_name d) \<noteq> None" "\<forall>v. vm (od_name d) = Some v \<longrightarrow> kind_of_value v = od_kind d"
    if p: "distinct (map od_name ds)" "word_parser ds argv = Inr (vm, u)" "d \<in> set ds" for ds argv vm u d
  proof -
    note v = word_parser_values [OF p]
    show "od_required d \<longrightarrow> vm (od_name d) \<noteq> None"
      using p(2,3) by (auto simp: v word_parser_def list_all_iff split: if_splits)
    show "\<forall>v. vm (od_name d) = Some v \<longrightarrow> kind_of_value v = od_kind d"
      by (auto simp: v declared_value_def split: list.splits option_kind.splits)
  qed
  then show ?thesis unfolding honours_declarations_def by blast
qed

end
