(* ===== verification/Deployments.thy ===== *)
theory Deployments
  imports Daemon_Mains Daemon_Properties
begin

text \<open>
  The programs of the repository put to work one after the other on one database: the helper that seeds answers, and the
  skeleton daemon that is started, serves and is started again. The programs share nothing but the database, and each opens
  a store of its own. The laws of the start-up on a database are here; \<open>Deployments_Live\<close> adds what is connected to a
  daemon that runs.
\<close>

section \<open>Start-up beside a database\<close>

definition keeps_database :: "('w \<Rightarrow> view) \<Rightarrow> ('w, 'a) act \<Rightarrow> bool" where
  "keeps_database view m \<longleftrightarrow> (\<forall>w. view (snd (m w)) = view w)"

text \<open>Nothing that the daemon calls while it starts touches the database, but for the opening of the store.\<close>

definition startup_keeps_database :: "('w \<Rightarrow> view) \<Rightarrow> ('w, 'c, 'p, 'q, 'b) daemon_env \<Rightarrow> bool" where
  "startup_keeps_database view env \<longleftrightarrow>
     (\<forall>d w. view (de_set_service_text_domain env d w) = view w) \<and> (\<forall>s w. view (de_syslog env s w) = view w) \<and>
     (\<forall>s n. keeps_database view (de_mir_connect env s n)) \<and> keeps_database view (de_pause env) \<and>
     (\<forall>e. keeps_database view (de_connect_socket env e)) \<and> (\<forall>b n p. keeps_database view (de_announce env b n p)) \<and>
     (\<forall>k. keeps_database view (bl_well_known (de_buses env) k)) \<and>
     (\<forall>a. keeps_database view (bl_address (de_buses env) a)) \<and>
     (\<forall>v. keeps_database view (bl_getenv (de_buses env) v)) \<and>
     (\<forall>b. keeps_database view (bl_install_executor (de_buses env) b))"

named_theorems keeps_intro \<open>actions that keep the database\<close>

lemma keeps_basic [keeps_intro]:
  "keeps_database view (returnE x)" "keeps_database view (throwE e)" "keeps_database view (readE f)"
  by (simp_all add: keeps_database_def)

lemma keeps_modifyE [keeps_intro]: "(\<And>w. view (f w) = view w) \<Longrightarrow> keeps_database view (modifyE f)"
  by (simp add: keeps_database_def)

lemma keeps_bindE [keeps_intro]:
  "keeps_database view m \<Longrightarrow> (\<And>x. keeps_database view (f x)) \<Longrightarrow> keeps_database view (bindE m f)"
  by (auto simp: keeps_database_def bindE_apply split: prod.split sum.split) (metis snd_conv)+

lemma keeps_catchE [keeps_intro]:
  "keeps_database view m \<Longrightarrow> (\<And>e. keeps_database view (h e)) \<Longrightarrow> keeps_database view (catchE p m h)"
  by (auto simp: keeps_database_def catchE_apply split: prod.split sum.split) (metis snd_conv)+

lemma keeps_databaseD: "keeps_database view m \<Longrightarrow> m w = (r, w') \<Longrightarrow> view w' = view w"
  by (metis keeps_database_def snd_conv)

lemma keeps_bus:
  assumes "startup_keeps_database view env"
  shows "keeps_database view (bus_for_type (de_buses env) t)"
proof -
  have "keeps_database view (bl_well_known (de_buses env) k)" "keeps_database view (bl_address (de_buses env) a)"
    "keeps_database view (bl_getenv (de_buses env) v)" "keeps_database view (bl_install_executor (de_buses env) b)" for k a v b
    using assms by (simp_all add: startup_keeps_database_def)
  then show ?thesis unfolding bus_for_type_def by (cases t) (auto intro!: keeps_intro)
qed

lemma keeps_retries:
  "keeps_database view attempt \<Longrightarrow> keeps_database view pause \<Longrightarrow> keeps_database view (connect_with_retries attempt pause n)"
  by (induction n) (auto intro!: keeps_intro)

lemma keeps_local_factory:
  assumes "startup_keeps_database view env" and "known_local_agent_factories env name = Some factory"
  shows "keeps_database view (factory service dict)"
  using assms
  by (auto simp: startup_keeps_database_def known_local_agent_factories_def local_factory_mir_def local_factory_terminal_def
      local_factory_denying_def split: if_splits option.split intro!: keeps_intro keeps_retries)

lemma keeps_bus_from_dictionary:
  "startup_keeps_database view env \<Longrightarrow> keeps_database view (bus_from_dictionary env name)"
  by (auto simp: bus_from_dictionary_def split: sum.split intro!: keeps_intro keeps_bus)

lemma keeps_remote_factory:
  assumes "startup_keeps_database view env" and "known_remote_agent_factories env name = Some factory"
  shows "keeps_database view (factory service agent dict)"
proof -
  have "keeps_database view (de_connect_socket env e)" "keeps_database view (de_announce env b n p)" for e b n p
    using assms(1) by (simp_all add: startup_keeps_database_def)
  with assms show ?thesis
    by (auto simp: known_remote_agent_factories_def remote_factory_posix_def remote_factory_system_def
        remote_factory_session_def Skeleton_new_def split: if_splits option.split
        intro!: keeps_intro keeps_bus_from_dictionary)
qed

text \<open>The daemon's store is that of \<^verbatim>\<open>create_default_store\<close>, on the engine \<open>sq\<close>.\<close>

definition opens_store_with ::
  "'w sqlite3_api \<Rightarrow> 'w filesystem \<Rightarrow> ('w, string) act \<Rightarrow> ('w, 'c, 'p, query, 'b) daemon_env \<Rightarrow> bool"
where
  "opens_store_with sq fsys data_home env \<longleftrightarrow> (\<forall>name. de_create_default_store env name =
     bindE (create_for_service sq fsys data_home name) (\<lambda>st. returnE (sqlite_vtable sq st)))"

text \<open>The local agent that the options of a daemon stand for.\<close>

definition local_agent_of :: "('w, 'c, 'p, 'q, 'b) daemon_env \<Rightarrow> skeleton_options \<Rightarrow> ('w, 'c, 'p) local_agent \<Rightarrow> bool" where
  "local_agent_of env vm la \<longleftrightarrow> (\<exists>factory w w'. known_local_agent_factories env (so_local_agent vm) = Some factory \<and>
     factory (so_for_service vm) (fill_dictionary_from_unrecognized_options (so_unrecognized vm)) w = (Inr la, w'))"

lemma skeleton_started_at:
  assumes "Skeleton_from_command_line env (Inr vm) w = (Inr cfg, w')" and keeps: "startup_keeps_database view env"
    and "opens_store_with sq fsys data_home env"
  shows "\<exists>st la w1 w2. create_for_service sq fsys data_home (so_for_service vm) w1 = (Inr st, w2) \<and> view w1 = view w \<and>
     view w' = view w2 \<and> sc_local_store cfg = sqlite_vtable sq st \<and> local_agent_of env vm la \<and>
     remote_impl (sc_remote_agent cfg) = daemon_answers (fill_dictionary_from_unrecognized_options (so_unrecognized vm))
       (CachedAgent_authenticate (caching (local_call env la) sq st (glog_reporter (de_syslog env))) (de_now env))"
proof -
  let ?dict = "fill_dictionary_from_unrecognized_options (so_unrecognized vm)"
  let ?agent = "\<lambda>la st. daemon_answers ?dict
    (CachedAgent_authenticate \<lparr>ca_agent = local_call env la, ca_store = st, ca_reporter = glog_reporter (de_syslog env)\<rparr> (de_now env))"
  define w1 where "w1 = de_set_service_text_domain env
    (case so_with_text_domain vm of None \<Rightarrow> so_for_service vm | Some d \<Rightarrow> d) w"
  obtain lf rf st w2 la w3 r w4 bus w5 where run: "known_local_agent_factories env (so_local_agent vm) = Some lf"
    "known_remote_agent_factories env (so_remote_agent vm) = Some rf"
    "de_create_default_store env (so_for_service vm) w1 = (Inr st, w2)" "lf (so_for_service vm) ?dict w2 = (Inr la, w3)"
    "rf (so_for_service vm) (?agent la st) ?dict w3 = (Inr r, w4)" "bus_for_type (de_buses env) (so_store_bus vm) w4 = (Inr bus, w')"
    "sc_local_store cfg = st" "sc_remote_agent cfg = r"
    using assms(1) unfolding Skeleton_from_command_line_def Let_def sum.case w1_def
    by (auto simp: bindE_returns_iff map_at_returns CachedAgent_new_def WhiteListingAgent_new_def
        AppIdFormattingTrustAgent_new_def PrivilegeAgent_new_def formatting_whitelisting [abs_def])
  have "view w1 = view w" using keeps by (simp add: w1_def startup_keeps_database_def)
  moreover have "view w3 = view w2" "view w4 = view w3" "view w' = view w4"
    using keeps_databaseD [OF keeps_local_factory [OF keeps run(1)] run(4)]
      keeps_databaseD [OF keeps_remote_factory [OF keeps run(2)] run(5)] keeps_databaseD [OF keeps_bus [OF keeps] run(6)] by simp_all
  moreover obtain st' where "create_for_service sq fsys data_home (so_for_service vm) w1 = (Inr st', w2)" "st = sqlite_vtable sq st'"
    using run(3) assms(3) by (auto simp: opens_store_with_def bindE_returns_iff)
  moreover have "local_agent_of env vm la" using run(1,4) unfolding local_agent_of_def by blast
  ultimately show ?thesis using remote_factory_impl [OF run(2,5)] run(7,8) by auto
qed

lemma skeleton_started_on_database:
  assumes sq: "sqlite3_reliable sq view" and "dir_ready view fsys data_home (so_for_service vm)" and "so_for_service vm \<noteq> []"
    and "startup_keeps_database view env" and "opens_store_with sq fsys data_home env" and "db_usable (v_db (view w))"
    and "Skeleton_from_command_line env (Inr vm) w = (Inr cfg, w')"
  shows "\<exists>st la. sc_local_store cfg = sqlite_vtable sq st \<and> local_agent_of env vm la \<and> store_ok st (view w') \<and>
     store_contents (view w') = store_contents (view w) \<and> table_rows (v_db (view w')) = table_rows (v_db (view w)) \<and>
     remote_impl (sc_remote_agent cfg) = daemon_answers (fill_dictionary_from_unrecognized_options (so_unrecognized vm))
       (CachedAgent_authenticate (caching (local_call env la) sq st (glog_reporter (de_syslog env))) (de_now env))"
proof -
  obtain st la w1 w2 where s: "create_for_service sq fsys data_home (so_for_service vm) w1 = (Inr st, w2)"
     "view w1 = view w" "view w' = view w2" "sc_local_store cfg = sqlite_vtable sq st" "local_agent_of env vm la"
     "remote_impl (sc_remote_agent cfg) = daemon_answers (fill_dictionary_from_unrecognized_options (so_unrecognized vm))
       (CachedAgent_authenticate (caching (local_call env la) sq st (glog_reporter (de_syslog env))) (de_now env))"
    using skeleton_started_at [OF assms(7,4,5)] by blast
  have "db_usable (v_db (view w1))" using assms(6) s(2) by simp
  from open_usable [OF sq assms(2,3) this] s show ?thesis by auto
qed

text \<open>An application that the daemon grants without looking at the store.\<close>

definition white_listed :: "dictionary \<Rightarrow> string \<Rightarrow> bool" where
  "white_listed dict i \<longleftrightarrow> i = ''unconfined'' \<or> (dict ''disable-whitelisting'' = None \<and> i = ''com.ubuntu.camera_camera'')"

lemma daemon_answers_behind_white_list:
  "\<not> white_listed dict (format_app_id (app_id p)) \<Longrightarrow> daemon_answers dict cached p = cached (p\<lparr>app_id := format_app_id (app_id p)\<rparr>)"
  unfolding daemon_answers_def white_listed_def Let_def by (rule if_not_P)

lemma daemon_gives_stored_answer:
  assumes sq: "sqlite3_reliable sq view" and "\<And>s w. view (syslog s w) = view w" and "store_ok st (view w)"
    and i: "format_app_id (app_id p) = i" "clean_id i" "\<not> white_listed dict i"
    and "decided i (app_feature p) (store_contents (view w))"
    and a: "\<And>r. r \<in># store_contents (view w) \<Longrightarrow> req_from r = i \<Longrightarrow> req_feature r = app_feature p \<Longrightarrow> req_answer r = a"
  shows "\<exists>w'. daemon_answers dict (CachedAgent_authenticate (caching agent sq st (glog_reporter syslog)) now) p w = (Inr a, w') \<and>
    store_contents (view w') = store_contents (view w)"
proof -
  have env: "sqlite_consulting sq view (\<lambda>_. returnE denied) (glog_reporter syslog)"
    using assms(2) by (intro sqlite_consultingI sq leaves_database_const quiet_glog)
  have "clean_id (app_id (p\<lparr>app_id := i\<rparr>))"
    "decided (app_id (p\<lparr>app_id := i\<rparr>)) (app_feature (p\<lparr>app_id := i\<rparr>)) (store_contents (view w))"
    using i(2) assms(7) by simp_all
  from sqlite_consulting.over_sqlite_decided [OF env assms(3) TrueI this, of agent now] obtain w' r where
    "CachedAgent_authenticate (caching agent sq st (glog_reporter syslog)) now (p\<lparr>app_id := i\<rparr>) w = (Inr (req_answer r), w')"
    "latest i (app_feature p) (store_contents (view w)) r" "store_contents (view w') = store_contents (view w)" by auto
  moreover from this have "req_answer r = a" using a by (auto simp: latest_def)
  ultimately show ?thesis 
    using i daemon_answers_behind_white_list [of dict p "CachedAgent_authenticate (caching agent sq st (glog_reporter syslog)) now"]
    by auto
qed

lemma daemon_prompts:
  assumes sq: "sqlite3_reliable sq view" and "leaves_database view agent" and "\<And>s w. view (syslog s w) = view w"
    and "store_ok st (view w)" and "store_room 1 (view w)"
    and i: "format_app_id (app_id p) = i" "clean_id i" "\<not> white_listed dict i"
    and "\<not> decided i (app_feature p) (store_contents (view w))"
  shows "\<exists>r v v' w'. agent (p\<lparr>app_id := i\<rparr>) v = (r, v') \<and> store_contents (view v) = store_contents (view w) \<and>
    daemon_answers dict (CachedAgent_authenticate (caching agent sq st (glog_reporter syslog)) now) p w = (r, w') \<and>
    store_ok st (view w') \<and> (case r of
       Inl e \<Rightarrow> store_contents (view w') = store_contents (view w)
     | Inr a \<Rightarrow> \<exists>t. store_contents (view w') = add_mset
         \<lparr>req_from = i, req_feature = kept_feature (app_feature p), req_when = t, req_answer = a\<rparr> (store_contents (view w)))"
proof -
  let ?p = "p\<lparr>app_id := i\<rparr>" and ?cached = "CachedAgent_authenticate (caching agent sq st (glog_reporter syslog)) now"
  have "quiet_reporter view (glog_reporter syslog)" using assms(3) by (rule quiet_glog)
  note env = sqlite_consultingI [OF sq assms(2) this]
  have d: "daemon_answers dict ?cached p = ?cached ?p" using i daemon_answers_behind_white_list [of dict p ?cached] by simp
  have c: "clean_id (app_id ?p)" and u: "\<not> decided (app_id ?p) (app_feature ?p) (store_contents (view w))"
    using i(2) assms(9) by simp_all
  from sqlite_consulting.over_sqlite_undecided [OF env assms(4) TrueI c u assms(5) [unfolded One_nat_def], of now]
  show ?thesis
  proof (elim exE conjE disjE)
    fix w1 w2 w' e
    assume "agent ?p w1 = (Inl e, w2)" "?cached ?p w = (Inl e, w')" "store_contents (view w1) = store_contents (view w)"
      "store_contents (view w') = store_contents (view w)" "store_ok st (view w')"
    then show ?thesis by (intro exI [of _ "Inl e"] exI [of _ w1] exI [of _ w2] exI [of _ w']) (simp add: d)
  next
    fix w1 w2 w' a t
    assume "agent ?p w1 = (Inr a, w2)" "?cached ?p w = (Inr a, w')" "store_contents (view w1) = store_contents (view w)"
      "store_ok st (view w')" "store_contents (view w') = add_mset
         \<lparr>req_from = app_id ?p, req_feature = kept_feature (app_feature ?p), req_when = t, req_answer = a\<rparr> (store_contents (view w))"
    then show ?thesis by (intro exI [of _ "Inr a"] exI [of _ w1] exI [of _ w2] exI [of _ w']) (auto simp: d)
  qed
qed

text \<open>An answer just recorded is given again.\<close>

lemma daemon_repeats_recorded:
  assumes sq: "sqlite3_reliable sq view" and "\<And>s w. view (syslog s w) = view w" and "store_ok st (view w)"
    and i: "format_app_id (app_id p) = i" "clean_id i" "\<not> white_listed dict i" and f: "app_feature p = f"
    and c: "store_contents (view w) = add_mset \<lparr>req_from = i, req_feature = f, req_when = t, req_answer = a\<rparr> old"
    and new: "\<not> decided i f old"
  shows "\<exists>w'. daemon_answers dict (CachedAgent_authenticate (caching agent sq st (glog_reporter syslog)) now) p w = (Inr a, w') \<and>
    store_contents (view w') = store_contents (view w)"
proof (rule daemon_gives_stored_answer [OF sq assms(2,3) i])
  show "decided i (app_feature p) (store_contents (view w))" unfolding c f decided_def by force
  fix r assume r: "r \<in># store_contents (view w)" "req_from r = i" "req_feature r = app_feature p"
  then have "r \<notin># old" using new f by (auto simp: decided_def)
  then have "r = \<lparr>req_from = i, req_feature = f, req_when = t, req_answer = a\<rparr>" using r(1) by (simp add: c)
  then show "req_answer r = a" by (metis request.select_convs(4))
qed

text \<open>What arrives over a bus is given to the agent as it is.\<close>

lemma remote_receives_bus:
  assumes "Skeleton_from_command_line env (Inr vm) w = (Inr cfg, w')"
    and "so_remote_agent vm \<noteq> UnixDomainSocketRemoteAgent_name"
  shows "remote_receives (sc_remote_agent cfg) t = remote_impl (sc_remote_agent cfg)"
proof -
  have "\<nexists>e sk. sc_remote_agent cfg = Posix_Remote e sk" using assms by (rule remote_is_bus_agent)
  then show ?thesis
    by (cases "sc_remote_agent cfg") (simp_all add: remote_receives_def remote_impl_def remote_dbus_Skeleton_authenticate_def fun_eq_iff)
qed

section \<open>Seeding, then the daemon\<close>

text \<open>The helper as a process: it opens the store of the service, does its work and lets go of the store.\<close>

definition preseed_process ::
  "'w sqlite3_api \<Rightarrow> 'w filesystem \<Rightarrow> ('w, string) act \<Rightarrow> ('w \<Rightarrow> timestamp) \<Rightarrow> string \<Rightarrow> string list \<Rightarrow> ('w, byte) act"
where
  "preseed_process sq fsys data_home now service_name lines =
     bindE (create_for_service sq fsys data_home service_name) (\<lambda>st.
     bindE (preseed_program (parse_from_command_line (returnE (sqlite_vtable sq st)) now lines)) (\<lambda>result.
     bindE (Store_destroy sq st) (\<lambda>_. returnE result)))"

text \<open>A seed is an application id, a feature and an answer; the line that stands for it.\<close>

type_synonym seed = "string \<times> feature \<times> answer"

definition seed_line :: "seed \<Rightarrow> string" where
  "seed_line = (\<lambda>(i, f, a). i @ '' '' @ print_feature f @ '' '' @ print_answer a)"

definition seed_ok :: "seed \<Rightarrow> bool" where
  "seed_ok = (\<lambda>(i, f, a). clean_id i \<and> list_all (\<lambda>c. \<not> is_space c) i \<and> small_feature f \<and> (a = denied \<or> a = granted))"

definition seed_request :: "timestamp \<Rightarrow> seed \<Rightarrow> request" where
  "seed_request t = (\<lambda>(i, f, a). \<lparr>req_from = i, req_feature = f, req_when = t, req_answer = a\<rparr>)"

lemma seed_line_parses:
  assumes "seed_ok e"
  shows "parse_request now (seed_line e) w = (Inr (seed_request (now w) e), w)"
proof -
  obtain i f a where e: "e = (i, f, a)" by (cases e)
  have "i \<noteq> []" "\<forall>c \<in> set i. \<not> is_space c" "a \<in> {denied, granted}"
    using assms by (auto simp: e seed_ok_def clean_id_def list_all_iff)
  from preseed_line_roundtrip [OF this, of "[]" "'' ''" "'' ''" "[]" now f w] show ?thesis
    by (simp add: e seed_line_def seed_request_def is_space_def)
qed

lemma seed_lines_parse:
  "list_all seed_ok es \<Longrightarrow> parse_requests now (map seed_line es) w = (Inr (map (seed_request (now w)) es), w)"
  by (induction es) (simp_all add: bindE_apply seed_line_parses)

lemma seed_request_kept:
  assumes "seed_ok e"
  shows "(seed_request t e)\<lparr>req_feature := kept_feature (req_feature (seed_request t e))\<rparr> = seed_request t e"
  using assms by (cases e) (simp add: seed_ok_def seed_request_def kept_feature_small)

text \<open>The helper succeeds, and the database it leaves holds the seeds beside what it held.\<close>

lemma preseed_process_law:
  assumes sq: "sqlite3_reliable sq view" and "dir_ready view fsys data_home name" and "name \<noteq> []"
    and "db_usable (v_db (view w))" and "store_room (length es + n) (view w)" and es: "list_all seed_ok es"
  shows "\<exists>t w'. preseed_process sq fsys data_home now name (map seed_line es) w = (Inr exit_success, w') \<and>
    db_usable (v_db (view w')) \<and> store_room n (view w') \<and>
    store_contents (view w') = mset (map (seed_request t) es) + store_contents (view w)"
proof -
  obtain st w1 where w1: "create_for_service sq fsys data_home name w = (Inr st, w1)" "store_ok st (view w1)"
    "store_contents (view w1) = store_contents (view w)" "table_rows (v_db (view w1)) = table_rows (v_db (view w))"
    using open_usable [OF sq assms(2-4)] by blast
  let ?rs = "map (seed_request (now w1)) es"
  have "store_room (length ?rs + n) (view w1)" using assms(5) w1(4) by (simp add: store_room_def)
  moreover have "\<forall>r \<in> set ?rs. clean_id (req_from r)"
    using es by (auto simp: list_all_iff seed_ok_def seed_request_def)
  ultimately obtain w2 where w2: "add_all (sqlite_vtable sq st) ?rs w1 = (Inr (), w2)" "store_ok st (view w2)" "store_room n (view w2)"
    "store_contents (view w2) = mset (map (\<lambda>r. r\<lparr>req_feature := kept_feature (req_feature r)\<rparr>) ?rs) + store_contents (view w1)"
    using sqlite3_reliable.add_all_law [OF sq w1(2)] by blast
  have kept: "map (\<lambda>r. r\<lparr>req_feature := kept_feature (req_feature r)\<rparr>) ?rs = ?rs"
    using es by (intro map_idI) (auto simp: list_all_iff seed_request_kept)
  obtain w3 where w3: "Store_destroy sq st w2 = (Inr (), w3)" "v_db (view w3) = v_db (view w2)"
    using sqlite3_reliable.Store_destroy_law [OF sq] by blast
  have "preseed_process sq fsys data_home now name (map seed_line es) w = (Inr exit_success, w3)"
    using w1(1) w2(1) w3(1) es
    by (simp add: preseed_process_def preseed_program_def parse_from_command_line_def Preseed_main_def bindE_apply seed_lines_parse)
  moreover have "db_usable (v_db (view w3))" using w2(2) w3(2) by (simp add: store_ok_def db_usable_def)
  moreover have "store_contents (view w3) = mset ?rs + store_contents (view w)"
    using w2(4) w1(3) store_contents_db [OF w3(2)] unfolding kept by simp
  moreover have "store_room n (view w3)" using w2(3) store_room_db [OF w3(2)] by simp
  ultimately show ?thesis by blast
qed

text \<open>
  C36. Seeding works from one end to the other. The helper, given lines that stand for well-formed seeds, succeeds and leaves them in
  the database. A daemon of the same service that is started afterwards, in a process of its own and with any local agent, answers
  a request that comes in over the bus with the answer seeded for the application and the feature, without asking anybody and without
  storing anything.
\<close>

theorem seeded_answer_is_given:
  assumes "sqlite3_reliable sq view" and "dir_ready view fsys data_home (so_for_service vm)" and "so_for_service vm \<noteq> []"
    and "db_usable (v_db (view w))" and "store_room (length es) (view w)" and "list_all seed_ok es"
    and "startup_keeps_database view env" and "opens_store_with sq fsys data_home env"
    and "so_remote_agent vm \<noteq> UnixDomainSocketRemoteAgent_name"
    and "(i, f, a) \<in> set es" and "\<And>b. (i, f, b) \<in> set es \<Longrightarrow> b = a"
    and "\<not> decided i f (store_contents (view w))"
    and "\<not> white_listed (fill_dictionary_from_unrecognized_options (so_unrecognized vm)) i"
    and "format_app_id (app_id p) = i" and "app_feature p = f"
  shows "\<exists>w1. preseed_process sq fsys data_home now (so_for_service vm) (map seed_line es) w = (Inr exit_success, w1) \<and>
    (\<forall>cfg w2. Skeleton_from_command_line env (Inr vm) w1 = (Inr cfg, w2) \<longrightarrow>
       (\<exists>w3. remote_receives (sc_remote_agent cfg) t p w2 = (Inr a, w3) \<and>
          store_contents (view w3) = store_contents (view w2)))"
proof -
  obtain t1 w1 where w1: "preseed_process sq fsys data_home now (so_for_service vm) (map seed_line es) w = (Inr exit_success, w1)"
    "db_usable (v_db (view w1))" "store_contents (view w1) = mset (map (seed_request t1) es) + store_contents (view w)"
    using preseed_process_law [OF assms(1-4), of es 0] assms(5,6) by (simp only: add_0_right) blast
  have "\<exists>w3. remote_receives (sc_remote_agent cfg) t p w2 = (Inr a, w3) \<and> store_contents (view w3) = store_contents (view w2)"
    if start: "Skeleton_from_command_line env (Inr vm) w1 = (Inr cfg, w2)" for cfg w2
  proof -
    from skeleton_started_on_database [OF assms(1-3,7,8) w1(2) start] obtain st la where
      st: "store_ok st (view w2)" "store_contents (view w2) = store_contents (view w1)"
      "remote_impl (sc_remote_agent cfg) = daemon_answers (fill_dictionary_from_unrecognized_options (so_unrecognized vm))
        (CachedAgent_authenticate (caching (local_call env la) sq st (glog_reporter (de_syslog env))) (de_now env))" by blast
    have "decided i (app_feature p) (store_contents (view w2))"
      using assms(10,15) by (force simp: st(2) w1(3) decided_def seed_request_def)
    moreover have "req_answer r = a"
      if "r \<in># store_contents (view w2)" "req_from r = i" "req_feature r = app_feature p" for r
      using that assms(11,12,15) by (auto simp: st(2) w1(3) decided_def seed_request_def)
    moreover have "clean_id i" using assms(6,10) by (auto simp: list_all_iff seed_ok_def)
    moreover have "view (de_syslog env x v) = view v" for x v using assms(7) by (simp add: startup_keeps_database_def)
    ultimately show ?thesis
      unfolding remote_receives_bus [OF start assms(9)] st(3)
      by (intro daemon_gives_stored_answer [OF assms(1) _ st(1) assms(14) _ assms(13)])
  qed
  with w1(1) show ?thesis by blast
qed

lemma demo_env_ready: "startup_keeps_database ref_view demo_env" "opens_store_with ref_sqlite demo_fs demo_home demo_env"
  by (simp_all add: startup_keeps_database_def opens_store_with_def keeps_database_def demo_env_def demo_buses_def)

text \<open>The daemon of the examples starts on any database in order.\<close>

lemma demo_starts:
  assumes "db_usable (v_db (ref_view w))"
  shows "\<exists>cfg w'. Skeleton_from_command_line demo_env (Inr demo_options) w = (Inr cfg, w')"
proof -
  obtain st w' where o: "create_for_service ref_sqlite demo_fs demo_home ''camera'' w = (Inr st, w')"
    using open_usable [OF ref_reliable demo_dir_ready _ assms, of "''camera''"] by auto
  have factories: "known_local_agent_factories demo_env ''TheAlwaysDenyingLocalAgent'' = Some local_factory_denying"
    "known_remote_agent_factories demo_env ''DBusRemoteAgent'' = Some (remote_factory_system demo_env)"
    by (simp_all add: known_local_agent_factories_def known_remote_agent_factories_def MirAgent_name_def TerminalAgent_name_def
        UnixDomainSocketRemoteAgent_name_def SystemServiceDBusRemoteAgent_name_def SessionServiceDBusRemoteAgent_name_def)
  show ?thesis
    by (simp add: Skeleton_from_command_line_def demo_options_def demo_dictionary bindE_apply map_at_def
        local_factory_denying_def CachedAgent_new_def WhiteListingAgent_new_def AppIdFormattingTrustAgent_new_def
        PrivilegeAgent_new_def factories demo_env_select o demo_bus Let_def remote_factory_system_def bus_from_dictionary_def)
qed

lemma demo_empty_usable: "db_usable (v_db (ref_view ref_empty))" "store_room n (ref_view ref_empty) \<longleftrightarrow> int n < id_limit"
  "store_contents (ref_view ref_empty) = {#}"
  by (simp_all add: ref_empty_def db_usable_def rows_ok_def table_rows_def id_limit_def store_room_def store_contents_def)

lemma demo_vm: "so_for_service demo_options = ''camera''" "so_remote_agent demo_options \<noteq> UnixDomainSocketRemoteAgent_name"
  "so_unrecognized demo_options = [''--bus=system'']"
  by (simp_all add: demo_options_def UnixDomainSocketRemoteAgent_name_def)

lemma demo_seeded_start:
  assumes "list_all seed_ok es" and "int (length es) < id_limit"
  obtains w1 cfg w2 where
    "preseed_process ref_sqlite demo_fs demo_home (\<lambda>_. 7) ''camera'' (map seed_line es) ref_empty = (Inr exit_success, w1)"
    "Skeleton_from_command_line demo_env (Inr demo_options) w1 = (Inr cfg, w2)"
proof -
  have "store_room (length es + 0) (ref_view ref_empty)" using assms(2) by (simp add: demo_empty_usable)
  then obtain w1 where
    "preseed_process ref_sqlite demo_fs demo_home (\<lambda>_. 7) ''camera'' (map seed_line es) ref_empty = (Inr exit_success, w1)"
    "db_usable (v_db (ref_view w1))"
    using preseed_process_law [OF ref_reliable demo_dir_ready _ demo_empty_usable(1) _ assms(1), of "''camera''" 0 "\<lambda>_. 7"] by auto
  then show thesis using that demo_starts by blast
qed

theorem seeded_answer_is_given_witness:
  "\<exists>w1 cfg w2 w3. preseed_process ref_sqlite demo_fs demo_home (\<lambda>_. 7) ''camera'' [seed_line (''app'', Feature 0, granted)] ref_empty =
      (Inr exit_success, w1) \<and>
    Skeleton_from_command_line demo_env (Inr demo_options) w1 = (Inr cfg, w2) \<and>
    remote_receives (sc_remote_agent cfg) 0 demo_params w2 = (Inr granted, w3)"
proof -
  let ?es = "[(''app'', Feature 0, granted)]"
  have es: "list_all seed_ok ?es" "store_room (length ?es) (ref_view ref_empty)"
    by (simp_all add: seed_ok_def clean_id_def is_space_def small_feature_def demo_empty_usable id_limit_def)
  obtain w1 cfg w2 where w1: "preseed_process ref_sqlite demo_fs demo_home (\<lambda>_. 7) ''camera'' (map seed_line ?es) ref_empty =
      (Inr exit_success, w1)" and start: "Skeleton_from_command_line demo_env (Inr demo_options) w1 = (Inr cfg, w2)"
    by (rule demo_seeded_start [of ?es]) (use es in \<open>simp_all add: id_limit_def\<close>)
  have "format_app_id (app_id demo_params) = ''app''" by (simp add: demo_params_def format_app_id_def app_id_no_match)
  from seeded_answer_is_given [OF ref_reliable, where vm = demo_options and env = demo_env and es = ?es and w = ref_empty
      and i = "''app''" and f = "Feature 0" and a = granted and now = "\<lambda>_. 7" and t = 0,
      OF _ _ demo_empty_usable(1) es(2,1) demo_env_ready demo_vm(2) _ _ _ _ this]
  have "\<exists>w3. remote_receives (sc_remote_agent cfg) 0 demo_params w2 = (Inr granted, w3)"
    using w1 start demo_dir_ready
    by (auto simp: demo_vm demo_empty_usable decided_def white_listed_def demo_params_def demo_dictionary)
  with w1 start show ?thesis by auto
qed

text \<open>
  C37. A seed is looked up under an id without version, but it is stored as it is written: a seed given for the very id that a
  request carries is ignored when this id names a version. Unless there is a seed for the application as such, the daemon answers
  the request with what its local agent says now, whatever was seeded.
\<close>

theorem versioned_seed_is_ignored:
  assumes "sqlite3_reliable sq view" and "dir_ready view fsys data_home (so_for_service vm)" and "so_for_service vm \<noteq> []"
    and "db_usable (v_db (view w))" and "store_room (Suc (length es)) (view w)" and "list_all seed_ok es"
    and "startup_keeps_database view env" and "opens_store_with sq fsys data_home env"
    and "so_remote_agent vm \<noteq> UnixDomainSocketRemoteAgent_name"
    and "(app_id p, app_feature p, a) \<in> set es" and "format_app_id (app_id p) = i" and "i \<notin> fst ` set es" and "clean_id i"
    and "\<not> decided i (app_feature p) (store_contents (view w))"
    and "\<not> white_listed (fill_dictionary_from_unrecognized_options (so_unrecognized vm)) i"
    and "\<And>la. local_agent_of env vm la \<Longrightarrow> leaves_database view (local_call env la)"
  shows "\<exists>w1. preseed_process sq fsys data_home now (so_for_service vm) (map seed_line es) w = (Inr exit_success, w1) \<and>
    (\<forall>cfg w2. Skeleton_from_command_line env (Inr vm) w1 = (Inr cfg, w2) \<longrightarrow>
       (\<exists>la v v' r w3. local_agent_of env vm la \<and> local_call env la (p\<lparr>app_id := i\<rparr>) v = (r, v') \<and>
          remote_receives (sc_remote_agent cfg) t p w2 = (r, w3)))"
proof -
  have room: "store_room (length es + 1) (view w)" using assms(5) by simp
  obtain t1 w1 where w1: "preseed_process sq fsys data_home now (so_for_service vm) (map seed_line es) w = (Inr exit_success, w1)"
    "db_usable (v_db (view w1))" "store_room 1 (view w1)"
    "store_contents (view w1) = mset (map (seed_request t1) es) + store_contents (view w)"
    using preseed_process_law [OF assms(1-4) room assms(6)] by blast
  have "\<exists>la v v' r w3. local_agent_of env vm la \<and> local_call env la (p\<lparr>app_id := i\<rparr>) v = (r, v') \<and>
      remote_receives (sc_remote_agent cfg) t p w2 = (r, w3)"
    if start: "Skeleton_from_command_line env (Inr vm) w1 = (Inr cfg, w2)" for cfg w2
  proof -
    from skeleton_started_on_database [OF assms(1-3,7,8) w1(2) start] obtain st la where
      st: "store_ok st (view w2)" "store_contents (view w2) = store_contents (view w1)" "local_agent_of env vm la"
      "table_rows (v_db (view w2)) = table_rows (v_db (view w1))"
      "remote_impl (sc_remote_agent cfg) = daemon_answers (fill_dictionary_from_unrecognized_options (so_unrecognized vm))
        (CachedAgent_authenticate (caching (local_call env la) sq st (glog_reporter (de_syslog env))) (de_now env))" by blast
    have "\<not> decided i (app_feature p) (store_contents (view w2))"
      using assms(12,14) by (force simp: st(2) w1(4) decided_def seed_request_def)
    moreover have "store_room 1 (view w2)" using w1(3) st(4) by (simp add: store_room_def)
    moreover have "view (de_syslog env x v) = view v" for x v using assms(7) by (simp add: startup_keeps_database_def)
    ultimately show ?thesis
      using daemon_prompts [OF assms(1) assms(16) [OF st(3)] _ st(1) _ assms(11,13,15), of "de_syslog env" "de_now env"] st(3)
      unfolding remote_receives_bus [OF start assms(9)] st(5) by blast
  qed
  with w1(1) show ?thesis by blast
qed

lemma demo_local_agent: "local_agent_of demo_env demo_options la \<Longrightarrow> la = Dummy_Local denied"
  by (auto simp: local_agent_of_def demo_options_def known_local_agent_factories_def local_factory_denying_def
      MirAgent_name_def TerminalAgent_name_def)

text \<open>The helper grants \<^verbatim>\<open>pkg_app_1\<close>, and the daemon then denies \<^verbatim>\<open>pkg_app_1\<close>.\<close>

theorem versioned_seed_is_ignored_witness:
  "\<exists>w1 cfg w2 w3. preseed_process ref_sqlite demo_fs demo_home (\<lambda>_. 7) ''camera'' [seed_line (''pkg_app_1'', Feature 0, granted)]
      ref_empty = (Inr exit_success, w1) \<and>
    Skeleton_from_command_line demo_env (Inr demo_options) w1 = (Inr cfg, w2) \<and>
    remote_receives (sc_remote_agent cfg) 0 (demo_params\<lparr>app_id := ''pkg_app_1''\<rparr>) w2 = (Inr denied, w3)"
proof -
  let ?es = "[(''pkg_app_1'', Feature 0, granted)]" and ?p = "demo_params\<lparr>app_id := ''pkg_app_1''\<rparr>"
  have es: "list_all seed_ok ?es" "store_room (Suc (length ?es)) (ref_view ref_empty)"
    by (simp_all add: seed_ok_def clean_id_def is_space_def small_feature_def demo_empty_usable id_limit_def)
  obtain w1 cfg w2 where w1: "preseed_process ref_sqlite demo_fs demo_home (\<lambda>_. 7) ''camera'' (map seed_line ?es) ref_empty =
      (Inr exit_success, w1)" and start: "Skeleton_from_command_line demo_env (Inr demo_options) w1 = (Inr cfg, w2)"
    by (rule demo_seeded_start [of ?es]) (use es in \<open>simp_all add: id_limit_def\<close>)
  have i: "format_app_id (app_id ?p) = ''pkg_app''" "clean_id ''pkg_app''"
    using format_versioned [of "''pkg''" "''app''" "''1''"] by (simp_all add: is_dot_def clean_id_def)
  have local: "leaves_database ref_view (local_call demo_env la)" if "local_agent_of demo_env demo_options la" for la
    using demo_local_agent [OF that] by (simp add: local_call_def DummyAgent_authenticate_def leaves_database_def)
  have "\<exists>la v v' r w3. local_agent_of demo_env demo_options la \<and> local_call demo_env la (?p\<lparr>app_id := ''pkg_app''\<rparr>) v = (r, v') \<and>
      remote_receives (sc_remote_agent cfg) 0 ?p w2 = (r, w3)"
    using versioned_seed_is_ignored [OF ref_reliable, where vm = demo_options and env = demo_env and es = ?es and w = ref_empty
      and i = "''pkg_app''" and p = ?p and a = granted and now = "\<lambda>_. 7" and t = 0,
      OF _ _ demo_empty_usable(1) es(2,1) demo_env_ready demo_vm(2) _ i(1) _ i(2) _ _ local] w1 start demo_dir_ready
    by (auto simp: demo_vm demo_empty_usable decided_def white_listed_def demo_params_def demo_dictionary)
  then obtain w3 where "remote_receives (sc_remote_agent cfg) 0 ?p w2 = (Inr denied, w3)"
    by (auto dest!: demo_local_agent simp: local_call_def DummyAgent_authenticate_def)
  with w1 start show ?thesis by auto
qed

section \<open>The daemon, then the daemon again\<close>

text \<open>
  C8. What the user has answered outlives the daemon. A daemon has answered a request that nothing was decided on before. Whether
  it then closes its store or is killed: any daemon of the same service that is started on what it left, with other options, another local agent and
  other surroundings, gives every request of the same application for the feature, of whatever version, that answer; nobody is asked
  again and nothing is stored.
\<close>

theorem answer_outlives_daemon:
  assumes "sqlite3_reliable sq view" and "dir_ready view fsys data_home (so_for_service vm)" and "so_for_service vm \<noteq> []"
    and "db_usable (v_db (view w))" and "store_room 1 (view w)"
    and env: "startup_keeps_database view env" "opens_store_with sq fsys data_home env"
      "so_remote_agent vm \<noteq> UnixDomainSocketRemoteAgent_name" "\<And>la. local_agent_of env vm la \<Longrightarrow> leaves_database view (local_call env la)"
    and env': "startup_keeps_database view env'" "opens_store_with sq fsys data_home env'"
      "so_remote_agent vm' \<noteq> UnixDomainSocketRemoteAgent_name" "so_for_service vm' = so_for_service vm"
    and p: "format_app_id (app_id p) = i" "clean_id i" "small_feature (app_feature p)"
      "\<not> white_listed (fill_dictionary_from_unrecognized_options (so_unrecognized vm)) i"
      "\<not> decided i (app_feature p) (store_contents (view w))"
    and p': "format_app_id (app_id p') = i" "app_feature p' = app_feature p"
      "\<not> white_listed (fill_dictionary_from_unrecognized_options (so_unrecognized vm')) i"
    and start: "Skeleton_from_command_line env (Inr vm) w = (Inr cfg, w1)"
    and answered: "remote_receives (sc_remote_agent cfg) t p w1 = (Inr a, w2)"
  shows "\<exists>st closed. sc_local_store cfg = sqlite_vtable sq st \<and> Store_destroy sq st w2 = (Inr (), closed) \<and>
    (\<forall>left \<in> {w2, closed}. \<forall>cfg' w3. Skeleton_from_command_line env' (Inr vm') left = (Inr cfg', w3) \<longrightarrow>
       (\<exists>w4. remote_receives (sc_remote_agent cfg') t' p' w3 = (Inr a, w4) \<and> store_contents (view w4) = store_contents (view w3)))"
proof -
  from skeleton_started_on_database [OF assms(1-3) env(1,2) assms(4) start] obtain st la where
    st: "store_ok st (view w1)" "store_contents (view w1) = store_contents (view w)" "local_agent_of env vm la"
    "table_rows (v_db (view w1)) = table_rows (v_db (view w))" "sc_local_store cfg = sqlite_vtable sq st"
    "remote_impl (sc_remote_agent cfg) = daemon_answers (fill_dictionary_from_unrecognized_options (so_unrecognized vm))
      (CachedAgent_authenticate (caching (local_call env la) sq st (glog_reporter (de_syslog env))) (de_now env))" by blast
  have undecided: "\<not> decided i (app_feature p) (store_contents (view w1))" and "store_room 1 (view w1)"
    using p(5) assms(5) st(2,4) by (simp_all add: store_room_def)
  moreover have "view (de_syslog env x v) = view v" for x v using env(1) by (simp add: startup_keeps_database_def)
  ultimately obtain t1 where w2: "store_ok st (view w2)" "store_contents (view w2) = add_mset
      \<lparr>req_from = i, req_feature = app_feature p, req_when = t1, req_answer = a\<rparr> (store_contents (view w1))"
    using daemon_prompts [OF assms(1) env(4) [OF st(3)] _ st(1) _ p(1,2,4), of "de_syslog env" "de_now env"] answered
    unfolding remote_receives_bus [OF start env(3)] st(6) kept_feature_small [OF p(3)] by force
  obtain closed where closed: "Store_destroy sq st w2 = (Inr (), closed)" "v_db (view closed) = v_db (view w2)"
    using sqlite3_reliable.Store_destroy_law [OF assms(1)] by blast
  have "\<exists>w4. remote_receives (sc_remote_agent cfg') t' p' w3 = (Inr a, w4) \<and> store_contents (view w4) = store_contents (view w3)"
    if left: "left \<in> {w2, closed}" and again: "Skeleton_from_command_line env' (Inr vm') left = (Inr cfg', w3)" for left cfg' w3
  proof -
    have l: "v_db (view left) = v_db (view w2)" using left closed(2) by auto
    then have "db_usable (v_db (view left))" using w2(1) by (simp add: store_ok_def db_usable_def)
    from skeleton_started_on_database [OF assms(1) _ _ env'(1,2) this again] assms(2,3) env'(4) obtain st' la' where
      st': "store_ok st' (view w3)" "store_contents (view w3) = store_contents (view left)"
      "remote_impl (sc_remote_agent cfg') = daemon_answers (fill_dictionary_from_unrecognized_options (so_unrecognized vm'))
        (CachedAgent_authenticate (caching (local_call env' la') sq st' (glog_reporter (de_syslog env'))) (de_now env'))" by auto
    have "view (de_syslog env' x v) = view v" for x v using env'(1) by (simp add: startup_keeps_database_def)
    then show ?thesis
      unfolding remote_receives_bus [OF again env'(3)] st'(3)
      by (intro daemon_repeats_recorded [OF assms(1) _ st'(1) p'(1) p(2) p'(3,2) _ undecided])
        (simp_all add: st'(2) store_contents_db [OF l] w2(2))
  qed
  with st(5) closed(1) show ?thesis by blast
qed

lemma demo_versions: "format_app_id ''pkg_app_1'' = ''pkg_app''" "format_app_id ''pkg_app_2'' = ''pkg_app''" "clean_id ''pkg_app''"
  using format_versioned [of "''pkg''" "''app''" "''1''"] format_versioned [of "''pkg''" "''app''" "''2''"]
  by (simp_all add: is_dot_def clean_id_def)

lemma demo_agent_leaves: "local_agent_of demo_env demo_options la \<Longrightarrow> leaves_database ref_view (local_call demo_env la)"
  by (drule demo_local_agent) (simp add: local_call_def DummyAgent_authenticate_def leaves_database_def)

text \<open>The daemon of the examples denies version 1, is closed and started again, and denies version 2 without another prompt.\<close>

lemma demo_daemon_denies:
  "\<exists>w2. remote_receives (sc_remote_agent demo_daemon) 0 (demo_params\<lparr>app_id := ''pkg_app_1''\<rparr>) demo_engine = (Inr denied, w2) \<and>
    store_ok demo_store (ref_view w2)"
proof -
  let ?p = "demo_params\<lparr>app_id := ''pkg_app_1''\<rparr>" and ?dict = "[''bus'' \<mapsto> ''system'']"
  have i: "format_app_id (app_id ?p) = ''pkg_app''" "\<not> white_listed ?dict ''pkg_app''"
    "\<not> decided ''pkg_app'' (app_feature ?p) (store_contents (ref_view demo_engine))"
    by (simp_all add: demo_versions white_listed_def demo_undecided)
  show ?thesis
    using daemon_prompts [OF ref_reliable leaves_database_const(1) _ demo_store_ok(1,2) i(1) demo_versions(3) i(2,3), of "\<lambda>_ w. w" denied "\<lambda>_. 7"]
    by (auto simp: remote_receives_def demo_daemon_def remote_dbus_Skeleton_authenticate_def demo_daemon_agent_def
        DummyAgent_authenticate_def [abs_def])
qed

theorem answer_outlives_daemon_witness:
  "\<exists>w2 st closed cfg' w3 w4. remote_receives (sc_remote_agent demo_daemon) 0 (demo_params\<lparr>app_id := ''pkg_app_1''\<rparr>) demo_engine =
      (Inr denied, w2) \<and> sc_local_store demo_daemon = sqlite_vtable ref_sqlite st \<and> Store_destroy ref_sqlite st w2 = (Inr (), closed) \<and>
    Skeleton_from_command_line demo_env (Inr demo_options) closed = (Inr cfg', w3) \<and>
    remote_receives (sc_remote_agent cfg') 0 (demo_params\<lparr>app_id := ''pkg_app_2''\<rparr>) w3 = (Inr denied, w4) \<and>
    store_contents (ref_view w4) = store_contents (ref_view w3)"
proof -
  let ?p = "demo_params\<lparr>app_id := ''pkg_app_1''\<rparr>" and ?p' = "demo_params\<lparr>app_id := ''pkg_app_2''\<rparr>"
  have u: "\<not> decided ''pkg_app'' (app_feature ?p) (store_contents (ref_view ref_empty))" by (simp add: demo_empty_usable decided_def)
  obtain w2 where w2: "remote_receives (sc_remote_agent demo_daemon) 0 ?p demo_engine = (Inr denied, w2)"
    "store_ok demo_store (ref_view w2)"
    using demo_daemon_denies by blast
  from answer_outlives_daemon [OF ref_reliable demo_dir_ready _ demo_empty_usable(1) _ demo_env_ready demo_vm(2) demo_agent_leaves
      demo_env_ready demo_vm(2) refl _ demo_versions(3) _ _ u _ _ _ demo_start w2(1), of ?p' 0]
  obtain st closed where closed: "sc_local_store demo_daemon = sqlite_vtable ref_sqlite st" "Store_destroy ref_sqlite st w2 = (Inr (), closed)"
    and serves: "\<And>cfg' w3. Skeleton_from_command_line demo_env (Inr demo_options) closed = (Inr cfg', w3) \<Longrightarrow>
      \<exists>w4. remote_receives (sc_remote_agent cfg') 0 ?p' w3 = (Inr denied, w4) \<and> store_contents (ref_view w4) = store_contents (ref_view w3)"
    by (auto simp: demo_vm demo_versions demo_dictionary demo_params_def small_feature_def white_listed_def demo_empty_usable id_limit_def)
  have "v_db (ref_view closed) = v_db (ref_view w2)"
    using sqlite3_reliable.Store_destroy_law [OF ref_reliable, of st w2] closed(2) by auto
  then have "db_usable (v_db (ref_view closed))" using w2(2) by (simp add: store_ok_def db_usable_def)
  then obtain cfg' w3 where again: "Skeleton_from_command_line demo_env (Inr demo_options) closed = (Inr cfg', w3)"
    using demo_starts by blast
  with serves [OF again] w2(1) closed show ?thesis by blast
qed

end
