(* ===== verification/Deployments_Live.thy ===== *)
theory Deployments_Live
  imports Deployments Bus_Endpoints
begin

text \<open>
  What is connected to a daemon while it runs: a trusted helper that asks over a socket, with both ends of the remote agent
  and the daemon behind them, and the store on the bus from the start of the event loop to its end.
\<close>

section \<open>A helper, a socket and the daemon\<close>

lemma remote_is_posix_agent:
  assumes "Skeleton_from_command_line env (Inr vm) w = (Inr cfg, w')"
    and "so_remote_agent vm = UnixDomainSocketRemoteAgent_name"
  shows "\<exists>endpoint sk. sc_remote_agent cfg = Posix_Remote endpoint sk \<and> sk_start_time sk = de_start_time env \<and>
    sk_app_id sk = de_app_id env \<and> sk_impl sk = remote_impl (sc_remote_agent cfg)"
  using assms
  by (auto simp: Skeleton_from_command_line_def bindE_returns_iff map_at_returns Let_def known_remote_agent_factories_def
      UnixDomainSocketRemoteAgent_name_def SystemServiceDBusRemoteAgent_name_def SessionServiceDBusRemoteAgent_name_def
      remote_factory_posix_def remote_impl_def split: option.splits)

text \<open>
  C25. A trusted helper that asks over a socket. The daemon has been started with the agent for a socket, and is connected to the
  helper's stub by the session \<open>h\<close> of the user (\<open>posix_link\<close>, the documented behaviour of a connection that is up). When a first request of the user is answered, the answer has been
  recorded under the application that the daemon finds
  for the process, without its version, whatever application id the helper has sent. A second request of the user, for the same
  feature and from another process of the application, perhaps another version of it, then gets the same answer: nobody is
  asked and nothing is stored.
\<close>

theorem helper_is_answered_once_for_all:
  assumes "sqlite3_reliable sq view" and "dir_ready view fsys data_home (so_for_service vm)" and "so_for_service vm \<noteq> []"
    and "db_usable (v_db (view w))" and "store_room 1 (view w)"
    and env: "startup_keeps_database view env" "opens_store_with sq fsys data_home env"
      "so_remote_agent vm = UnixDomainSocketRemoteAgent_name" "\<And>la. local_agent_of env vm la \<Longrightarrow> leaves_database view (local_call env la)"
    and session: "s (app_uid p) = Some h" "app_uid p' = app_uid p"
    and p: "\<And>v. de_start_time env (app_pid p) v = (Inr t, v)" "\<And>v. de_app_id env (app_pid p) v = (Inr j, v)"
      "format_app_id j = i"
    and p': "\<And>v. de_start_time env (app_pid p') v = (Inr t', v)"
      "\<And>v. de_app_id env (app_pid p') v = (Inr j', v)" "format_app_id j' = i" "app_feature p' = app_feature p"
    and clean: "clean_id i" and small: "small_feature (app_feature p)"
    and white: "\<not> white_listed (fill_dictionary_from_unrecognized_options (so_unrecognized vm)) i"
    and new: "\<not> decided i (app_feature p) (store_contents (view w))"
    and start: "Skeleton_from_command_line env (Inr vm) w = (Inr cfg, w1)"
    and link: "sc_remote_agent cfg = Posix_Remote endpoint sk" "posix_link sys sk h idle"
    and sent: "Stub_send sys p (s, idle w1) = (Inr a, after)"
  shows "\<exists>w2 w3 tm. after = (s, idle w2) \<and> store_contents (view w2) = add_mset
       \<lparr>req_from = i, req_feature = app_feature p, req_when = tm, req_answer = a\<rparr> (store_contents (view w)) \<and>
     Stub_send sys p' after = (Inr a, (s, idle w3)) \<and> store_contents (view w3) = store_contents (view w2)"
proof -
  have sk: "sk_start_time sk = de_start_time env" "sk_app_id sk = de_app_id env" "sk_impl sk = remote_impl (sc_remote_agent cfg)"
    using remote_is_posix_agent [OF start env(3)] link(1) by auto
  from skeleton_started_on_database [OF assms(1-3) env(1,2) assms(4) start] obtain st la where
    st: "store_ok st (view w1)" "store_contents (view w1) = store_contents (view w)" "local_agent_of env vm la"
    "table_rows (v_db (view w1)) = table_rows (v_db (view w))"
    "sk_impl sk = daemon_answers (fill_dictionary_from_unrecognized_options (so_unrecognized vm))
      (CachedAgent_authenticate (caching (local_call env la) sq st (glog_reporter (de_syslog env))) (de_now env))"
    unfolding sk(3) by blast
  let ?q = "p\<lparr>app_id := j, app_description := sk_description_pattern sk\<rparr>"
  let ?q' = "p'\<lparr>app_id := j', app_description := sk_description_pattern sk\<rparr>"
  have syslog: "view (de_syslog env x v) = view v" for x v using env(1) by (simp add: startup_keeps_database_def)
  have q: "format_app_id (app_id ?q) = i" and q': "format_app_id (app_id ?q') = i" using p(3) p'(3) by simp_all
  have undecided: "\<not> decided i (app_feature ?q) (store_contents (view w1))" and room: "store_room 1 (view w1)"
    using assms(5) new st(2,4) by (simp_all add: store_room_def)
  have f: "app_feature ?q = app_feature p" by simp
  obtain w2 where w2: "sk_impl sk ?q w1 = (Inr a, w2)" "after = (s, idle w2)"
    using posix_link.answer_comes_from_agent [where s = s and p = p and w = w1 and t = t and i = j and ?w1.0 = w1, OF link(2) session(1)] p(1,2) sent
    by (auto simp: sk(1,2))
  obtain tm where r: "store_ok st (view w2)" and c: "store_contents (view w2) = add_mset
      \<lparr>req_from = i, req_feature = app_feature p, req_when = tm, req_answer = a\<rparr> (store_contents (view w))"
    using daemon_prompts [where now = "de_now env" and syslog = "de_syslog env",
        OF assms(1) env(4) [OF st(3)] syslog st(1) room q clean white undecided] w2(1)
    unfolding st(2,5) f kept_feature_small [OF small] by auto
  obtain w3 where w3: "sk_impl sk ?q' w2 = (Inr a, w3)" "store_contents (view w3) = store_contents (view w2)"
    using daemon_repeats_recorded [where now = "de_now env" and syslog = "de_syslog env" and agent = "local_call env la",
        OF assms(1) syslog r q' clean white _ c new] p'(4) by (auto simp: st(5))
  have "Stub_send sys p' (s, idle w2) = (Inr a, (s, idle w3))"
    using posix_link.send_reaches_agent [where s = s and p = p' and w = w2 and t = t' and i = j' and ?w1.0 = w2 and a = a and ?w2.0 = w3, OF link(2)]
      session p'(1,2) w3(1) by (simp add: sk(1,2))
  with w2(2) c w3(2) show ?thesis by blast
qed

text \<open>The daemon of the examples with the agent for a socket.\<close>

definition demo_socket_options :: skeleton_options where
  "demo_socket_options = demo_options\<lparr>so_remote_agent := UnixDomainSocketRemoteAgent_name, so_unrecognized := [''--endpoint=/sock'']\<rparr>"

definition demo_socket :: "ref_engine posix_skeleton" where
  "demo_socket = \<lparr>sk_impl = daemon_answers [''endpoint'' \<mapsto> ''/sock''] (CachedAgent_authenticate
       (caching (DummyAgent_authenticate denied) ref_sqlite demo_store (glog_reporter (\<lambda>_ w. w))) (\<lambda>_. 7)),
     sk_start_time = (\<lambda>_. returnE 0), sk_app_id = (\<lambda>_. returnE ''app''),
     sk_description_pattern = ''is trying to access camera.'', sk_verify_process_start_time = False\<rparr>"

lemma demo_socket_start:
  "\<exists>cfg. Skeleton_from_command_line demo_env (Inr demo_socket_options) ref_empty = (Inr cfg, demo_engine) \<and>
     sc_remote_agent cfg = Posix_Remote ''/sock'' demo_socket"
proof -
  have factories: "known_local_agent_factories demo_env ''TheAlwaysDenyingLocalAgent'' = Some local_factory_denying"
    "known_remote_agent_factories demo_env UnixDomainSocketRemoteAgent_name = Some (remote_factory_posix demo_env)"
    by (simp_all add: known_local_agent_factories_def known_remote_agent_factories_def MirAgent_name_def TerminalAgent_name_def
        UnixDomainSocketRemoteAgent_name_def SystemServiceDBusRemoteAgent_name_def SessionServiceDBusRemoteAgent_name_def)
  have dict: "fill_dictionary_from_unrecognized_options [''--endpoint=/sock''] = [''endpoint'' \<mapsto> ''/sock'']"
    by (simp add: fill_dictionary_from_unrecognized_options_def fill_dictionary_element_def)
  have env: "de_connect_socket demo_env = (\<lambda>_. returnE ())" "de_tr demo_env = (\<lambda>s _. s)" "de_start_time demo_env = (\<lambda>_. returnE 0)"
    "de_app_id demo_env = (\<lambda>_. returnE ''app'')" by (simp_all add: demo_env_def)
  show ?thesis
    by (simp add: Skeleton_from_command_line_def demo_socket_options_def demo_options_def dict bindE_apply map_at_def
        local_factory_denying_def CachedAgent_new_def WhiteListingAgent_new_def AppIdFormattingTrustAgent_new_def
        PrivilegeAgent_new_def formatting_whitelisting [abs_def] local_call_def factories demo_env_select env demo_open demo_bus Let_def
        remote_factory_posix_def Skeleton_new_def catchE_apply demo_socket_def)
qed

lemma demo_app_unversioned: "format_app_id ''app'' = ''app''" "clean_id ''app''"
  by (simp_all add: format_app_id_def app_id_no_match clean_id_def)

lemma demo_socket_denies:
  "\<exists>w2. Stub_send (loopback 4 demo_socket) demo_params ([Uid 1000 \<mapsto> 4], (None, demo_engine)) =
     (Inr denied, ([Uid 1000 \<mapsto> 4], (None, w2)))"
proof -
  let ?q = "demo_params\<lparr>app_id := ''app'', app_description := ''is trying to access camera.''\<rparr>"
  have q: "format_app_id (app_id ?q) = ''app''" "\<not> white_listed [''endpoint'' \<mapsto> ''/sock''] ''app''"
    "\<not> decided ''app'' (app_feature ?q) (store_contents (ref_view demo_engine))"
    by (simp_all add: demo_app_unversioned white_listed_def demo_undecided)
  obtain w2 where "sk_impl demo_socket ?q demo_engine = (Inr denied, w2)"
    using daemon_prompts [OF ref_reliable leaves_database_const(1) _ demo_store_ok(1,2) q(1) demo_app_unversioned(2) q(2,3),
        of "\<lambda>_ w. w" denied "\<lambda>_. 7"]
    by (auto simp: demo_socket_def DummyAgent_authenticate_def [abs_def])
  then show ?thesis
    using loop.send_reaches_agent [where s = "[Uid 1000 \<mapsto> 4]" and p = demo_params and h = 4 and sk = demo_socket and w = demo_engine
        and t = 0 and i = "''app''" and ?w1.0 = demo_engine and a = denied and ?w2.0 = w2]
    by (simp add: demo_socket_def demo_params_def)
qed

text \<open>The second request comes from another process, and its helper claims that it is another application.\<close>

theorem helper_is_answered_once_for_all_witness:
  "\<exists>w2 w3. Stub_send (loopback 4 demo_socket) demo_params ([Uid 1000 \<mapsto> 4], (None, demo_engine)) =
      (Inr denied, ([Uid 1000 \<mapsto> 4], (None, w2))) \<and>
    Stub_send (loopback 4 demo_socket) (demo_params\<lparr>app_pid := Pid 43, app_id := ''forged''\<rparr>) ([Uid 1000 \<mapsto> 4], (None, w2)) =
      (Inr denied, ([Uid 1000 \<mapsto> 4], (None, w3))) \<and> store_contents (ref_view w3) = store_contents (ref_view w2)"
proof -
  let ?s = "[Uid 1000 \<mapsto> (4 :: nat)]" and ?p' = "demo_params\<lparr>app_pid := Pid 43, app_id := ''forged''\<rparr>"
  obtain cfg where start: "Skeleton_from_command_line demo_env (Inr demo_socket_options) ref_empty = (Inr cfg, demo_engine)"
    and sk: "sc_remote_agent cfg = Posix_Remote ''/sock'' demo_socket" using demo_socket_start by blast
  obtain w2 where first: "Stub_send (loopback 4 demo_socket) demo_params (?s, (None, demo_engine)) = (Inr denied, (?s, (None, w2)))"
    using demo_socket_denies by blast
  have vm: "so_for_service demo_socket_options = ''camera''"
    "so_remote_agent demo_socket_options = UnixDomainSocketRemoteAgent_name"
    "fill_dictionary_from_unrecognized_options (so_unrecognized demo_socket_options) ''disable-whitelisting'' = None"
    "local_agent_of demo_env demo_socket_options la \<Longrightarrow> leaves_database ref_view (local_call demo_env la)" for la
    by (auto simp: demo_socket_options_def demo_options_def fill_dictionary_from_unrecognized_options_def fill_dictionary_element_def
        local_agent_of_def known_local_agent_factories_def local_factory_denying_def MirAgent_name_def TerminalAgent_name_def
        local_call_def DummyAgent_authenticate_def leaves_database_def)
  have pids: "de_start_time demo_env q v = (Inr 0, v)" "de_app_id demo_env q v = (Inr ''app'', v)" for q v
    by (simp_all add: demo_env_def)
  have user: "?s (app_uid demo_params) = Some 4" "app_uid ?p' = app_uid demo_params" by (simp_all add: demo_params_def)
  have new: "\<not> decided ''app'' (app_feature demo_params) (store_contents (ref_view ref_empty))" by (simp add: demo_empty_usable decided_def)
  from helper_is_answered_once_for_all [where s = ?s and p = demo_params and p' = ?p' and h = 4, OF ref_reliable demo_dir_ready _ demo_empty_usable(1) _
      demo_env_ready vm(2,4) user pids demo_app_unversioned(1) pids demo_app_unversioned(1) _ demo_app_unversioned(2) _ _ new start sk
      loop.posix_link_axioms first]
  have "\<exists>w3. Stub_send (loopback 4 demo_socket) ?p' (?s, (None, w2)) = (Inr denied, (?s, (None, w3))) \<and>
      store_contents (ref_view w3) = store_contents (ref_view w2)"
    by (auto simp del: fun_upd_apply simp: vm(1,3) white_listed_def demo_params_def small_feature_def demo_empty_usable id_limit_def)
  with first show ?thesis by blast
qed

section \<open>The store on the bus while the daemon runs\<close>

text \<open>The main function of the daemon over the token of \<^verbatim>\<open>expose.cpp\<close>.\<close>

definition with_bus_token ::
  "('w, 'b, 's, 'o) object_library \<Rightarrow> ('w, 'q, 'b, ('b, 's, 'o) bus_token) main_env \<Rightarrow> ('w, 'q, 'b, ('b, 's, 'o) bus_token) main_env"
where
  "with_bus_token ol me = me\<lparr>me_expose := (\<lambda>V bus name. expose_store_to_bus_with_name ol bus name),
     me_drop_token := (\<lambda>t w. snd (Token_destroy ol t w))\<rparr>"

lemma Token_new_bus: "Token_new ol name bus w = (Inr t, w') \<Longrightarrow> tok_bus t = bus"
  by (auto simp: Token_new_def bindE_returns_iff)

lemma expose_makes_token:
  "expose_store_to_bus_with_name ol bus name w = (Inr t, w1) \<Longrightarrow>
   \<exists>service_name. exposed_name name w = (Inr service_name, w) \<and> Token_new ol service_name bus w = (Inr t, w1)"
  by (auto simp: expose_store_to_bus_with_name_def exposed_name_def bindE_apply split: if_splits)

text \<open>
  The handlers of the store are on the bus from before the event loop runs until after it has ended, in whatever way it ends, and
  the daemon leaves none behind; when the store cannot be exposed, the event loop is not run.
\<close>

lemma store_is_exposed_while_running:
  assumes "bus_objects ol installed runs"
    and "\<And>b n s w w'. ol_add_service ol b n w = (Inr s, w') \<Longrightarrow> installed w' = installed w \<and> runs w' = runs w"
    and "\<And>s x w w'. ol_add_object_for_path ol s root_path w = (Inr x, w') \<Longrightarrow> installed w' = installed w \<and> runs w' = runs w"
    and loop: "\<And>v r v'. me_runtime_run me v = (r, v') \<Longrightarrow> installed v' = installed v \<and> runs v' = runs v"
    and ex: "expose_store_to_bus_with_name ol (sc_bus cfg) (sc_service_name cfg) w = (Inr t, w1)"
  shows "installed w1 = installed w \<union> {tok_object t} \<times> set (map fst (root_handlers (sc_local_store cfg))) \<and> sc_bus cfg \<in> runs w1 \<and>
    (\<exists>r w2 w3. me_runtime_run me w1 = (r, w2) \<and> installed w2 = installed w1 \<and>
       Daemon_Skeleton_main (with_bus_token ol me) cfg w = (case r of Inl e \<Rightarrow> Inl e | Inr _ \<Rightarrow> Inr exit_success, w3) \<and>
       installed w3 = installed w - {tok_object t} \<times> set (map fst (root_handlers (sc_local_store cfg))) \<and>
       runs w3 = runs w - {sc_bus cfg})"
proof -
  let ?H = "{tok_object t} \<times> set (map fst (root_handlers (sc_local_store cfg)))"
  obtain n where n: "Token_new ol n (sc_bus cfg) w = (Inr t, w1)" using expose_makes_token [OF ex] by blast
  obtain r w2 where r: "me_runtime_run me w1 = (r, w2)" by (metis surj_pair)
  have ms: "set (map fst (root_handlers V)) = set token_methods" for V :: "('a, 'q) store_vtable"
    by (auto simp: root_handlers_def token_methods_def)
  have up: "installed w1 = installed w \<union> ?H" "sc_bus cfg \<in> runs w1"
    "\<exists>v. Token_destroy ol t w1 = (Inr (), v) \<and> runs v = runs w - {sc_bus cfg}"
    using bus_objects.token_life [OF assms(1) n, where V = "sc_local_store cfg"] assms(2,3) by blast+
  note bus = Token_new_bus [OF n]
  have before: "runs w1 - {sc_bus cfg} = runs w - {sc_bus cfg}"
    using up(3) bus_objects.token_destroyed [OF assms(1), of t w1] bus by auto
  obtain w3 where w3: "Token_destroy ol t w2 = (Inr (), w3)" "installed w3 = installed w2 - ?H" "runs w3 = runs w2 - {sc_bus cfg}"
    using bus_objects.token_destroyed [OF assms(1), of t w2] bus unfolding ms by auto
  have "Daemon_Skeleton_main (with_bus_token ol me) cfg w = (case r of Inl e \<Rightarrow> Inl e | Inr _ \<Rightarrow> Inr exit_success, w3)"
    using ex r w3(1) by (simp add: Daemon_Skeleton_main_def with_bus_token_def act_simps split: sum.split)
  moreover have "installed w2 = installed w1" "runs w2 = runs w1" using loop [OF r] by simp_all
  moreover have "installed w3 = installed w - ?H"
    unfolding w3(2) \<open>installed w2 = installed w1\<close> up(1) by blast
  moreover have "runs w3 = runs w - {sc_bus cfg}" unfolding w3(3) \<open>runs w2 = runs w1\<close> before ..
  ultimately show ?thesis using up(1,2) r by blast
qed

end
