(* ===== verification/Spec2Isabelle.thy ===== *)
theory Spec2Isabelle
  imports Concurrent_Requests Remote_Properties Dbus_Types Bus_Endpoints Remote_Posix_Threads Runtime_Pool Daemon_Properties Prompt_Provider Command_Lines Deployments_Live
begin

text \<open>
  \<^bold>\<open>A verification of the trust store.\<close>

  The trust store lets a service (the camera, the location service, the address book) ask whether an
  application may use one of its features. The user is prompted once; the answer is kept in a store and later requests
  are answered from it. This library models the program in HOL and proves what makes it correct, against
  the abstract interfaces the program itself declares.

  \<^bold>\<open>The parts and how they interact.\<close> A service calls \<^verbatim>\<open>process_trust_request\<close>, or sends the request to an agent.
  In the user's session a daemon (\<^verbatim>\<open>daemon.cpp\<close>) owns the store of the service (SQLite), exposes it on the bus, and
  answers requests with a chain of agents: the formatting agent strips the version of the application id, the white
  list grants what never needs a prompt, the caching agent looks into the store, and a local agent prompts the
  user (on the screen through Mir, or in a terminal). Requests reach the daemon through a remote agent: over a unix
  domain socket, over the bus through a registry of agents per user, or directly over the session bus.

  \<^bold>\<open>Theories, in the order of the layers.\<close>

  \<^item> \<open>Prelude\<close>: exceptions (\<open>exn\<close>) and computations that read and change a world and return or throw (\<open>act\<close>), with
    the combinators the C++ control flow translates to (sequencing, \<^verbatim>\<open>try\<close>/\<^verbatim>\<open>catch\<close>, destructors at the end of a scope),
    Hoare triples, frames, words, printing of numbers. \<open>Streams\<close>: \<^verbatim>\<open>operator>>\<close> of the standard library.
  \<^item> \<open>Trust_Types\<close>: \<^verbatim>\<open>request.h\<close>, \<^verbatim>\<open>agent.h\<close>, \<^verbatim>\<open>tagged_integer.h\<close>. Tagged integers are words of their width, an
    answer and a status are 32-bit words, a time is a signed 64-bit word.
  \<^item> \<open>Store_Contract\<close>: the abstract classes \<^verbatim>\<open>Store\<close> and \<^verbatim>\<open>Query\<close> as a table of functions and, as the locale
    \<open>trust_store\<close>, what they promise: a bag of requests, queries that yield the matching ones newest first.
  \<^item> \<open>Sqlite_Statements\<close>, \<open>Sqlite_Engine\<close>, \<open>Sqlite_Reference\<close>, \<open>Sqlite_Store\<close>: the implementation
    (\<^verbatim>\<open>impl/sqlite3/store.cpp\<close>). SQLite is a parameter, a table of its C functions; the locales \<open>sqlite3\<close>
    (an engine that may fail anywhere) and \<open>sqlite3_reliable\<close> state its documented behaviour for the statements the
    program prepares; the reference engine is an executable instance that shows they can hold.
    \<open>Sqlite_Store_Laws\<close>, \<open>Sqlite_Query_Laws\<close>, \<open>Sqlite_Store_Life\<close>: the store satisfies the contract, opening, closing,
    and what is left of each operation on a failing engine.
  \<^item> \<open>Cached_Agent\<close>: \<^verbatim>\<open>request.cpp\<close> and \<^verbatim>\<open>cached_agent.cpp\<close>, verified against the contract only.
    \<open>Store_Properties\<close>: the theorems about the store and the caching agent over it. \<open>Request_Sequences\<close>: any number of requests one
    after another, against a table that remembers first answers. \<open>Concurrent_Requests\<close>: requests at once, as a step relation.
  \<^item> \<open>Agent_Filters\<close>: the white-listing, privilege-checking and formatting agents, with the regular expression matched as
    the standard prescribes, and the terminal agent.
  \<^item> \<open>Dbus_Codec\<close>, \<open>Dbus_Interface\<close>, \<open>Remote_Store\<close>, \<open>Remote_Store_Laws\<close>, \<open>Remote_Properties\<close>: the store on the bus
    (\<^verbatim>\<open>codec.h\<close>, \<^verbatim>\<open>interface.h\<close>, \<^verbatim>\<open>expose.cpp\<close>, \<^verbatim>\<open>resolve.cpp\<close>). The stub over the adaptor over a store satisfies the same
    contract as the store, so everything proved of clients holds over the bus as well. \<open>Dbus_Types\<close>: the types of the messages.
    \<open>Bus_Endpoints\<close>: which handlers are installed when (token, resolved store, skeletons).
  \<^item> \<open>Agent_Registry\<close>: agents on the bus and their registry (\<^verbatim>\<open>dbus/agent.cpp\<close>, \<^verbatim>\<open>agent_registry.h\<close>, \<^verbatim>\<open>remote/dbus.cpp\<close>).
  \<^item> \<open>Remote_Posix\<close>: the remote agent over a socket (\<^verbatim>\<open>remote/posix.cpp\<close>); \<open>Remote_Posix_Threads\<close>: several threads in its
    \<^verbatim>\<open>send\<close> at once, as a step relation. \<open>Async_Loop\<close>, \<open>Remote_Posix_Life\<close>: objects that keep one asynchronous operation going, and how
    the stub accepts, the skeleton reads, and what ends them (the shell of the stub daemon, in \<open>Daemon_Mains\<close>, is the third).
  \<^item> \<open>Mir_Agent\<close>: the agent that prompts through Mir (\<^verbatim>\<open>mir/agent.cpp\<close>). \<open>Xdg\<close>, \<open>Desktop_Entries\<close>: where it finds what to
    show about an application (\<^verbatim>\<open>3rd_party/xdg/xdg.cpp\<close>, \<^verbatim>\<open>mir/click_desktop_entry_app_info_resolver.cpp\<close>).
    \<open>Prompt_Provider\<close>: the program that shows the prompt (\<^verbatim>\<open>mir/prompt_main.cpp\<close>), and the way from a request to the button.
  \<^item> \<open>Runtime_Services\<close>: questions about other processes (\<^verbatim>\<open>remote/helpers.cpp\<close>), text domains (\<^verbatim>\<open>i18n.cpp\<close>), the loop of a worker of the
    event loop. \<open>Runtime_Pool\<close>: the life of the runtime and its workers (\<^verbatim>\<open>runtime.cpp\<close>), as a step relation.
  \<^item> \<open>Preseed\<close>: the preseeding helper (\<^verbatim>\<open>preseed.cpp\<close>). \<open>Bus_Factory\<close>: \<^verbatim>\<open>dbus/bus_factory.cpp\<close>.
  \<^item> \<open>Daemon\<close>, \<open>Daemon_Properties\<close>: options, factories and wiring of the two daemons, and what a request goes through.
    \<open>Daemon_Mains\<close>: the \<^verbatim>\<open>main\<close> functions, the default store, and the build without Mir.
    \<open>Command_Lines\<close>: the options the programs declare, and how the values Boost finds become what the models start from.
  \<^item> \<open>Deployments\<close>, \<open>Deployments_Live\<close>: the programs composed. Seeding and then starting a daemon, stopping or killing a daemon and
    starting the next, a helper that asks over a socket, the store on the bus while the daemon runs; each theorem runs the
    models of all the programs involved on one database.

  \<^bold>\<open>What is shown.\<close> Refinement: the SQLite store, and the store over the bus, implement the contract; over any sequence of
  requests the caching agent is a table that remembers first answers, and what the daemon has answered is what every client of
  its store on the bus gets. Functional behaviour: a decision is returned without prompting, an undecided request is prompted
  and recorded. From one end to the other: what the user has answered to one daemon is what the next one answers, for every version of
  the application; seeded answers are given by the daemon; the requests of a helper on a socket are decided under the id that the
  daemon finds, once for all processes of the application; a registry of agents that comes back is told of the agent each time. Types: stub and adaptor
  agree on the types of every message, and an ill-typed call changes nothing. Errors: adding and removing are all or nothing on a
  failing engine; start-up errors; failed sends and registrations; desktop entries that are not found; connections that
  are gone (a session is dropped exactly then). Safety: an answer of a remote or screen agent comes from a prompt that was really shown, in a session of the process, with the texts it showed; a
  request is answered by a process of its own user. Termination and resources: the search for a Mir session ends and
  releases all sessions; the pool of workers outlives the exceptions of its handlers, and its destructor ends and joins it.
  Concurrency: every answer handed out is recorded, whatever the interleaving, but two requests at once can be prompted both and
  answered differently; answers over a socket come back in the order of the requests, whatever fails, and without the session's lock can be swapped. Where the
  code does not do what it means to, the theorem states what it does (features beyond 31 bits, empty application ids, a
  failed statement, seeds for a version, resets over the bus, the privilege check, the desktop entry of another application, concurrent
  prompts, loops that retry a failure forever).

  \<^bold>\<open>Bounds.\<close> Words have the width of the C++ types. The store's guarantees assume row ids below \<open>2 ^ 31\<close>, which is the
  range the program reads them back in. The search for a Mir session and the loop of a worker are partial functions, no fuel is used; the theorem
  of termination of the search asks only for a rank of processes that goes down from each to the parent found for it, and lets the look-up of a parent fail. The attempts to connect to Mir are the five of the
  source.

  The step relations (\<open>ask_step\<close>, \<open>link_step\<close>, \<open>rt_step\<close>) bound neither the number of requests, threads and handlers nor the length of
  an execution; the end of the runtime's destructor is proved by a measure.

  \<^bold>\<open>Not modelled.\<close> The view of the prompt (Qt and QML), and the libraries: SQLite, Boost, GLib, gettext, AppArmor, the
  process, bus and Mir client libraries. Libraries appear as parameters, with what the program relies on as hypotheses of the
  theorems that need it; of the event loop and the signal trap \<open>Runtime_Pool\<close> and \<open>Async_Loop\<close> say which documented behaviour
  they use. Memory (which object a captured pointer refers to after its end) is not modelled beyond the shared pointers of \<open>Async_Loop\<close>.
  Neither are the failure to create a worker's thread in the runtime's constructor, and messages on a socket that arrive in parts: the 24 bytes
  of a request and the 4 of an answer are written and read as a whole or not at all. Concurrent requests are modelled for application
  ids that the store binds as they are (not empty, no zero byte).
\<close>

end
